(* ===== verification/Go_Prelude.thy ===== *)
theory Go_Prelude
  imports Main "HOL-Library.Sublist"
begin

text \<open>
  Shared vocabulary of the development: the fact collections the component proofs draw on, the
  list transformers that Go code writes as loops (stripping affixes, splitting at a separator,
  removing repeated keys with a \<^verbatim>\<open>seen\<close> map) and their laws. Nothing here is specific to the
  provider.
\<close>

named_theorems go_defs \<open>definitions of the Go library model, for unfolding\<close>
named_theorems const_defs \<open>constants of the source\<close>
named_theorems bound_simps \<open>size bounds\<close>

lemma sum_bind_Inr:
  "(case x of Inl e \<Rightarrow> Inl e | Inr a \<Rightarrow> f a) = Inr b \<longleftrightarrow> (\<exists>a. x = Inr a \<and> f a = Inr b)"
  by (auto split: sum.splits)

lemma sum_bind_Inl:
  "(case x of Inl e \<Rightarrow> Inl e | Inr a \<Rightarrow> f a) = Inl e' \<longleftrightarrow>
     x = Inl e' \<or> (\<exists>a. x = Inr a \<and> f a = Inl e')"
  by (auto split: sum.splits)

lemma if_Inl_eq_Inr [simp]:
  "((if b then Inl e else x) = Inr a) \<longleftrightarrow> \<not> b \<and> x = Inr a"
  "((if b then x else Inl e) = Inr a) \<longleftrightarrow> b \<and> x = Inr a"
  by auto

subsection \<open>Stripping affixes\<close>

text \<open>
  \<open>strip_any ps s\<close> removes from the front of \<open>s\<close>, as often as possible, whichever non-empty
  string of \<open>ps\<close> stands there.
\<close>

function strip_any :: "'a list list \<Rightarrow> 'a list \<Rightarrow> 'a list" where
  "strip_any ps s =
     (case find (\<lambda>p. p \<noteq> [] \<and> prefix p s) ps of
        None \<Rightarrow> s
      | Some p \<Rightarrow> strip_any ps (drop (length p) s))"
  by pat_completeness auto
termination
proof (relation "measure (\<lambda>(ps, s). length s)")
  show "wf (measure (\<lambda>(ps :: 'a list list, s). length s))" by simp
next
  fix ps :: "'a list list" and s p
  assume "find (\<lambda>p. p \<noteq> [] \<and> prefix p s) ps = Some p"
  then have "p \<noteq> []" "prefix p s" by (auto simp: find_Some_iff)
  then have "0 < length p" "length p \<le> length s"
    by (auto simp: prefix_length_le)
  then have "length (drop (length p) s) < length s" by (simp only: length_drop diff_less)
  then show "((ps, drop (length p) s), ps, s) \<in> measure (\<lambda>(ps, s). length s)" by simp
qed

declare strip_any.simps [simp del]

lemma strip_any_unfold_None:
  "find (\<lambda>p. p \<noteq> [] \<and> prefix p s) ps = None \<Longrightarrow> strip_any ps s = s"
  by (simp add: strip_any.simps [of ps s])

lemma strip_any_Nil [simp]: "strip_any ps [] = []"
  by (rule strip_any_unfold_None) (auto simp: find_None_iff)

lemma strip_any_suffix: "suffix (strip_any ps s) s"
proof (induction ps s rule: strip_any.induct)
  case (1 ps s)
  show ?case
  proof (cases "find (\<lambda>p. p \<noteq> [] \<and> prefix p s) ps")
    case None
    then show ?thesis by (simp add: strip_any_unfold_None)
  next
    case (Some p)
    with 1 have "suffix (strip_any ps (drop (length p) s)) (drop (length p) s)" by simp
    then have "suffix (strip_any ps (drop (length p) s)) s"
      using suffix_drop suffix_order.trans by blast
    with Some show ?thesis by (simp add: strip_any.simps [of ps s])
  qed
qed

lemma strip_any_no_prefix:
  assumes "p \<in> set ps" "p \<noteq> []"
  shows "\<not> prefix p (strip_any ps s)"
  using assms
proof (induction ps s rule: strip_any.induct)
  case (1 ps s)
  show ?case
  proof (cases "find (\<lambda>p. p \<noteq> [] \<and> prefix p s) ps")
    case None
    with "1.prems" show ?thesis by (auto simp: strip_any_unfold_None find_None_iff)
  next
    case (Some q)
    with "1" show ?thesis by (simp add: strip_any.simps [of ps s])
  qed
qed

lemma strip_any_id:
  "(\<And>p. p \<in> set ps \<Longrightarrow> p \<noteq> [] \<Longrightarrow> \<not> prefix p s) \<Longrightarrow> strip_any ps s = s"
  by (rule strip_any_unfold_None) (auto simp: find_None_iff)

lemma strip_any_idem [simp]: "strip_any ps (strip_any ps s) = strip_any ps s"
  by (rule strip_any_id) (auto dest: strip_any_no_prefix)

lemma set_strip_any: "set (strip_any ps s) \<subseteq> set s"
  using strip_any_suffix [of ps s] by (rule set_mono_suffix)

lemma length_strip_any: "length (strip_any ps s) \<le> length s"
  using strip_any_suffix [of ps s] by (rule suffix_length_le)

subsection \<open>Substrings and splitting\<close>

fun contains :: "'a list \<Rightarrow> 'a list \<Rightarrow> bool" where
  "contains p [] = (p = [])"
| "contains p (x # xs) = (prefix p (x # xs) \<or> contains p xs)"

lemma contains_iff: "contains p s \<longleftrightarrow> (\<exists>u v. s = u @ p @ v)"
proof (induction s)
  case (Cons x xs)
  have "(\<exists>u v. x # xs = u @ p @ v) \<longleftrightarrow> prefix p (x # xs) \<or> (\<exists>u v. xs = u @ p @ v)"
    by (metis (no_types, lifting) append_Cons append_Nil list.exhaust list.inject prefix_def)
  with Cons.IH show ?case by simp
qed auto

lemma contains_append: "contains p s \<Longrightarrow> contains p (u @ s @ v)"
  unfolding contains_iff by (metis append.assoc)

fun split_on :: "'a \<Rightarrow> 'a list \<Rightarrow> 'a list list" where
  "split_on sep [] = [[]]"
| "split_on sep (c # cs) =
     (if c = sep then [] # split_on sep cs
      else (case split_on sep cs of [] \<Rightarrow> [[c]] | w # ws \<Rightarrow> (c # w) # ws))"

fun join :: "'a list \<Rightarrow> 'a list list \<Rightarrow> 'a list" where
  "join sep [] = []"
| "join sep [w] = w"
| "join sep (w # ws) = w @ sep @ join sep ws"

lemma split_on_nonempty [simp]: "split_on sep s \<noteq> []"
  by (cases s) (auto split: list.splits)

lemma split_on_no_sep: "w \<in> set (split_on sep s) \<Longrightarrow> sep \<notin> set w"
  by (induction s arbitrary: w) (auto split: if_splits list.splits)

lemma split_on_id: "sep \<notin> set s \<Longrightarrow> split_on sep s = [s]"
  by (induction s) auto

lemma split_on_append_sep:
  "sep \<notin> set w \<Longrightarrow> split_on sep (w @ sep # s) = w # split_on sep s"
  by (induction w) auto

lemma split_on_join:
  "ws \<noteq> [] \<Longrightarrow> (\<And>w. w \<in> set ws \<Longrightarrow> sep \<notin> set w) \<Longrightarrow> split_on sep (join [sep] ws) = ws"
proof (induction "[sep]" ws rule: join.induct)
  case (3 w v vs)
  then show ?case by (simp add: split_on_append_sep)
qed (auto simp: split_on_id)

lemma join_split_on: "join [sep] (split_on sep s) = s"
proof (induction s)
  case (Cons c cs)
  obtain w ws where "split_on sep cs = w # ws"
    by (cases "split_on sep cs") auto
  with Cons show ?case by (cases ws) auto
qed simp

lemma join_Cons: "ws \<noteq> [] \<Longrightarrow> join sep (w # ws) = w @ sep @ join sep ws"
  by (cases ws) auto

lemma split_on_append: "split_on sep (u @ sep # s) = split_on sep u @ split_on sep s"
  by (induction u) (auto split: list.splits)

lemma join_append:
  "us \<noteq> [] \<Longrightarrow> ws \<noteq> [] \<Longrightarrow> join sep (us @ ws) = join sep us @ sep @ join sep ws"
  by (induction us rule: induct_list012) (auto simp: join_Cons)

text \<open>A separator-aligned ending is an ending of the list of parts.\<close>

lemma suffix_split_on_iff:
  "suffix (split_on sep s) (split_on sep h) \<longleftrightarrow> h = s \<or> suffix (sep # s) h"
proof
  assume "suffix (split_on sep s) (split_on sep h)"
  then obtain us where us: "split_on sep h = us @ split_on sep s" by (auto simp: suffix_def)
  have "h = join [sep] (us @ split_on sep s)" by (metis us join_split_on)
  then show "h = s \<or> suffix (sep # s) h"
    by (cases "us = []") (auto simp: join_append join_split_on suffix_def)
qed (auto simp: suffix_def split_on_append)

lemma join_starts: "\<exists>t. join sep (w # ws) = w @ t"
  by (cases ws) auto

subsection \<open>Removing repeated keys\<close>

text \<open>
  The \<^verbatim>\<open>seen\<close>-map idiom: keep the elements whose key has not occurred before.
\<close>

fun dedup_on :: "('a \<Rightarrow> 'k) \<Rightarrow> 'k list \<Rightarrow> 'a list \<Rightarrow> 'a list" where
  "dedup_on f seen [] = []"
| "dedup_on f seen (x # xs) =
     (if f x \<in> set seen then dedup_on f seen xs
      else x # dedup_on f (f x # seen) xs)"

lemma dedup_on_keys: "f ` set (dedup_on f seen xs) = f ` set xs - set seen"
  by (induction xs arbitrary: seen) auto

lemma dedup_on_distinct: "distinct (map f (dedup_on f seen xs))"
  by (induction xs arbitrary: seen) (auto simp: dedup_on_keys)

lemma set_dedup_on: "set (dedup_on f seen xs) \<subseteq> set xs"
  by (induction xs arbitrary: seen) auto

lemma length_dedup_on: "length (dedup_on f seen xs) \<le> length xs"
  by (induction xs arbitrary: seen) (auto simp: le_SucI)

lemma dedup_on_id_iff:
  "dedup_on f seen xs = xs \<longleftrightarrow> distinct (map f xs) \<and> f ` set xs \<inter> set seen = {}"
proof (induction xs arbitrary: seen)
  case (Cons x xs)
  have "dedup_on f seen xs \<noteq> x # xs"
    using length_dedup_on [of f seen xs] by (metis Suc_n_not_le_n length_Cons)
  with Cons show ?case by auto
qed simp

lemma dedup_on_distinct_id: "distinct (map f xs) \<Longrightarrow> dedup_on f [] xs = xs"
  by (simp add: dedup_on_id_iff)

lemma take_dedup_distinct: "distinct (map f xs) \<Longrightarrow> distinct (map f (take n xs))"
  by (simp flip: take_map)

subsection \<open>Dropping the last element\<close>

lemma butlast_measure: "xs \<noteq> [] \<Longrightarrow> length (butlast xs) < length xs"
  by (cases xs) auto

lemma butlast_take_Suc: "butlast (take (Suc n) xs) = (if n < length xs then take n xs else butlast xs)"
  by (auto simp: butlast_take min_def)

lemma distinct_map_butlast: "distinct (map f xs) \<Longrightarrow> distinct (map f (butlast xs))"
  by (metis distinct_butlast map_butlast)

end
