(* ===== verification/Go_Strings.thy ===== *)
theory Go_Strings
  imports Go_Prelude Unicode_Tables "HOL-Library.Char_ord" "HOL-Library.List_Lexorder"
begin

text \<open>
  Go strings are byte sequences, so they are modelled by \<^typ>\<open>string\<close>, whose characters are the
  256 bytes; \<^const>\<open>length\<close> is Go's \<^verbatim>\<open>len\<close> and the lexicographic order is Go's \<^verbatim>\<open><\<close>. This theory
  models the parts of \<^verbatim>\<open>unicode/utf8\<close>, \<^verbatim>\<open>unicode\<close>, \<^verbatim>\<open>strings\<close>, \<^verbatim>\<open>strconv\<close> and \<^verbatim>\<open>fmt\<close> the provider
  uses: decoding and encoding runes, trimming, case mapping, splitting, replacing, and the
  verbs \<^verbatim>\<open>%d\<close> and \<^verbatim>\<open>%q\<close>.
\<close>

subsection \<open>Bytes and runes\<close>

definition byte :: "char \<Rightarrow> nat" where
  [simp]: "byte c = of_char c"

definition bytes :: "nat list \<Rightarrow> string" where
  [simp]: "bytes = map char_of"

lemma byte_less [simp]: "(of_char c :: nat) < 256"
  by (metis nat_of_char_less_256)

lemma char_of_eval:
  "char_of (n :: nat) =
     Char (odd n) (odd (n div 2)) (odd (n div 4)) (odd (n div 8)) (odd (n div 16))
       (odd (n div 32)) (odd (n div 64)) (odd (n div 128))"
  by (simp add: char_of_def bit_iff_odd)

definition is_ascii :: "string \<Rightarrow> bool" where
  "is_ascii s = list_all (\<lambda>c. byte c < 128) s"

lemma is_ascii_simps [simp]:
  "is_ascii []"
  "is_ascii (c # cs) \<longleftrightarrow> byte c < 128 \<and> is_ascii cs"
  "is_ascii (s @ t) \<longleftrightarrow> is_ascii s \<and> is_ascii t"
  by (auto simp: is_ascii_def)

lemma is_ascii_iff: "is_ascii s \<longleftrightarrow> (\<forall>c \<in> set s. byte c < 128)"
  by (auto simp: is_ascii_def list_all_iff)

definition rune_error :: nat where
  "rune_error = 65533"

definition cont_byte :: "char \<Rightarrow> bool" where
  [simp]: "cont_byte c = (128 \<le> byte c \<and> byte c \<le> 191)"

text \<open>
  \<open>next_rune c cs\<close> decodes the rune that starts at byte \<open>c\<close> of \<open>c # cs\<close>: its code point and
  how many further bytes it takes, or \<open>(None, 0)\<close> where the bytes are not valid UTF-8
  (\<^verbatim>\<open>utf8.DecodeRuneInString\<close> then answers \<^verbatim>\<open>RuneError\<close> with width 1).
\<close>

definition next_rune :: "char \<Rightarrow> string \<Rightarrow> nat option \<times> nat" where
  "next_rune c cs =
     (let b = byte c in
      if b < 128 then (Some b, 0)
      else if 194 \<le> b \<and> b \<le> 223 then
        (case cs of
           c1 # _ \<Rightarrow>
             if cont_byte c1 then (Some ((b - 192) * 64 + (byte c1 - 128)), 1) else (None, 0)
         | _ \<Rightarrow> (None, 0))
      else if 224 \<le> b \<and> b \<le> 239 then
        (case cs of
           c1 # c2 # _ \<Rightarrow>
             if (if b = 224 then 160 else 128) \<le> byte c1 \<and>
                byte c1 \<le> (if b = 237 then 159 else 191) \<and> cont_byte c2
             then (Some ((b - 224) * 4096 + (byte c1 - 128) * 64 + (byte c2 - 128)), 2)
             else (None, 0)
         | _ \<Rightarrow> (None, 0))
      else if 240 \<le> b \<and> b \<le> 244 then
        (case cs of
           c1 # c2 # c3 # _ \<Rightarrow>
             if (if b = 240 then 144 else 128) \<le> byte c1 \<and>
                byte c1 \<le> (if b = 244 then 143 else 191) \<and> cont_byte c2 \<and> cont_byte c3
             then (Some ((b - 240) * 262144 + (byte c1 - 128) * 4096 +
                         (byte c2 - 128) * 64 + (byte c3 - 128)), 3)
             else (None, 0)
         | _ \<Rightarrow> (None, 0))
      else (None, 0))"

text \<open>The runes of a string with the bytes each was read from.\<close>

function decode :: "string \<Rightarrow> (nat option \<times> string) list" where
  "decode [] = []"
| "decode (c # cs) =
     (fst (next_rune c cs), c # take (snd (next_rune c cs)) cs) #
       decode (drop (snd (next_rune c cs)) cs)"
  by pat_completeness auto
termination
  by (relation "measure length") auto

definition runes :: "string \<Rightarrow> nat list" where
  "runes s = map (\<lambda>(r, _). case r of None \<Rightarrow> rune_error | Some n \<Rightarrow> n) (decode s)"

definition rune_count :: "string \<Rightarrow> nat" where
  "rune_count s = length (decode s)"

definition valid_utf8 :: "string \<Rightarrow> bool" where
  "valid_utf8 s = list_all (\<lambda>(r, _). r \<noteq> None) (decode s)"

definition encode_rune :: "nat \<Rightarrow> string" where
  "encode_rune r =
     (if r < 128 then bytes [r]
      else if r < 2048 then bytes [192 + r div 64, 128 + r mod 64]
      else if (55296 \<le> r \<and> r \<le> 57343) \<or> 1114111 < r then bytes [239, 191, 189]
      else if r < 65536 then bytes [224 + r div 4096, 128 + r div 64 mod 64, 128 + r mod 64]
      else bytes [240 + r div 262144, 128 + r div 4096 mod 64, 128 + r div 64 mod 64,
                  128 + r mod 64])"

definition runes_to_string :: "nat list \<Rightarrow> string" where
  "runes_to_string rs = concat (map encode_rune rs)"

lemma next_rune_ascii [simp]: "byte c < 128 \<Longrightarrow> next_rune c cs = (Some (byte c), 0)"
  by (simp add: next_rune_def)

lemma next_rune_width: "snd (next_rune c cs) \<le> 3"
  by (auto simp: next_rune_def Let_def split: list.splits)

lemma next_rune_fits: "snd (next_rune c cs) \<le> length cs"
  by (auto simp: next_rune_def Let_def split: list.splits)

lemma next_rune_ascii_iff: "fst (next_rune c cs) = Some r \<Longrightarrow> r < 128 \<Longrightarrow> byte c = r"
  by (auto simp: next_rune_def Let_def split: list.splits if_splits)

lemma decode_bytes: "concat (map snd (decode s)) = s"
  by (induction s rule: decode.induct) auto

lemma decode_nonempty: "x \<in> set (decode s) \<Longrightarrow> snd x \<noteq> []"
  by (induction s rule: decode.induct) auto

lemma decode_chunk_le: "x \<in> set (decode s) \<Longrightarrow> length (snd x) \<le> 4"
proof (induction s rule: decode.induct)
  case (2 c cs)
  then show ?case using next_rune_width [of c cs] by (auto simp: min_def)
qed simp

lemma decode_Nil_iff [simp]: "decode s = [] \<longleftrightarrow> s = []"
  by (cases s) auto

lemma decode_ascii: "is_ascii s \<Longrightarrow> decode s = map (\<lambda>c. (Some (byte c), [c])) s"
  by (induction s) auto

lemma valid_utf8_ascii: "is_ascii s \<Longrightarrow> valid_utf8 s"
  by (simp add: valid_utf8_def decode_ascii list_all_iff)

lemma rune_count_ascii: "is_ascii s \<Longrightarrow> rune_count s = length s"
  by (simp add: rune_count_def decode_ascii)

lemma rune_count_le: "rune_count s \<le> length s"
proof (induction s rule: decode.induct)
  case (2 c cs)
  then show ?case by (simp add: rune_count_def)
qed (simp add: rune_count_def)

lemma length_le_rune_count: "length s \<le> 4 * rune_count s"
proof (induction s rule: decode.induct)
  case (2 c cs)
  have "length cs \<le> snd (next_rune c cs) + length (drop (snd (next_rune c cs)) cs)" by simp
  with 2 next_rune_width [of c cs] show ?case by (simp add: rune_count_def)
qed (simp add: rune_count_def)

lemma length_encode_rune: "length (encode_rune r) \<le> 4"
  by (simp add: encode_rune_def)

lemma length_runes_to_string: "length (runes_to_string rs) \<le> 4 * length rs"
proof (induction rs)
  case (Cons r rs)
  then show ?case using length_encode_rune [of r] by (simp add: runes_to_string_def)
qed (simp add: runes_to_string_def)

lemma length_runes [simp]: "length (runes s) = rune_count s"
  by (simp add: runes_def rune_count_def)

subsection \<open>Trimming\<close>

text \<open>
  The UTF-8 encodings of the runes \<^verbatim>\<open>unicode.IsSpace\<close> accepts. A string starts (ends) with such a
  rune exactly when it starts (ends) with one of these byte sequences, so \<^verbatim>\<open>strings.TrimSpace\<close>
  strips them as affixes.
\<close>

definition space_encodings :: "string list" where
  "space_encodings =
     map (\<lambda>b. bytes [b]) [9, 10, 11, 12, 13, 32] @
     [bytes [194, 133], bytes [194, 160], bytes [225, 154, 128]] @
     map (\<lambda>b. bytes [226, 128, b]) [128, 129, 130, 131, 132, 133, 134, 135, 136, 137, 138,
       168, 169, 175] @
     [bytes [226, 129, 159], bytes [227, 128, 128]]"

definition TrimSpace :: "string \<Rightarrow> string" where
  "TrimSpace s = rev (strip_any (map rev space_encodings) (rev (strip_any space_encodings s)))"

text \<open>\<^verbatim>\<open>strings.Trim\<close>, \<^verbatim>\<open>strings.TrimRight\<close> with an ASCII cutset, \<^verbatim>\<open>TrimPrefix\<close>, \<^verbatim>\<open>TrimSuffix\<close>.\<close>

definition TrimRight :: "string \<Rightarrow> string \<Rightarrow> string" where
  "TrimRight s cutset = rev (dropWhile (\<lambda>c. c \<in> set cutset) (rev s))"

definition Trim :: "string \<Rightarrow> string \<Rightarrow> string" where
  "Trim s cutset = TrimRight (dropWhile (\<lambda>c. c \<in> set cutset) s) cutset"

definition HasPrefix :: "string \<Rightarrow> string \<Rightarrow> bool" where
  [simp]: "HasPrefix s p = prefix p s"

definition HasSuffix :: "string \<Rightarrow> string \<Rightarrow> bool" where
  [simp]: "HasSuffix s p = prefix (rev p) (rev s)"

definition TrimPrefix :: "string \<Rightarrow> string \<Rightarrow> string" where
  "TrimPrefix s p = (if HasPrefix s p then drop (length p) s else s)"

definition TrimSuffix :: "string \<Rightarrow> string \<Rightarrow> string" where
  "TrimSuffix s p = (if HasSuffix s p then take (length s - length p) s else s)"

lemma HasSuffix_suffix: "HasSuffix s p \<longleftrightarrow> suffix p s"
  by (simp add: suffix_to_prefix)

definition blank :: "string \<Rightarrow> bool" where
  "blank s \<longleftrightarrow> TrimSpace s = []"

lemma TrimSpace_Nil [simp]: "TrimSpace [] = []"
  by (simp add: TrimSpace_def)

lemma TrimSpace_factor: "\<exists>u v. s = u @ TrimSpace s @ v"
proof -
  let ?l = "strip_any space_encodings s"
  obtain u where u: "s = u @ ?l" using strip_any_suffix [of space_encodings s] by (auto simp: suffix_def)
  obtain w where "rev ?l = w @ strip_any (map rev space_encodings) (rev ?l)"
    using strip_any_suffix [of "map rev space_encodings" "rev ?l"] unfolding suffix_def by blast
  then have "?l = TrimSpace s @ rev w"
    unfolding TrimSpace_def by (metis rev_append rev_rev_ident)
  with u show ?thesis by metis
qed

lemma TrimSpace_length: "length (TrimSpace s) \<le> length s"
  using TrimSpace_factor [of s] by (metis length_append le_add1 le_add2 le_trans)

lemma set_TrimSpace: "set (TrimSpace s) \<subseteq> set s"
  using TrimSpace_factor [of s] by (metis (no_types, lifting) Un_iff set_append subsetI)

lemma prefix_strip_right:
  "prefix (rev (strip_any ps (rev s))) s"
  using strip_any_suffix [of ps "rev s"] by (metis rev_rev_ident suffix_to_prefix)

lemma TrimSpace_no_space_prefix:
  assumes "p \<in> set space_encodings" "p \<noteq> []"
  shows "\<not> prefix p (TrimSpace s)"
  using strip_any_no_prefix [OF assms] prefix_strip_right prefix_order.trans
  unfolding TrimSpace_def by metis

lemma TrimSpace_idem [simp]: "TrimSpace (TrimSpace s) = TrimSpace s"
proof -
  have "strip_any space_encodings (TrimSpace s) = TrimSpace s"
    by (rule strip_any_id) (rule TrimSpace_no_space_prefix)
  then show ?thesis by (simp add: TrimSpace_def [of "TrimSpace s"]) (simp add: TrimSpace_def)
qed

text \<open>Strings that start and end with a graphic ASCII character are left alone.\<close>

definition graphic :: "char \<Rightarrow> bool" where
  "graphic c \<longleftrightarrow> 32 < byte c \<and> byte c < 127"

lemma space_encodings_first:
  "p \<in> set space_encodings \<Longrightarrow> p \<noteq> [] \<and> \<not> graphic (hd p) \<and> \<not> graphic (last p)"
  by (auto simp: space_encodings_def graphic_def)

lemma prefix_hd: "prefix p (c # cs) \<Longrightarrow> p \<noteq> [] \<Longrightarrow> hd p = c"
  by (cases p) auto

lemma strip_space_graphic: "graphic c \<Longrightarrow> strip_any space_encodings (c # cs) = c # cs"
  by (rule strip_any_id) (metis prefix_hd space_encodings_first)

lemma strip_rev_space_graphic:
  "graphic c \<Longrightarrow> strip_any (map rev space_encodings) (c # cs) = c # cs"
  by (rule strip_any_id) (metis (no_types, lifting) hd_rev image_iff list.set_map prefix_hd
      rev_is_Nil_conv space_encodings_first)

lemma TrimSpace_graphic:
  assumes "s \<noteq> []" "graphic (hd s)" "graphic (last s)"
  shows "TrimSpace s = s"
proof -
  have "strip_any space_encodings s = s"
    using assms by (cases s) (auto simp: strip_space_graphic)
  moreover have "strip_any (map rev space_encodings) (rev s) = rev s"
    using assms by (cases s rule: rev_cases) (auto simp: strip_rev_space_graphic)
  ultimately show ?thesis by (simp add: TrimSpace_def)
qed

lemma TrimSpace_graphic_literal:
  "graphic c \<Longrightarrow> graphic (last (c # cs)) \<Longrightarrow> TrimSpace (c # cs) = c # cs"
  by (rule TrimSpace_graphic) auto

lemma TrimSpace_all_graphic: "list_all graphic s \<Longrightarrow> TrimSpace s = s"
  by (cases "s = []") (auto simp: list_all_iff intro!: TrimSpace_graphic)

lemma set_TrimRight: "set (TrimRight s cs) \<subseteq> set s"
  by (auto simp: TrimRight_def dest: set_dropWhileD)

lemma set_Trim: "set (Trim s cs) \<subseteq> set s"
  using set_TrimRight [of "dropWhile (\<lambda>c. c \<in> set cs) s" cs]
  by (auto simp: Trim_def dest: set_dropWhileD)

subsection \<open>Case mapping\<close>

definition ascii_lower :: "char \<Rightarrow> char" where
  "ascii_lower c = (if 65 \<le> byte c \<and> byte c \<le> 90 then char_of (byte c + 32) else c)"

definition ascii_upper :: "char \<Rightarrow> char" where
  "ascii_upper c = (if 97 \<le> byte c \<and> byte c \<le> 122 then char_of (byte c - 32) else c)"

fun case_lookup :: "(nat \<times> nat \<times> nat \<times> int) list \<Rightarrow> nat \<Rightarrow> nat" where
  "case_lookup [] r = r"
| "case_lookup ((lo, hi, stride, delta) # ts) r =
     (if lo \<le> r \<and> r \<le> hi \<and> (r - lo) mod stride = 0 then nat (int r + delta)
      else case_lookup ts r)"

definition rune_lower :: "nat \<Rightarrow> nat" where
  "rune_lower r =
     (if r < 128 then (if 65 \<le> r \<and> r \<le> 90 then r + 32 else r) else case_lookup lower_table r)"

definition rune_upper :: "nat \<Rightarrow> nat" where
  "rune_upper r =
     (if r < 128 then (if 97 \<le> r \<and> r \<le> 122 then r - 32 else r) else case_lookup upper_table r)"

text \<open>
  \<^verbatim>\<open>strings.ToLower\<close> and \<^verbatim>\<open>strings.ToUpper\<close>: byte by byte on ASCII strings, rune by rune (with
  invalid bytes replaced by U+FFFD) on the others.
\<close>

definition ToLower :: "string \<Rightarrow> string" where
  "ToLower s =
     (if is_ascii s then map ascii_lower s else runes_to_string (map rune_lower (runes s)))"

definition ToUpper :: "string \<Rightarrow> string" where
  "ToUpper s =
     (if is_ascii s then map ascii_upper s else runes_to_string (map rune_upper (runes s)))"

text \<open>
  \<^verbatim>\<open>strings.EqualFold\<close> against a constant of ASCII letters other than k and s: outside ASCII only
  the Kelvin sign and the long s fold to ASCII, so the comparison is the ASCII one.
\<close>

definition EqualFold :: "string \<Rightarrow> string \<Rightarrow> bool" where
  "EqualFold s t \<longleftrightarrow> map ascii_lower s = map ascii_lower t"

lemma ToLower_Nil [simp]: "ToLower [] = []"
  by (simp add: ToLower_def)

lemma ToLower_ascii: "is_ascii s \<Longrightarrow> ToLower s = map ascii_lower s"
  by (simp add: ToLower_def)

lemma ascii_lower_byte: "byte (ascii_lower c) = (if 65 \<le> byte c \<and> byte c \<le> 90 then byte c + 32 else byte c)"
  by (simp add: ascii_lower_def)

lemma ascii_lower_idem [simp]: "ascii_lower (ascii_lower c) = ascii_lower c"
  using ascii_lower_byte [of c] by (auto simp: ascii_lower_def [of "ascii_lower c"])

lemma is_ascii_lower: "is_ascii s \<Longrightarrow> is_ascii (map ascii_lower s)"
  using ascii_lower_byte by (auto simp: is_ascii_iff split: if_splits)

lemma ToLower_ascii_idem: "is_ascii s \<Longrightarrow> ToLower (ToLower s) = ToLower s"
  by (simp add: ToLower_ascii is_ascii_lower)

subsection \<open>Splitting, replacing and formatting\<close>

text \<open>\<^verbatim>\<open>strings.SplitN(s, sep, 2)\<close> for a one-byte separator.\<close>

definition SplitN2 :: "char \<Rightarrow> string \<Rightarrow> string list" where
  "SplitN2 sep s =
     (if sep \<in> set s
      then [takeWhile (\<lambda>c. c \<noteq> sep) s, drop 1 (dropWhile (\<lambda>c. c \<noteq> sep) s)]
      else [s])"

text \<open>\<^verbatim>\<open>strings.ReplaceAll\<close> for a one-byte pattern.\<close>

definition ReplaceAll :: "string \<Rightarrow> char \<Rightarrow> string \<Rightarrow> string" where
  "ReplaceAll s old new = concat (map (\<lambda>c. if c = old then new else [c]) s)"

definition ContainsAny :: "string \<Rightarrow> string \<Rightarrow> bool" where
  "ContainsAny s chars = list_ex (\<lambda>c. c \<in> set chars) s"

fun show_nat :: "nat \<Rightarrow> string" where
  "show_nat n = (if n < 10 then bytes [48 + n] else show_nat (n div 10) @ bytes [48 + n mod 10])"

declare show_nat.simps [simp del]

definition show_int :: "int \<Rightarrow> string" where
  "show_int i = (if i < 0 then ''-'' @ show_nat (nat (- i)) else show_nat (nat i))"

definition hex_digit :: "nat \<Rightarrow> char" where
  "hex_digit n = (if n < 10 then char_of (48 + n) else char_of (87 + n))"

definition hex :: "nat \<Rightarrow> nat \<Rightarrow> string" where
  "hex width n = map (\<lambda>i. hex_digit (n div 16 ^ i mod 16)) (rev [0..<width])"

lemma length_hex [simp]: "length (hex w n) = w"
  by (simp add: hex_def)

definition is_print :: "nat \<Rightarrow> bool" where
  "is_print r =
     (if r < 128 then 32 \<le> r \<and> r < 127
      else list_ex (\<lambda>(lo, hi). lo \<le> r \<and> r \<le> hi) print_table)"

text \<open>\<^verbatim>\<open>strconv.Quote\<close>, the verb \<^verbatim>\<open>%q\<close>.\<close>

definition quote_rune :: "nat option \<times> string \<Rightarrow> string" where
  "quote_rune x =
     (case fst x of
        None \<Rightarrow> bytes [92, 120] @ hex 2 (byte (hd (snd x)))
      | Some r \<Rightarrow>
          if r = 34 \<or> r = 92 then bytes [92, r]
          else if is_print r then snd x
          else if r = 7 then bytes [92, 97]
          else if r = 8 then bytes [92, 98]
          else if r = 12 then bytes [92, 102]
          else if r = 10 then bytes [92, 110]
          else if r = 13 then bytes [92, 114]
          else if r = 9 then bytes [92, 116]
          else if r = 11 then bytes [92, 118]
          else if r < 32 \<or> r = 127 then bytes [92, 120] @ hex 2 r
          else if r < 65536 then bytes [92, 117] @ hex 4 r
          else bytes [92, 85] @ hex 8 r)"

definition quoted :: "string \<Rightarrow> string" where
  "quoted s = bytes [34] @ concat (map quote_rune (decode s)) @ bytes [34]"

lemma show_nat_digits: "c \<in> set (show_nat n) \<Longrightarrow> 48 \<le> byte c \<and> byte c \<le> 57"
proof (induction n rule: show_nat.induct)
  case (1 n)
  then show ?case by (auto simp: show_nat.simps [of n] split: if_splits)
qed

lemma show_nat_nonempty [simp]: "show_nat n \<noteq> []"
  by (simp add: show_nat.simps [of n])

text \<open>Reading decimal digits back.\<close>

fun read_nat :: "nat \<Rightarrow> string \<Rightarrow> nat option" where
  "read_nat acc [] = Some acc"
| "read_nat acc (c # cs) =
     (if 48 \<le> byte c \<and> byte c \<le> 57 then read_nat (10 * acc + (byte c - 48)) cs else None)"

lemma read_nat_append:
  "read_nat a (s @ t) = (case read_nat a s of None \<Rightarrow> None | Some b \<Rightarrow> read_nat b t)"
  by (induction s arbitrary: a) auto

lemma read_show_nat: "read_nat 0 (show_nat n) = Some n"
proof (induction n rule: show_nat.induct)
  case (1 n)
  show ?case
  proof (cases "n < 10")
    case True
    then show ?thesis by (simp add: show_nat.simps [of n])
  next
    case False
    with 1 show ?thesis by (simp add: show_nat.simps [of n] read_nat_append)
  qed
qed

lemma show_nat_inject: "show_nat m = show_nat n \<Longrightarrow> m = n"
  by (metis option.inject read_show_nat)

lemma length_ReplaceAll_id: "old \<notin> set s \<Longrightarrow> ReplaceAll s old new = s"
  by (induction s) (auto simp: ReplaceAll_def)

lemma ReplaceAll_simps [simp]:
  "ReplaceAll [] old new = []"
  "ReplaceAll (c # cs) old new = (if c = old then new else [c]) @ ReplaceAll cs old new"
  by (simp_all add: ReplaceAll_def)

lemma ReplaceAll_append: "ReplaceAll (s @ t) old new = ReplaceAll s old new @ ReplaceAll t old new"
  by (induction s) auto

end
