(* ===== verification/Errors.thy ===== *)
theory Errors
  imports Go_Strings
begin

text \<open>
  Error values. Every concrete error type that crosses a package boundary of the provider is a
  constructor of \<open>go_error\<close>: the packages' own types (\<^verbatim>\<open>backend/validation.go\<close>,
  \<^verbatim>\<open>backend/backend.go\<close>, \<^verbatim>\<open>queryapi/query.go\<close>, \<^verbatim>\<open>actions/actions.go\<close>, \<^verbatim>\<open>tenant/import.go\<close>), the
  untyped errors of \<^verbatim>\<open>errors.New\<close> and \<^verbatim>\<open>fmt.Errorf\<close>, and the third-party ones the code inspects
  (context errors, the \<^verbatim>\<open>*url.Error\<close> of \<^verbatim>\<open>http.Client.Do\<close>, any other \<^verbatim>\<open>net.Error\<close> of the library such
  as the timeout while a response body is read, Kubernetes status errors with their reason). \<open>err_chain\<close> is the \<^verbatim>\<open>Unwrap\<close> chain \<^verbatim>\<open>errors.Is\<close> and \<^verbatim>\<open>errors.As\<close> search, \<open>Error\<close> the
  text.
\<close>

datatype api_reason =
    ReasonNotFound
  | ReasonForbidden
  | ReasonUnauthorized
  | ReasonAlreadyExists
  | ReasonOther

datatype go_error =
    ErrorString string
  | WrapError string go_error
  | ContextCanceled
  | ContextDeadlineExceeded
  | UrlError string go_error
  | NetError string
  | StatusError api_reason string
  | UnsupportedTableTypeError (tableType: string)
  | CurrentUserHTTPError (cu_statusCode: int) (cu_status: string) (cu_body: string)
  | WarehouseHTTPError (wh_statusCode: int) (wh_status: string) (wh_body: string)
      (wh_warehouseID: string)
  | TableSummaryHTTPError (ts_statusCode: int) (ts_status: string)
  | StatementHTTPError (st_statusCode: int) (st_status: string) (st_body: string)
  | StatementStateError (ss_state: string) (ss_message: string)
  | ValidationError (ve_Code: string) (ve_Message: string)
  | ActionError (ae_Code: string) (ae_Message: string) (ae_Retryable: bool) (ae_Status: int)
      (ae_Cause: "go_error option")
  | ImportError (ie_status: int) (ie_reason: string) (ie_message: string)

text \<open>A Go result pair \<^verbatim>\<open>(T, error)\<close> is the error or the value.\<close>

type_synonym 'a go_result = "go_error + 'a"

subsection \<open>Messages\<close>

definition defaultActionFailureMessage :: string where
  "defaultActionFailureMessage = ''databricks action failed''"

definition statementHTTPFailureSafeMessage :: string where
  "statementHTTPFailureSafeMessage = ''databricks statement failed''"

definition unsupportedTableTypeMessage :: "string \<Rightarrow> string" where
  "unsupportedTableTypeMessage tt =
     (let t = ToUpper (TrimSpace tt); t = (if t = [] then ''UNKNOWN'' else t) in
      ''Databricks table type '' @ quoted t @
      '' is not supported by query_table/v1; use a standard table or view'')"

definition warehouseIDLooksLikeOrgID :: "string \<Rightarrow> bool" where
  "warehouseIDLooksLikeOrgID wid =
     (wid \<noteq> [] \<and> list_all (\<lambda>c. 48 \<le> byte c \<and> byte c \<le> 57) wid)"

definition warehouseHTTPErrorMessage :: "int \<Rightarrow> string \<Rightarrow> string \<Rightarrow> string" where
  "warehouseHTTPErrorMessage code status wid =
     ''databricks warehouse validation failed: '' @ status @
     (if code = 404 then
        '' '' @ bytes [226, 128, 148] @
        '' no SQL warehouse with this ID in the workspace. The warehouse ID is the 16-character hex value from SQL Warehouses '' @
        bytes [226, 134, 146] @
        '' Connection details (/sql/1.0/warehouses/<id>)'' @
        (if warehouseIDLooksLikeOrgID wid then
           ''; a purely numeric value is usually the workspace org ID from the ?o= URL parameter, not a warehouse ID''
         else [])
      else [])"

definition statementStateMessage :: "string \<Rightarrow> string" where
  "statementStateMessage state =
     (if state = [] then ''databricks statement did not complete''
      else ''databricks statement did not complete: '' @ state)"

text \<open>The types that implement \<^verbatim>\<open>statusSafeError\<close>, with the message each returns.\<close>

fun safe_status_message :: "go_error \<Rightarrow> string option" where
  "safe_status_message (UnsupportedTableTypeError tt) = Some (unsupportedTableTypeMessage tt)"
| "safe_status_message (CurrentUserHTTPError code status body) =
     Some (''databricks credential validation failed: '' @ status)"
| "safe_status_message (WarehouseHTTPError code status body wid) =
     Some (warehouseHTTPErrorMessage code status wid)"
| "safe_status_message (TableSummaryHTTPError code status) =
     Some (''databricks table summary validation failed: '' @ status)"
| "safe_status_message (StatementHTTPError code status body) =
     Some (statementHTTPFailureSafeMessage @ '': '' @ status)"
| "safe_status_message (StatementStateError state msg) = Some (statementStateMessage state)"
| "safe_status_message _ = None"

text \<open>The types that implement \<^verbatim>\<open>httpStatusCoder\<close>.\<close>

fun http_status_code :: "go_error \<Rightarrow> int option" where
  "http_status_code (CurrentUserHTTPError code status body) = Some code"
| "http_status_code (WarehouseHTTPError code status body wid) = Some code"
| "http_status_code (TableSummaryHTTPError code status) = Some code"
| "http_status_code (StatementHTTPError code status body) = Some code"
| "http_status_code _ = None"

definition validationErrorText :: "string \<Rightarrow> string" where
  "validationErrorText msg = (if blank msg then ''query validation failed'' else msg)"

definition actionErrorText :: "string \<Rightarrow> string \<Rightarrow> string" where
  "actionErrorText code msg =
     (if TrimSpace msg \<noteq> [] then TrimSpace msg
      else if TrimSpace code \<noteq> [] then TrimSpace code
      else defaultActionFailureMessage)"

text \<open>The text of an error, \<^verbatim>\<open>err.Error()\<close>.\<close>

fun Error :: "go_error \<Rightarrow> string" where
  "Error (ErrorString s) = s"
| "Error (WrapError pre e) = pre @ Error e"
| "Error ContextCanceled = ''context canceled''"
| "Error ContextDeadlineExceeded = ''context deadline exceeded''"
| "Error (UrlError pre e) = pre @ Error e"
| "Error (NetError s) = s"
| "Error (StatusError r s) = s"
| "Error (UnsupportedTableTypeError tt) = unsupportedTableTypeMessage tt"
| "Error (CurrentUserHTTPError code status body) =
     ''databricks credential validation failed: '' @ status"
| "Error (WarehouseHTTPError code status body wid) = warehouseHTTPErrorMessage code status wid"
| "Error (TableSummaryHTTPError code status) =
     ''databricks table summary validation failed: '' @ status"
| "Error (StatementHTTPError code status body) = statementHTTPFailureSafeMessage @ '': '' @ status"
| "Error (StatementStateError state msg) = statementStateMessage state"
| "Error (ValidationError code msg) = validationErrorText msg"
| "Error (ActionError code msg retry status cause) = actionErrorText code msg"
| "Error (ImportError status reason msg) = msg"

subsection \<open>Unwrapping\<close>

fun err_chain :: "go_error \<Rightarrow> go_error list" where
  "err_chain (WrapError pre e) = WrapError pre e # err_chain e"
| "err_chain (UrlError pre e) = UrlError pre e # err_chain e"
| "err_chain (ActionError code msg retry status (Some e)) =
     ActionError code msg retry status (Some e) # err_chain e"
| "err_chain e = [e]"

definition errors_Is :: "go_error \<Rightarrow> go_error \<Rightarrow> bool" where
  "errors_Is e target \<longleftrightarrow> target \<in> set (err_chain e)"

definition errors_As :: "(go_error \<Rightarrow> bool) \<Rightarrow> go_error \<Rightarrow> go_error option" where
  "errors_As P e = find P (err_chain e)"

definition api_has_reason :: "api_reason \<Rightarrow> go_error \<Rightarrow> bool" where
  "api_has_reason r e \<longleftrightarrow> (\<exists>x \<in> set (err_chain e). case x of StatusError q _ \<Rightarrow> q = r | _ \<Rightarrow> False)"

definition IsNotFound :: "go_error \<Rightarrow> bool" where
  "IsNotFound e \<longleftrightarrow> api_has_reason ReasonNotFound e"

definition IsForbidden :: "go_error \<Rightarrow> bool" where
  "IsForbidden e \<longleftrightarrow> api_has_reason ReasonForbidden e"

definition IsUnauthorized :: "go_error \<Rightarrow> bool" where
  "IsUnauthorized e \<longleftrightarrow> api_has_reason ReasonUnauthorized e"

definition IsAlreadyExists :: "go_error \<Rightarrow> bool" where
  "IsAlreadyExists e \<longleftrightarrow> api_has_reason ReasonAlreadyExists e"

lemmas api_reason_defs = IsNotFound_def IsForbidden_def IsUnauthorized_def IsAlreadyExists_def
  api_has_reason_def

text \<open>
  \<^verbatim>\<open>net.Error\<close> is implemented by \<^verbatim>\<open>*url.Error\<close>, by \<^verbatim>\<open>context.DeadlineExceeded\<close> and by the network errors
  the library returns unwrapped.
\<close>

fun is_net_error :: "go_error \<Rightarrow> bool" where
  "is_net_error (UrlError pre e) = True"
| "is_net_error (NetError s) = True"
| "is_net_error ContextDeadlineExceeded = True"
| "is_net_error _ = False"

lemma err_chain_nonempty [simp]: "err_chain e \<noteq> []"
  by (induction e rule: err_chain.induct) auto

lemma err_chain_self: "e \<in> set (err_chain e)"
  by (induction e rule: err_chain.induct) auto

lemma errors_As_SomeD: "errors_As P e = Some x \<Longrightarrow> P x \<and> x \<in> set (err_chain e)"
  by (auto simp: errors_As_def find_Some_iff)

lemma errors_As_None_iff: "errors_As P e = None \<longleftrightarrow> (\<forall>x \<in> set (err_chain e). \<not> P x)"
  by (auto simp: errors_As_def find_None_iff)

lemma safe_status_is_Error: "safe_status_message e = Some m \<Longrightarrow> Error e = m"
  by (cases e) auto

end
