(* ===== verification/Go_Json.thy ===== *)
theory Go_Json
  imports Go_Strings
begin

text \<open>
  \<^verbatim>\<open>encoding/json\<close> as the provider uses it to measure and write responses. A value of type
  \<^verbatim>\<open>any\<close> is a \<open>json\<close>; a Go map is an association list standing for \<^const>\<open>map_of\<close> of it (the encoder
  sorts keys and writes each once), a \<^verbatim>\<open>float64\<close> is carried as the text the encoder prints for it,
  and \<open>JBad\<close> stands for a value the encoder rejects (a channel, a NaN). \<^verbatim>\<open>json.Marshal\<close> is \<open>marshal\<close>:
  \<open>None\<close> is its error. Strings are escaped with HTML escaping on, the encoder's default.
\<close>

datatype json =
    JNull
  | JBool bool
  | JNum string
  | JStr string
  | JArr "json list"
  | JObj "(string \<times> json) list"
  | JBad

type_synonym go_map = "(string \<times> json) list"

definition json_escape_rune :: "nat option \<times> string \<Rightarrow> string" where
  "json_escape_rune x =
     (case fst x of
        None \<Rightarrow> bytes [92, 117, 102, 102, 102, 100]
      | Some r \<Rightarrow>
          if r = 34 \<or> r = 92 then bytes [92, r]
          else if r = 8 then bytes [92, 98]
          else if r = 12 then bytes [92, 102]
          else if r = 10 then bytes [92, 110]
          else if r = 13 then bytes [92, 114]
          else if r = 9 then bytes [92, 116]
          else if r < 32 \<or> r = 60 \<or> r = 62 \<or> r = 38 then bytes [92, 117] @ hex 4 r
          else if r = 8232 \<or> r = 8233 then bytes [92, 117] @ hex 4 r
          else snd x)"

definition json_string :: "string \<Rightarrow> string" where
  "json_string s = bytes [34] @ concat (map json_escape_rune (decode s)) @ bytes [34]"

fun json_pairs :: "(string \<times> string) list \<Rightarrow> string" where
  "json_pairs kvs =
     ''{'' @ join '','' (map (\<lambda>(k, t). json_string k @ '':'' @ t)
       (sort_key fst (dedup_on fst [] kvs))) @ ''}''"

fun json_text :: "json \<Rightarrow> string" where
  "json_text JNull = ''null''"
| "json_text (JBool b) = (if b then ''true'' else ''false'')"
| "json_text (JNum t) = t"
| "json_text (JStr s) = json_string s"
| "json_text (JArr xs) = ''['' @ join '','' (map json_text xs) @ '']''"
| "json_text (JObj kvs) = json_pairs (map (\<lambda>(k, v). (k, json_text v)) kvs)"
| "json_text JBad = []"

fun marshalable :: "json \<Rightarrow> bool" where
  "marshalable (JArr xs) = list_all marshalable xs"
| "marshalable (JObj kvs) =
     list_all snd (dedup_on fst [] (map (\<lambda>(k, v). (k, marshalable v)) kvs))"
| "marshalable JBad = False"
| "marshalable _ = True"

definition marshal :: "json \<Rightarrow> string option" where
  "marshal v = (if marshalable v then Some (json_text v) else None)"

text \<open>
  A struct is encoded with its fields in declaration order; \<^verbatim>\<open>omitempty\<close> fields are left out when
  empty. \<open>json_struct\<close> takes the fields that are present, already encoded.
\<close>

definition json_struct :: "(string \<times> string) list \<Rightarrow> string" where
  "json_struct fs = ''{'' @ join '','' (map (\<lambda>(k, t). json_string k @ '':'' @ t) fs) @ ''}''"

lemma length_json_escape_rune: "snd x \<noteq> [] \<Longrightarrow> length (json_escape_rune x) \<le> 6 * length (snd x)"
  by (cases "snd x") (auto simp: json_escape_rune_def hex_def split: option.splits)

lemma length_json_string: "length (json_string s) \<le> 6 * length s + 2"
proof -
  have "length (concat (map json_escape_rune xs)) \<le> 6 * length (concat (map snd xs))"
    if "\<And>x. x \<in> set xs \<Longrightarrow> snd x \<noteq> []" for xs
    using that
  proof (induction xs)
    case (Cons x xs)
    then show ?case using length_json_escape_rune [of x] by simp
  qed simp
  from this [of "decode s"] have
    "length (concat (map json_escape_rune (decode s))) \<le> 6 * length (concat (map snd (decode s)))"
    using decode_nonempty by blast
  then show ?thesis by (simp only: json_string_def decode_bytes) simp
qed

end
