(* ===== verification/Queryapi.thy ===== *)
theory Queryapi
  imports Errors Go_Json
begin

text \<open>
  Package \<^verbatim>\<open>queryapi\<close> (\<^verbatim>\<open>queryapi/query.go\<close>): the bounded \<^verbatim>\<open>query_table/v1\<close> contract. The types of
  requests and results, the input checks (\<open>quoteIdent\<close>, \<open>NormalizeQueryControls\<close>,
  \<open>NormalizeQueryRequest\<close>), the result bounds (\<open>normalizeResultShape\<close>, \<open>BoundQueryResultWithin\<close>)
  and the construction of the only SQL statements the provider ever sends. The last part gives
  a reference reader for those statements and shows that what was built is what is read back.
\<close>

subsection \<open>Constants and types\<close>

definition ActionVersionV1 :: string where "ActionVersionV1 = ''v1''"
definition DefaultQueryLimit :: int where "DefaultQueryLimit = 100"
definition MaxQueryLimit :: int where "MaxQueryLimit = 100"
definition MaxQueryRows :: nat where "MaxQueryRows = 100"
definition MaxQueryColumns :: nat where "MaxQueryColumns = 64"
definition MaxIdentifierLength :: nat where "MaxIdentifierLength = 255"
definition MaxQueryBytes :: nat where "MaxQueryBytes = 64 * 1024"
definition ErrorCodeSchemaProjectionInvalid :: string where
  "ErrorCodeSchemaProjectionInvalid = ''schema_projection_invalid''"

lemmas query_consts = ActionVersionV1_def DefaultQueryLimit_def MaxQueryLimit_def
  MaxQueryRows_def MaxQueryColumns_def MaxIdentifierLength_def MaxQueryBytes_def

record TableRef =
  trCatalog :: string
  trSchema :: string
  trTable :: string

record ConnectionRef =
  crName :: string
  crHost :: string
  crAuthType :: string

record WarehouseRef =
  wrName :: string
  wrWarehouseID :: string

record TableTarget =
  ttTable :: TableRef
  ttConnection :: ConnectionRef
  ttWarehouse :: WarehouseRef
  ttBearerToken :: string

record QueryTableRequest =
  qrActionVersion :: string
  qrTableRef :: string
  qrColumns :: "string list"
  qrLimit :: int

record QueryColumn =
  qcName :: string
  qcType :: string

record QueryTableResult =
  resActionVersion :: string
  resTableRef :: string
  resColumns :: "QueryColumn list"
  resRows :: "go_map list"
  resTruncated :: bool

subsection \<open>Identifiers\<close>

definition letter_or_underscore :: "char \<Rightarrow> bool" where
  "letter_or_underscore c \<longleftrightarrow>
     (65 \<le> byte c \<and> byte c \<le> 90) \<or> (97 \<le> byte c \<and> byte c \<le> 122) \<or> byte c = 95"

definition digit :: "char \<Rightarrow> bool" where
  "digit c \<longleftrightarrow> 48 \<le> byte c \<and> byte c \<le> 57"

definition identifierRE :: "string \<Rightarrow> bool" where
  "identifierRE s =
     (case s of
        [] \<Rightarrow> False
      | c # cs \<Rightarrow> letter_or_underscore c \<and> list_all (\<lambda>d. letter_or_underscore d \<or> digit d) cs)"

definition lower_alnum :: "char \<Rightarrow> bool" where
  "lower_alnum c \<longleftrightarrow> digit c \<or> (97 \<le> byte c \<and> byte c \<le> 122)"

definition tableRefRE :: "string \<Rightarrow> bool" where
  "tableRefRE s =
     (s \<noteq> [] \<and> lower_alnum (hd s) \<and> lower_alnum (last s) \<and>
      list_all (\<lambda>c. lower_alnum c \<or> byte c = 45) s)"

definition is_control :: "nat \<Rightarrow> bool" where
  "is_control r \<longleftrightarrow> r < 32 \<or> (127 \<le> r \<and> r < 160)"

definition backquote :: char where
  "backquote = CHR 0x60"

definition quoteIdent :: "string \<Rightarrow> string go_result" where
  "quoteIdent v =
     (if v = [] \<or> MaxIdentifierLength < rune_count v \<or> \<not> valid_utf8 v
      then Inl (ErrorString ''invalid identifier'')
      else if identifierRE v then Inr ([backquote] @ v @ [backquote])
      else if list_ex is_control (runes v) then Inl (ErrorString ''invalid identifier'')
      else Inr ([backquote] @ ReplaceAll v backquote [backquote, backquote] @ [backquote]))"

definition ValidateIdentifier :: "string \<Rightarrow> unit go_result" where
  "ValidateIdentifier v = (case quoteIdent v of Inl e \<Rightarrow> Inl e | Inr _ \<Rightarrow> Inr ())"

subsection \<open>Request checks\<close>

fun normalizeColumns :: "nat \<Rightarrow> string list \<Rightarrow> string list \<Rightarrow> string list go_result" where
  "normalizeColumns i seen [] = Inr []"
| "normalizeColumns i seen (column # rest) =
     (case quoteIdent column of
        Inl _ \<Rightarrow> Inl (ErrorString (''columns['' @ show_nat i @ '']: invalid identifier''))
      | Inr _ \<Rightarrow>
          if column \<in> set seen
          then Inl (ErrorString (''columns['' @ show_nat i @ '']: duplicate identifier''))
          else (case normalizeColumns (Suc i) (column # seen) rest of
                  Inl e \<Rightarrow> Inl e
                | Inr normalized \<Rightarrow> Inr (column # normalized)))"

definition NormalizeQueryControls ::
  "string list \<Rightarrow> int \<Rightarrow> (string list \<times> int) go_result" where
  "NormalizeQueryControls columns limit =
     (let limit = (if limit = 0 then DefaultQueryLimit else limit) in
      if limit < 1 \<or> MaxQueryLimit < limit
      then Inl (ErrorString (''limit must be between 1 and '' @ show_int MaxQueryLimit))
      else if MaxQueryColumns < length columns
      then Inl (ErrorString (''columns must contain at most '' @ show_nat MaxQueryColumns @ '' entries''))
      else (case normalizeColumns 0 [] columns of
              Inl e \<Rightarrow> Inl e
            | Inr normalized \<Rightarrow> Inr (normalized, limit)))"

definition ValidateActionVersion :: "string \<Rightarrow> unit go_result" where
  "ValidateActionVersion version =
     (if TrimSpace version \<noteq> ActionVersionV1
      then Inl (ErrorString (''unsupported actionVersion '' @ quoted version))
      else Inr ())"

definition ValidateTableRef :: "string \<Rightarrow> unit go_result" where
  "ValidateTableRef name =
     (let name = TrimSpace name in
      if name = [] \<or> 253 < length name \<or> \<not> tableRefRE name
      then Inl (ErrorString ''invalid tableRef'')
      else Inr ())"

definition NormalizeQueryRequest :: "QueryTableRequest \<Rightarrow> QueryTableRequest go_result" where
  "NormalizeQueryRequest req =
     (case ValidateActionVersion (qrActionVersion req) of
        Inl e \<Rightarrow> Inl e
      | Inr _ \<Rightarrow>
          (let req = req\<lparr>qrTableRef := TrimSpace (qrTableRef req)\<rparr> in
           case ValidateTableRef (qrTableRef req) of
             Inl e \<Rightarrow> Inl e
           | Inr _ \<Rightarrow>
               (case NormalizeQueryControls (qrColumns req) (qrLimit req) of
                  Inl e \<Rightarrow> Inl e
                | Inr (columns, limit) \<Rightarrow> Inr (req\<lparr>qrColumns := columns, qrLimit := limit\<rparr>))))"

subsection \<open>Result bounds\<close>

definition column_json :: "QueryColumn \<Rightarrow> string" where
  "column_json c =
     json_struct ((''name'', json_string (qcName c)) #
       (if qcType c = [] then [] else [(''type'', json_string (qcType c))]))"

definition json_array :: "string list \<Rightarrow> string" where
  "json_array ts = ''['' @ join '','' ts @ '']''"

text \<open>\<^verbatim>\<open>json.Marshal(result)\<close> for a \<^verbatim>\<open>QueryTableResult\<close> whose slices are not nil.\<close>

definition result_fields :: "QueryTableResult \<Rightarrow> (string \<times> string) list" where
  "result_fields r =
     [(''actionVersion'', json_string (resActionVersion r)),
      (''tableRef'', json_string (resTableRef r)),
      (''columns'', json_array (map column_json (resColumns r))),
      (''rows'', json_array (map (\<lambda>row. json_text (JObj row)) (resRows r)))] @
     (if resTruncated r then [(''truncated'', ''true'')] else [])"

definition marshal_result :: "QueryTableResult \<Rightarrow> string option" where
  "marshal_result r =
     (if list_all (\<lambda>row. marshalable (JObj row)) (resRows r)
      then Some (json_struct (result_fields r)) else None)"

definition rowsForColumns :: "go_map list \<Rightarrow> QueryColumn list \<Rightarrow> go_map list" where
  "rowsForColumns rows columns =
     (let keys = dedup_on id [] (map qcName columns) in
      map (\<lambda>row. map (\<lambda>key. (key, case map_of row key of Some v \<Rightarrow> v | None \<Rightarrow> JNull)) keys) rows)"

fun shapeColumns :: "string list \<Rightarrow> QueryColumn list \<Rightarrow> bool \<Rightarrow> QueryColumn list \<times> bool" where
  "shapeColumns seen [] truncated = ([], truncated)"
| "shapeColumns seen (column # rest) truncated =
     (if qcName column \<in> set seen then shapeColumns seen rest True
      else (case shapeColumns (qcName column # seen) rest truncated of
              (columns, t) \<Rightarrow> (column # columns, t)))"

definition normalizeResultShape :: "QueryTableResult \<Rightarrow> QueryTableResult" where
  "normalizeResultShape result =
     (let (columns, t1) = shapeColumns [] (resColumns result) (resTruncated result);
          t2 = (t1 \<or> MaxQueryColumns < length columns);
          columns = take MaxQueryColumns columns;
          t3 = (t2 \<or> MaxQueryRows < length (resRows result));
          rows = take MaxQueryRows (resRows result);
          allowed = map qcName columns;
          t4 = (t3 \<or> list_ex (\<lambda>row. list_ex (\<lambda>(key, _). key \<notin> set allowed) row) rows)
      in result\<lparr>resColumns := columns, resRows := rowsForColumns rows columns,
                resTruncated := t4\<rparr>)"

definition truncateString :: "string \<Rightarrow> nat \<Rightarrow> string" where
  "truncateString v mx =
     (if length (runes v) \<le> mx then v else runes_to_string (take mx (runes v)))"

definition fits_bytes :: "nat \<Rightarrow> string option \<Rightarrow> bool" where
  "fits_bytes maxBytes encoded = (case encoded of None \<Rightarrow> False | Some t \<Rightarrow> length t \<le> maxBytes)"

definition smallest_result :: "QueryTableResult \<Rightarrow> QueryTableResult" where
  "smallest_result r =
     \<lparr>resActionVersion = ActionVersionV1, resTableRef = truncateString (resTableRef r) 253,
      resColumns = [], resRows = [], resTruncated = True\<rparr>"

lemma rowsForColumns_Nil [simp]: "rowsForColumns [] columns = []"
  by (simp add: rowsForColumns_def)

lemma length_rowsForColumns [simp]: "length (rowsForColumns rows columns) = length rows"
  by (simp add: rowsForColumns_def Let_def)

function boundLoop :: "nat \<Rightarrow> QueryTableResult \<Rightarrow> QueryTableResult" where
  "boundLoop maxBytes result =
     (if fits_bytes maxBytes (marshal_result result) then result
      else if resRows result \<noteq> [] then
        boundLoop maxBytes
          (result\<lparr>resRows := butlast (resRows result), resTruncated := True\<rparr>)
      else if resColumns result \<noteq> [] then
        boundLoop maxBytes
          (result\<lparr>resColumns := butlast (resColumns result),
                  resRows := rowsForColumns (resRows result) (butlast (resColumns result)),
                  resTruncated := True\<rparr>)
      else smallest_result result)"
  by pat_completeness auto
termination
  by (relation "measure (\<lambda>(_, r). length (resRows r) + length (resColumns r))")
    (auto simp: neq_Nil_conv)

declare boundLoop.simps [simp del]

definition BoundQueryResultWithin :: "QueryTableResult \<Rightarrow> int \<Rightarrow> QueryTableResult" where
  "BoundQueryResultWithin result maxBytes =
     (let maxBytes = (if maxBytes < 1 \<or> int MaxQueryBytes < maxBytes then MaxQueryBytes
                      else nat maxBytes)
      in boundLoop maxBytes (normalizeResultShape result))"

definition BoundQueryResult :: "QueryTableResult \<Rightarrow> QueryTableResult" where
  "BoundQueryResult result = BoundQueryResultWithin result (int MaxQueryBytes)"

subsection \<open>SQL construction\<close>

definition qualifiedTable :: "TableRef \<Rightarrow> string go_result" where
  "qualifiedTable ref =
     (case quoteIdent (trCatalog ref) of
        Inl e \<Rightarrow> Inl (WrapError (''catalog '' @ quoted (trCatalog ref) @ '': '') e)
      | Inr catalog \<Rightarrow>
     (case quoteIdent (trSchema ref) of
        Inl e \<Rightarrow> Inl (WrapError (''schema '' @ quoted (trSchema ref) @ '': '') e)
      | Inr schema \<Rightarrow>
     (case quoteIdent (trTable ref) of
        Inl e \<Rightarrow> Inl (WrapError (''table '' @ quoted (trTable ref) @ '': '') e)
      | Inr table \<Rightarrow> Inr (catalog @ ''.'' @ schema @ ''.'' @ table))))"

definition TableSchemaProbeSQL :: "TableRef \<Rightarrow> string go_result" where
  "TableSchemaProbeSQL ref =
     (case qualifiedTable ref of
        Inl e \<Rightarrow> Inl e
      | Inr frm \<Rightarrow> Inr (''SELECT * FROM '' @ frm @ '' LIMIT 0''))"

definition DescribeTableSQL :: "TableRef \<Rightarrow> string go_result" where
  "DescribeTableSQL ref =
     (case qualifiedTable ref of
        Inl e \<Rightarrow> Inl e
      | Inr frm \<Rightarrow> Inr (''DESCRIBE TABLE '' @ frm))"

fun selectParts ::
  "string list \<Rightarrow> nat \<Rightarrow> string list \<Rightarrow> string list \<Rightarrow> string list go_result" where
  "selectParts allowed i seen [] = Inr []"
| "selectParts allowed i seen (column # rest) =
     (case quoteIdent column of
        Inl _ \<Rightarrow> Inl (ErrorString (''columns['' @ show_nat i @ '']: invalid identifier''))
      | Inr q \<Rightarrow>
          if allowed \<noteq> [] \<and> column \<notin> set allowed
          then Inl (ValidationError ErrorCodeSchemaProjectionInvalid
                 (''requested column '' @ quoted column @
                  '' is not present in the imported table schema''))
          else if column \<in> set seen
          then Inl (ErrorString (''column '' @ quoted column @ '' is selected more than once''))
          else (case selectParts allowed (Suc i) (column # seen) rest of
                  Inl e \<Rightarrow> Inl e
                | Inr parts \<Rightarrow> Inr (q # parts)))"

definition SelectTableSQL ::
  "TableRef \<Rightarrow> string list \<Rightarrow> int \<Rightarrow> string list \<Rightarrow> string go_result" where
  "SelectTableSQL ref projection limit allowedColumns =
     (let limit = (if limit = 0 then DefaultQueryLimit else limit) in
      if limit < 1 \<or> MaxQueryLimit < limit
      then Inl (ErrorString (''limit must be between 1 and '' @ show_int MaxQueryLimit))
      else if MaxQueryColumns < length projection
      then Inl (ErrorString (''projection must contain at most '' @ show_nat MaxQueryColumns @ '' columns''))
      else (case qualifiedTable ref of
              Inl e \<Rightarrow> Inl e
            | Inr frm \<Rightarrow>
                (let allowed = filter (\<lambda>c. \<not> blank c) allowedColumns in
                 case (if projection = [] then Inr ''*''
                       else (case selectParts allowed 0 [] projection of
                               Inl e \<Rightarrow> Inl e
                             | Inr parts \<Rightarrow> Inr (join '', '' parts))) of
                   Inl e \<Rightarrow> Inl e
                 | Inr selectList \<Rightarrow>
                     Inr (''SELECT '' @ selectList @ '' FROM '' @ frm @ '' LIMIT '' @
                          show_int limit))))"

subsection \<open>Shape and budget of bounded results\<close>

definition well_shaped :: "QueryTableResult \<Rightarrow> bool" where
  "well_shaped r \<longleftrightarrow>
     length (resRows r) \<le> MaxQueryRows \<and> length (resColumns r) \<le> MaxQueryColumns \<and>
     distinct (map qcName (resColumns r)) \<and>
     list_all (\<lambda>row. map fst row = map qcName (resColumns r)) (resRows r)"

definition within_budget :: "nat \<Rightarrow> QueryTableResult \<Rightarrow> bool" where
  "within_budget n r \<longleftrightarrow> fits_bytes n (marshal_result r)"

lemma shapeColumns_eq:
  "shapeColumns seen cs t =
     (dedup_on qcName seen cs, t \<or> dedup_on qcName seen cs \<noteq> cs)"
proof (induction seen cs t rule: shapeColumns.induct)
  case (2 seen column rest truncated)
  have "dedup_on qcName seen rest \<noteq> column # rest"
    using length_dedup_on [of qcName seen rest] by (metis Suc_n_not_le_n length_Cons)
  with 2 show ?case by auto
qed simp

lemma rowsForColumns_keys:
  "distinct (map qcName columns) \<Longrightarrow> row \<in> set (rowsForColumns rows columns) \<Longrightarrow>
     map fst row = map qcName columns"
  using dedup_on_distinct_id [of id "map qcName columns"]
  by (auto simp: rowsForColumns_def Let_def comp_def)

lemma normalizeResultShape_shaped: "well_shaped (normalizeResultShape r)"
  by (auto simp: well_shaped_def normalizeResultShape_def Let_def shapeColumns_eq list_all_iff
      dedup_on_distinct take_dedup_distinct rowsForColumns_keys split: prod.splits)

lemma well_shaped_butlast_rows:
  "well_shaped r \<Longrightarrow> well_shaped (r\<lparr>resRows := butlast (resRows r), resTruncated := t\<rparr>)"
  by (auto simp: well_shaped_def list_all_iff dest: in_set_butlastD)

lemma well_shaped_butlast_columns:
  "well_shaped r \<Longrightarrow> resRows r = [] \<Longrightarrow>
     well_shaped (r\<lparr>resColumns := butlast (resColumns r), resRows := [], resTruncated := t\<rparr>)"
  by (auto simp: well_shaped_def dest: distinct_map_butlast)

lemma well_shaped_smallest: "well_shaped (smallest_result r)"
  by (simp add: well_shaped_def smallest_result_def)

lemma boundLoop_shaped: "well_shaped r \<Longrightarrow> well_shaped (boundLoop n r)"
proof (induction n r rule: boundLoop.induct)
  case (1 n r)
  then show ?case
    by (auto simp: boundLoop.simps [of n r] well_shaped_butlast_rows well_shaped_butlast_columns
        well_shaped_smallest)
qed

lemma length_truncateString: "length (truncateString v mx) \<le> 4 * mx"
  using length_le_rune_count [of v] length_runes_to_string [of "take mx (runes v)"]
  by (auto simp: truncateString_def)

lemma smallest_result_bytes:
  "within_budget MaxQueryBytes (smallest_result r)"
  using length_json_string [of "truncateString (resTableRef r) 253"]
    length_truncateString [of "resTableRef r" 253]
  by (simp add: within_budget_def fits_bytes_def marshal_result_def result_fields_def
      smallest_result_def json_struct_def json_array_def query_consts json_string_def [of "''v1''"]
      json_string_def [of "''actionVersion''"] json_string_def [of "''tableRef''"]
      json_string_def [of "''columns''"] json_string_def [of "''rows''"]
      json_string_def [of "''truncated''"] decode_ascii json_escape_rune_def)

lemma boundLoop_fits:
  "within_budget n (boundLoop n r) \<or> boundLoop n r = smallest_result (r\<lparr>resColumns := [], resRows := []\<rparr>)"
proof (induction n r rule: boundLoop.induct)
  case (1 n r)
  then show ?case
    by (auto simp: boundLoop.simps [of n r] within_budget_def smallest_result_def)
qed

text \<open>
  What a run of the loop keeps: the first rows, the first columns (columns only go once every
  row is gone), and every retained row unchanged.
\<close>

definition result_prefix :: "QueryTableResult \<Rightarrow> QueryTableResult \<Rightarrow> bool" where
  "result_prefix r' r \<longleftrightarrow>
     prefix (resColumns r') (resColumns r) \<and> prefix (resRows r') (resRows r) \<and>
     (resColumns r' \<noteq> resColumns r \<longrightarrow> resRows r' = []) \<and>
     (r' = r \<or> resTruncated r')"

lemma boundLoop_prefix: "result_prefix (boundLoop n r) r"
proof (induction n r rule: boundLoop.induct)
  case (1 n r)
  show ?case
  proof (cases "fits_bytes n (marshal_result r)")
    case True
    then show ?thesis by (simp add: boundLoop.simps [of n r] result_prefix_def)
  next
    case f: False
    show ?thesis
    proof (cases "resRows r = []")
      case False
      with 1 f show ?thesis
        by (auto simp: boundLoop.simps [of n r] result_prefix_def
            intro: prefix_order.trans [OF _ prefixeq_butlast])
    next
      case True
      show ?thesis
      proof (cases "resColumns r = []")
        case False
        with 1 f True show ?thesis
          by (auto simp: boundLoop.simps [of n r] result_prefix_def
              intro: prefix_order.trans [OF _ prefixeq_butlast])
      next
        case c: True
        with f True show ?thesis
          by (simp add: boundLoop.simps [of n r] result_prefix_def smallest_result_def)
      qed
    qed
  qed
qed


text \<open>
  The contract every caller of the bounding step relies on. The action handler, the MCP
  adapter and the tenant executor use only these laws.
\<close>

locale result_bounder =
  fixes bound :: "QueryTableResult \<Rightarrow> QueryTableResult" and budget :: nat
  assumes shaped: "well_shaped (bound r)"
    and budgeted: "within_budget budget (bound r)"
    and keeps_prefix: "result_prefix (bound r) (normalizeResultShape r)"
begin

lemma row_keys:
  "row \<in> set (resRows (bound r)) \<Longrightarrow> map fst row = map qcName (resColumns (bound r))"
  using shaped [of r] by (auto simp: well_shaped_def list_all_iff)

lemma columns_le:
  "length (resColumns (bound r)) \<le> length (resColumns r)"
proof -
  have "length (resColumns (bound r)) \<le> length (resColumns (normalizeResultShape r))"
    using keeps_prefix [of r] by (auto simp: result_prefix_def dest: prefix_length_le)
  also have "\<dots> \<le> length (resColumns r)"
    using length_dedup_on [of qcName "[]" "resColumns r"]
    by (simp add: normalizeResultShape_def Let_def shapeColumns_eq min_le_iff_disj)
  finally show ?thesis .
qed

lemma rows_le: "length (resRows (bound r)) \<le> length (resRows r)"
proof -
  have "length (resRows (bound r)) \<le> length (resRows (normalizeResultShape r))"
    using keeps_prefix [of r] by (auto simp: result_prefix_def dest: prefix_length_le)
  then show ?thesis
    by (simp add: normalizeResultShape_def Let_def shapeColumns_eq)
qed

lemma row_bounds:
  "length (resRows (bound r)) \<le> MaxQueryRows" "length (resColumns (bound r)) \<le> MaxQueryColumns"
  using shaped [of r] by (auto simp: well_shaped_def)

end

lemma BoundQueryResult_alt:
  "BoundQueryResult r = boundLoop MaxQueryBytes (normalizeResultShape r)"
  by (simp add: BoundQueryResult_def BoundQueryResultWithin_def query_consts)

interpretation bq: result_bounder BoundQueryResult MaxQueryBytes
proof unfold_locales
  fix r
  show "well_shaped (BoundQueryResult r)"
    by (simp add: BoundQueryResult_alt boundLoop_shaped normalizeResultShape_shaped)
  show "within_budget MaxQueryBytes (BoundQueryResult r)"
    using boundLoop_fits smallest_result_bytes by (metis BoundQueryResult_alt)
  show "result_prefix (BoundQueryResult r) (normalizeResultShape r)"
    by (simp add: BoundQueryResult_alt boundLoop_prefix)
qed

text \<open>
  C3. Whatever an executor returns, the bounded result has at most 100 rows and 64 distinct
  columns, every row has exactly those columns as keys, and the serialised result object is at
  most 64 KiB.
\<close>

theorem BoundQueryResult_bounded:
  "length (resRows (BoundQueryResult r)) \<le> 100 \<and>
   length (resColumns (BoundQueryResult r)) \<le> 64 \<and>
   distinct (map qcName (resColumns (BoundQueryResult r))) \<and>
   list_all (\<lambda>row. map fst row = map qcName (resColumns (BoundQueryResult r)))
     (resRows (BoundQueryResult r)) \<and>
   (\<exists>t. marshal_result (BoundQueryResult r) = Some t \<and> length t \<le> 65536)"
  using bq.shaped [of r] bq.budgeted [of r]
  by (auto simp: well_shaped_def within_budget_def fits_bytes_def query_consts split: option.splits)

lemma rowsForColumns_cell:
  "i < length rows \<Longrightarrow> k \<in> set (map qcName columns) \<Longrightarrow>
     map_of (rowsForColumns rows columns ! i) k =
       Some (case map_of (rows ! i) k of Some v \<Rightarrow> v | None \<Rightarrow> JNull)"
  using dedup_on_keys [of id "[]" "map qcName columns"]
  by (simp add: rowsForColumns_def Let_def map_of_map_restrict restrict_map_def)


lemma resRows_normalize:
  "resRows (normalizeResultShape r) =
     rowsForColumns (take MaxQueryRows (resRows r)) (resColumns (normalizeResultShape r))"
  by (simp add: normalizeResultShape_def Let_def shapeColumns_eq)

lemma resColumns_normalize:
  "resColumns (normalizeResultShape r) = take MaxQueryColumns (dedup_on qcName [] (resColumns r))"
  by (simp add: normalizeResultShape_def Let_def shapeColumns_eq)

lemma bounded_cell:
  assumes "i < length (resRows (BoundQueryResult r))" "c \<in> set (resColumns (BoundQueryResult r))"
  shows "map_of (resRows (BoundQueryResult r) ! i) (qcName c) =
           Some (case map_of (resRows r ! i) (qcName c) of Some v \<Rightarrow> v | None \<Rightarrow> JNull)"
proof -
  let ?n = "normalizeResultShape r" and ?b = "BoundQueryResult r"
  have p: "prefix (resRows ?b) (resRows ?n)" "prefix (resColumns ?b) (resColumns ?n)"
    using bq.keeps_prefix [of r] by (auto simp: result_prefix_def)
  from p(1) assms(1) have i: "i < length (resRows ?n)" "resRows ?b ! i = resRows ?n ! i"
    by (auto simp: prefix_def nth_append)
  from p(2) assms(2) have "qcName c \<in> set (map qcName (resColumns ?n))"
    by (auto simp: prefix_def)
  with i show ?thesis
    by (simp add: resRows_normalize rowsForColumns_cell)
qed

lemma stray_key_iff:
  "list_ex (\<lambda>row. list_ex (\<lambda>(key, _). key \<notin> A) row) rows \<longleftrightarrow>
     \<not> list_all (\<lambda>row. fst ` set row \<subseteq> A) rows"
  by (induction rows) (force simp: list_ex_iff)+

lemma normalize_complete:
  assumes "\<not> resTruncated (normalizeResultShape r)"
  shows "\<not> resTruncated r \<and> resColumns (normalizeResultShape r) = resColumns r \<and>
    length (resRows (normalizeResultShape r)) = length (resRows r) \<and>
    list_all (\<lambda>row. fst ` set row \<subseteq> qcName ` set (resColumns r)) (resRows r)"
  using assms
  by (auto simp: normalizeResultShape_def Let_def shapeColumns_eq stray_key_iff)

text \<open>
  C12. Bounding never rewrites data and never drops any silently: columns and rows of the
  bounded result are the first ones of the input (columns by first occurrence), each retained
  cell has the executor's value (null where the row had none), and if the result is not marked
  truncated then it has all columns and all rows, and no row had another key.
\<close>

theorem BoundQueryResult_faithful:
  "prefix (resColumns (BoundQueryResult r)) (dedup_on qcName [] (resColumns r)) \<and>
   length (resRows (BoundQueryResult r)) \<le> length (resRows r) \<and>
   (\<forall>i < length (resRows (BoundQueryResult r)). \<forall>c \<in> set (resColumns (BoundQueryResult r)).
      map_of (resRows (BoundQueryResult r) ! i) (qcName c) =
        Some (case map_of (resRows r ! i) (qcName c) of Some v \<Rightarrow> v | None \<Rightarrow> JNull)) \<and>
   (\<not> resTruncated (BoundQueryResult r) \<longrightarrow>
      \<not> resTruncated r \<and> resColumns (BoundQueryResult r) = resColumns r \<and>
      length (resRows (BoundQueryResult r)) = length (resRows r) \<and>
      list_all (\<lambda>row. fst ` set row \<subseteq> qcName ` set (resColumns r)) (resRows r))"
proof (intro conjI allI impI ballI)
  show "prefix (resColumns (BoundQueryResult r)) (dedup_on qcName [] (resColumns r))"
    using bq.keeps_prefix [of r] take_is_prefix prefix_order.trans
    by (fastforce simp: result_prefix_def resColumns_normalize)
  show "length (resRows (BoundQueryResult r)) \<le> length (resRows r)" by (rule bq.rows_le)
next
  assume nt: "\<not> resTruncated (BoundQueryResult r)"
  then have eq: "BoundQueryResult r = normalizeResultShape r"
    using bq.keeps_prefix [of r] by (auto simp: result_prefix_def)
  with nt normalize_complete [of r]
  show "\<not> resTruncated r" "resColumns (BoundQueryResult r) = resColumns r"
    "length (resRows (BoundQueryResult r)) = length (resRows r)"
    "list_all (\<lambda>row. fst ` set row \<subseteq> qcName ` set (resColumns r)) (resRows r)"
    by simp_all
qed (rule bounded_cell)

lemma row_of_keys:
  "distinct (map fst row) \<Longrightarrow> map (\<lambda>key. (key, case map_of row key of Some v \<Rightarrow> v | None \<Rightarrow> d)) (map fst row) = row"
proof -
  assume d: "distinct (map fst row)"
  have "(fst kv, case map_of row (fst kv) of Some v \<Rightarrow> v | None \<Rightarrow> d) = kv" if "kv \<in> set row" for kv
    using map_of_is_SomeI [OF d, of "fst kv" "snd kv"] that by simp
  then show ?thesis by (simp add: comp_def map_idI)
qed

lemma rowsForColumns_id:
  assumes "distinct (map qcName columns)" "\<And>row. row \<in> set rows \<Longrightarrow> map fst row = map qcName columns"
  shows "rowsForColumns rows columns = rows"
proof -
  have "dedup_on id [] (map qcName columns) = map qcName columns"
    using assms(1) by (simp add: dedup_on_distinct_id)
  then have "rowsForColumns rows columns =
      map (\<lambda>row. map (\<lambda>key. (key, case map_of row key of Some v \<Rightarrow> v | None \<Rightarrow> JNull))
        (map qcName columns)) rows"
    by (simp add: rowsForColumns_def)
  also have "\<dots> = map (\<lambda>row. row) rows"
    using assms by (intro map_cong refl) (metis row_of_keys)
  finally show ?thesis by simp
qed

lemma normalize_shaped_id: "well_shaped r \<Longrightarrow> normalizeResultShape r = r"
proof -
  assume w: "well_shaped r"
  then have d: "dedup_on qcName [] (resColumns r) = resColumns r"
    by (auto simp: well_shaped_def dedup_on_distinct_id)
  have f: "fst ` set row = qcName ` set (resColumns r)" if "row \<in> set (resRows r)" for row
    using w that by (auto simp: well_shaped_def list_all_iff simp flip: set_map)
  have k: "\<not> list_ex (\<lambda>row. list_ex (\<lambda>(key, _). key \<notin> qcName ` set (resColumns r)) row) (resRows r)"
    using f by (simp add: stray_key_iff list_all_iff)
  have "rowsForColumns (resRows r) (resColumns r) = resRows r"
    using w by (intro rowsForColumns_id) (auto simp: well_shaped_def list_all_iff)
  with w d k show ?thesis
    by (simp add: normalizeResultShape_def Let_def shapeColumns_eq well_shaped_def)
qed

lemma BoundQueryResult_fits_id:
  "well_shaped r \<Longrightarrow> within_budget MaxQueryBytes r \<Longrightarrow> BoundQueryResult r = r"
  by (simp add: BoundQueryResult_alt normalize_shaped_id boundLoop.simps [of _ r] within_budget_def)

definition example_result :: QueryTableResult where
  "example_result =
     \<lparr>resActionVersion = ''v1'', resTableRef = ''orders'',
      resColumns = [\<lparr>qcName = ''order_id'', qcType = ''BIGINT''\<rparr>],
      resRows = [[(''order_id'', JNum ''7'')]], resTruncated = False\<rparr>"

lemma example_result_bound: "BoundQueryResult example_result = example_result"
proof (rule BoundQueryResult_fits_id)
  show "well_shaped example_result"
    by (simp add: well_shaped_def example_result_def query_consts)
  show "within_budget MaxQueryBytes example_result"
    by (simp add: within_budget_def fits_bytes_def marshal_result_def result_fields_def
        example_result_def json_struct_def json_array_def column_json_def query_consts
        json_string_def decode_ascii json_escape_rune_def)
qed

theorem BoundQueryResult_faithful_witness:
  "map_of (resRows (BoundQueryResult example_result) ! 0) ''order_id'' = Some (JNum ''7'') \<and>
   length (resRows (BoundQueryResult example_result)) = 1 \<and>
   resColumns (BoundQueryResult example_result) = resColumns example_result"
  using BoundQueryResult_faithful [of example_result]
  by (simp add: example_result_bound) (simp add: example_result_def)

text \<open>
  The bounding step is idempotent, so applying it again at the next boundary (backend,
  tenant executor, action handler, MCP adapter) changes nothing.
\<close>

theorem BoundQueryResult_idem: "BoundQueryResult (BoundQueryResult r) = BoundQueryResult r"
proof -
  have "boundLoop MaxQueryBytes (BoundQueryResult r) = BoundQueryResult r"
    using bq.budgeted [of r] by (simp add: boundLoop.simps [of _ "BoundQueryResult r"] within_budget_def)
  then show ?thesis
    by (simp add: BoundQueryResult_alt [of "BoundQueryResult r"] normalize_shaped_id bq.shaped)
qed

subsection \<open>Accepted inputs\<close>

definition identifier_ok :: "string \<Rightarrow> bool" where
  "identifier_ok v \<longleftrightarrow>
     v \<noteq> [] \<and> rune_count v \<le> MaxIdentifierLength \<and> valid_utf8 v \<and> \<not> list_ex is_control (runes v)"

lemma identifierRE_ascii: "identifierRE v \<Longrightarrow> is_ascii v"
  by (cases v)
    (auto simp: identifierRE_def letter_or_underscore_def digit_def is_ascii_iff list_all_iff)

lemma identifierRE_no_control: "identifierRE v \<Longrightarrow> \<not> list_ex is_control (runes v)"
  using identifierRE_ascii [of v]
  by (cases v) (auto simp: runes_def decode_ascii list_ex_iff is_control_def identifierRE_def
      letter_or_underscore_def digit_def list_all_iff)

lemma identifierRE_no_backquote: "identifierRE v \<Longrightarrow> backquote \<notin> set v"
  by (cases v) (auto simp: identifierRE_def letter_or_underscore_def digit_def list_all_iff
      backquote_def)

lemma quoteIdent_eq:
  "quoteIdent v =
     (if identifier_ok v
      then Inr ([backquote] @ ReplaceAll v backquote [backquote, backquote] @ [backquote])
      else Inl (ErrorString ''invalid identifier''))"
  using identifierRE_no_control [of v] identifierRE_no_backquote [of v]
  by (auto simp: quoteIdent_def identifier_ok_def length_ReplaceAll_id)

lemma ValidateIdentifier_iff: "ValidateIdentifier v = Inr () \<longleftrightarrow> identifier_ok v"
  by (simp add: ValidateIdentifier_def quoteIdent_eq)

lemma normalizeColumns_iff:
  "normalizeColumns i seen cs = Inr ns \<longleftrightarrow>
     ns = cs \<and> list_all identifier_ok cs \<and> distinct cs \<and> set cs \<inter> set seen = {}"
  by (induction i seen cs arbitrary: ns rule: normalizeColumns.induct)
    (auto simp: quoteIdent_eq sum_bind_Inr)

lemma NormalizeQueryControls_spec:
  "NormalizeQueryControls columns limit = Inr (columns', limit') \<longleftrightarrow>
     columns' = columns \<and> limit' = (if limit = 0 then 100 else limit) \<and>
     1 \<le> limit' \<and> limit' \<le> 100 \<and> length columns \<le> 64 \<and>
     distinct columns \<and> list_all identifier_ok columns"
  by (auto simp: NormalizeQueryControls_def Let_def query_consts normalizeColumns_iff
      sum_bind_Inr)

text \<open>
  The request controls accepted by every entry point are exactly: a limit of 1 to 100, 0
  meaning 100, and at most 64 distinct well-formed column identifiers; they are passed on
  unchanged.
\<close>

theorem NormalizeQueryControls_iff:
  "NormalizeQueryControls columns limit = Inr (columns', limit') \<longleftrightarrow>
     columns' = columns \<and> limit' = (if limit = 0 then 100 else limit) \<and>
     1 \<le> limit' \<and> limit' \<le> 100 \<and> length columns \<le> 64 \<and>
     distinct columns \<and> list_all identifier_ok columns"
  by (rule NormalizeQueryControls_spec)

lemma lower_alnum_graphic: "lower_alnum c \<Longrightarrow> graphic c"
  by (auto simp: lower_alnum_def digit_def graphic_def)

lemma tableRefRE_TrimSpace: "tableRefRE s \<Longrightarrow> TrimSpace s = s"
  by (auto simp: tableRefRE_def intro!: TrimSpace_graphic lower_alnum_graphic)

lemma ValidateTableRef_iff:
  "ValidateTableRef name = Inr () \<longleftrightarrow>
     tableRefRE (TrimSpace name) \<and> length (TrimSpace name) \<le> 253"
  by (auto simp: ValidateTableRef_def Let_def tableRefRE_def)

lemma NormalizeQueryRequest_iff:
  "NormalizeQueryRequest req = Inr req' \<longleftrightarrow>
     TrimSpace (qrActionVersion req) = ActionVersionV1 \<and>
     tableRefRE (TrimSpace (qrTableRef req)) \<and> length (TrimSpace (qrTableRef req)) \<le> 253 \<and>
     (\<exists>limit'. NormalizeQueryControls (qrColumns req) (qrLimit req) = Inr (qrColumns req, limit') \<and>
        req' = req\<lparr>qrTableRef := TrimSpace (qrTableRef req), qrLimit := limit'\<rparr>)"
proof -
  have c: "NormalizeQueryControls (qrColumns req) (qrLimit req) = Inr (cs, l) \<Longrightarrow> cs = qrColumns req"
    for cs l by (simp add: NormalizeQueryControls_spec)
  have v: "ValidateTableRef (TrimSpace (qrTableRef req)) = Inr u \<longleftrightarrow>
      tableRefRE (TrimSpace (qrTableRef req)) \<and> length (TrimSpace (qrTableRef req)) \<le> 253" for u
    using ValidateTableRef_iff [of "TrimSpace (qrTableRef req)"] by simp
  have w: "ValidateTableRef (TrimSpace (qrTableRef req)) = Inl e \<Longrightarrow>
      \<not> (tableRefRE (TrimSpace (qrTableRef req)) \<and> length (TrimSpace (qrTableRef req)) \<le> 253)" for e
    using v by (metis sum.distinct(1))
  show ?thesis
    using c by (auto simp: NormalizeQueryRequest_def ValidateActionVersion_def Let_def v
        dest: w split: sum.splits)
qed

text \<open>
  A normalised request is a fixed point: the executor, which normalises again what the
  HTTP or MCP entry point already normalised, sees the same request.
\<close>

theorem NormalizeQueryRequest_idem:
  "NormalizeQueryRequest req = Inr req' \<Longrightarrow> NormalizeQueryRequest req' = Inr req'"
  by (auto simp: NormalizeQueryRequest_iff NormalizeQueryControls_spec)

definition example_request :: QueryTableRequest where
  "example_request =
     \<lparr>qrActionVersion = ''v1'', qrTableRef = '' orders '', qrColumns = [], qrLimit = 0\<rparr>"

theorem NormalizeQueryRequest_idem_witness:
  "NormalizeQueryRequest (example_request\<lparr>qrTableRef := ''orders'', qrLimit := 100\<rparr>) =
     Inr (example_request\<lparr>qrTableRef := ''orders'', qrLimit := 100\<rparr>)"
  by (rule NormalizeQueryRequest_idem [of example_request])
    (simp add: NormalizeQueryRequest_iff NormalizeQueryControls_spec example_request_def
      query_consts TrimSpace_def space_encodings_def strip_any.simps char_of_eval tableRefRE_def
      lower_alnum_def digit_def)

lemma ident_ascii_ok:
  "identifierRE v \<Longrightarrow> length v \<le> 255 \<Longrightarrow> identifier_ok v"
  using identifierRE_ascii [of v] identifierRE_no_control [of v]
  by (cases v) (simp_all add: identifier_ok_def rune_count_ascii valid_utf8_ascii query_consts identifierRE_def)

lemma identifierRE_blank: "identifierRE v \<Longrightarrow> \<not> blank v"
proof -
  assume r: "identifierRE v"
  then have "list_all graphic v"
    by (cases v) (auto simp: identifierRE_def letter_or_underscore_def digit_def graphic_def list_all_iff)
  with r show ?thesis by (cases v) (auto simp: blank_def TrimSpace_all_graphic identifierRE_def)
qed

lemma quoteIdent_plain: "identifierRE v \<Longrightarrow> length v \<le> 255 \<Longrightarrow> quoteIdent v = Inr ([backquote] @ v @ [backquote])"
  by (simp add: quoteIdent_eq ident_ascii_ok length_ReplaceAll_id identifierRE_no_backquote)

lemmas identifierRE_eval = identifierRE_def letter_or_underscore_def digit_def

subsection \<open>Reading statements back\<close>

text \<open>
  A reference reader for the statement shape the provider builds: back-quoted identifiers, in
  which a doubled back quote stands for one, in
  \<^verbatim>\<open>SELECT id, ... FROM id.id.id LIMIT n\<close>. \<open>read_select\<close> accepts nothing but one such statement.
\<close>

fun read_quoted :: "string \<Rightarrow> (string \<times> string) option" where
  "read_quoted [] = None"
| "read_quoted (c # cs) =
     (if c = backquote
      then (case cs of
              [] \<Rightarrow> Some ([], [])
            | d # ds \<Rightarrow>
                if d = backquote then map_option (apfst (Cons backquote)) (read_quoted ds)
                else Some ([], cs))
      else map_option (apfst (Cons c)) (read_quoted cs))"

definition read_ident :: "string \<Rightarrow> (string \<times> string) option" where
  "read_ident s = (case s of [] \<Rightarrow> None | c # cs \<Rightarrow> if c = backquote then read_quoted cs else None)"

definition read_token :: "string \<Rightarrow> string \<Rightarrow> string option" where
  "read_token p s = (if prefix p s then Some (drop (length p) s) else None)"

function read_idents :: "string \<Rightarrow> (string list \<times> string) option" where
  "read_idents s =
     (case read_ident s of
        None \<Rightarrow> None
      | Some (v, rest) \<Rightarrow>
          (case read_token '', '' rest of
             None \<Rightarrow> Some ([v], rest)
           | Some rest' \<Rightarrow>
               if length rest' < length s then map_option (apfst (Cons v)) (read_idents rest')
               else None))"
  by pat_completeness auto
termination
  by (relation "measure length") auto

declare read_idents.simps [simp del]

definition read_table :: "string \<Rightarrow> (TableRef \<times> string) option" where
  "read_table s =
     Option.bind (read_ident s) (\<lambda>(catalog, s).
     Option.bind (read_token ''.'' s) (\<lambda>s.
     Option.bind (read_ident s) (\<lambda>(schema, s).
     Option.bind (read_token ''.'' s) (\<lambda>s.
     Option.bind (read_ident s) (\<lambda>(table, s).
     Some (\<lparr>trCatalog = catalog, trSchema = schema, trTable = table\<rparr>, s))))))"

definition read_select :: "string \<Rightarrow> (string list \<times> TableRef \<times> nat) option" where
  "read_select s =
     Option.bind (read_token ''SELECT '' s) (\<lambda>s.
     Option.bind (case read_token ''*'' s of Some s' \<Rightarrow> Some ([], s') | None \<Rightarrow> read_idents s)
       (\<lambda>(projection, s).
     Option.bind (read_token '' FROM '' s) (\<lambda>s.
     Option.bind (read_table s) (\<lambda>(ref, s).
     Option.bind (read_token '' LIMIT '' s) (\<lambda>s.
     Option.bind (if s = [] then None else read_nat 0 s) (\<lambda>n.
     Some (projection, ref, n)))))))"

lemma read_token_append [simp]: "read_token p (p @ s) = Some s"
  by (simp add: read_token_def)

lemma read_quoted_replace:
  "(case rest of [] \<Rightarrow> True | c # _ \<Rightarrow> c \<noteq> backquote) \<Longrightarrow>
     read_quoted (ReplaceAll v backquote [backquote, backquote] @ backquote # rest) = Some (v, rest)"
  by (induction v) (auto split: list.splits)

lemma read_ident_quoteIdent:
  "quoteIdent v = Inr q \<Longrightarrow> (case rest of [] \<Rightarrow> True | c # _ \<Rightarrow> c \<noteq> backquote) \<Longrightarrow>
     read_ident (q @ rest) = Some (v, rest)"
  by (auto simp: quoteIdent_eq read_ident_def read_quoted_replace split: if_splits)

lemma quoteIdent_head: "quoteIdent v = Inr q \<Longrightarrow> \<exists>w. q = backquote # w"
  by (auto simp: quoteIdent_eq split: if_splits)

lemma backquote_neq [simp]:
  "CHR ''.'' \<noteq> backquote" "CHR '' '' \<noteq> backquote" "CHR '','' \<noteq> backquote" "CHR ''*'' \<noteq> backquote"
  "backquote \<noteq> CHR ''*''"
  by (simp_all add: backquote_def)

lemma read_table_qualified:
  assumes "qualifiedTable ref = Inr frm" "case rest of [] \<Rightarrow> True | c # _ \<Rightarrow> c \<noteq> backquote"
  shows "read_table (frm @ rest) = Some (ref, rest)"
proof -
  obtain c s t where q: "quoteIdent (trCatalog ref) = Inr c" "quoteIdent (trSchema ref) = Inr s"
      "quoteIdent (trTable ref) = Inr t" and f: "frm = c @ ''.'' @ s @ ''.'' @ t"
    using assms(1) by (auto simp: qualifiedTable_def split: sum.splits)
  show ?thesis
    using read_ident_quoteIdent [OF q(1), of "''.'' @ s @ ''.'' @ t @ rest"]
      read_ident_quoteIdent [OF q(2), of "''.'' @ t @ rest"]
      read_ident_quoteIdent [OF q(3) assms(2)]
    by (simp add: read_table_def f read_token_def)
qed

lemma selectParts_spec:
  "selectParts allowed i seen cs = Inr parts \<Longrightarrow>
     list_all2 (\<lambda>c q. quoteIdent c = Inr q) cs parts \<and> distinct cs \<and> set cs \<inter> set seen = {} \<and>
     (allowed \<noteq> [] \<longrightarrow> set cs \<subseteq> set allowed)"
  by (induction allowed i seen cs arbitrary: parts rule: selectParts.induct)
    (fastforce split: sum.splits if_splits)+

lemma read_idents_parts:
  assumes "list_all2 (\<lambda>c q. quoteIdent c = Inr q) cs parts" "cs \<noteq> []"
  shows "read_idents (join '', '' parts @ '' FROM '' @ rest) = Some (cs, '' FROM '' @ rest)"
  using assms
proof (induction cs parts rule: list_all2_induct)
  case (Cons c cs q parts)
  show ?case
  proof (cases parts)
    case Nil
    with Cons have "cs = []" by simp
    with Nil Cons show ?thesis
      using read_ident_quoteIdent [OF Cons.hyps(1), of "'' FROM '' @ rest"]
      by (simp add: read_idents.simps [of "q @ _"] read_token_def)
  next
    case (Cons p ps)
    let ?t = "join '', '' parts @ '' FROM '' @ rest"
    have ne: "cs \<noteq> []" using Cons.hyps(2) \<open>parts = p # ps\<close> by auto
    have "read_ident (q @ '', '' @ ?t) = Some (c, '', '' @ ?t)"
      by (rule read_ident_quoteIdent [OF Cons.hyps(1)]) simp
    moreover have "read_idents ?t = Some (cs, '' FROM '' @ rest)"
      by (rule Cons.IH [OF ne])
    moreover have "length ?t < length (q @ '', '' @ ?t)" by simp
    ultimately have "read_idents (q @ '', '' @ ?t) = Some (c # cs, '' FROM '' @ rest)"
      by (simp only: read_idents.simps [of "q @ '', '' @ ?t"] option.case prod.case
          read_token_append if_True) simp
    then show ?thesis using \<open>parts = p # ps\<close> by simp
  qed
qed simp


lemma qualifiedTable_iff:
  "(\<exists>frm. qualifiedTable ref = Inr frm) \<longleftrightarrow>
     identifier_ok (trCatalog ref) \<and> identifier_ok (trSchema ref) \<and> identifier_ok (trTable ref)"
  by (simp add: qualifiedTable_def quoteIdent_eq)

lemma read_idents_not_star:
  assumes "list_all2 (\<lambda>c q. quoteIdent c = Inr q) cs parts" "cs \<noteq> []"
  shows "read_token ''*'' (join '', '' parts @ s) = None"
proof -
  obtain c q ps where "parts = q # ps" "quoteIdent c = Inr q"
    using assms by (cases cs; cases parts) auto
  moreover obtain w where "q = backquote # w" using quoteIdent_head calculation(2) by blast
  moreover obtain t where "join '', '' (q # ps) = q @ t" using join_starts by blast
  ultimately show ?thesis by (simp add: read_token_def)
qed

lemma read_select_probe:
  "TableSchemaProbeSQL ref = Inr sql \<Longrightarrow> read_select sql = Some ([], ref, 0)"
  using read_table_qualified [of ref _ "'' LIMIT 0''"]
  by (auto simp: TableSchemaProbeSQL_def read_select_def read_token_def split: sum.splits)

lemma read_select_built:
  assumes "read_table (frm @ '' LIMIT '' @ show_nat n) = Some (ref, '' LIMIT '' @ show_nat n)"
    and "(case read_token ''*'' (l @ '' FROM '' @ r) of Some s' \<Rightarrow> Some ([], s')
          | None \<Rightarrow> read_idents (l @ '' FROM '' @ r)) = Some (projection, '' FROM '' @ r)"
    and "r = frm @ '' LIMIT '' @ show_nat n"
  shows "read_select (''SELECT '' @ l @ '' FROM '' @ r) = Some (projection, ref, n)"
  unfolding read_select_def read_token_append bind.bind_lunit assms(2) prod.case
  using assms(1,3) by (simp only: read_token_append bind.bind_lunit prod.case show_nat_nonempty
      if_False read_show_nat)

lemma SelectTableSQL_InrD:
  assumes "SelectTableSQL ref projection limit allowedColumns = Inr sql"
  obtains frm l n where
    "n = nat (if limit = 0 then 100 else limit)" "1 \<le> n" "n \<le> 100" "length projection \<le> 64"
    "qualifiedTable ref = Inr frm" "sql = ''SELECT '' @ l @ '' FROM '' @ frm @ '' LIMIT '' @ show_nat n"
    "projection = [] \<and> l = ''*'' \<or>
     projection \<noteq> [] \<and> (\<exists>parts. selectParts (filter (\<lambda>c. \<not> blank c) allowedColumns) 0 [] projection = Inr parts \<and>
       l = join '', '' parts)"
  using assms
  by (auto simp: SelectTableSQL_def Let_def query_consts show_int_def split: sum.splits if_splits)

definition example_ref :: TableRef where
  "example_ref = \<lparr>trCatalog = ''sales'', trSchema = ''gold'', trTable = ''order_history''\<rparr>"

lemma example_select:
  "SelectTableSQL example_ref [''order_id''] 5 [''order_id'', ''total_amount''] =
     Inr (''SELECT '' @ [backquote] @ ''order_id'' @ [backquote] @ '' FROM '' @
       [backquote] @ ''sales'' @ [backquote] @ ''.'' @ [backquote] @ ''gold'' @ [backquote] @ ''.'' @
       [backquote] @ ''order_history'' @ [backquote] @ '' LIMIT 5'')"
  by (simp add: SelectTableSQL_def example_ref_def qualifiedTable_def quoteIdent_plain
      identifierRE_eval identifierRE_blank query_consts show_int_def show_nat.simps char_of_eval)

text \<open>
  C13. No injection: whatever names the table, the columns and the cached schema have, a
  statement the builder returns reads back as exactly one SELECT of the requested columns from
  the resolved table with the requested limit, or the default one, which is between 1 and 100.
  Distinct targets therefore give distinct statements.
\<close>

theorem SelectTableSQL_roundtrip:
  assumes "SelectTableSQL ref projection limit allowedColumns = Inr sql"
  shows "1 \<le> (if limit = 0 then 100 else limit) \<and> (if limit = 0 then 100 else limit) \<le> 100 \<and>
    read_select sql = Some (projection, ref, nat (if limit = 0 then 100 else limit))"
proof -
  obtain frm l n where n: "n = nat (if limit = 0 then 100 else limit)" "1 \<le> n" "n \<le> 100"
    and q: "qualifiedTable ref = Inr frm"
    and s: "sql = ''SELECT '' @ l @ '' FROM '' @ frm @ '' LIMIT '' @ show_nat n"
    and l: "projection = [] \<and> l = ''*'' \<or>
     projection \<noteq> [] \<and> (\<exists>parts. selectParts (filter (\<lambda>c. \<not> blank c) allowedColumns) 0 [] projection = Inr parts \<and>
       l = join '', '' parts)"
    using assms by (rule SelectTableSQL_InrD)
  let ?r = "frm @ '' LIMIT '' @ show_nat n"
  have "(case read_token ''*'' (l @ '' FROM '' @ ?r) of Some s' \<Rightarrow> Some ([], s')
      | None \<Rightarrow> read_idents (l @ '' FROM '' @ ?r)) = Some (projection, '' FROM '' @ ?r)"
    using l
  proof (elim disjE conjE exE)
    assume "projection = []" "l = ''*''"
    then show ?thesis by (simp add: read_token_def)
  next
    fix parts
    assume ne: "projection \<noteq> []" and l: "l = join '', '' parts"
      and sp: "selectParts (filter (\<lambda>c. \<not> blank c) allowedColumns) 0 [] projection = Inr parts"
    from selectParts_spec [OF sp] have p: "list_all2 (\<lambda>c q. quoteIdent c = Inr q) projection parts"
      by simp
    show ?thesis
      unfolding l read_idents_not_star [OF p ne] read_idents_parts [OF p ne] by simp
  qed
  moreover have "read_table ?r = Some (ref, '' LIMIT '' @ show_nat n)"
    by (rule read_table_qualified [OF q]) simp
  ultimately have "read_select sql = Some (projection, ref, n)"
    unfolding s using read_select_built by blast
  moreover have "1 \<le> (if limit = 0 then 100 else limit) \<and> (if limit = 0 then 100 else limit) \<le> 100"
    using n by linarith
  ultimately show ?thesis using n(1) by simp
qed

theorem SelectTableSQL_roundtrip_witness:
  "\<exists>sql. SelectTableSQL example_ref [''order_id''] 5 [''order_id'', ''total_amount''] = Inr sql \<and>
     sql = ''SELECT '' @ [backquote] @ ''order_id'' @ [backquote] @ '' FROM '' @
       [backquote] @ ''sales'' @ [backquote] @ ''.'' @ [backquote] @ ''gold'' @ [backquote] @ ''.'' @
       [backquote] @ ''order_history'' @ [backquote] @ '' LIMIT 5'' \<and>
     read_select sql = Some ([''order_id''], example_ref, 5)"
  using SelectTableSQL_roundtrip [OF example_select] example_select by simp

lemma selectParts_ok:
  "list_all identifier_ok cs \<Longrightarrow> distinct cs \<Longrightarrow> set cs \<inter> set seen = {} \<Longrightarrow>
     (allowed \<noteq> [] \<longrightarrow> set cs \<subseteq> set allowed) \<Longrightarrow> \<exists>parts. selectParts allowed i seen cs = Inr parts"
  by (induction allowed i seen cs rule: selectParts.induct)
    (auto simp: quoteIdent_eq split: sum.splits)

lemma selectParts_iff:
  "(\<exists>parts. selectParts allowed i seen cs = Inr parts) \<longleftrightarrow>
     list_all identifier_ok cs \<and> distinct cs \<and> set cs \<inter> set seen = {} \<and>
     (allowed \<noteq> [] \<longrightarrow> set cs \<subseteq> set allowed)"
proof
  assume "\<exists>parts. selectParts allowed i seen cs = Inr parts"
  then obtain parts where sp: "selectParts allowed i seen cs = Inr parts" by blast
  from selectParts_spec [OF sp] have "list_all2 (\<lambda>c q. quoteIdent c = Inr q) cs parts" by simp
  then have "list_all identifier_ok cs"
    by (induction rule: list_all2_induct) (auto simp: quoteIdent_eq split: if_splits)
  with selectParts_spec [OF sp] show "list_all identifier_ok cs \<and> distinct cs \<and> set cs \<inter> set seen = {} \<and>
     (allowed \<noteq> [] \<longrightarrow> set cs \<subseteq> set allowed)" by simp
qed (blast intro: selectParts_ok)

text \<open>
  The builder accepts exactly the bounded requests over well-formed names: limit 1 to 100
  (0 meaning 100), at most 64 distinct identifiers, each in the cached schema when there is one.
\<close>

theorem SelectTableSQL_accepts_iff:
  "(\<exists>sql. SelectTableSQL ref projection limit allowedColumns = Inr sql) \<longleftrightarrow>
     0 \<le> limit \<and> limit \<le> 100 \<and> length projection \<le> 64 \<and>
     identifier_ok (trCatalog ref) \<and> identifier_ok (trSchema ref) \<and> identifier_ok (trTable ref) \<and>
     list_all identifier_ok projection \<and> distinct projection \<and>
     (filter (\<lambda>c. \<not> blank c) allowedColumns = [] \<or> set projection \<subseteq> set (filter (\<lambda>c. \<not> blank c) allowedColumns))"
proof -
  let ?a = "filter (\<lambda>c. \<not> blank c) allowedColumns"
  have "(\<exists>sql. SelectTableSQL ref projection limit allowedColumns = Inr sql) \<longleftrightarrow>
      0 \<le> limit \<and> limit \<le> 100 \<and> length projection \<le> 64 \<and> (\<exists>frm. qualifiedTable ref = Inr frm) \<and>
      (projection = [] \<or> (\<exists>parts. selectParts ?a 0 [] projection = Inr parts))"
    by (auto simp: SelectTableSQL_def Let_def query_consts sum_bind_Inr)
  also have "\<dots> \<longleftrightarrow> 0 \<le> limit \<and> limit \<le> 100 \<and> length projection \<le> 64 \<and>
      identifier_ok (trCatalog ref) \<and> identifier_ok (trSchema ref) \<and> identifier_ok (trTable ref) \<and>
      (projection = [] \<or> list_all identifier_ok projection \<and> distinct projection \<and>
        (?a \<noteq> [] \<longrightarrow> set projection \<subseteq> set ?a))"
    by (simp only: qualifiedTable_iff selectParts_iff) auto
  finally show ?thesis by auto
qed


lemma selectParts_schema_error:
  "list_all identifier_ok cs \<Longrightarrow> distinct cs \<Longrightarrow> set cs \<inter> set seen = {} \<Longrightarrow> allowed \<noteq> [] \<Longrightarrow>
     \<not> set cs \<subseteq> set allowed \<Longrightarrow>
     \<exists>c \<in> set cs. c \<notin> set allowed \<and>
       selectParts allowed i seen cs = Inl (ValidationError ErrorCodeSchemaProjectionInvalid
         (''requested column '' @ quoted c @ '' is not present in the imported table schema''))"
proof (induction allowed i seen cs rule: selectParts.induct)
  case (2 allowed i seen column rest)
  show ?case
  proof (cases "column \<in> set allowed")
    case False
    with 2 show ?thesis by (auto simp: quoteIdent_eq)
  next
    case True
    then have "\<exists>c \<in> set rest. c \<notin> set allowed \<and>
       selectParts allowed (Suc i) (column # seen) rest = Inl (ValidationError ErrorCodeSchemaProjectionInvalid
         (''requested column '' @ quoted c @ '' is not present in the imported table schema''))"
      using 2 by (auto simp: quoteIdent_eq)
    with True 2 show ?thesis by (auto simp: quoteIdent_eq)
  qed
qed simp

text \<open>
  A bounded, well-formed request for a column that the cached schema lacks fails with the
  typed \<^verbatim>\<open>schema_projection_invalid\<close> error, which names such a column and nothing else.
\<close>

theorem SelectTableSQL_schema_error:
  assumes "0 \<le> limit" "limit \<le> 100" "length projection \<le> 64"
    and "identifier_ok (trCatalog ref)" "identifier_ok (trSchema ref)" "identifier_ok (trTable ref)"
    and "list_all identifier_ok projection" "distinct projection"
    and "filter (\<lambda>c. \<not> blank c) allowedColumns \<noteq> []"
    and "\<not> set projection \<subseteq> set (filter (\<lambda>c. \<not> blank c) allowedColumns)"
  shows "\<exists>c \<in> set projection. c \<notin> set (filter (\<lambda>c. \<not> blank c) allowedColumns) \<and>
    SelectTableSQL ref projection limit allowedColumns =
      Inl (ValidationError ''schema_projection_invalid''
        (''requested column '' @ quoted c @ '' is not present in the imported table schema''))"
proof -
  obtain frm where "qualifiedTable ref = Inr frm" using assms(4-6) qualifiedTable_iff by blast
  moreover have "projection \<noteq> []" using assms(10) by auto
  moreover note selectParts_schema_error [OF assms(7,8) _ assms(9,10), of "[]" 0]
  ultimately show ?thesis
    using assms(1-3) by (auto simp: SelectTableSQL_def Let_def query_consts
        ErrorCodeSchemaProjectionInvalid_def)
qed

theorem SelectTableSQL_schema_error_witness:
  "SelectTableSQL example_ref [''ghost''] 5 [''order_id''] =
     Inl (ValidationError ''schema_projection_invalid''
       (''requested column '' @ quoted ''ghost'' @ '' is not present in the imported table schema''))"
  using SelectTableSQL_schema_error [of 5 "[''ghost'']" example_ref "[''order_id'']"]
  by (simp add: example_ref_def ident_ascii_ok identifierRE_eval identifierRE_blank)

end
