(* ===== verification/Go_Net.thy ===== *)
theory Go_Net
  imports Errors
begin

text \<open>
  The parts of \<^verbatim>\<open>net\<close>, \<^verbatim>\<open>net/netip\<close>, \<^verbatim>\<open>net/url\<close> and \<^verbatim>\<open>net/http\<close> the provider builds on: textual IP
  addresses, the URL record with its accessors and its printer, percent-encoding, query strings,
  and requests and responses as values. Parsing a URL is left to the caller as a function
  argument: the grammar the standard library accepts differs between toolchain releases, and
  what the provider needs of it is stated where it is needed.
\<close>

subsection \<open>IP addresses\<close>

definition dec_digit :: "char \<Rightarrow> bool" where
  "dec_digit c \<longleftrightarrow> 48 \<le> byte c \<and> byte c \<le> 57"

definition parse_octet :: "string \<Rightarrow> nat option" where
  "parse_octet s =
     (if s = [] \<or> \<not> list_all dec_digit s \<or> (1 < length s \<and> hd s = CHR ''0'') then None
      else (case read_nat 0 s of Some n \<Rightarrow> if n \<le> 255 then Some n else None | None \<Rightarrow> None))"

definition parseIPv4Fields :: "string \<Rightarrow> nat list option" where
  "parseIPv4Fields s =
     (case map parse_octet (split_on CHR ''.'' s) of
        [Some a, Some b, Some c, Some d] \<Rightarrow> Some [a, b, c, d]
      | _ \<Rightarrow> None)"

definition hex_value :: "char \<Rightarrow> nat option" where
  "hex_value c =
     (let b = byte c in
      if 48 \<le> b \<and> b \<le> 57 then Some (b - 48)
      else if 97 \<le> b \<and> b \<le> 102 then Some (b - 87)
      else if 65 \<le> b \<and> b \<le> 70 then Some (b - 55)
      else None)"

definition is_hex_digit :: "char \<Rightarrow> bool" where
  "is_hex_digit c \<longleftrightarrow> hex_value c \<noteq> None"

definition read_hex :: "string \<Rightarrow> nat" where
  "read_hex s = foldl (\<lambda>acc c. 16 * acc + (case hex_value c of Some v \<Rightarrow> v | None \<Rightarrow> 0)) 0 s"

text \<open>
  The loop of \<^verbatim>\<open>netip.parseIPv6\<close>: groups of one to four hex digits; \<open>ip\<close> holds the bytes read so
  far and \<open>ell\<close> the position of the ellipsis. The result is the bytes, the ellipsis and the text
  left over.
\<close>

function v6_groups ::
  "nat list \<Rightarrow> nat option \<Rightarrow> string \<Rightarrow> (nat list \<times> nat option \<times> string) option" where
  "v6_groups ip ell s =
     (if 16 \<le> length ip then Some (ip, ell, s)
      else
        (let g = takeWhile is_hex_digit s; rest = dropWhile is_hex_digit s in
         if g = [] \<or> 4 < length g then None
         else if rest \<noteq> [] \<and> hd rest = CHR ''.'' then
           (if (ell = None \<and> length ip \<noteq> 12) \<or> 16 < length ip + 4 then None
            else (case parseIPv4Fields s of
                    None \<Rightarrow> None
                  | Some bs \<Rightarrow> Some (ip @ bs, ell, [])))
         else
           (let ip' = ip @ [read_hex g div 256, read_hex g mod 256] in
            case rest of
              [] \<Rightarrow> Some (ip', ell, [])
            | [c] \<Rightarrow> None
            | c # d # ds \<Rightarrow>
                if c \<noteq> CHR '':'' then None
                else if d = CHR '':'' then
                  (if ell \<noteq> None then None
                   else if ds = [] then Some (ip', Some (length ip'), [])
                   else v6_groups ip' (Some (length ip')) ds)
                else v6_groups ip' ell (d # ds))))"
  by pat_completeness auto
termination
  by (relation "measure (\<lambda>(ip, _, _). 16 - length ip)") auto

declare v6_groups.simps [simp del]

definition v6_expand :: "nat list \<times> nat option \<times> string \<Rightarrow> nat list option" where
  "v6_expand x =
     (case x of (ip, ell, rest) \<Rightarrow>
        if rest \<noteq> [] then None
        else if length ip < 16 then
          (case ell of
             None \<Rightarrow> None
           | Some e \<Rightarrow> Some (take e ip @ replicate (16 - length ip) 0 @ drop e ip))
        else if ell \<noteq> None then None
        else Some ip)"

text \<open>\<^verbatim>\<open>net.ParseIP\<close> rejects addresses with a zone, so a percent sign is never part of one.\<close>

definition parseIPv6 :: "string \<Rightarrow> nat list option" where
  "parseIPv6 s =
     (if CHR ''%'' \<in> set s then None
      else
        (case s of
           c # d # ds \<Rightarrow>
             if c = CHR '':'' \<and> d = CHR '':'' then
               (if ds = [] then Some (replicate 16 0)
                else Option.bind (v6_groups [] (Some 0) ds) v6_expand)
             else Option.bind (v6_groups [] None s) v6_expand
         | _ \<Rightarrow> Option.bind (v6_groups [] None s) v6_expand))"

definition ParseIP :: "string \<Rightarrow> nat list option" where
  "ParseIP s =
     (case find (\<lambda>c. c \<in> set ''.:%'') s of
        Some c \<Rightarrow>
          if c = CHR ''.'' then
            (case parseIPv4Fields s of
               Some bs \<Rightarrow> Some (replicate 10 0 @ [255, 255] @ bs)
             | None \<Rightarrow> None)
          else if c = CHR '':'' then parseIPv6 s
          else None
      | None \<Rightarrow> None)"

definition IsLoopback :: "nat list \<Rightarrow> bool" where
  "IsLoopback ip =
     (if take 12 ip = replicate 10 0 @ [255, 255] then ip ! 12 = 127
      else ip = replicate 15 0 @ [1])"

lemma ParseIP_chars:
  assumes "ParseIP s \<noteq> None"
  shows "CHR ''.'' \<in> set s \<or> CHR '':'' \<in> set s"
  using assms
  by (auto simp: ParseIP_def find_Some_iff split: option.splits if_splits) (metis nth_mem)+

subsection \<open>Percent-encoding\<close>

datatype url_mode = encodePath | encodePathSegment | encodeHost | encodeQueryComponent | encodeFragment

definition alnum :: "char \<Rightarrow> bool" where
  "alnum c \<longleftrightarrow>
     (48 \<le> byte c \<and> byte c \<le> 57) \<or> (65 \<le> byte c \<and> byte c \<le> 90) \<or> (97 \<le> byte c \<and> byte c \<le> 122)"

definition shouldEscape :: "url_mode \<Rightarrow> char \<Rightarrow> bool" where
  "shouldEscape m c =
     (if alnum c then False
      else if m = encodeHost \<and> (c \<in> set ''!$&()*+,;=:[]<>'' \<or> byte c = 39 \<or> byte c = 34) then False
      else if c \<in> set ''-_.~'' then False
      else if c \<in> set ''$&+,/:;=?@'' then
        (case m of
           encodePath \<Rightarrow> c = CHR ''?''
         | encodePathSegment \<Rightarrow> c \<in> set ''/;,?''
         | encodeFragment \<Rightarrow> False
         | _ \<Rightarrow> True)
      else if m = encodeFragment \<and> c \<in> set ''!()*'' then False
      else True)"

definition hex_upper :: "nat \<Rightarrow> char" where
  "hex_upper d = char_of (if d < 10 then 48 + d else 55 + d)"

definition pct :: "char \<Rightarrow> string" where
  "pct c = CHR ''%'' # [hex_upper (byte c div 16), hex_upper (byte c mod 16)]"

definition escape :: "url_mode \<Rightarrow> string \<Rightarrow> string" where
  "escape m s =
     concat (map (\<lambda>c. if shouldEscape m c
                      then (if c = CHR '' '' \<and> m = encodeQueryComponent then ''+'' else pct c)
                      else [c]) s)"

fun unescape :: "url_mode \<Rightarrow> string \<Rightarrow> string option" where
  "unescape m [] = Some []"
| "unescape m (c # cs) =
     (if c = CHR ''%'' then
        (case cs of
           d # e # rest \<Rightarrow>
             (case (hex_value d, hex_value e) of
                (Some a, Some b) \<Rightarrow> map_option (Cons (char_of (16 * a + b))) (unescape m rest)
              | _ \<Rightarrow> None)
         | _ \<Rightarrow> None)
      else if c = CHR ''+'' \<and> m = encodeQueryComponent
      then map_option (Cons (CHR '' '')) (unescape m cs)
      else map_option (Cons c) (unescape m cs))"

definition PathEscape :: "string \<Rightarrow> string" where
  "PathEscape s = escape encodePathSegment s"

definition QueryEscape :: "string \<Rightarrow> string" where
  "QueryEscape s = escape encodeQueryComponent s"

lemma escape_simps [simp]:
  "escape m [] = []"
  "escape m (c # cs) =
     (if shouldEscape m c then (if c = CHR '' '' \<and> m = encodeQueryComponent then ''+'' else pct c)
      else [c]) @ escape m cs"
  by (simp_all add: escape_def)

lemma escape_append: "escape m (s @ t) = escape m s @ escape m t"
  by (simp add: escape_def)

lemma hex_upper_value: "d < 16 \<Longrightarrow> hex_value (hex_upper d) = Some d"
  by (auto simp: hex_value_def hex_upper_def Let_def)

lemma alnum_hex_upper: "d < 16 \<Longrightarrow> alnum (hex_upper d)"
  by (auto simp: alnum_def hex_upper_def)

lemma alnum_not_special: "alnum c \<Longrightarrow> c \<notin> set ''%+/?#@&=; :[].''"
  by (auto simp: alnum_def)

lemma byte_div_16 [simp]: "(of_char c :: nat) div 16 < 16"
  by (rule less_mult_imp_div_less) simp

lemma unescape_pct: "unescape m (pct c @ s) = map_option (Cons c) (unescape m s)"
  by (simp add: pct_def hex_upper_value)

lemma shouldEscape_percent [simp]: "shouldEscape m (CHR ''%'')"
  by (simp add: shouldEscape_def alnum_def)

lemma unescape_escape: "unescape m (escape m s) = Some s"
proof (induction s)
  case (Cons c cs)
  have "shouldEscape encodeQueryComponent (CHR ''+'')"
    by (simp add: shouldEscape_def alnum_def)
  then show ?case
    using Cons unescape_pct [of m c "escape m cs"] by (auto simp: shouldEscape_def alnum_def)
qed simp

text \<open>Characters that never occur in escaped text unless they stand for themselves.\<close>

lemma escape_chars:
  "c \<in> set (escape m s) \<Longrightarrow> \<not> shouldEscape m c \<or> c = CHR ''%'' \<or> c = CHR ''+'' \<or> alnum c"
proof (induction s)
  case (Cons d ds)
  then show ?case by (auto simp: pct_def alnum_hex_upper split: if_splits)
qed simp

lemma escape_host_delimiters:
  "c \<in> set ''/?#@'' \<Longrightarrow> c \<notin> set (escape encodeHost s)"
proof
  assume c: "c \<in> set ''/?#@''" and "c \<in> set (escape encodeHost s)"
  from escape_chars [OF this(2)] c show False by (auto simp: shouldEscape_def alnum_def)
qed

lemma escape_query_delimiters:
  "c \<in> set ''&=;#'' \<Longrightarrow> c \<notin> set (escape encodeQueryComponent s)"
proof
  assume c: "c \<in> set ''&=;#''" and "c \<in> set (escape encodeQueryComponent s)"
  from escape_chars [OF this(2)] c show False by (auto simp: shouldEscape_def alnum_def)
qed

lemma escape_segment_delimiters:
  "c \<in> set ''/?#'' \<Longrightarrow> c \<notin> set (escape encodePathSegment s)"
proof
  assume c: "c \<in> set ''/?#''" and "c \<in> set (escape encodePathSegment s)"
  from escape_chars [OF this(2)] c show False by (auto simp: shouldEscape_def alnum_def)
qed

lemma escape_path_delimiters:
  "c \<in> set ''?#'' \<Longrightarrow> c \<notin> set (escape encodePath s)"
proof
  assume c: "c \<in> set ''?#''" and "c \<in> set (escape encodePath s)"
  from escape_chars [OF this(2)] c show False by (auto simp: shouldEscape_def alnum_def)
qed

lemma escape_id: "list_all (\<lambda>c. \<not> shouldEscape m c) s \<Longrightarrow> escape m s = s"
  by (induction s) auto

lemma escape_nonempty [simp]: "escape m s = [] \<longleftrightarrow> s = []"
  by (cases s) (auto simp: pct_def)

subsection \<open>URLs\<close>

text \<open>
  \<^verbatim>\<open>url.URL\<close>. The user information is kept in its printed form; whether it is present is all
  the provider looks at.
\<close>

record URL =
  uScheme :: string
  uOpaque :: string
  uUser :: "string option"
  uHost :: string
  uPath :: string
  uRawPath :: string
  uOmitHost :: bool
  uForceQuery :: bool
  uRawQuery :: string
  uFragment :: string
  uRawFragment :: string

definition validOptionalPort :: "string \<Rightarrow> bool" where
  "validOptionalPort p =
     (case p of [] \<Rightarrow> True | c # cs \<Rightarrow> c = CHR '':'' \<and> list_all dec_digit cs)"

text \<open>\<open>cut_last c s\<close> splits \<open>s\<close> before the last occurrence of \<open>c\<close>.\<close>

definition cut_last :: "char \<Rightarrow> string \<Rightarrow> (string \<times> string) option" where
  "cut_last c s =
     (if c \<in> set s
      then Some (rev (tl (dropWhile (\<lambda>d. d \<noteq> c) (rev s))), c # rev (takeWhile (\<lambda>d. d \<noteq> c) (rev s)))
      else None)"

definition splitHostPort :: "string \<Rightarrow> string \<times> string" where
  "splitHostPort hostPort =
     (let (host, port) =
        (case cut_last CHR '':'' hostPort of
           Some (h, p) \<Rightarrow> if validOptionalPort p then (h, tl p) else (hostPort, [])
         | None \<Rightarrow> (hostPort, []))
      in if HasPrefix host ''['' \<and> HasSuffix host '']'' then (butlast (tl host), port)
         else (host, port))"

definition Hostname :: "URL \<Rightarrow> string" where
  "Hostname u = fst (splitHostPort (uHost u))"

definition Port :: "URL \<Rightarrow> string" where
  "Port u = snd (splitHostPort (uHost u))"

definition JoinHostPort :: "string \<Rightarrow> string \<Rightarrow> string" where
  "JoinHostPort host port =
     (if CHR '':'' \<in> set host then ''['' @ host @ '']:'' @ port else host @ '':'' @ port)"

definition validEncoded :: "url_mode \<Rightarrow> string \<Rightarrow> bool" where
  "validEncoded m s =
     list_all (\<lambda>c. c \<in> set ''!$&()*+,;=:@[]%'' \<or> byte c = 39 \<or> \<not> shouldEscape m c) s"

definition escaped_or_raw :: "url_mode \<Rightarrow> string \<Rightarrow> string \<Rightarrow> string" where
  "escaped_or_raw m raw plain =
     (if raw \<noteq> [] \<and> validEncoded m raw \<and> unescape m raw = Some plain then raw
      else escape m plain)"

definition EscapedPath :: "URL \<Rightarrow> string" where
  "EscapedPath u =
     (if uRawPath u \<noteq> [] \<and> validEncoded encodePath (uRawPath u) \<and>
         unescape encodePath (uRawPath u) = Some (uPath u) then uRawPath u
      else if uPath u = ''*'' then ''*''
      else escape encodePath (uPath u))"

definition EscapedFragment :: "URL \<Rightarrow> string" where
  "EscapedFragment u = escaped_or_raw encodeFragment (uRawFragment u) (uFragment u)"

definition url_head :: "URL \<Rightarrow> string" where
  "url_head u =
     (if uScheme u \<noteq> [] then uScheme u @ '':'' else []) @
     (if uScheme u = [] \<and> uHost u = [] \<and> uUser u = None then []
      else if uOmitHost u \<and> uHost u = [] \<and> uUser u = None then []
      else
        (if uHost u \<noteq> [] \<or> uPath u \<noteq> [] \<or> uUser u \<noteq> None then ''//'' else []) @
        (case uUser u of Some ui \<Rightarrow> ui @ ''@'' | None \<Rightarrow> []) @
        escape encodeHost (uHost u))"

definition url_String :: "URL \<Rightarrow> string" where
  "url_String u =
     (if uOpaque u \<noteq> []
      then (if uScheme u \<noteq> [] then uScheme u @ '':'' else []) @ uOpaque u
      else
        (let head = url_head u; path = EscapedPath u;
             slash = (if path \<noteq> [] \<and> hd path \<noteq> CHR ''/'' \<and> uHost u \<noteq> [] then ''/'' else []) in
         head @ slash @
         (if head @ slash = [] \<and> CHR '':'' \<in> set (takeWhile (\<lambda>c. c \<noteq> CHR ''/'') path)
          then ''./'' else []) @ path)) @
     (if uForceQuery u \<or> uRawQuery u \<noteq> [] then ''?'' @ uRawQuery u else []) @
     (if uFragment u \<noteq> [] then ''#'' @ EscapedFragment u else [])"

subsection \<open>Query strings\<close>

text \<open>\<^verbatim>\<open>url.Values\<close>: each key with its values, keys distinct.\<close>

type_synonym url_values = "(string \<times> string list) list"

definition values_Del :: "string \<Rightarrow> url_values \<Rightarrow> url_values" where
  "values_Del k q = filter (\<lambda>(k', _). k' \<noteq> k) q"

definition values_Set :: "string \<Rightarrow> string \<Rightarrow> url_values \<Rightarrow> url_values" where
  "values_Set k v q = values_Del k q @ [(k, [v])]"

definition values_Add :: "string \<Rightarrow> string \<Rightarrow> url_values \<Rightarrow> url_values" where
  "values_Add k v q =
     (case map_of q k of
        None \<Rightarrow> q @ [(k, [v])]
      | Some _ \<Rightarrow> map (\<lambda>(k', vs). if k' = k then (k', vs @ [v]) else (k', vs)) q)"

definition query_pair :: "string \<Rightarrow> string \<Rightarrow> string" where
  "query_pair k v = QueryEscape k @ ''='' @ QueryEscape v"

definition values_Encode :: "url_values \<Rightarrow> string" where
  "values_Encode q =
     join ''&'' (concat (map (\<lambda>(k, vs). map (query_pair k) vs) (sort_key fst q)))"

definition cut :: "char \<Rightarrow> string \<Rightarrow> string \<times> string" where
  "cut c s = (takeWhile (\<lambda>d. d \<noteq> c) s, drop 1 (dropWhile (\<lambda>d. d \<noteq> c) s))"

definition parse_pair :: "string \<Rightarrow> (string \<times> string) option" where
  "parse_pair kv =
     (if CHR '';'' \<in> set kv \<or> kv = [] then None
      else (case cut CHR ''='' kv of (k, v) \<Rightarrow>
        (case (unescape encodeQueryComponent k, unescape encodeQueryComponent v) of
           (Some k', Some v') \<Rightarrow> Some (k', v')
         | _ \<Rightarrow> None)))"

definition ParseQuery :: "string \<Rightarrow> url_values" where
  "ParseQuery s =
     foldl (\<lambda>q kv. case parse_pair kv of Some (k, v) \<Rightarrow> values_Add k v q | None \<Rightarrow> q) []
       (split_on CHR ''&'' s)"

lemma cut_pair: "c \<notin> set k \<Longrightarrow> cut c (k @ c # v) = (k, v)"
  by (simp add: cut_def takeWhile_append dropWhile_append)

lemma parse_query_pair: "parse_pair (query_pair k v) = Some (k, v)"
proof -
  have "CHR '';'' \<notin> set (query_pair k v)" "CHR ''='' \<notin> set (QueryEscape k)"
    using escape_query_delimiters by (auto simp: query_pair_def QueryEscape_def)
  then show ?thesis
    using cut_pair [of "CHR ''=''" "QueryEscape k" "QueryEscape v"]
    by (simp add: parse_pair_def query_pair_def QueryEscape_def unescape_escape)
qed

lemma query_pair_no_amp: "CHR ''&'' \<notin> set (query_pair k v)"
  using escape_query_delimiters by (auto simp: query_pair_def QueryEscape_def)

text \<open>Encoding single-valued parameters and parsing them back gives the parameters, sorted.\<close>

lemma foldl_values_Add:
  "distinct (map fst kvs) \<Longrightarrow> (\<And>k. k \<in> fst ` set kvs \<Longrightarrow> k \<notin> fst ` set q) \<Longrightarrow>
     foldl (\<lambda>q kv. case parse_pair kv of Some (k, v) \<Rightarrow> values_Add k v q | None \<Rightarrow> q) q
       (map (\<lambda>(k, v). query_pair k v) kvs) = q @ map (\<lambda>(k, v). (k, [v])) kvs"
proof (induction kvs arbitrary: q)
  case (Cons kv kvs)
  obtain k v where kv: "kv = (k, v)" by force
  with Cons.prems have "map_of q k = None" by (auto simp: map_of_eq_None_iff)
  with kv have "values_Add k v q = q @ [(k, [v])]" by (simp add: values_Add_def)
  moreover have "k' \<notin> fst ` set (q @ [(k, [v])])" if "k' \<in> fst ` set kvs" for k'
    using Cons.prems that kv by auto
  ultimately show ?case
    using Cons.IH [of "q @ [(k, [v])]"] Cons.prems(1) kv by (simp add: parse_query_pair)
qed simp

lemma values_Encode_single:
  "values_Encode (map (\<lambda>(k, v). (k, [v])) kvs) =
     join ''&'' (map (\<lambda>(k, v). query_pair k v) (sort_key fst kvs))"
proof -
  have "insort_key fst (k, [v]) (map (\<lambda>(k, v). (k, [v])) xs) =
      map (\<lambda>(k, v). (k, [v])) (insort_key fst (k, v) xs)" for k v :: string and xs
    by (induction xs) auto
  then have "sort_key fst (map (\<lambda>(k, v). (k, [v])) kvs) = map (\<lambda>(k, v). (k, [v])) (sort_key fst kvs)"
    by (induction kvs) (auto simp: sort_key_def)
  then show ?thesis
    by (simp add: values_Encode_def comp_def case_prod_beta' concat_map_singleton)
qed

lemma ParseQuery_Encode:
  assumes "distinct (map fst kvs)" "kvs \<noteq> []"
  shows "ParseQuery (values_Encode (map (\<lambda>(k, v). (k, [v])) kvs)) =
    map (\<lambda>(k, v). (k, [v])) (sort_key fst kvs)"
proof -
  let ?ps = "map (\<lambda>(k, v). query_pair k v) (sort_key fst kvs)"
  have "split_on CHR ''&'' (join [CHR ''&''] ?ps) = ?ps"
    using assms(2) query_pair_no_amp length_sort [of fst kvs]
    by (intro split_on_join) (auto simp del: length_sort)
  moreover have "distinct (map fst (sort_key fst kvs))"
    using assms(1) by (simp add: distinct_map)
  ultimately show ?thesis
    by (simp add: ParseQuery_def values_Encode_single foldl_values_Add)
qed

end
