(* ===== verification/Actions.thy ===== *)
theory Actions
  imports Queryapi Go_Net
begin

text \<open>
  Package \<^verbatim>\<open>actions\<close> (\<^verbatim>\<open>actions/actions.go\<close>): the published action endpoint. The handler is one
  definition over a request, taking the executor of the route as an argument and threading the
  state \<open>'w\<close> the executor works on; its guards come in the order of the code. Logging is left
  out, JSON decoding of the request is the argument \<open>request_decoders\<close>, random bytes for a missing
  request ID are the argument \<open>rnd\<close>. Durations are milliseconds.
\<close>

subsection \<open>Constants\<close>

definition ProviderName :: string where "ProviderName = ''databricks''"
definition ActionQueryName :: string where "ActionQueryName = ''query_table''"
definition ActionQueryV1 :: string where "ActionQueryV1 = ''v1''"
definition resourceAPIVersion :: string where "resourceAPIVersion = ''databricks.faros.sh/v1alpha1''"
definition resourceKind :: string where "resourceKind = ''Table''"
definition resourceName :: string where "resourceName = ''tables''"
definition maxInputBytes :: nat where "maxInputBytes = 8192"
definition maxRequestBytes :: nat where "maxRequestBytes = 1048576"
definition maxActionDeadline :: int where "maxActionDeadline = 45000"
definition maxActionErrorMessageBytes :: nat where "maxActionErrorMessageBytes = 512"

definition ActionErrorCodeUnauthenticated :: string where
  "ActionErrorCodeUnauthenticated = ''unauthenticated''"
definition ActionErrorCodeTenantRequired :: string where
  "ActionErrorCodeTenantRequired = ''tenant_required''"
definition ActionErrorCodeActionNotFound :: string where
  "ActionErrorCodeActionNotFound = ''action_not_found''"
definition ActionErrorCodeInvalidRequest :: string where
  "ActionErrorCodeInvalidRequest = ''invalid_request''"
definition ActionErrorCodeInvalidDeadline :: string where
  "ActionErrorCodeInvalidDeadline = ''invalid_deadline''"
definition ActionErrorCodeActionUnavailable :: string where
  "ActionErrorCodeActionUnavailable = ''action_unavailable''"
definition ActionErrorCodeActionTimeout :: string where
  "ActionErrorCodeActionTimeout = ''action_timeout''"
definition ActionErrorCodeActionFailed :: string where
  "ActionErrorCodeActionFailed = ''action_failed''"
definition ActionErrorCodeResourceNotFound :: string where
  "ActionErrorCodeResourceNotFound = ''resource_not_found''"
definition ActionErrorCodeResourceForbidden :: string where
  "ActionErrorCodeResourceForbidden = ''resource_forbidden''"
definition ActionErrorCodeResourceNotReady :: string where
  "ActionErrorCodeResourceNotReady = ''resource_not_ready''"
definition ActionErrorCodeSchemaProjectionInvalid :: string where
  "ActionErrorCodeSchemaProjectionInvalid = ''schema_projection_invalid''"
definition ActionErrorCodeBackendFailure :: string where
  "ActionErrorCodeBackendFailure = ''backend_failure''"

lemmas action_codes = ActionErrorCodeUnauthenticated_def ActionErrorCodeTenantRequired_def
  ActionErrorCodeActionNotFound_def ActionErrorCodeInvalidRequest_def
  ActionErrorCodeInvalidDeadline_def ActionErrorCodeActionUnavailable_def
  ActionErrorCodeActionTimeout_def ActionErrorCodeActionFailed_def
  ActionErrorCodeResourceNotFound_def ActionErrorCodeResourceForbidden_def
  ActionErrorCodeResourceNotReady_def ActionErrorCodeSchemaProjectionInvalid_def
  ActionErrorCodeBackendFailure_def

lemmas action_consts = ProviderName_def ActionQueryName_def ActionQueryV1_def resourceAPIVersion_def
  resourceKind_def resourceName_def maxInputBytes_def maxRequestBytes_def maxActionDeadline_def
  maxActionErrorMessageBytes_def

subsection \<open>Types\<close>

record ResourceRef =
  rrAPIVersion :: string
  rrKind :: string
  rrResource :: string
  rrName :: string

record Route =
  rtClusterID :: string
  rtResource :: string
  rtName :: string
  rtAction :: string
  rtVersion :: string

record QueryInput =
  qiColumns :: "string list"
  qiLimit :: int

record wireError =
  weCode :: string
  weMessage :: string
  weRetryable :: bool

record envelope =
  evRequestID :: string
  evProvider :: string
  evAction :: string
  evActionVersion :: string
  evResourceRef :: "ResourceRef option"
  evResult :: "QueryTableResult option"
  evError :: "wireError option"

record action_request =
  aqVerb :: string
  aqPath :: string
  aqRequestID :: string
  aqAuthorization :: string
  aqDeadline :: string
  aqBody :: string
  aqReadError :: "go_error option"

record action_response =
  arStatus :: int
  arRequestID :: string
  arEnvelope :: envelope

text \<open>
  The JSON decoders of \<open>decodeRequest\<close>. The body decoders see the bytes the size limit lets
  through and the error that ends the stream, if any: the limit's, or else the one \<open>aqReadError\<close> that
  reading the body ended with; a trailing decode answers \<open>None\<close> at the
  end of the input.
\<close>

record request_decoders =
  rdWire :: "string \<Rightarrow> go_error option \<Rightarrow> string go_result"
  rdWireTrailing :: "string \<Rightarrow> go_error option \<Rightarrow> unit go_result option"
  rdInput :: "string \<Rightarrow> QueryInput go_result"
  rdInputTrailing :: "string \<Rightarrow> unit go_result option"

subsection \<open>Routes\<close>

text \<open>\<^verbatim>\<open>path.Clean\<close> of a rooted path: the components kept, innermost first.\<close>

fun clean_parts :: "string list \<Rightarrow> string list \<Rightarrow> string list" where
  "clean_parts acc [] = acc"
| "clean_parts acc (p # ps) =
     (if p = [] \<or> p = ''.'' then clean_parts acc ps
      else if p = ''..'' then clean_parts (tl acc) ps
      else clean_parts (p # acc) ps)"

definition path_Clean_rooted :: "string \<Rightarrow> string" where
  "path_Clean_rooted p = ''/'' @ join ''/'' (rev (clean_parts [] (split_on CHR ''/'' p)))"

definition path_safe :: "string \<Rightarrow> bool" where
  "path_safe segment \<longleftrightarrow>
     \<not> (segment = [] \<or> segment = ''.'' \<or> segment = ''..'' \<or> PathEscape segment \<noteq> segment)"

definition ParseActionPath :: "string \<Rightarrow> Route go_result" where
  "ParseActionPath requestPath =
     (let clean = path_Clean_rooted (''/'' @ Trim requestPath ''/'');
          parts = split_on CHR ''/'' (TrimPrefix clean ''/'') in
      if length parts \<noteq> 7 \<or> parts ! 0 \<noteq> ''actions'' \<or> parts ! 1 \<noteq> ''clusters''
      then Inl (ErrorString ''action path must be /actions/clusters/{clusterID}/{resource}/{name}/{action}/{version}'')
      else if \<not> list_all path_safe (drop 2 parts)
      then Inl (ErrorString ''action path segments must be non-empty and path-safe'')
      else Inr \<lparr>rtClusterID = parts ! 2, rtResource = parts ! 3, rtName = parts ! 4,
                rtAction = parts ! 5, rtVersion = parts ! 6\<rparr>)"

definition ActionPath :: "string \<Rightarrow> string \<Rightarrow> string \<Rightarrow> string \<Rightarrow> string \<Rightarrow> string" where
  "ActionPath clusterID resource name action version =
     ''/actions/clusters/'' @ PathEscape clusterID @ ''/'' @ PathEscape resource @ ''/'' @
     PathEscape name @ ''/'' @ PathEscape action @ ''/'' @ PathEscape version"

subsection \<open>Request metadata\<close>

definition request_id_char :: "char \<Rightarrow> bool" where
  "request_id_char c \<longleftrightarrow> alnum c \<or> c \<in> set ''._-''"

definition requestIDRE :: "string \<Rightarrow> bool" where
  "requestIDRE s \<longleftrightarrow> 1 \<le> length s \<and> length s \<le> 256 \<and> list_all request_id_char s"

definition normalizeRequestID :: "nat list option \<Rightarrow> string \<Rightarrow> string" where
  "normalizeRequestID rnd value =
     (let value = TrimSpace value in
      if requestIDRE value then value
      else (case rnd of
              None \<Rightarrow> ''req-unavailable''
            | Some buf \<Rightarrow> ''req-'' @ concat (map (hex 2) buf)))"

definition parse_int64 :: "string \<Rightarrow> int option" where
  "parse_int64 s =
     (let (neg, digits) =
        (case s of
           [] \<Rightarrow> (False, [])
         | c # cs \<Rightarrow> if c = CHR ''+'' then (False, cs) else if c = CHR ''-'' then (True, cs)
                    else (False, s)) in
      if digits = [] then None
      else (case read_nat 0 digits of
              None \<Rightarrow> None
            | Some n \<Rightarrow>
                let v = (if neg then - int n else int n) in
                if - (2 ^ 63) \<le> v \<and> v < 2 ^ 63 then Some v else None))"

definition actionDeadline :: "string \<Rightarrow> int go_result" where
  "actionDeadline header =
     (let value = TrimSpace header in
      if value = [] then Inr maxActionDeadline
      else (case parse_int64 value of
              None \<Rightarrow> Inl (ErrorString ''X-Faros-Action-Deadline-Ms must be a positive integer'')
            | Some millis \<Rightarrow>
                if millis < 1
                then Inl (ErrorString ''X-Faros-Action-Deadline-Ms must be a positive integer'')
                else if maxActionDeadline \<le> millis then Inr maxActionDeadline
                else Inr millis))"

definition hasBearer :: "string \<Rightarrow> bool" where
  "hasBearer value \<longleftrightarrow>
     HasPrefix (ToLower (TrimSpace value)) ''bearer '' \<and>
     TrimSpace (drop 7 (TrimSpace value)) \<noteq> []"

subsection \<open>Failures\<close>

definition forbidden_markers :: "string list" where
  "forbidden_markers =
     [''bearer'', ''token'', ''secret'', ''password'', ''authorization'', ''credential'',
      ''root:faros:tenants:'', ''/clusters/'', ''http://'', ''https://'', ''://'']"

definition sql_markers :: "string list" where
  "sql_markers =
     [''select '', ''insert '', ''update '', ''delete '', ''drop '', ''alter '', ''create '', ''merge '']"

definition safeActionErrorMessage :: "string \<Rightarrow> string" where
  "safeActionErrorMessage message =
     (let message = TrimSpace message; lower = ToLower message in
      if list_ex (\<lambda>marker. contains marker lower) forbidden_markers then defaultActionFailureMessage
      else if list_ex (\<lambda>r. r < 32 \<or> r = 127) (runes message) then defaultActionFailureMessage
      else if list_ex (\<lambda>marker. contains marker lower) sql_markers then defaultActionFailureMessage
      else if message = [] then defaultActionFailureMessage
      else if maxActionErrorMessageBytes < length message then defaultActionFailureMessage
      else message)"

definition safeActionError :: "go_error option \<Rightarrow> string" where
  "safeActionError err =
     (case err of
        None \<Rightarrow> defaultActionFailureMessage
      | Some e \<Rightarrow> safeActionErrorMessage (TrimSpace (Error e)))"

definition known_action_codes :: "string list" where
  "known_action_codes =
     [ActionErrorCodeUnauthenticated, ActionErrorCodeTenantRequired, ActionErrorCodeActionNotFound,
      ActionErrorCodeInvalidRequest, ActionErrorCodeInvalidDeadline,
      ActionErrorCodeActionUnavailable, ActionErrorCodeActionTimeout, ActionErrorCodeActionFailed,
      ActionErrorCodeResourceNotFound, ActionErrorCodeResourceForbidden,
      ActionErrorCodeResourceNotReady, ActionErrorCodeSchemaProjectionInvalid,
      ActionErrorCodeBackendFailure]"

definition isKnownActionErrorCode :: "string \<Rightarrow> bool" where
  "isKnownActionErrorCode code \<longleftrightarrow> code \<in> set known_action_codes"

definition actionErrorStatusAllowed :: "string \<Rightarrow> int \<Rightarrow> bool" where
  "actionErrorStatusAllowed code status =
     (if status < 400 \<or> 599 < status then False
      else if code = ActionErrorCodeUnauthenticated then status = 401
      else if code = ActionErrorCodeTenantRequired \<or> code = ActionErrorCodeResourceForbidden
      then status = 403
      else if code = ActionErrorCodeActionNotFound \<or> code = ActionErrorCodeResourceNotFound
      then status = 404
      else if code = ActionErrorCodeInvalidRequest \<or> code = ActionErrorCodeInvalidDeadline \<or>
              code = ActionErrorCodeSchemaProjectionInvalid
      then status = 400 \<or> status = 422
      else if code = ActionErrorCodeActionUnavailable then status = 503
      else if code = ActionErrorCodeActionTimeout then status = 504 \<or> status = 503
      else if code = ActionErrorCodeResourceNotReady then status = 409 \<or> status = 503
      else if code = ActionErrorCodeBackendFailure \<or> code = ActionErrorCodeActionFailed
      then status = 502 \<or> status = 503
      else False)"

definition gatewayFailureStatus :: "bool \<Rightarrow> int" where
  "gatewayFailureStatus retryable = (if retryable then 503 else 502)"

definition defaultActionErrorStatus :: "string \<Rightarrow> bool \<Rightarrow> int" where
  "defaultActionErrorStatus code retryable =
     (if code = ActionErrorCodeUnauthenticated then 401
      else if code = ActionErrorCodeTenantRequired \<or> code = ActionErrorCodeResourceForbidden then 403
      else if code = ActionErrorCodeActionNotFound \<or> code = ActionErrorCodeResourceNotFound then 404
      else if code = ActionErrorCodeInvalidRequest \<or> code = ActionErrorCodeInvalidDeadline \<or>
              code = ActionErrorCodeSchemaProjectionInvalid then 400
      else if code = ActionErrorCodeActionUnavailable then 503
      else if code = ActionErrorCodeActionTimeout then 504
      else if code = ActionErrorCodeResourceNotReady then (if retryable then 503 else 409)
      else if code = ActionErrorCodeBackendFailure \<or> code = ActionErrorCodeActionFailed
      then gatewayFailureStatus retryable
      else 502)"

definition defaultRetryable :: "string \<Rightarrow> bool" where
  "defaultRetryable code \<longleftrightarrow>
     code = ActionErrorCodeActionUnavailable \<or> code = ActionErrorCodeActionTimeout"

definition NewActionError :: "string \<Rightarrow> string \<Rightarrow> int \<Rightarrow> bool \<Rightarrow> go_error" where
  "NewActionError code message status retryable = ActionError code message retryable status None"

definition NewProviderActionError :: "string \<Rightarrow> string \<Rightarrow> int \<Rightarrow> bool \<Rightarrow> go_error" where
  "NewProviderActionError = NewActionError"

definition genericActionFailure :: go_error where
  "genericActionFailure =
     ActionError ActionErrorCodeActionFailed defaultActionFailureMessage False 502 None"

fun is_action_error :: "go_error \<Rightarrow> bool" where
  "is_action_error (ActionError code msg retry status cause) = True"
| "is_action_error _ = False"

definition normalizeTyped :: "string \<Rightarrow> string \<Rightarrow> bool \<Rightarrow> int \<Rightarrow> go_error option \<Rightarrow> go_error" where
  "normalizeTyped tcode tmessage retryable tstatus cause =
     (let code = TrimSpace tcode; rawMessage = TrimSpace tmessage;
          message = safeActionErrorMessage rawMessage in
      if \<not> isKnownActionErrorCode code \<or>
         (rawMessage \<noteq> [] \<and> rawMessage \<noteq> defaultActionFailureMessage \<and>
          message = defaultActionFailureMessage)
      then genericActionFailure
      else
        (let status = (if tstatus = 0 then defaultActionErrorStatus code retryable else tstatus) in
         if \<not> actionErrorStatusAllowed code status then
           (if code = ActionErrorCodeBackendFailure \<or> code = ActionErrorCodeActionFailed
            then ActionError code message retryable (gatewayFailureStatus retryable) cause
            else genericActionFailure)
         else ActionError code message retryable status cause))"

definition normalizeActionError :: "go_error option \<Rightarrow> go_error" where
  "normalizeActionError err =
     (case err of
        None \<Rightarrow> genericActionFailure
      | Some e \<Rightarrow>
          (case errors_As is_action_error e of
             Some (ActionError code message retryable status cause) \<Rightarrow>
               normalizeTyped code message retryable status cause
           | _ \<Rightarrow> ActionError ActionErrorCodeActionFailed (safeActionError (Some e)) False 502 None))"

definition classifyActionError :: "go_error option \<Rightarrow> string" where
  "classifyActionError err =
     (case err of
        None \<Rightarrow> ''unknown''
      | Some e \<Rightarrow>
          (let message = ToLower (Error e) in
           if contains ''not found'' message then ''not_found''
           else if contains ''forbidden'' message \<or> contains ''not allowed'' message \<or>
                   contains ''unauthorized'' message then ''forbidden''
           else if contains ''ready'' message \<or> contains ''validated'' message
           then ''dependency_not_ready''
           else ''backend_failure''))"

subsection \<open>Decoding\<close>

definition max_bytes_error :: go_error where
  "max_bytes_error = ErrorString ''http: request body too large''"

definition decodeRequest ::
  "request_decoders \<Rightarrow> string \<Rightarrow> go_error option \<Rightarrow> QueryInput go_result" where
  "decodeRequest rd body readError =
     (let bytes = take maxRequestBytes body;
          ending = (if maxRequestBytes < length body then Some max_bytes_error else readError) in
      case rdWire rd bytes ending of
        Inl e \<Rightarrow> Inl (WrapError ''decode request: '' e)
      | Inr wireInput \<Rightarrow>
     (case rdWireTrailing rd bytes ending of
        Some (Inr _) \<Rightarrow> Inl (ErrorString ''request must contain exactly one JSON value'')
      | Some (Inl e) \<Rightarrow> Inl (WrapError ''decode trailing request data: '' e)
      | None \<Rightarrow>
     (let raw = (if wireInput = [] \<or> wireInput = ''null'' then ''{}'' else wireInput) in
      if maxInputBytes < length raw
      then Inl (ErrorString (''input exceeds the declared limit of '' @ show_nat maxInputBytes @ '' bytes''))
      else
     (case rdInput rd raw of
        Inl e \<Rightarrow> Inl (WrapError ''decode input: '' e)
      | Inr input \<Rightarrow>
     (case rdInputTrailing rd raw of
        Some (Inr _) \<Rightarrow> Inl (ErrorString ''input must contain exactly one JSON value'')
      | Some (Inl e) \<Rightarrow> Inl (WrapError ''decode trailing input data: '' e)
      | None \<Rightarrow>
     (case NormalizeQueryControls (qiColumns input) (qiLimit input) of
        Inl e \<Rightarrow> Inl (WrapError ''input: '' e)
      | Inr (columns, limit) \<Rightarrow> Inr (input\<lparr>qiColumns := columns, qiLimit := limit\<rparr>)))))))"

subsection \<open>Envelopes\<close>

definition omit_empty :: "string \<Rightarrow> string \<Rightarrow> (string \<times> string) list" where
  "omit_empty key value = (if value = [] then [] else [(key, json_string value)])"

definition ref_json :: "ResourceRef \<Rightarrow> string" where
  "ref_json ref =
     json_struct [(''apiVersion'', json_string (rrAPIVersion ref)), (''kind'', json_string (rrKind ref)),
       (''resource'', json_string (rrResource ref)), (''name'', json_string (rrName ref))]"

definition wire_error_json :: "wireError \<Rightarrow> string" where
  "wire_error_json e =
     json_struct [(''code'', json_string (weCode e)), (''message'', json_string (weMessage e)),
       (''retryable'', if weRetryable e then ''true'' else ''false'')]"

definition envelope_fields :: "envelope \<Rightarrow> string option \<Rightarrow> (string \<times> string) list" where
  "envelope_fields env result =
     omit_empty ''requestID'' (evRequestID env) @
     [(''provider'', json_string (evProvider env)), (''action'', json_string (evAction env)),
      (''actionVersion'', json_string (evActionVersion env))] @
     (case evResourceRef env of None \<Rightarrow> [] | Some ref \<Rightarrow> [(''resourceRef'', ref_json ref)]) @
     (case result of None \<Rightarrow> [] | Some t \<Rightarrow> [(''result'', t)]) @
     (case evError env of None \<Rightarrow> [] | Some e \<Rightarrow> [(''error'', wire_error_json e)])"

text \<open>\<^verbatim>\<open>json.Marshal(env)\<close>; \<open>None\<close> is its error.\<close>

definition marshal_envelope :: "envelope \<Rightarrow> string option" where
  "marshal_envelope env =
     (case evResult env of
        None \<Rightarrow> Some (json_struct (envelope_fields env None))
      | Some r \<Rightarrow>
          (case marshal_result r of
             None \<Rightarrow> None
           | Some t \<Rightarrow> Some (json_struct (envelope_fields env (Some t)))))"

definition envelope_fits :: "envelope \<Rightarrow> bool" where
  "envelope_fits env =
     (case marshal_envelope env of None \<Rightarrow> False | Some payload \<Rightarrow> length payload + 1 \<le> MaxQueryBytes)"

function boundEnvelopeLoop :: "envelope \<Rightarrow> QueryTableResult \<Rightarrow> envelope go_result" where
  "boundEnvelopeLoop env result =
     (let env = env\<lparr>evResult := Some result\<rparr> in
      if envelope_fits env then Inr env
      else if resRows result \<noteq> [] then
        boundEnvelopeLoop env (result\<lparr>resRows := butlast (resRows result), resTruncated := True\<rparr>)
      else if resColumns result \<noteq> [] then
        boundEnvelopeLoop env
          ((BoundQueryResult (result\<lparr>resColumns := butlast (resColumns result)\<rparr>))\<lparr>resTruncated := True\<rparr>)
      else Inl (ErrorString (''action result exceeds the '' @ show_nat MaxQueryBytes @
                  ''-byte response limit'')))"
  by pat_completeness auto
termination
proof (relation "measure (\<lambda>(_, r). length (resRows r) + length (resColumns r))", goal_cases)
  case (3 env result x)
  have "length (resColumns (BoundQueryResult (result\<lparr>resColumns := butlast (resColumns result)\<rparr>)))
      < length (resColumns result)"
    using bq.columns_le [of "result\<lparr>resColumns := butlast (resColumns result)\<rparr>"] 3(4)
    by (cases "resColumns result") (auto simp: le_less_trans)
  moreover have "length (resRows (BoundQueryResult (result\<lparr>resColumns := butlast (resColumns result)\<rparr>))) \<le>
      length (resRows result)"
    using bq.rows_le [of "result\<lparr>resColumns := butlast (resColumns result)\<rparr>"] by simp
  ultimately show ?case by simp
qed (auto simp: neq_Nil_conv)

declare boundEnvelopeLoop.simps [simp del]

definition boundResultEnvelope :: "envelope \<Rightarrow> envelope go_result" where
  "boundResultEnvelope env =
     (case evResult env of None \<Rightarrow> Inr env | Some result \<Rightarrow> boundEnvelopeLoop env result)"

definition table_ref :: "string \<Rightarrow> ResourceRef" where
  "table_ref name =
     \<lparr>rrAPIVersion = resourceAPIVersion, rrKind = resourceKind, rrResource = resourceName,
      rrName = name\<rparr>"

definition envelopeIdentity :: "string \<Rightarrow> Route option \<Rightarrow> envelope" where
  "envelopeIdentity requestID route =
     (let env = \<lparr>evRequestID = requestID, evProvider = ProviderName, evAction = ActionQueryName,
                 evActionVersion = ActionQueryV1, evResourceRef = None, evResult = None,
                 evError = None\<rparr> in
      case route of
        None \<Rightarrow> env
      | Some route \<Rightarrow>
          env\<lparr>evAction := rtAction route, evActionVersion := rtVersion route,
              evResourceRef := (if rtResource route = resourceName \<and> rtName route \<noteq> []
                                then Some (table_ref (rtName route)) else None)\<rparr>)"

definition error_response ::
  "string \<Rightarrow> Route option \<Rightarrow> int \<Rightarrow> wireError \<Rightarrow> action_response" where
  "error_response requestID route status err =
     \<lparr>arStatus = status, arRequestID = requestID,
      arEnvelope = (envelopeIdentity requestID route)\<lparr>evError := Some err\<rparr>\<rparr>"

definition writeEnvelopeError ::
  "string \<Rightarrow> Route option \<Rightarrow> int \<Rightarrow> string \<Rightarrow> string \<Rightarrow> action_response" where
  "writeEnvelopeError requestID route status code message =
     error_response requestID route status
       \<lparr>weCode = code, weMessage = safeActionErrorMessage message,
        weRetryable = defaultRetryable code\<rparr>"

definition writeFailure :: "string \<Rightarrow> Route option \<Rightarrow> go_error \<Rightarrow> action_response" where
  "writeFailure requestID route failure =
     (let code = TrimSpace (ae_Code failure);
          code = (if isKnownActionErrorCode code then code else ActionErrorCodeActionFailed);
          message = safeActionErrorMessage (ae_Message failure);
          code = (if message = defaultActionFailureMessage then ActionErrorCodeActionFailed else code);
          status = (if ae_Status failure = 0
                    then defaultActionErrorStatus code (ae_Retryable failure) else ae_Status failure) in
      if actionErrorStatusAllowed code status then
        error_response requestID route status
          \<lparr>weCode = code, weMessage = message, weRetryable = ae_Retryable failure\<rparr>
      else if code = ActionErrorCodeBackendFailure \<or> code = ActionErrorCodeActionFailed then
        error_response requestID route (gatewayFailureStatus (ae_Retryable failure))
          \<lparr>weCode = code, weMessage = message, weRetryable = ae_Retryable failure\<rparr>
      else
        error_response requestID route 502
          \<lparr>weCode = ActionErrorCodeActionFailed, weMessage = defaultActionFailureMessage,
           weRetryable = False\<rparr>)"

subsection \<open>The handler\<close>

type_synonym 'w query_executor =
  "ResourceRef \<Rightarrow> QueryInput \<Rightarrow> int \<Rightarrow> 'w \<Rightarrow> QueryTableResult go_result \<times> 'w"

definition action_success :: "string \<Rightarrow> Route \<Rightarrow> QueryTableResult \<Rightarrow> action_response" where
  "action_success requestID route result =
     (let result = BoundQueryResult (result\<lparr>resActionVersion := ActionVersionV1,
                                            resTableRef := rtName route\<rparr>);
          env = \<lparr>evRequestID = requestID, evProvider = ProviderName, evAction = rtAction route,
                 evActionVersion = rtVersion route, evResourceRef = Some (table_ref (rtName route)),
                 evResult = Some result, evError = None\<rparr> in
      case boundResultEnvelope env of
        Inl e \<Rightarrow> writeFailure requestID (Some route)
                  (ActionError ActionErrorCodeBackendFailure defaultActionFailureMessage False 502 None)
      | Inr bounded \<Rightarrow>
          \<lparr>arStatus = 200, arRequestID = requestID, arEnvelope = bounded\<rparr>)"

definition handleAction ::
  "request_decoders \<Rightarrow> nat list option \<Rightarrow> (action_request \<Rightarrow> Route \<Rightarrow> 'w query_executor option) option \<Rightarrow>
   action_request \<Rightarrow> 'w \<Rightarrow> action_response \<times> 'w" where
  "handleAction rd rnd executorForRoute r w =
     (let requestID = normalizeRequestID rnd (aqRequestID r) in
      if aqVerb r \<noteq> ''POST''
      then (writeEnvelopeError requestID None 405 ''method_not_allowed'' ''method not allowed'', w)
      else if \<not> hasBearer (aqAuthorization r)
      then (writeEnvelopeError requestID None 401 ActionErrorCodeUnauthenticated
              ''a bearer credential is required'', w)
      else
     (case ParseActionPath (aqPath r) of
        Inl e \<Rightarrow> (writeEnvelopeError requestID None 404 ActionErrorCodeActionNotFound
                   ''action endpoint not found'', w)
      | Inr route \<Rightarrow>
      if rtResource route \<noteq> resourceName \<or> rtAction route \<noteq> ActionQueryName \<or>
         rtVersion route \<noteq> ActionQueryV1
      then (writeEnvelopeError requestID (Some route) 404 ActionErrorCodeActionNotFound
              ''action endpoint not found'', w)
      else
     (case ValidateTableRef (rtName route) of
        Inl e \<Rightarrow> (writeEnvelopeError requestID (Some route) 400 ActionErrorCodeInvalidRequest (Error e), w)
      | Inr _ \<Rightarrow>
     (case decodeRequest rd (aqBody r) (aqReadError r) of
        Inl e \<Rightarrow> (writeEnvelopeError requestID (Some route) 400 ActionErrorCodeInvalidRequest (Error e), w)
      | Inr input \<Rightarrow>
     (case Option.bind executorForRoute (\<lambda>f. f r route) of
        None \<Rightarrow> (writeEnvelopeError requestID (Some route) 503 ActionErrorCodeActionUnavailable
                  ''databricks action executor is unavailable'', w)
      | Some executor \<Rightarrow>
     (case actionDeadline (aqDeadline r) of
        Inl e \<Rightarrow> (writeEnvelopeError requestID (Some route) 400 ActionErrorCodeInvalidDeadline (Error e), w)
      | Inr deadline \<Rightarrow>
     (case executor (table_ref (rtName route)) input deadline w of
        (Inl e, w') \<Rightarrow>
          (if errors_Is e ContextCanceled \<or> errors_Is e ContextDeadlineExceeded
           then writeEnvelopeError requestID (Some route) 504 ActionErrorCodeActionTimeout
                  ''databricks action timed out''
           else writeFailure requestID (Some route) (normalizeActionError (Some e)), w')
      | (Inr result, w') \<Rightarrow> (action_success requestID route result, w'))))))))"

subsection \<open>The path grammar\<close>

lemma clean_parts_plain:
  "list_all (\<lambda>p. p \<noteq> [] \<and> p \<noteq> ''.'' \<and> p \<noteq> ''..'') ps \<Longrightarrow> clean_parts acc ps = rev ps @ acc"
  by (induction ps arbitrary: acc) auto

lemma clean_parts_clean:
  "list_all (\<lambda>p. p \<noteq> [] \<and> p \<noteq> ''.'' \<and> p \<noteq> ''..'' \<and> CHR ''/'' \<notin> set p) acc \<Longrightarrow>
   list_all (\<lambda>p. CHR ''/'' \<notin> set p) ps \<Longrightarrow>
   list_all (\<lambda>p. p \<noteq> [] \<and> p \<noteq> ''.'' \<and> p \<noteq> ''..'' \<and> CHR ''/'' \<notin> set p) (clean_parts acc ps)"
proof (induction acc ps rule: clean_parts.induct)
  case (2 acc p ps)
  then show ?case by (cases acc) auto
qed simp

lemma path_safe_no_slash: "path_safe s \<Longrightarrow> CHR ''/'' \<notin> set s"
  using escape_segment_delimiters [of "CHR ''/''" s] by (auto simp: path_safe_def PathEscape_def)

lemma path_safe_no_space: "path_safe s \<Longrightarrow> s \<noteq> [] \<and> PathEscape s = s"
  by (simp add: path_safe_def)

definition route_parts :: "Route \<Rightarrow> string list" where
  "route_parts route =
     [''actions'', ''clusters'', rtClusterID route, rtResource route, rtName route, rtAction route,
      rtVersion route]"

definition route_safe :: "Route \<Rightarrow> bool" where
  "route_safe route \<longleftrightarrow>
     path_safe (rtClusterID route) \<and> path_safe (rtResource route) \<and> path_safe (rtName route) \<and>
     path_safe (rtAction route) \<and> path_safe (rtVersion route)"

definition route_path :: "Route \<Rightarrow> string" where
  "route_path route =
     ActionPath (rtClusterID route) (rtResource route) (rtName route) (rtAction route) (rtVersion route)"

lemma route_path_join: "route_safe route \<Longrightarrow> route_path route = ''/'' @ join ''/'' (route_parts route)"
  by (simp add: route_path_def ActionPath_def route_parts_def route_safe_def path_safe_def)

lemma dropWhile_hd: "xs \<noteq> [] \<Longrightarrow> \<not> P (hd xs) \<Longrightarrow> dropWhile P xs = xs"
  by (cases xs) auto

lemma Trim_slash_path:
  assumes "s \<noteq> []" "last s \<noteq> CHR ''/''" "hd s \<noteq> CHR ''/''"
  shows "Trim (''/'' @ s) ''/'' = s"
  using assms by (simp add: Trim_def TrimRight_def dropWhile_hd hd_rev)

lemma split_clean_rooted:
  assumes "list_all (\<lambda>p. p \<noteq> [] \<and> p \<noteq> ''.'' \<and> p \<noteq> ''..'' \<and> CHR ''/'' \<notin> set p) ps" "ps \<noteq> []"
  shows "path_Clean_rooted (''/'' @ join ''/'' ps) = ''/'' @ join ''/'' ps"
    "split_on CHR ''/'' (join ''/'' ps) = ps"
proof -
  show s: "split_on CHR ''/'' (join ''/'' ps) = ps"
    using assms by (intro split_on_join) (auto simp: list_all_iff)
  have "clean_parts [] ps = rev ps"
    using assms(1) by (subst clean_parts_plain) (auto simp: list_all_iff)
  then show "path_Clean_rooted (''/'' @ join ''/'' ps) = ''/'' @ join ''/'' ps"
    by (simp add: path_Clean_rooted_def s)
qed

lemma ParseActionPath_of_parts:
  assumes "path_Clean_rooted (''/'' @ Trim p ''/'') = ''/'' @ join ''/'' (route_parts route)" "route_safe route"
  shows "ParseActionPath p = Inr route"
proof -
  have "split_on CHR ''/'' (join ''/'' (route_parts route)) = route_parts route"
    using assms(2) path_safe_no_slash
    by (intro split_on_join) (auto simp: route_parts_def route_safe_def)
  then show ?thesis
    using assms by (simp add: ParseActionPath_def TrimPrefix_def route_parts_def route_safe_def)
qed

lemma last_path_safe: "path_safe s \<Longrightarrow> s \<noteq> [] \<and> last s \<noteq> CHR ''/''"
  by (metis last_in_set path_safe_def path_safe_no_slash)

lemma ParseActionPath_route_path:
  assumes "route_safe route"
  shows "ParseActionPath (route_path route) = Inr route"
proof (rule ParseActionPath_of_parts [OF _ assms])
  have ps: "list_all (\<lambda>p. p \<noteq> [] \<and> p \<noteq> ''.'' \<and> p \<noteq> ''..'' \<and> CHR ''/'' \<notin> set p) (route_parts route)"
    using assms path_safe_no_slash by (auto simp: route_parts_def route_safe_def path_safe_def)
  have "Trim (route_path route) ''/'' = join ''/'' (route_parts route)"
    unfolding route_path_join [OF assms]
    using assms last_path_safe by (intro Trim_slash_path) (auto simp: route_parts_def route_safe_def)
  then show "path_Clean_rooted (''/'' @ Trim (route_path route) ''/'') = ''/'' @ join ''/'' (route_parts route)"
    using split_clean_rooted(1) [OF ps] by (simp add: route_parts_def)
qed

lemma list7: "length xs = 7 \<Longrightarrow> \<exists>a b c d e f g. xs = [a, b, c, d, e, f, g]"
  by (auto simp: numeral_eq_Suc length_Suc_conv)

lemma ParseActionPath_InrD:
  assumes "ParseActionPath p = Inr route"
  shows "route_safe route" "path_Clean_rooted (''/'' @ Trim p ''/'') = route_path route"
proof -
  obtain x where clean: "path_Clean_rooted (CHR ''/'' # Trim p ''/'') = CHR ''/'' # x"
    by (simp add: path_Clean_rooted_def)
  let ?parts = "split_on CHR ''/'' x"
  have l: "length ?parts = 7" "?parts ! 0 = ''actions''" "?parts ! 1 = ''clusters''"
    and s: "list_all path_safe (drop 2 ?parts)"
    and r: "route = \<lparr>rtClusterID = ?parts ! 2, rtResource = ?parts ! 3, rtName = ?parts ! 4,
                rtAction = ?parts ! 5, rtVersion = ?parts ! 6\<rparr>"
    using assms by (auto simp: ParseActionPath_def clean TrimPrefix_def Let_def split: if_splits)
  have parts: "?parts = route_parts route"
    using list7 [OF l(1)] l r by (auto simp: route_parts_def)
  from s parts show safe: "route_safe route" by (auto simp: route_parts_def route_safe_def)
  have "x = join ''/'' (route_parts route)"
    using join_split_on [of "CHR ''/''" x] parts by simp
  then show "path_Clean_rooted (''/'' @ Trim p ''/'') = route_path route"
    by (simp add: clean route_path_join [OF safe])
qed

text \<open>
  C29. Parsing and composing action paths are inverse: a composed path of path-safe segments
  parses to those segments, and a path parses only if its cleaned form is the composed path of
  the route it yields.
\<close>

theorem ActionPath_roundtrip:
  "ParseActionPath p = Inr route \<longleftrightarrow>
     route_safe route \<and>
     path_Clean_rooted (''/'' @ Trim p ''/'') =
       ActionPath (rtClusterID route) (rtResource route) (rtName route) (rtAction route) (rtVersion route)"
  using ParseActionPath_InrD [of p route] ParseActionPath_of_parts [of p route]
  by (auto simp: route_path_join simp flip: route_path_def)

subsection \<open>Safe messages\<close>

definition message_safe :: "string \<Rightarrow> bool" where
  "message_safe m \<longleftrightarrow>
     list_all (\<lambda>marker. \<not> contains marker (ToLower m)) (forbidden_markers @ sql_markers) \<and>
     list_all (\<lambda>r. 32 \<le> r \<and> r \<noteq> 127) (runes m) \<and>
     m \<noteq> [] \<and> length m \<le> 512 \<and> TrimSpace m = m"

lemma default_message_safe: "message_safe defaultActionFailureMessage"
  by (simp add: message_safe_def defaultActionFailureMessage_def forbidden_markers_def sql_markers_def
      ToLower_def ascii_lower_def runes_def decode_ascii TrimSpace_graphic graphic_def)

lemma not_list_ex: "\<not> list_ex P xs \<longleftrightarrow> list_all (\<lambda>x. \<not> P x) xs"
  by (auto simp: list_ex_iff list_all_iff)

lemma safeActionErrorMessage_cases:
  "safeActionErrorMessage m =
     (if message_safe (TrimSpace m) then TrimSpace m else defaultActionFailureMessage)"
  by (auto simp: safeActionErrorMessage_def message_safe_def Let_def action_consts list_ex_iff list_all_iff)

text \<open>
  Every message that reaches a caller is safe, whatever error text it was made from: no
  credential or tenant marker, no URL, no SQL verb, no control character, at most 512 bytes,
  not empty. A message that is already safe passes unchanged, so sanitising twice changes
  nothing.
\<close>

theorem safeActionErrorMessage_safe:
  "message_safe (safeActionErrorMessage m) \<and>
   (safeActionErrorMessage m = m \<longleftrightarrow> message_safe m) \<and>
   safeActionErrorMessage (safeActionErrorMessage m) = safeActionErrorMessage m"
proof -
  have s: "message_safe (safeActionErrorMessage m)" for m
    using default_message_safe by (simp add: safeActionErrorMessage_cases)
  have i: "message_safe x \<Longrightarrow> safeActionErrorMessage x = x" for x
    by (simp add: safeActionErrorMessage_cases message_safe_def)
  show ?thesis using s [of m] i i [OF s [of m]] by metis
qed

lemma safe_message: "message_safe (safeActionErrorMessage m)"
  using default_message_safe by (simp add: safeActionErrorMessage_cases)

lemma safe_message_id: "message_safe m \<Longrightarrow> safeActionErrorMessage m = m"
  by (simp add: safeActionErrorMessage_cases message_safe_def)

subsection \<open>Error responses\<close>

text \<open>What every error response promises its consumer.\<close>

definition good_error :: "int \<Rightarrow> wireError \<Rightarrow> bool" where
  "good_error status e \<longleftrightarrow>
     message_safe (weMessage e) \<and>
     (isKnownActionErrorCode (weCode e) \<and> actionErrorStatusAllowed (weCode e) status \<or>
      weCode e = ''method_not_allowed'' \<and> status = 405)"

lemma default_status_simps:
  "defaultActionErrorStatus ''unauthenticated'' retryable = 401"
  "defaultActionErrorStatus ''tenant_required'' retryable = 403"
  "defaultActionErrorStatus ''resource_forbidden'' retryable = 403"
  "defaultActionErrorStatus ''action_not_found'' retryable = 404"
  "defaultActionErrorStatus ''resource_not_found'' retryable = 404"
  "defaultActionErrorStatus ''invalid_request'' retryable = 400"
  "defaultActionErrorStatus ''invalid_deadline'' retryable = 400"
  "defaultActionErrorStatus ''schema_projection_invalid'' retryable = 400"
  "defaultActionErrorStatus ''action_unavailable'' retryable = 503"
  "defaultActionErrorStatus ''action_timeout'' retryable = 504"
  "defaultActionErrorStatus ''resource_not_ready'' retryable = (if retryable then 503 else 409)"
  "defaultActionErrorStatus ''backend_failure'' retryable = gatewayFailureStatus retryable"
  "defaultActionErrorStatus ''action_failed'' retryable = gatewayFailureStatus retryable"
  by (simp_all add: defaultActionErrorStatus_def action_codes)

lemma status_allowed_simps:
  "actionErrorStatusAllowed ''unauthenticated'' status \<longleftrightarrow> status = 401"
  "actionErrorStatusAllowed ''tenant_required'' status \<longleftrightarrow> status = 403"
  "actionErrorStatusAllowed ''resource_forbidden'' status \<longleftrightarrow> status = 403"
  "actionErrorStatusAllowed ''action_not_found'' status \<longleftrightarrow> status = 404"
  "actionErrorStatusAllowed ''resource_not_found'' status \<longleftrightarrow> status = 404"
  "actionErrorStatusAllowed ''invalid_request'' status \<longleftrightarrow> status = 400 \<or> status = 422"
  "actionErrorStatusAllowed ''invalid_deadline'' status \<longleftrightarrow> status = 400 \<or> status = 422"
  "actionErrorStatusAllowed ''schema_projection_invalid'' status \<longleftrightarrow> status = 400 \<or> status = 422"
  "actionErrorStatusAllowed ''action_unavailable'' status \<longleftrightarrow> status = 503"
  "actionErrorStatusAllowed ''action_timeout'' status \<longleftrightarrow> status = 504 \<or> status = 503"
  "actionErrorStatusAllowed ''resource_not_ready'' status \<longleftrightarrow> status = 409 \<or> status = 503"
  "actionErrorStatusAllowed ''backend_failure'' status \<longleftrightarrow> status = 502 \<or> status = 503"
  "actionErrorStatusAllowed ''action_failed'' status \<longleftrightarrow> status = 502 \<or> status = 503"
  by (auto simp: actionErrorStatusAllowed_def action_codes)

lemma default_status_allowed:
  "isKnownActionErrorCode code \<Longrightarrow> actionErrorStatusAllowed code (defaultActionErrorStatus code retryable)"
proof -
  have "list_all (\<lambda>code. actionErrorStatusAllowed code (defaultActionErrorStatus code retryable))
      known_action_codes"
    by (simp add: known_action_codes_def action_codes default_status_simps status_allowed_simps
        gatewayFailureStatus_def)
  then show "isKnownActionErrorCode code \<Longrightarrow> ?thesis"
    by (simp add: list_all_iff isKnownActionErrorCode_def)
qed

lemma gateway_status_allowed:
  "code = ActionErrorCodeBackendFailure \<or> code = ActionErrorCodeActionFailed \<Longrightarrow>
     actionErrorStatusAllowed code (gatewayFailureStatus retryable)"
  by (auto simp: action_codes status_allowed_simps gatewayFailureStatus_def)

lemma action_failed_known:
  "isKnownActionErrorCode ActionErrorCodeActionFailed" "isKnownActionErrorCode ActionErrorCodeBackendFailure"
  by (simp_all add: isKnownActionErrorCode_def known_action_codes_def)

lemma writeFailure_good:
  "\<exists>e. evError (arEnvelope (writeFailure requestID route failure)) = Some e \<and>
     good_error (arStatus (writeFailure requestID route failure)) e"
proof -
  have a: "actionErrorStatusAllowed ActionErrorCodeActionFailed 502"
    by (simp add: action_codes status_allowed_simps)
  show ?thesis
    using a gateway_status_allowed safe_message default_message_safe action_failed_known
    by (auto simp: writeFailure_def Let_def error_response_def good_error_def)
qed

lemma envelopeIdentity_simps [simp]:
  "evRequestID (envelopeIdentity requestID route) = requestID"
  "evResult (envelopeIdentity requestID route) = None"
  "evProvider (envelopeIdentity requestID route) = ProviderName"
  by (simp_all add: envelopeIdentity_def Let_def split: option.splits)

lemma writeFailure_form: "\<exists>status e. writeFailure requestID route failure = error_response requestID route status e"
  by (auto simp: writeFailure_def Let_def)

lemma writeFailure_shape:
  "arRequestID (writeFailure requestID route failure) = requestID"
  "evResult (arEnvelope (writeFailure requestID route failure)) = None"
  using writeFailure_form [of requestID route failure] by (auto simp: error_response_def)

lemma good_error_status: "good_error status e \<Longrightarrow> status \<noteq> 200"
  by (auto simp: good_error_def actionErrorStatusAllowed_def)

lemma writeEnvelopeError_simps:
  "arRequestID (writeEnvelopeError requestID route status code message) = requestID"
  "arStatus (writeEnvelopeError requestID route status code message) = status"
  "evResult (arEnvelope (writeEnvelopeError requestID route status code message)) = None"
  "evError (arEnvelope (writeEnvelopeError requestID route status code message)) =
     Some \<lparr>weCode = code, weMessage = safeActionErrorMessage message, weRetryable = defaultRetryable code\<rparr>"
  by (simp_all add: writeEnvelopeError_def error_response_def)

subsection \<open>Request identifiers and deadlines\<close>

lemma parse_deadline:
  "actionDeadline header = Inr d \<Longrightarrow> 1 \<le> d \<and> d \<le> 45000"
  by (auto simp: actionDeadline_def Let_def action_consts split: option.splits if_splits)

text \<open>
  A deadline is accepted exactly when the header is empty or a decimal integer of at least
  1 that fits 64 bits, and the action then runs for that many milliseconds, at most 45 seconds.
\<close>

theorem actionDeadline_iff:
  "actionDeadline header = Inr d \<longleftrightarrow>
     (blank header \<and> d = 45000) \<or>
     (\<exists>n. \<not> blank header \<and> parse_int64 (TrimSpace header) = Some n \<and> 1 \<le> n \<and> d = min n 45000)"
  by (auto simp: actionDeadline_def Let_def action_consts blank_def split: option.splits)

subsection \<open>Bounded envelopes\<close>

lemma boundEnvelopeLoop_fits:
  "boundEnvelopeLoop env r = Inr env' \<Longrightarrow> envelope_fits env'"
proof (induction env r rule: boundEnvelopeLoop.induct)
  case (1 env r)
  then show ?case
    by (subst (asm) boundEnvelopeLoop.simps) (auto simp: Let_def split: if_splits)
qed

lemma boundLoop_identity:
  "resActionVersion r = ''v1'' \<Longrightarrow> length (resTableRef r) \<le> 253 \<Longrightarrow>
     resActionVersion (boundLoop n r) = ''v1'' \<and> resTableRef (boundLoop n r) = resTableRef r"
proof (induction n r rule: boundLoop.induct)
  case (1 n r)
  have "truncateString (resTableRef r) 253 = resTableRef r"
    using "1.prems"(2) rune_count_le [of "resTableRef r"] by (simp add: truncateString_def)
  with 1 show ?case
    by (auto simp: boundLoop.simps [of n r] smallest_result_def query_consts)
qed

lemma BoundQueryResult_identity:
  "resActionVersion r = ''v1'' \<Longrightarrow> length (resTableRef r) \<le> 253 \<Longrightarrow>
     resActionVersion (BoundQueryResult r) = ''v1'' \<and> resTableRef (BoundQueryResult r) = resTableRef r"
  using boundLoop_identity [of "normalizeResultShape r"]
  by (simp add: BoundQueryResult_alt normalizeResultShape_def Let_def shapeColumns_eq)

definition success_envelope :: "string \<Rightarrow> string \<Rightarrow> envelope \<Rightarrow> bool" where
  "success_envelope requestID name env \<longleftrightarrow>
     evRequestID env = requestID \<and> evProvider env = ''databricks'' \<and> evAction env = ''query_table'' \<and>
     evActionVersion env = ''v1'' \<and> evResourceRef env = Some (table_ref name) \<and> evError env = None"

definition named_result :: "string \<Rightarrow> QueryTableResult \<Rightarrow> bool" where
  "named_result name r \<longleftrightarrow> resActionVersion r = ''v1'' \<and> resTableRef r = name \<and> well_shaped r"

lemma empty_envelope_fits:
  assumes e: "success_envelope requestID name env" and r: "named_result name r"
    and b: "length requestID \<le> 256" "length name \<le> 253" and n: "resRows r = []" "resColumns r = []"
  shows "envelope_fits (env\<lparr>evResult := Some r\<rparr>)"
proof -
  have l: "length (json_string requestID) \<le> 1538" "length (json_string name) \<le> 1520"
    using length_json_string [of requestID] length_json_string [of name] b by simp_all
  have s: "length (json_string s) = length s + 2"
    if "s \<in> {''requestID'', ''provider'', ''action'', ''actionVersion'', ''resourceRef'', ''result'',
      ''apiVersion'', ''kind'', ''resource'', ''name'', ''tableRef'', ''columns'', ''rows'', ''truncated'',
      ''databricks'', ''query_table'', ''v1'', ''databricks.faros.sh/v1alpha1'', ''Table'', ''tables''}" for s
    using that by (auto simp: json_string_def decode_ascii json_escape_rune_def)
  show ?thesis
    using e r n l b
    by (auto simp: envelope_fits_def marshal_envelope_def success_envelope_def named_result_def
        marshal_result_def result_fields_def envelope_fields_def omit_empty_def ref_json_def
        table_ref_def action_consts query_consts json_struct_def json_array_def s)
qed

lemma boundEnvelopeLoop_succeeds:
  assumes "success_envelope requestID name env" "named_result name r"
    and "length requestID \<le> 256" "length name \<le> 253"
  shows "\<exists>env' r'. boundEnvelopeLoop env r = Inr env' \<and> success_envelope requestID name env' \<and>
    evResult env' = Some r' \<and> named_result name r'"
  using assms
proof (induction env r rule: boundEnvelopeLoop.induct)
  case (1 env r)
  let ?env = "env\<lparr>evResult := Some r\<rparr>"
  have e: "success_envelope requestID name ?env"
    using "1.prems"(1) by (simp add: success_envelope_def)
  show ?case
  proof (cases "envelope_fits ?env")
    case True
    with e "1.prems" show ?thesis
      by (intro exI [of _ ?env] exI [of _ r]) (simp add: boundEnvelopeLoop.simps [of env r])
  next
    case nf: False
    show ?thesis
    proof (cases "resRows r = []")
      case False
      have "named_result name (r\<lparr>resRows := butlast (resRows r), resTruncated := True\<rparr>)"
        using "1.prems"(2) well_shaped_butlast_rows [of r True] by (simp add: named_result_def)
      with "1.IH"(1) [OF refl nf False e] nf False "1.prems" show ?thesis
        by (simp add: boundEnvelopeLoop.simps [of env r])
    next
      case rows: True
      show ?thesis
      proof (cases "resColumns r = []")
        case False
        let ?r = "(BoundQueryResult (r\<lparr>resColumns := butlast (resColumns r)\<rparr>))\<lparr>resTruncated := True\<rparr>"
        have "named_result name ?r"
          using "1.prems" BoundQueryResult_identity [of "r\<lparr>resColumns := butlast (resColumns r)\<rparr>"]
            bq.shaped [of "r\<lparr>resColumns := butlast (resColumns r)\<rparr>"]
          by (simp add: named_result_def well_shaped_def)
        with "1.IH"(2) [OF refl nf _ False e] rows nf False "1.prems" show ?thesis
          by (simp add: boundEnvelopeLoop.simps [of env r])
      next
        case True
        with empty_envelope_fits [OF "1.prems"(1,2,3,4) rows] nf show ?thesis by simp
      qed
    qed
  qed
qed

subsection \<open>The handler's contract\<close>

lemma hex_alnum: "list_all alnum (hex n r)"
proof -
  have "alnum (Go_Strings.hex_digit (r div 16 ^ i mod 16))" for i
  proof -
    have "r div 16 ^ i mod 16 < 16" by simp
    then show ?thesis by (auto simp: Go_Strings.hex_digit_def alnum_def)
  qed
  then show ?thesis by (simp add: hex_def list_all_iff)
qed

definition rand_ok :: "nat list option \<Rightarrow> bool" where
  "rand_ok rnd \<longleftrightarrow> (case rnd of None \<Rightarrow> True | Some buf \<Rightarrow> length buf = 8)"

lemma normalizeRequestID_ok:
  assumes "rand_ok rnd"
  shows "requestIDRE (normalizeRequestID rnd value)"
proof (cases "requestIDRE (TrimSpace value)")
  case True
  then show ?thesis by (simp add: normalizeRequestID_def)
next
  case False
  then have n: "normalizeRequestID rnd value =
      (case rnd of None \<Rightarrow> ''req-unavailable'' | Some buf \<Rightarrow> ''req-'' @ concat (map (hex 2) buf))"
    by (simp add: normalizeRequestID_def)
  show ?thesis
  proof (cases rnd)
    case None
    with n show ?thesis by (simp add: requestIDRE_def request_id_char_def alnum_def)
  next
    case (Some buf)
    have "length (concat (map (hex 2) buf)) = 16"
      using assms Some by (simp add: rand_ok_def length_concat comp_def sum_list_triv)
    moreover have "list_all request_id_char (concat (map (hex 2) buf))"
      using hex_alnum by (fastforce simp: list_all_iff request_id_char_def)
    ultimately show ?thesis
      using n Some by (simp add: requestIDRE_def request_id_char_def alnum_def)
  qed
qed

lemma decodeRequest_ok:
  "decodeRequest rd body readError = Inr input \<Longrightarrow>
     1 \<le> qiLimit input \<and> qiLimit input \<le> 100 \<and> length (qiColumns input) \<le> 64 \<and>
     distinct (qiColumns input) \<and> list_all identifier_ok (qiColumns input)"
  by (auto simp: decodeRequest_def Let_def NormalizeQueryControls_spec
      split: sum.splits option.splits if_splits)

text \<open>What a request must satisfy before the executor of its route runs.\<close>

definition admissible :: "request_decoders \<Rightarrow> action_request \<Rightarrow> Route \<Rightarrow> QueryInput \<Rightarrow> int \<Rightarrow> bool" where
  "admissible rd r route input deadline \<longleftrightarrow>
     aqVerb r = ''POST'' \<and> hasBearer (aqAuthorization r) \<and>
     ParseActionPath (aqPath r) = Inr route \<and> rtResource route = ''tables'' \<and>
     rtAction route = ''query_table'' \<and> rtVersion route = ''v1'' \<and>
     tableRefRE (rtName route) \<and> length (rtName route) \<le> 253 \<and>
     decodeRequest rd (aqBody r) (aqReadError r) = Inr input \<and> actionDeadline (aqDeadline r) = Inr deadline"

lemma unescaped_graphic: "\<not> shouldEscape encodePathSegment c \<Longrightarrow> graphic c"
proof (rule ccontr)
  assume n: "\<not> shouldEscape encodePathSegment c" and g: "\<not> graphic c"
  from g have "\<not> alnum c" by (auto simp: graphic_def alnum_def)
  moreover from g have "c \<notin> set ''-_.~''" "c \<notin> set ''$&+,/:;=?@''" by (auto simp: graphic_def)
  ultimately have "shouldEscape encodePathSegment c" unfolding shouldEscape_def by (simp only: if_False) simp
  with n show False ..
qed

lemma path_safe_trim:
  assumes "path_safe s"
  shows "TrimSpace s = s"
proof (rule TrimSpace_all_graphic)
  have "escape encodePathSegment s = s" using assms by (simp add: path_safe_def PathEscape_def)
  then have "graphic c" if "c \<in> set s" for c
    using escape_chars [of c encodePathSegment s] that unescaped_graphic [of c]
    by (auto simp: graphic_def alnum_def)
  then show "list_all graphic s" by (simp add: list_all_iff)
qed

lemma ValidateTableRef_route:
  "route_safe route \<Longrightarrow> ValidateTableRef (rtName route) = Inr () \<longleftrightarrow>
     tableRefRE (rtName route) \<and> length (rtName route) \<le> 253"
  by (simp add: ValidateTableRef_iff path_safe_trim route_safe_def)

lemma handleAction_admitted:
  assumes "admissible rd r route input deadline"
  shows "handleAction rd rnd ef r w =
    (case Option.bind ef (\<lambda>f. f r route) of
       None \<Rightarrow> (writeEnvelopeError (normalizeRequestID rnd (aqRequestID r)) (Some route) 503
                 ActionErrorCodeActionUnavailable ''databricks action executor is unavailable'', w)
     | Some executor \<Rightarrow>
         (case executor (table_ref (rtName route)) input deadline w of
            (Inl e, w') \<Rightarrow>
              (if errors_Is e ContextCanceled \<or> errors_Is e ContextDeadlineExceeded
               then writeEnvelopeError (normalizeRequestID rnd (aqRequestID r)) (Some route) 504
                      ActionErrorCodeActionTimeout ''databricks action timed out''
               else writeFailure (normalizeRequestID rnd (aqRequestID r)) (Some route)
                      (normalizeActionError (Some e)), w')
          | (Inr result, w') \<Rightarrow>
              (action_success (normalizeRequestID rnd (aqRequestID r)) route result, w')))"
proof -
  have "ValidateTableRef (rtName route) = Inr ()"
    using assms ParseActionPath_InrD(1) [of "aqPath r" route]
    by (simp add: admissible_def ValidateTableRef_route)
  with assms show ?thesis
    by (simp add: handleAction_def admissible_def action_consts Let_def split: option.splits)
qed

text \<open>The refusals, in the order of the code.\<close>

definition refused :: "action_response \<Rightarrow> string \<Rightarrow> bool" where
  "refused resp requestID \<longleftrightarrow>
     (\<exists>route status code message. resp = writeEnvelopeError requestID route status code message \<and>
        (code, status) \<in> {(''method_not_allowed'', 405), (''unauthenticated'', 401),
          (''action_not_found'', 404), (''invalid_request'', 400), (''action_unavailable'', 503),
          (''invalid_deadline'', 400)})"

lemma refusedI:
  "(code, status) \<in> {(''method_not_allowed'', 405), (''unauthenticated'', 401),
     (''action_not_found'', 404), (''invalid_request'', 400), (''action_unavailable'', 503),
     (''invalid_deadline'', 400)} \<Longrightarrow>
   refused (writeEnvelopeError requestID route status code message) requestID"
  unfolding refused_def by (intro exI conjI) (rule refl)

lemma not_admitted_refused:
  assumes "\<And>route input deadline. \<not> admissible rd r route input deadline"
  shows "\<exists>resp. handleAction rd rnd ef r w = (resp, w) \<and> refused resp (normalizeRequestID rnd (aqRequestID r))"
proof (cases "aqVerb r = ''POST'' \<and> hasBearer (aqAuthorization r)")
  case False
  then show ?thesis
    by (cases "aqVerb r = ''POST''") (simp_all add: handleAction_def Let_def refusedI action_codes)
next
  case a: True
  show ?thesis
  proof (cases "ParseActionPath (aqPath r)")
    case (Inl e)
    with a show ?thesis by (simp add: handleAction_def Let_def refusedI action_codes)
  next
    case p: (Inr route)
    note safe = ParseActionPath_InrD(1) [OF p]
    show ?thesis
    proof (cases "rtResource route = ''tables'' \<and> rtAction route = ''query_table'' \<and> rtVersion route = ''v1''")
      case False
      then consider "rtResource route \<noteq> resourceName" | "rtAction route \<noteq> ActionQueryName"
        | "rtVersion route \<noteq> ActionQueryV1" by (auto simp: action_consts)
      then show ?thesis
        using a p by cases (simp_all add: handleAction_def Let_def refusedI action_codes)
    next
      case t: True
      show ?thesis
      proof (cases "ValidateTableRef (rtName route)")
        case (Inl e)
        with a p t show ?thesis by (simp add: handleAction_def Let_def refusedI action_codes action_consts)
      next
        case v: (Inr u)
        show ?thesis
        proof (cases "decodeRequest rd (aqBody r) (aqReadError r)")
          case (Inl e)
          with a p t v show ?thesis by (simp add: handleAction_def Let_def refusedI action_codes action_consts)
        next
          case d: (Inr input)
          have "\<not> (\<exists>deadline. actionDeadline (aqDeadline r) = Inr deadline)"
            using assms [of route input] a p t v d safe ValidateTableRef_route [of route]
            by (simp add: admissible_def)
          then obtain e where "actionDeadline (aqDeadline r) = Inl e"
            by (cases "actionDeadline (aqDeadline r)") auto
          with a p t v d show ?thesis
            by (cases "Option.bind ef (\<lambda>f. f r route)")
              (simp_all add: handleAction_def Let_def refusedI action_codes action_consts)
        qed
      qed
    qed
  qed
qed

lemma refused_shape:
  assumes "refused resp requestID"
  shows "arStatus resp \<noteq> 200" "arRequestID resp = requestID" "evRequestID (arEnvelope resp) = requestID"
    "evResult (arEnvelope resp) = None"
    "\<exists>e. evError (arEnvelope resp) = Some e \<and> good_error (arStatus resp) e"
proof -
  obtain route status code message where r: "resp = writeEnvelopeError requestID route status code message"
    and c: "(code, status) \<in> {(''method_not_allowed'', 405), (''unauthenticated'', 401),
      (''action_not_found'', 404), (''invalid_request'', 400), (''action_unavailable'', 503),
      (''invalid_deadline'', 400)}"
    using assms unfolding refused_def by (elim exE conjE)
  have k: "isKnownActionErrorCode ''unauthenticated''" "isKnownActionErrorCode ''action_not_found''"
    "isKnownActionErrorCode ''invalid_request''" "isKnownActionErrorCode ''action_unavailable''"
    "isKnownActionErrorCode ''invalid_deadline''"
    by (simp_all add: isKnownActionErrorCode_def known_action_codes_def action_codes)
  from c have g: "good_error status \<lparr>weCode = code, weMessage = safeActionErrorMessage message,
      weRetryable = defaultRetryable code\<rparr>"
    by (auto simp: good_error_def safe_message k status_allowed_simps)
  then show "arStatus resp \<noteq> 200" by (auto simp: r writeEnvelopeError_simps dest: good_error_status)
  show "arRequestID resp = requestID" "evResult (arEnvelope resp) = None"
    "evRequestID (arEnvelope resp) = requestID"
    by (simp_all add: r writeEnvelopeError_def error_response_def)
  show "\<exists>e. evError (arEnvelope resp) = Some e \<and> good_error (arStatus resp) e"
    using g by (simp add: r writeEnvelopeError_simps)
qed

text \<open>
  C7. The executor of a route runs only for a POST with a bearer credential, on a path that
  parses to \<^verbatim>\<open>tables/{name}/query_table/v1\<close> with a valid name, with controls within bounds and a
  deadline of 1 ms to 45 s, and it runs with the resource, input and deadline of that request. In
  every other case nothing happens beyond a response that is not a success.
\<close>

theorem handleAction_guarded:
  "(snd (handleAction rd rnd ef r w) = w \<and> arStatus (fst (handleAction rd rnd ef r w)) \<noteq> 200) \<or>
   (\<exists>route input deadline executor.
      admissible rd r route input deadline \<and> 1 \<le> deadline \<and> deadline \<le> 45000 \<and>
      1 \<le> qiLimit input \<and> qiLimit input \<le> 100 \<and> length (qiColumns input) \<le> 64 \<and>
      distinct (qiColumns input) \<and> list_all identifier_ok (qiColumns input) \<and>
      Option.bind ef (\<lambda>f. f r route) = Some executor \<and>
      snd (handleAction rd rnd ef r w) = snd (executor (table_ref (rtName route)) input deadline w))"
proof (cases "\<exists>route input deadline. admissible rd r route input deadline")
  case False
  then show ?thesis
    using not_admitted_refused [of rd r rnd ef w] refused_shape(1) by (metis fst_conv snd_conv)
next
  case True
  then obtain route input deadline where a: "admissible rd r route input deadline" by blast
  note b = parse_deadline [of "aqDeadline r" deadline] decodeRequest_ok [of rd "aqBody r" "aqReadError r" input]
  show ?thesis
  proof (cases "Option.bind ef (\<lambda>f. f r route)")
    case None
    then show ?thesis by (simp add: handleAction_admitted [OF a] writeEnvelopeError_simps)
  next
    case (Some executor)
    with a b show ?thesis
      by (intro disjI2 exI [of _ route] exI [of _ input] exI [of _ deadline] exI [of _ executor])
        (auto simp: handleAction_admitted [OF a] admissible_def split: prod.splits sum.splits)
  qed
qed

lemma admissible_name:
  "admissible rd r route input deadline \<Longrightarrow>
     rtAction route = ''query_table'' \<and> rtVersion route = ''v1'' \<and> length (rtName route) \<le> 253"
  by (simp add: admissible_def)

lemma action_success_ok:
  assumes "rtAction route = ''query_table''" "rtVersion route = ''v1''" "length (rtName route) \<le> 253"
    "length requestID \<le> 256"
  shows "\<exists>env r'. action_success requestID route result =
      \<lparr>arStatus = 200, arRequestID = requestID, arEnvelope = env\<rparr> \<and>
    success_envelope requestID (rtName route) env \<and> evResult env = Some r' \<and>
    named_result (rtName route) r' \<and> envelope_fits env"
proof -
  let ?r = "BoundQueryResult (result\<lparr>resActionVersion := ActionVersionV1, resTableRef := rtName route\<rparr>)"
  let ?env = "\<lparr>evRequestID = requestID, evProvider = ProviderName, evAction = rtAction route,
                 evActionVersion = rtVersion route, evResourceRef = Some (table_ref (rtName route)),
                 evResult = Some ?r, evError = None\<rparr>"
  have e: "success_envelope requestID (rtName route) ?env"
    using assms by (simp add: success_envelope_def action_consts)
  have r: "named_result (rtName route) ?r"
    using assms BoundQueryResult_identity [of "result\<lparr>resActionVersion := ActionVersionV1, resTableRef := rtName route\<rparr>"]
      bq.shaped by (simp add: named_result_def query_consts)
  obtain env' r' where b: "boundEnvelopeLoop ?env ?r = Inr env'"
    and s: "success_envelope requestID (rtName route) env'" "evResult env' = Some r'"
      "named_result (rtName route) r'"
    using boundEnvelopeLoop_succeeds [OF e r assms(4,3)] by blast
  have "boundResultEnvelope ?env = Inr env'" using b by (simp add: boundResultEnvelope_def)
  then have "action_success requestID route result =
      \<lparr>arStatus = 200, arRequestID = requestID, arEnvelope = env'\<rparr>"
    by (simp add: action_success_def Let_def)
  with s boundEnvelopeLoop_fits [OF b] show ?thesis by blast
qed

text \<open>
  C30. Every response is either a 200 with a result and no error, or carries exactly one error
  whose message is safe and whose status is one its code allows (\<^verbatim>\<open>method_not_allowed\<close> with 405
  being the one code outside the published list); it always echoes a well-formed request ID.
\<close>

theorem handleAction_response:
  assumes "rand_ok rnd"
  shows "requestIDRE (arRequestID (fst (handleAction rd rnd ef r w))) \<and>
    ((\<exists>res. arStatus (fst (handleAction rd rnd ef r w)) = 200 \<and>
        evResult (arEnvelope (fst (handleAction rd rnd ef r w))) = Some res \<and>
        evError (arEnvelope (fst (handleAction rd rnd ef r w))) = None) \<or>
     (\<exists>e. evResult (arEnvelope (fst (handleAction rd rnd ef r w))) = None \<and>
        evError (arEnvelope (fst (handleAction rd rnd ef r w))) = Some e \<and>
        good_error (arStatus (fst (handleAction rd rnd ef r w))) e))"
proof (cases "\<exists>route input deadline. admissible rd r route input deadline")
  case False
  then obtain resp where "handleAction rd rnd ef r w = (resp, w)"
    "refused resp (normalizeRequestID rnd (aqRequestID r))"
    using not_admitted_refused [of rd r rnd ef w] by blast
  with refused_shape [OF this(2)] normalizeRequestID_ok [OF assms] show ?thesis by simp
next
  case True
  then obtain route input deadline where a: "admissible rd r route input deadline" by blast
  let ?id = "normalizeRequestID rnd (aqRequestID r)"
  have id: "requestIDRE ?id" by (rule normalizeRequestID_ok [OF assms])
  then have len: "length ?id \<le> 256" by (simp add: requestIDRE_def)
  have u: "good_error 503 \<lparr>weCode = ActionErrorCodeActionUnavailable,
        weMessage = safeActionErrorMessage m, weRetryable = b\<rparr>"
    "good_error 504 \<lparr>weCode = ActionErrorCodeActionTimeout,
        weMessage = safeActionErrorMessage m, weRetryable = b\<rparr>" for m b
    by (simp_all add: good_error_def safe_message isKnownActionErrorCode_def known_action_codes_def
        action_codes status_allowed_simps)
  show ?thesis
  proof (cases "Option.bind ef (\<lambda>f. f r route)")
    case None
    with id u show ?thesis by (simp add: handleAction_admitted [OF a] writeEnvelopeError_simps)
  next
    case (Some executor)
    obtain x w' where x: "executor (table_ref (rtName route)) input deadline w = (x, w')" by force
    show ?thesis
    proof (cases x)
      case (Inl e)
      with x Some id u writeFailure_good [of ?id "Some route"] writeFailure_shape show ?thesis
        by (simp add: handleAction_admitted [OF a] writeEnvelopeError_simps)
    next
      case (Inr result)
      with x Some have h: "handleAction rd rnd ef r w = (action_success ?id route result, w')"
        by (simp add: handleAction_admitted [OF a])
      with id action_success_ok [of route ?id result] admissible_name [OF a] len show ?thesis
        by (auto simp: success_envelope_def)
    qed
  qed
qed

text \<open>
  C31. A result the executor returns always reaches the caller: the response is a 200 whose
  complete JSON text, with its newline, is at most 64 KiB, and whose identity is that of the
  route (provider, action, version, resource and table name), whatever the executor put there.
\<close>

theorem handleAction_success:
  assumes "rand_ok rnd" "admissible rd r route input deadline"
    "Option.bind ef (\<lambda>f. f r route) = Some executor"
    "executor (table_ref (rtName route)) input deadline w = (Inr result, w')"
  shows "\<exists>env res payload. handleAction rd rnd ef r w =
      (\<lparr>arStatus = 200, arRequestID = normalizeRequestID rnd (aqRequestID r), arEnvelope = env\<rparr>, w') \<and>
    marshal_envelope env = Some payload \<and> length payload + 1 \<le> 65536 \<and>
    evProvider env = ''databricks'' \<and> evAction env = ''query_table'' \<and> evActionVersion env = ''v1'' \<and>
    evResourceRef env = Some (table_ref (rtName route)) \<and> evResult env = Some res \<and>
    resActionVersion res = ''v1'' \<and> resTableRef res = rtName route \<and> well_shaped res"
proof -
  let ?id = "normalizeRequestID rnd (aqRequestID r)"
  have "length ?id \<le> 256"
    using normalizeRequestID_ok [OF assms(1)] by (simp add: requestIDRE_def)
  then obtain env res where s: "action_success ?id route result =
      \<lparr>arStatus = 200, arRequestID = ?id, arEnvelope = env\<rparr>"
    "success_envelope ?id (rtName route) env" "evResult env = Some res"
    "named_result (rtName route) res" "envelope_fits env"
    using action_success_ok admissible_name [OF assms(2)] by blast
  then obtain payload where "marshal_envelope env = Some payload" "length payload + 1 \<le> 65536"
    by (auto simp: envelope_fits_def query_consts split: option.splits)
  with s assms(3,4) show ?thesis
    by (auto simp: handleAction_admitted [OF assms(2)] success_envelope_def named_result_def)
qed

subsection \<open>A concrete request\<close>

definition example_decoders :: request_decoders where
  "example_decoders =
     \<lparr>rdWire = (\<lambda>_ _. Inr ''{}''), rdWireTrailing = (\<lambda>_ _. None),
      rdInput = (\<lambda>_. Inr \<lparr>qiColumns = [], qiLimit = 0\<rparr>), rdInputTrailing = (\<lambda>_. None)\<rparr>"

definition example_route :: Route where
  "example_route =
     \<lparr>rtClusterID = ''root'', rtResource = ''tables'', rtName = ''orders'', rtAction = ''query_table'',
      rtVersion = ''v1''\<rparr>"

definition example_action_request :: action_request where
  "example_action_request =
     \<lparr>aqVerb = ''POST'', aqPath = route_path example_route, aqRequestID = [],
      aqAuthorization = ''Bearer abc'', aqDeadline = [], aqBody = [], aqReadError = None\<rparr>"

definition example_executor :: "unit query_executor" where
  "example_executor ref input deadline w = (Inr example_result, w)"

lemma example_admissible:
  "admissible example_decoders example_action_request example_route
     \<lparr>qiColumns = [], qiLimit = 100\<rparr> 45000"
proof -
  have "ParseActionPath (route_path example_route) = Inr example_route"
    by (rule ParseActionPath_route_path)
      (simp add: route_safe_def path_safe_def example_route_def PathEscape_def shouldEscape_def alnum_def)
  moreover have "hasBearer ''Bearer abc''"
    by (simp add: hasBearer_def TrimSpace_graphic graphic_def ToLower_def ascii_lower_def char_of_eval)
  moreover have "decodeRequest example_decoders [] None = Inr \<lparr>qiColumns = [], qiLimit = 100\<rparr>"
    by (simp add: decodeRequest_def example_decoders_def action_consts NormalizeQueryControls_def query_consts)
  ultimately show ?thesis
    by (simp add: admissible_def example_action_request_def actionDeadline_def action_consts)
      (simp add: example_route_def tableRefRE_def lower_alnum_def digit_def)
qed

theorem handleAction_response_witness:
  "requestIDRE (arRequestID (fst (handleAction example_decoders None None example_action_request ())))"
  using handleAction_response [of None example_decoders None example_action_request "()"]
  by (simp add: rand_ok_def)

theorem handleAction_success_witness:
  "arStatus (fst (handleAction example_decoders None (Some (\<lambda>_ _. Some example_executor))
     example_action_request ())) = 200"
  using handleAction_success [OF _ example_admissible, of None "Some (\<lambda>_ _. Some example_executor)"
      example_executor "()" example_result "()"]
  by (auto simp: rand_ok_def example_executor_def)

subsection \<open>Diagnostics the sanitiser removes\<close>

text \<open>
  The message of the 401 refusal itself contains two forbidden markers, so a caller without a
  credential receives the generic failure text.
\<close>

lemma unauthenticated_message_generic:
  "safeActionErrorMessage ''a bearer credential is required'' = defaultActionFailureMessage"
proof -
  have "contains ''bearer'' (ToLower ''a bearer credential is required'')"
    by (simp add: ToLower_def ascii_lower_def)
  then show ?thesis
    by (simp add: safeActionErrorMessage_cases message_safe_def forbidden_markers_def
        TrimSpace_graphic graphic_def)
qed

end
