(* ===== verification/Api_Types.thy ===== *)
theory Api_Types
  imports Errors
begin

text \<open>
  Package \<^verbatim>\<open>v1alpha1\<close> (\<^verbatim>\<open>apis/databricks/v1alpha1/types.go\<close>): the tenant-authored resources the
  controllers validate. Of the Kubernetes object metadata the model keeps the fields the
  provider reads: name, generation, resource version, deletion mark. \<open>Condition\<close> is
  \<^verbatim>\<open>metav1.Condition\<close>; times are seconds.
\<close>

datatype ConditionStatus = ConditionTrue | ConditionFalse | ConditionUnknown

record Condition =
  cndType :: string
  cndStatus :: ConditionStatus
  cndObservedGeneration :: int
  cndLastTransitionTime :: int
  cndReason :: string
  cndMessage :: string

record ObjectMeta =
  omName :: string
  omGeneration :: int
  omResourceVersion :: int
  omDeleting :: bool

record LocalSecretReference =
  srName :: string
  srNamespace :: string
  srKey :: string

definition ConnectionAuthPAT :: string where
  "ConnectionAuthPAT = ''pat''"

record ConnectionSpec =
  csHost :: string
  csAuthType :: string
  csSecretRef :: LocalSecretReference

record ConnectionStatus =
  cstObservedGeneration :: int
  cstWorkspaceID :: string
  cstConditions :: "Condition list"

record Connection =
  cnMeta :: ObjectMeta
  cnSpec :: ConnectionSpec
  cnStatus :: ConnectionStatus

record WarehouseSpec =
  wsConnectionRef :: string
  wsWarehouseID :: string

record WarehouseStatus =
  wstObservedGeneration :: int
  wstState :: string
  wstConditions :: "Condition list"

record Warehouse =
  whMeta :: ObjectMeta
  whSpec :: WarehouseSpec
  whStatus :: WarehouseStatus

record Column =
  colName :: string
  colType :: string
  colNullable :: bool
  colComment :: string

record TableSpec =
  tsConnectionRef :: string
  tsWarehouseRef :: string
  tsCatalog :: string
  tsSchema :: string
  tsTable :: string

record TableStatus =
  tstObservedGeneration :: int
  tstRefreshedAt :: "int option"
  tstColumns :: "Column list"
  tstConditions :: "Condition list"

record Table =
  tbMeta :: ObjectMeta
  tbSpec :: TableSpec
  tbStatus :: TableStatus

definition ConditionValidated :: string where "ConditionValidated = ''Validated''"
definition ConditionFederationReady :: string where "ConditionFederationReady = ''FederationReady''"
definition ConditionReady :: string where "ConditionReady = ''Ready''"

lemmas condition_types = ConditionValidated_def ConditionFederationReady_def ConditionReady_def

end
