(* ===== verification/Shared.thy ===== *)
theory Shared
  imports Api_Types Queryapi
begin

text \<open>
  Package \<^verbatim>\<open>controller/shared\<close> (\<^verbatim>\<open>controller/shared/shared.go\<close>): resolving the objects a reconciler
  depends on and the gate on their conditions. The Kubernetes client, the multicluster manager
  and the condition helpers of apimachinery are arguments, collected in \<open>kube_client\<close>; \<open>'k\<close> is the
  state of the API they work on. Durations are seconds.
\<close>

definition DefaultCredentialsNamespace :: string where "DefaultCredentialsNamespace = ''default''"
definition DefaultTokenKey :: string where "DefaultTokenKey = ''token''"
definition DependencyRetryAfter :: int where "DependencyRetryAfter = 15"
definition ValidationRefreshAfter :: int where "ValidationRefreshAfter = 300"

lemmas shared_consts = DefaultCredentialsNamespace_def DefaultTokenKey_def DependencyRetryAfter_def
  ValidationRefreshAfter_def

record 'k kube_client =
  kGetConnection :: "'k \<Rightarrow> string \<Rightarrow> Connection go_result"
  kGetWarehouse :: "'k \<Rightarrow> string \<Rightarrow> Warehouse go_result"
  kGetTable :: "'k \<Rightarrow> string \<Rightarrow> Table go_result"
  kGetSecret :: "'k \<Rightarrow> string \<Rightarrow> string \<Rightarrow> (string \<times> string) list go_result"
  kListWarehouses :: "'k \<Rightarrow> Warehouse list go_result"
  kListTables :: "'k \<Rightarrow> Table list go_result"
  kUpdateConnectionStatus :: "Connection \<Rightarrow> 'k \<Rightarrow> unit go_result \<times> 'k"
  kUpdateWarehouseStatus :: "Warehouse \<Rightarrow> 'k \<Rightarrow> unit go_result \<times> 'k"
  kUpdateTableStatus :: "Table \<Rightarrow> 'k \<Rightarrow> unit go_result \<times> 'k"
  kSetStatusCondition :: "Condition list \<Rightarrow> Condition \<Rightarrow> Condition list"
  kFindStatusCondition :: "Condition list \<Rightarrow> string \<Rightarrow> Condition option"

text \<open>
  The documented behaviour of \<^verbatim>\<open>apimeta.SetStatusCondition\<close> and \<^verbatim>\<open>FindStatusCondition\<close>: a condition
  that was set is found under its type with the given status, reason, message and observed
  generation, and conditions of other types are left alone.
\<close>

definition same_condition :: "Condition \<Rightarrow> Condition \<Rightarrow> bool" where
  "same_condition c d \<longleftrightarrow>
     cndType c = cndType d \<and> cndStatus c = cndStatus d \<and> cndReason c = cndReason d \<and>
     cndMessage c = cndMessage d \<and> cndObservedGeneration c = cndObservedGeneration d"

definition conditions_ok :: "'k kube_client \<Rightarrow> bool" where
  "conditions_ok c \<longleftrightarrow>
     (\<forall>cs x t. (t = cndType x \<longrightarrow>
          (\<exists>y. kFindStatusCondition c (kSetStatusCondition c cs x) t = Some y \<and> same_condition y x)) \<and>
        (t \<noteq> cndType x \<longrightarrow>
          kFindStatusCondition c (kSetStatusCondition c cs x) t = kFindStatusCondition c cs t))"

subsection \<open>Operations\<close>

text \<open>\<open>manager\<close> stands for \<^verbatim>\<open>mgr.GetCluster\<close>.\<close>

definition ClusterClient ::
  "(string \<Rightarrow> 'k kube_client go_result) \<Rightarrow> string \<Rightarrow> 'k kube_client go_result" where
  "ClusterClient manager clusterName =
     (case manager clusterName of
        Inl e \<Rightarrow> Inl (WrapError (''getting cluster '' @ clusterName @ '': '') e)
      | Inr c \<Rightarrow> Inr c)"

definition SetCondition ::
  "'k kube_client \<Rightarrow> Condition list \<Rightarrow> string \<Rightarrow> ConditionStatus \<Rightarrow> string \<Rightarrow> string \<Rightarrow> int \<Rightarrow>
   Condition list" where
  "SetCondition c conds condType status reason msg observedGen =
     kSetStatusCondition c conds
       \<lparr>cndType = condType, cndStatus = status, cndObservedGeneration = observedGen,
        cndLastTransitionTime = 0, cndReason = reason, cndMessage = msg\<rparr>"

definition CurrentConditionTrue ::
  "'k kube_client \<Rightarrow> Condition list \<Rightarrow> int \<Rightarrow> int \<Rightarrow> string \<Rightarrow> bool" where
  "CurrentConditionTrue c conditions observedGeneration generation conditionType =
     (if observedGeneration \<noteq> generation then False
      else (case kFindStatusCondition c conditions conditionType of
              None \<Rightarrow> False
            | Some condition \<Rightarrow>
                cndStatus condition = ConditionTrue \<and> cndObservedGeneration condition = generation))"

text \<open>The three resolvers differ in the object read and in the words of their errors.\<close>

definition resolve_named ::
  "string \<Rightarrow> string \<Rightarrow> (string \<Rightarrow> 'o go_result) \<Rightarrow> string \<Rightarrow> 'o go_result" where
  "resolve_named field what get name =
     (let name = TrimSpace name in
      if name = [] then Inl (ErrorString (field @ '' is required''))
      else (case get name of
              Inr obj \<Rightarrow> Inr obj
            | Inl e \<Rightarrow>
                if IsNotFound e then Inl (ErrorString (what @ '' '' @ quoted name @ '' not found''))
                else if IsForbidden e
                then Inl (ErrorString (what @ '' '' @ quoted name @
                       '' is not readable; check the provider APIBinding claims''))
                else Inl (WrapError (''get '' @ what @ '' '' @ quoted name @ '': '') e)))"

definition ResolveConnection :: "'k kube_client \<Rightarrow> 'k \<Rightarrow> string \<Rightarrow> Connection go_result" where
  "ResolveConnection c k name =
     resolve_named ''connectionRef'' ''connection'' (kGetConnection c k) name"

definition ResolveWarehouse :: "'k kube_client \<Rightarrow> 'k \<Rightarrow> string \<Rightarrow> Warehouse go_result" where
  "ResolveWarehouse c k name = resolve_named ''warehouseRef'' ''warehouse'' (kGetWarehouse c k) name"

definition ResolveTable :: "'k kube_client \<Rightarrow> 'k \<Rightarrow> string \<Rightarrow> Table go_result" where
  "ResolveTable c k name = resolve_named ''tableRef'' ''tableRef'' (kGetTable c k) name"

definition ResolveBearerToken :: "'k kube_client \<Rightarrow> 'k \<Rightarrow> Connection \<Rightarrow> string go_result" where
  "ResolveBearerToken c k conn =
     (let ref = csSecretRef (cnSpec conn);
          ns = (if srNamespace ref = [] then DefaultCredentialsNamespace else srNamespace ref);
          key = (if srKey ref = [] then DefaultTokenKey else srKey ref);
          label = ''credential secret '' @ ns @ ''/'' @ srName ref in
      case kGetSecret c k ns (srName ref) of
        Inl e \<Rightarrow>
          if IsNotFound e then Inl (ErrorString (label @ '' not found''))
          else if IsForbidden e
          then Inl (ErrorString (label @ '' is not readable; check the provider APIBinding secrets claim''))
          else Inl (WrapError (''get '' @ label @ '': '') e)
      | Inr secretData \<Rightarrow>
          (case map_of secretData key of
             Some token \<Rightarrow>
               if token = []
               then Inl (ErrorString (label @ '' missing non-empty key '' @ quoted key))
               else Inr token
           | None \<Rightarrow> Inl (ErrorString (label @ '' missing non-empty key '' @ quoted key))))"

subsection \<open>Facts\<close>

lemma conditions_okD:
  assumes "conditions_ok c"
  shows "\<exists>y. kFindStatusCondition c (kSetStatusCondition c cs x) (cndType x) = Some y \<and> same_condition y x"
    "t \<noteq> cndType x \<Longrightarrow>
      kFindStatusCondition c (kSetStatusCondition c cs x) t = kFindStatusCondition c cs t"
  using assms by (auto simp: conditions_ok_def)

lemma SetCondition_find:
  assumes "conditions_ok c"
  shows "\<exists>y. kFindStatusCondition c (SetCondition c cs t s r m g) t = Some y \<and>
      cndStatus y = s \<and> cndReason y = r \<and> cndMessage y = m \<and> cndObservedGeneration y = g"
  using conditions_okD(1) [OF assms, of cs "\<lparr>cndType = t, cndStatus = s, cndObservedGeneration = g,
        cndLastTransitionTime = 0, cndReason = r, cndMessage = m\<rparr>"]
  by (auto simp: SetCondition_def same_condition_def)

lemma SetCondition_other:
  assumes "conditions_ok c" "t' \<noteq> t"
  shows "kFindStatusCondition c (SetCondition c cs t s r m g) t' = kFindStatusCondition c cs t'"
  using conditions_okD(2) [OF assms(1)] assms(2) by (simp add: SetCondition_def)

lemma CurrentConditionTrue_set:
  assumes "conditions_ok c"
  shows "CurrentConditionTrue c (SetCondition c cs t s r m g) og gen t \<longleftrightarrow>
      og = gen \<and> s = ConditionTrue \<and> g = gen"
  using SetCondition_find [OF assms, of cs t s r m g] by (auto simp: CurrentConditionTrue_def)

lemma CurrentConditionTrue_other:
  assumes "conditions_ok c" "t' \<noteq> t"
  shows "CurrentConditionTrue c (SetCondition c cs t s r m g) og gen t' =
      CurrentConditionTrue c cs og gen t'"
  using SetCondition_other [OF assms] by (simp add: CurrentConditionTrue_def)

text \<open>
  The resolvers turn a missing or unreadable object into an untyped error: the reason of the
  API error is no longer in the chain.
\<close>

lemma resolve_named_reason_lost:
  assumes "get (TrimSpace name) = Inl e" "TrimSpace name \<noteq> []" "IsNotFound e \<or> IsForbidden e"
  shows "\<exists>msg. resolve_named field what get name = Inl (ErrorString msg)"
  using assms by (auto simp: resolve_named_def Let_def)

lemma resolve_named_Inr: "resolve_named field what get name = Inr obj \<Longrightarrow> get (TrimSpace name) = Inr obj"
  by (auto simp: resolve_named_def Let_def split: if_splits sum.splits)

lemma ResolveBearerToken_nonempty: "ResolveBearerToken c k conn = Inr token \<Longrightarrow> token \<noteq> []"
  by (auto simp: ResolveBearerToken_def Let_def split: if_splits sum.splits option.splits)

end
