(* ===== verification/Hostpolicy.thy ===== *)
theory Hostpolicy
  imports Go_Net
begin

text \<open>
  Package \<^verbatim>\<open>hostpolicy\<close> (\<^verbatim>\<open>hostpolicy/hostpolicy.go\<close>): the allowlist of Databricks workspace hosts,
  the check that decides where a tenant's bearer token may be sent. \<^verbatim>\<open>os.Getenv\<close> of
  \<^verbatim>\<open>DATABRICKS_ALLOWED_HOST_SUFFIXES\<close> is the argument \<open>env\<close>.
\<close>

definition defaultWorkspaceHostSuffixes :: "string list" where
  "defaultWorkspaceHostSuffixes =
     [''cloud.databricks.com'', ''gcp.databricks.com'', ''azuredatabricks.net'']"

definition normalizeSuffix :: "string \<Rightarrow> string" where
  "normalizeSuffix value = Trim (Trim (TrimSpace (ToLower value)) ''[]'') ''.''"

definition splitCSV :: "string \<Rightarrow> string list" where
  "splitCSV value =
     (if TrimSpace value = [] then []
      else filter (\<lambda>p. p \<noteq> []) (map TrimSpace (split_on CHR '','' value)))"

fun collectSuffixes :: "string list \<Rightarrow> string list \<Rightarrow> string list" where
  "collectSuffixes seen [] = []"
| "collectSuffixes seen (sfx # rest) =
     (let s = normalizeSuffix sfx in
      if s = [] \<or> ParseIP s \<noteq> None then collectSuffixes seen rest
      else if s \<in> set seen then collectSuffixes seen rest
      else s # collectSuffixes (s # seen) rest)"

definition WorkspaceHostSuffixes :: "string \<Rightarrow> string list \<Rightarrow> string list" where
  "WorkspaceHostSuffixes env configured =
     (let configured = (if configured = [] then splitCSV env else configured) in
      collectSuffixes [] (defaultWorkspaceHostSuffixes @ configured))"

definition AllowedWorkspaceHost :: "string \<Rightarrow> string \<Rightarrow> string list \<Rightarrow> bool" where
  "AllowedWorkspaceHost env hostname configured =
     (let hostname = TrimSuffix (ToLower (TrimSpace hostname)) ''.'' in
      if hostname = [] \<or> ParseIP (Trim hostname ''[]'') \<noteq> None then False
      else list_ex (\<lambda>sfx. hostname = sfx \<or> HasSuffix hostname (''.'' @ sfx))
             (WorkspaceHostSuffixes env configured))"

subsection \<open>The policy\<close>

definition labels :: "string \<Rightarrow> string list" where
  "labels h = split_on CHR ''.'' h"

definition usable_suffix :: "string \<Rightarrow> bool" where
  "usable_suffix s \<longleftrightarrow> s \<noteq> [] \<and> ParseIP s = None"

lemma set_collectSuffixes:
  "set (collectSuffixes seen xs) = {s \<in> normalizeSuffix ` set xs. usable_suffix s} - set seen"
  by (induction seen xs rule: collectSuffixes.induct) (auto simp: usable_suffix_def Let_def)

lemma distinct_collectSuffixes: "distinct (collectSuffixes seen xs)"
  by (induction seen xs rule: collectSuffixes.induct) (auto simp: set_collectSuffixes Let_def)

lemma default_suffixes_normal:
  "s \<in> set defaultWorkspaceHostSuffixes \<Longrightarrow> normalizeSuffix s = s \<and> usable_suffix s"
  by (auto simp: defaultWorkspaceHostSuffixes_def normalizeSuffix_def usable_suffix_def ToLower_def
      ascii_lower_def TrimSpace_graphic graphic_def Trim_def TrimRight_def ParseIP_def
      parseIPv4Fields_def parse_octet_def dec_digit_def)

lemma collectSuffixes_prefix:
  "(\<And>s. s \<in> set ds \<Longrightarrow> normalizeSuffix s = s \<and> usable_suffix s) \<Longrightarrow> distinct ds \<Longrightarrow>
     set ds \<inter> set seen = {} \<Longrightarrow> prefix ds (collectSuffixes seen (ds @ xs))"
proof (induction ds arbitrary: seen)
  case (Cons d ds)
  have d: "normalizeSuffix d = d" "usable_suffix d" using Cons.prems(1) [of d] by simp_all
  moreover have "prefix ds (collectSuffixes (d # seen) (ds @ xs))"
    using Cons.prems by (intro Cons.IH) auto
  ultimately show ?case using Cons.prems(3) by (simp add: usable_suffix_def)
qed simp

lemma dot_suffix_labels:
  "h = s \<or> HasSuffix h (''.'' @ s) \<longleftrightarrow> suffix (labels s) (labels h)"
  by (simp add: labels_def suffix_split_on_iff HasSuffix_suffix del: HasSuffix_def)

text \<open>
  The configured suffixes extend the defaults and never replace them: the policy list
  starts with the three built-in suffixes in order, has no repetitions and no IP address, and
  besides the defaults contains exactly the normalised usable suffixes of the configuration
  (of the environment variable when none is configured).
\<close>

theorem WorkspaceHostSuffixes_additive:
  "prefix defaultWorkspaceHostSuffixes (WorkspaceHostSuffixes env configured) \<and>
   distinct (WorkspaceHostSuffixes env configured) \<and>
   set (WorkspaceHostSuffixes env configured) =
     set defaultWorkspaceHostSuffixes \<union>
     {s \<in> normalizeSuffix ` set (if configured = [] then splitCSV env else configured).
        usable_suffix s}"
proof (intro conjI)
  have d: "distinct defaultWorkspaceHostSuffixes"
    by (simp add: defaultWorkspaceHostSuffixes_def)
  show "prefix defaultWorkspaceHostSuffixes (WorkspaceHostSuffixes env configured)"
    unfolding WorkspaceHostSuffixes_def Let_def
    using d default_suffixes_normal by (intro collectSuffixes_prefix) auto
  show "distinct (WorkspaceHostSuffixes env configured)"
    by (simp add: WorkspaceHostSuffixes_def distinct_collectSuffixes Let_def)
  have "{s \<in> normalizeSuffix ` set defaultWorkspaceHostSuffixes. usable_suffix s} =
      set defaultWorkspaceHostSuffixes"
    using default_suffixes_normal by (auto simp: image_iff)
  then show "set (WorkspaceHostSuffixes env configured) =
     set defaultWorkspaceHostSuffixes \<union>
     {s \<in> normalizeSuffix ` set (if configured = [] then splitCSV env else configured).
        usable_suffix s}"
    unfolding WorkspaceHostSuffixes_def Let_def set_collectSuffixes set_append image_Un
      list.set(1) Diff_empty by blast
qed

lemma AllowedWorkspaceHost_iff:
  "AllowedWorkspaceHost env hostname configured \<longleftrightarrow>
     (let h = TrimSuffix (ToLower (TrimSpace hostname)) ''.'' in
      h \<noteq> [] \<and> ParseIP (Trim h ''[]'') = None \<and>
      (\<exists>s \<in> set (WorkspaceHostSuffixes env configured). suffix (labels s) (labels h)))"
  by (simp only: AllowedWorkspaceHost_def Let_def dot_suffix_labels) (auto simp: list_ex_iff)

text \<open>
  C11. A host is allowed exactly when, lower-cased, trimmed and without its trailing dot, it is
  not an IP address (bracketed or not) and its dot-separated labels end with all the labels of
  an allowlisted suffix. So \<^verbatim>\<open>evilcloud.databricks.com\<close>-style look-alikes, and hosts that only
  contain a suffix further left, are never allowed.
\<close>

theorem AllowedWorkspaceHost_labels:
  "AllowedWorkspaceHost env hostname configured \<longleftrightarrow>
     (let h = TrimSuffix (ToLower (TrimSpace hostname)) ''.'' in
      h \<noteq> [] \<and> ParseIP (Trim h ''[]'') = None \<and>
      (\<exists>s \<in> set (WorkspaceHostSuffixes env configured).
         usable_suffix s \<and> suffix (labels s) (labels h)))"
proof -
  have "usable_suffix s" if "s \<in> set (WorkspaceHostSuffixes env configured)" for s
    using that by (auto simp: WorkspaceHostSuffixes_def set_collectSuffixes Let_def)
  then show ?thesis unfolding AllowedWorkspaceHost_iff Let_def by blast
qed

end
