(* ===== verification/Workspace_URL.thy ===== *)
theory Workspace_URL
  imports Hostpolicy Queryapi
begin

text \<open>
  The workspace URL checks of package \<^verbatim>\<open>backend\<close> (\<^verbatim>\<open>backend/validation.go\<close>): from the tenant-written
  host of a Connection to the URLs the provider sends a bearer token to. \<open>backend_env\<close> collects
  what the package takes from its surroundings: the URL parser of the standard library, the
  environment variable with additional host suffixes, the HTTP transport (which may answer
  depending on everything sent before), and the JSON decoders for the response types.
\<close>

subsection \<open>Requests, responses and the environment\<close>

record http_request =
  rqVerb :: string
  rqURL :: string
  rqHeader :: "(string \<times> string) list"
  rqBody :: string

text \<open>A response body is the bytes that can be read from it and the error the reader ends with.\<close>

record http_response =
  rsStatusCode :: int
  rsStatus :: string
  rsBody :: string
  rsReadError :: "go_error option"

record StatementColumn =
  scName :: string
  scTypeName :: string
  scTypeText :: string

record statementResponse =
  spState :: string
  spErrorMessage :: string
  spColumns :: "StatementColumn list"
  spManifestTruncated :: bool
  spDataArray :: "json list list"
  spResultTruncated :: bool

record tableSummary =
  smFullName :: string
  smTableType :: string

record tableSummariesResponse =
  srTables :: "tableSummary list"
  srNextPageToken :: string

record backend_env =
  url_Parse :: "string \<Rightarrow> URL go_result"
  env_suffixes :: string
  transport :: "http_request list \<Rightarrow> http_request \<Rightarrow> http_response go_result"
  unmarshal_statement :: "string \<Rightarrow> statementResponse go_result"
  unmarshal_object :: "string \<Rightarrow> go_map go_result"
  unmarshal_summaries :: "string \<Rightarrow> tableSummariesResponse go_result"
  format_float0 :: "string \<Rightarrow> string"

text \<open>
  \<open>StatementClient\<close>. Its \<^verbatim>\<open>HTTPClient\<close> (or the default one when nil) is the environment's transport.
\<close>

record StatementClient =
  WaitTimeout :: string
  AllowedWorkspaceHostSuffixes :: "string list"
  AllowInsecureWorkspaceHost :: bool

subsection \<open>The checks\<close>

definition isLoopbackHost :: "string \<Rightarrow> bool" where
  "isLoopbackHost hostname =
     (if hostname = ''localhost'' then True
      else (case ParseIP hostname of None \<Rightarrow> False | Some ip \<Rightarrow> IsLoopback ip))"

definition allowedWorkspaceHost :: "backend_env \<Rightarrow> string \<Rightarrow> string list \<Rightarrow> bool" where
  "allowedWorkspaceHost env hostname configured =
     AllowedWorkspaceHost (env_suffixes env) hostname configured"

definition schemeAllowed :: "StatementClient \<Rightarrow> string \<Rightarrow> string \<Rightarrow> bool" where
  "schemeAllowed c scheme hostname =
     (let scheme = ToLower (TrimSpace scheme) in
      if scheme = ''https'' then True
      else AllowInsecureWorkspaceHost c \<and> scheme = ''http'' \<and> isLoopbackHost hostname)"

definition host_error :: "string \<Rightarrow> string \<Rightarrow> go_error" where
  "host_error host what = ErrorString (''databricks host '' @ quoted host @ what)"

definition workspaceURL :: "backend_env \<Rightarrow> StatementClient \<Rightarrow> string \<Rightarrow> URL go_result" where
  "workspaceURL env c host =
     (case url_Parse env (TrimSpace (TrimRight host ''/'')) of
        Inl e \<Rightarrow> Inl (WrapError (''parse databricks host '' @ quoted host @ '': '') e)
      | Inr u \<Rightarrow>
     if uScheme u = [] \<or> uHost u = [] then Inl (host_error host '' must include scheme and host'')
     else if uUser u \<noteq> None \<or> uRawQuery u \<noteq> [] \<or> uFragment u \<noteq> []
     then Inl (host_error host '' must not include user info, query, or fragment'')
     else if uPath u \<noteq> [] \<and> uPath u \<noteq> ''/''
     then Inl (host_error host '' must be a workspace root URL'')
     else
     (let hostname = ToLower (TrimSpace (Hostname u)) in
      if hostname = [] then Inl (host_error host '' must include host name'')
      else
      (let port = Port u;
           allowLoopbackHost = (AllowInsecureWorkspaceHost c \<and> isLoopbackHost hostname) in
       if \<not> schemeAllowed c (uScheme u) hostname then Inl (host_error host '' must use https'')
       else if \<not> allowLoopbackHost \<and>
               \<not> allowedWorkspaceHost env hostname (AllowedWorkspaceHostSuffixes c)
       then Inl (host_error host '': not an allowed Databricks workspace host'')
       else if port \<noteq> [] \<and> port \<noteq> ''443'' \<and> \<not> allowLoopbackHost
       then Inl (host_error host '' must use the default https port'')
       else Inr (u\<lparr>uScheme := ToLower (uScheme u),
                   uHost := (if port \<noteq> [] then JoinHostPort hostname port else hostname),
                   uPath := []\<rparr>))))"

subsection \<open>Endpoints\<close>

definition currentUserPath :: string where "currentUserPath = ''/api/2.0/current-user/me''"
definition warehousePathPrefix :: string where
  "warehousePathPrefix = ''/api/2.0/sql/warehouses/''"
definition tableSummariesPath :: string where
  "tableSummariesPath = ''/api/2.1/unity-catalog/table-summaries''"

definition currentUserEndpoints ::
  "backend_env \<Rightarrow> StatementClient \<Rightarrow> string \<Rightarrow> string list go_result" where
  "currentUserEndpoints env c host =
     (case workspaceURL env c host of
        Inl e \<Rightarrow> Inl e
      | Inr u \<Rightarrow>
          (let basePath = TrimRight (uPath u) ''/'' in
           Inr [url_String (u\<lparr>uPath := basePath @ currentUserPath\<rparr>),
                url_String (u\<lparr>uPath := basePath @ ''/api/2.0/preview/scim/v2/Me''\<rparr>)]))"

definition warehouseEndpoint ::
  "backend_env \<Rightarrow> StatementClient \<Rightarrow> string \<Rightarrow> string \<Rightarrow> string go_result" where
  "warehouseEndpoint env c host warehouseID =
     (case workspaceURL env c host of
        Inl e \<Rightarrow> Inl e
      | Inr u \<Rightarrow>
          Inr (url_String (u\<lparr>uPath := TrimRight (uPath u) ''/'' @ warehousePathPrefix @
                 PathEscape (TrimSpace warehouseID)\<rparr>)))"

definition statementExecutionURL ::
  "backend_env \<Rightarrow> StatementClient \<Rightarrow> string \<Rightarrow> string go_result" where
  "statementExecutionURL env c host =
     (case workspaceURL env c host of
        Inl e \<Rightarrow> Inl e
      | Inr u \<Rightarrow> Inr (url_String (u\<lparr>uPath := TrimRight (uPath u) ''/'' @ ''/api/2.0/sql/statements''\<rparr>)))"

definition validateTableRef :: "TableRef \<Rightarrow> unit go_result" where
  "validateTableRef ref =
     (case ValidateIdentifier (trCatalog ref) of
        Inl e \<Rightarrow> Inl (WrapError (''catalog '' @ quoted (trCatalog ref) @ '': '') e)
      | Inr _ \<Rightarrow>
     (case ValidateIdentifier (trSchema ref) of
        Inl e \<Rightarrow> Inl (WrapError (''schema '' @ quoted (trSchema ref) @ '': '') e)
      | Inr _ \<Rightarrow>
     (case ValidateIdentifier (trTable ref) of
        Inl e \<Rightarrow> Inl (WrapError (''table '' @ quoted (trTable ref) @ '': '') e)
      | Inr _ \<Rightarrow> Inr ())))"

definition backslash :: char where
  "backslash = CHR 0x5C"

definition escapeSQLLikeLiteral :: "string \<Rightarrow> string" where
  "escapeSQLLikeLiteral value =
     ReplaceAll
       (ReplaceAll (ReplaceAll value backslash [backslash, backslash])
          CHR ''%'' [backslash, CHR ''%''])
       CHR ''_'' [backslash, CHR ''_'']"

definition table_full_name :: "TableRef \<Rightarrow> string" where
  "table_full_name ref = join ''.'' [trCatalog ref, trSchema ref, trTable ref]"

definition tableSummariesEndpoint ::
  "backend_env \<Rightarrow> StatementClient \<Rightarrow> string \<Rightarrow> TableRef \<Rightarrow> (string \<times> string) go_result" where
  "tableSummariesEndpoint env c host ref =
     (case validateTableRef ref of
        Inl e \<Rightarrow> Inl e
      | Inr _ \<Rightarrow>
     (case workspaceURL env c host of
        Inl e \<Rightarrow> Inl e
      | Inr u \<Rightarrow>
          (let u = u\<lparr>uPath := TrimRight (uPath u) ''/'' @ tableSummariesPath\<rparr>;
               query = values_Set ''include_manifest_capabilities'' ''false''
                 (values_Set ''max_results'' ''1''
                 (values_Set ''table_name_pattern'' (escapeSQLLikeLiteral (trTable ref))
                 (values_Set ''schema_name_pattern'' (escapeSQLLikeLiteral (trSchema ref))
                 (values_Set ''catalog_name'' (trCatalog ref) (ParseQuery (uRawQuery u))))))
           in Inr (url_String (u\<lparr>uRawQuery := values_Encode query\<rparr>), table_full_name ref))))"

subsection \<open>Where requests may go\<close>

text \<open>
  What the URL checks rely on from the parser: a URL with an authority has no opaque part, and
  a scheme is made of the characters RFC 3986 allows. Nothing is assumed about the host text.
\<close>

definition scheme_char :: "char \<Rightarrow> bool" where
  "scheme_char c \<longleftrightarrow> alnum c \<or> c \<in> set ''+-.''"

definition url_parser_ok :: "backend_env \<Rightarrow> bool" where
  "url_parser_ok env \<longleftrightarrow>
     (\<forall>s u. url_Parse env s = Inr u \<longrightarrow>
        (uHost u \<noteq> [] \<longrightarrow> uOpaque u = []) \<and> list_all scheme_char (uScheme u))"

definition permitted_host :: "backend_env \<Rightarrow> StatementClient \<Rightarrow> string \<Rightarrow> bool" where
  "permitted_host env c hostname \<longleftrightarrow>
     AllowedWorkspaceHost (env_suffixes env) hostname (AllowedWorkspaceHostSuffixes c) \<or>
     AllowInsecureWorkspaceHost c \<and> isLoopbackHost hostname"

definition permitted_scheme :: "StatementClient \<Rightarrow> string \<Rightarrow> string \<Rightarrow> bool" where
  "permitted_scheme c scheme hostname \<longleftrightarrow>
     scheme = ''https'' \<or>
     AllowInsecureWorkspaceHost c \<and> isLoopbackHost hostname \<and> scheme = ''http''"

definition permitted_authority :: "StatementClient \<Rightarrow> string \<Rightarrow> string \<Rightarrow> bool" where
  "permitted_authority c hostname hostport \<longleftrightarrow>
     hostport = hostname \<or> hostport = JoinHostPort hostname ''443'' \<or>
     AllowInsecureWorkspaceHost c \<and> isLoopbackHost hostname \<and>
       (\<exists>port. hostport = JoinHostPort hostname port)"

text \<open>
  A URL text that leads to a permitted workspace: the authority is delimited, carries no user
  information, and names a permitted host under a permitted scheme and port.
\<close>

definition permitted_url :: "backend_env \<Rightarrow> StatementClient \<Rightarrow> string \<Rightarrow> bool" where
  "permitted_url env c s \<longleftrightarrow>
     (\<exists>scheme hostname hostport authority rest.
        s = scheme @ ''://'' @ authority @ ''/'' @ rest \<and>
        authority = escape encodeHost hostport \<and> set authority \<inter> set ''/?#@'' = {} \<and>
        hostname \<noteq> [] \<and> permitted_host env c hostname \<and> permitted_scheme c scheme hostname \<and>
        permitted_authority c hostname hostport)"

lemma scheme_char_graphic: "scheme_char c \<Longrightarrow> graphic c"
  by (auto simp: scheme_char_def alnum_def graphic_def)

lemma url_parser_okD:
  assumes "url_parser_ok env" "url_Parse env s = Inr u"
  shows "uHost u \<noteq> [] \<Longrightarrow> uOpaque u = []" "TrimSpace (uScheme u) = uScheme u"
  using assms by (auto simp: url_parser_ok_def list_all_iff
      intro!: TrimSpace_all_graphic scheme_char_graphic)

lemma workspaceURL_shape:
  assumes "workspaceURL env c host = Inr u"
  shows "uUser u = None" "uRawQuery u = []" "uFragment u = []" "uPath u = []"
  using assms by (auto simp: workspaceURL_def Let_def split: sum.splits if_splits)

lemma JoinHostPort_nonempty [simp]: "JoinHostPort h p \<noteq> []"
  by (simp add: JoinHostPort_def)

lemma workspaceURL_checked:
  assumes "workspaceURL env c host = Inr u"
  obtains v where "url_Parse env (TrimSpace (TrimRight host ''/'')) = Inr v" "uScheme v \<noteq> []"
    "uHost v \<noteq> []"
    "schemeAllowed c (uScheme v) (ToLower (TrimSpace (Hostname v)))"
    "ToLower (TrimSpace (Hostname v)) \<noteq> []"
    "permitted_host env c (ToLower (TrimSpace (Hostname v)))"
    "permitted_authority c (ToLower (TrimSpace (Hostname v))) (uHost u)"
    "uScheme u = ToLower (uScheme v)" "uOpaque u = uOpaque v"
  using assms
  by (auto simp: workspaceURL_def Let_def permitted_host_def permitted_authority_def
      allowedWorkspaceHost_def split: sum.splits if_splits) blast+

lemma workspaceURL_target:
  assumes ok: "url_parser_ok env" and w: "workspaceURL env c host = Inr u"
  obtains hostname where "hostname \<noteq> []" "permitted_host env c hostname"
    "permitted_scheme c (uScheme u) hostname" "permitted_authority c hostname (uHost u)"
    "uOpaque u = []" "uScheme u \<noteq> []" "uHost u \<noteq> []"
proof -
  obtain v where p: "url_Parse env (TrimSpace (TrimRight host ''/'')) = Inr v" "uHost v \<noteq> []"
    and s: "schemeAllowed c (uScheme v) (ToLower (TrimSpace (Hostname v)))"
    and h: "ToLower (TrimSpace (Hostname v)) \<noteq> []"
      "permitted_host env c (ToLower (TrimSpace (Hostname v)))"
      "permitted_authority c (ToLower (TrimSpace (Hostname v))) (uHost u)"
    and u: "uScheme u = ToLower (uScheme v)" "uOpaque u = uOpaque v"
    using workspaceURL_checked [OF w] by metis
  note P = url_parser_okD [OF ok p(1)]
  have "permitted_scheme c (uScheme u) (ToLower (TrimSpace (Hostname v)))"
    using s u P(2) by (auto simp: schemeAllowed_def permitted_scheme_def Let_def split: if_splits)
  moreover from this have "uScheme u \<noteq> []" by (auto simp: permitted_scheme_def)
  moreover have "uHost u \<noteq> []" using h by (auto simp: permitted_authority_def)
  ultimately show thesis using that h P(1) p(2) u by metis
qed

lemma EscapedPath_nonempty: "uPath u \<noteq> [] \<Longrightarrow> EscapedPath u \<noteq> []"
  by (simp add: EscapedPath_def)

lemma url_String_rooted:
  assumes "uOpaque u = []" "uUser u = None" "uScheme u \<noteq> []" "uHost u \<noteq> []" "uPath u \<noteq> []"
  shows "\<exists>rest. url_String u = uScheme u @ ''://'' @ escape encodeHost (uHost u) @ ''/'' @ rest"
proof (cases "hd (EscapedPath u) = CHR ''/''")
  case True
  with EscapedPath_nonempty [OF assms(5)] obtain r where "EscapedPath u = ''/'' @ r"
    by (cases "EscapedPath u") auto
  with assms True show ?thesis by (simp add: url_String_def url_head_def Let_def)
next
  case False
  with assms EscapedPath_nonempty [OF assms(5)] show ?thesis
    by (simp add: url_String_def url_head_def Let_def)
qed

text \<open>A parsed URL that prints to a permitted one.\<close>

definition leads_to_workspace :: "backend_env \<Rightarrow> StatementClient \<Rightarrow> URL \<Rightarrow> bool" where
  "leads_to_workspace env c u \<longleftrightarrow>
     (\<exists>hostname. hostname \<noteq> [] \<and> permitted_host env c hostname \<and>
        permitted_scheme c (uScheme u) hostname \<and> permitted_authority c hostname (uHost u)) \<and>
     uOpaque u = [] \<and> uUser u = None \<and> uHost u \<noteq> [] \<and> uPath u \<noteq> []"

lemma leads_to_permitted:
  assumes "leads_to_workspace env c u"
  shows "permitted_url env c (url_String u)"
proof -
  from assms obtain hostname where h: "hostname \<noteq> []" "permitted_host env c hostname"
    "permitted_scheme c (uScheme u) hostname" "permitted_authority c hostname (uHost u)"
    and u: "uOpaque u = []" "uUser u = None" "uHost u \<noteq> []" "uPath u \<noteq> []"
    by (auto simp: leads_to_workspace_def)
  from h(3) have "uScheme u \<noteq> []" by (auto simp: permitted_scheme_def)
  with u obtain rest where
    "url_String u = uScheme u @ ''://'' @ escape encodeHost (uHost u) @ ''/'' @ rest"
    using url_String_rooted by blast
  moreover have "set (escape encodeHost (uHost u)) \<inter> set ''/?#@'' = {}"
    using escape_host_delimiters by blast
  ultimately show ?thesis unfolding permitted_url_def using h by blast
qed

lemma leads_to_query [simp]:
  "leads_to_workspace env c (u\<lparr>uRawQuery := q\<rparr>) = leads_to_workspace env c u"
  by (simp add: leads_to_workspace_def)

text \<open>Whatever path is put on a checked workspace URL, it still leads there.\<close>

lemma workspaceURL_leads:
  assumes "url_parser_ok env" "workspaceURL env c host = Inr u" "path \<noteq> []"
  shows "leads_to_workspace env c (u\<lparr>uPath := path\<rparr>)"
  using workspaceURL_target [OF assms(1,2)] workspaceURL_shape [OF assms(2)] assms(3)
  unfolding leads_to_workspace_def by (metis (no_types, lifting) URL.select_convs URL.surjective
      URL.update_convs(5))

lemmas endpoint_paths = currentUserPath_def warehousePathPrefix_def tableSummariesPath_def

lemma permitted_endpoints:
  assumes "url_parser_ok env"
  shows "currentUserEndpoints env c host = Inr es \<Longrightarrow> list_all (permitted_url env c) es"
    "warehouseEndpoint env c host wid = Inr s \<Longrightarrow> permitted_url env c s"
    "statementExecutionURL env c host = Inr s \<Longrightarrow> permitted_url env c s"
    "tableSummariesEndpoint env c host ref = Inr (s, full) \<Longrightarrow> permitted_url env c s"
  using leads_to_permitted [OF workspaceURL_leads [OF assms]]
    leads_to_permitted [OF leads_to_query [THEN iffD2, OF workspaceURL_leads [OF assms]]]
  by (auto simp: currentUserEndpoints_def warehouseEndpoint_def statementExecutionURL_def
      tableSummariesEndpoint_def Let_def endpoint_paths split: sum.splits)

text \<open>
  In production (no loopback exception) a permitted URL is always \<^verbatim>\<open>https\<close> to an allowlisted
  host on the default port.
\<close>

lemma permitted_url_production:
  assumes "permitted_url env c s" "\<not> AllowInsecureWorkspaceHost c"
  obtains hostname authority rest where
    "s = ''https://'' @ authority @ ''/'' @ rest"
    "authority = escape encodeHost hostname \<or> authority = escape encodeHost (JoinHostPort hostname ''443'')"
    "set authority \<inter> set ''/?#@'' = {}"
    "AllowedWorkspaceHost (env_suffixes env) hostname (AllowedWorkspaceHostSuffixes c)"
  using assms
  by (auto simp: permitted_url_def permitted_host_def permitted_scheme_def permitted_authority_def)

subsection \<open>LIKE patterns and paths\<close>

text \<open>A reference matcher for SQL LIKE with the backslash as escape character.\<close>

fun like_match :: "string \<Rightarrow> string \<Rightarrow> bool" where
  "like_match [] s = (s = [])"
| "like_match (p # ps) [] = (p = CHR ''%'' \<and> like_match ps [])"
| "like_match (p # ps) (c # cs) =
     (if p = backslash then
        (case ps of [] \<Rightarrow> False | q # qs \<Rightarrow> q = c \<and> like_match qs cs)
      else if p = CHR ''%'' then like_match ps (c # cs) \<or> like_match (p # ps) cs
      else if p = CHR ''_'' then like_match ps cs
      else p = c \<and> like_match ps cs)"

definition like_literal :: "char \<Rightarrow> string" where
  "like_literal c = (if c \<in> {backslash, CHR ''%'', CHR ''_''} then [backslash, c] else [c])"

lemma backslash_neq [simp]:
  "backslash \<noteq> CHR ''%''" "backslash \<noteq> CHR ''_''" "CHR ''%'' \<noteq> backslash" "CHR ''_'' \<noteq> backslash"
  by (simp_all add: backslash_def)

lemma escapeSQLLikeLiteral_eq: "escapeSQLLikeLiteral v = concat (map like_literal v)"
  by (induction v) (auto simp: escapeSQLLikeLiteral_def like_literal_def ReplaceAll_append)

lemma like_match_literal:
  "like_match (like_literal c @ ps) s \<longleftrightarrow> (\<exists>cs. s = c # cs \<and> like_match ps cs)"
  by (cases s) (auto simp: like_literal_def)

text \<open>
  The LIKE patterns of the table lookup are literal: the escaped name matches that name
  and nothing else, whatever wildcards or backslashes it contains.
\<close>

theorem escapeSQLLikeLiteral_exact: "like_match (escapeSQLLikeLiteral v) s \<longleftrightarrow> s = v"
  unfolding escapeSQLLikeLiteral_eq
  by (induction v arbitrary: s) (auto simp: like_match_literal)

lemma unescape_EscapedPath: "unescape encodePath (EscapedPath u) = Some (uPath u)"
  by (simp add: EscapedPath_def unescape_escape)

lemma length_escape: "length s \<le> length (escape m s)"
  by (induction s) (auto simp: pct_def)

lemma escape_length_id:
  "length (escape m s) = length s \<Longrightarrow> m \<noteq> encodeQueryComponent \<Longrightarrow>
     list_all (\<lambda>c. \<not> shouldEscape m c) s"
proof (induction s)
  case (Cons c cs)
  with length_escape [of cs m] show ?case by (auto simp: pct_def split: if_splits)
qed simp

lemma escape_segment_id_iff:
  "escape encodePathSegment s = s \<longleftrightarrow> list_all (\<lambda>c. \<not> shouldEscape encodePathSegment c) s"
  using escape_length_id [of encodePathSegment s] escape_id by auto

text \<open>
  The warehouse endpoint escapes the ID once as a path segment and \<^verbatim>\<open>URL.String\<close> escapes the path
  again, so the path a server decodes ends with the escaped ID. It is the warehouse's ID exactly
  when the ID has no character that needs escaping.
\<close>

lemma warehouseEndpoint_decoded_path:
  "unescape encodePath (EscapedPath (u\<lparr>uPath := warehousePathPrefix @ PathEscape wid\<rparr>)) =
     Some (warehousePathPrefix @ PathEscape wid) \<and>
   (PathEscape wid = wid \<longleftrightarrow> list_all (\<lambda>c. \<not> shouldEscape encodePathSegment c) wid)"
  by (simp add: unescape_EscapedPath PathEscape_def escape_segment_id_iff)

subsection \<open>Parsing printed URLs\<close>

text \<open>
  The table lookup parses the endpoint it has just printed. What it relies on: parsing the
  printed form of a plain rooted URL gives that URL back, if it succeeds.
\<close>

definition plain_url :: "URL \<Rightarrow> bool" where
  "plain_url u \<longleftrightarrow>
     uScheme u \<in> {''https'', ''http''} \<and> uOpaque u = [] \<and> uUser u = None \<and> uHost u \<noteq> [] \<and>
     uPath u \<noteq> [] \<and> hd (uPath u) = CHR ''/'' \<and> uRawPath u = [] \<and> uFragment u = [] \<and>
     CHR ''#'' \<notin> set (uRawQuery u)"

definition url_reparse_ok :: "backend_env \<Rightarrow> bool" where
  "url_reparse_ok env \<longleftrightarrow>
     (\<forall>s u. url_Parse env s = Inr u \<and> uHost u \<noteq> [] \<and> uPath u \<in> {[], ''/''} \<longrightarrow> uRawPath u = []) \<and>
     (\<forall>u v. plain_url u \<and> url_Parse env (url_String u) = Inr v \<longrightarrow>
        uScheme v = uScheme u \<and> uOpaque v = [] \<and> uUser v = None \<and> uHost v = uHost u \<and>
        uPath v = uPath u \<and> uRawQuery v = uRawQuery u)"

definition authority_end :: "char \<Rightarrow> bool" where
  "authority_end c \<longleftrightarrow> c = CHR ''/'' \<or> c = CHR ''?''"

text \<open>A small parser with these properties, for plain URLs without user information.\<close>

definition reference_parse :: "string \<Rightarrow> URL go_result" where
  "reference_parse s =
     (let scheme = takeWhile (\<lambda>c. c \<noteq> CHR '':'') s;
          rest = dropWhile (\<lambda>c. c \<noteq> CHR '':'') s;
          authority = takeWhile (\<lambda>c. \<not> authority_end c) (drop 3 rest);
          (path, query) = cut CHR ''?'' (dropWhile (\<lambda>c. \<not> authority_end c) (drop 3 rest)) in
      if \<not> prefix ''://'' rest \<or> \<not> list_all scheme_char scheme \<or> CHR ''#'' \<in> set s \<or>
         CHR ''@'' \<in> set authority
      then Inl (ErrorString ''unsupported url'')
      else (case (unescape encodeHost authority, unescape encodePath path) of
              (Some h, Some p) \<Rightarrow>
                Inr \<lparr>uScheme = scheme, uOpaque = [], uUser = None, uHost = h, uPath = p,
                     uRawPath = (if escape encodePath p = path then [] else path),
                     uOmitHost = False, uForceQuery = False, uRawQuery = query,
                     uFragment = [], uRawFragment = []\<rparr>
            | _ \<Rightarrow> Inl (ErrorString ''invalid url escape'')))"

lemma EscapedPath_plain:
  "plain_url u \<Longrightarrow> \<exists>r. EscapedPath u = CHR ''/'' # r \<and> CHR ''?'' \<notin> set r"
proof -
  assume u: "plain_url u"
  then obtain p where p: "uPath u = CHR ''/'' # p" by (cases "uPath u") (auto simp: plain_url_def)
  have "\<not> shouldEscape encodePath (CHR ''/'')" by (simp add: shouldEscape_def alnum_def)
  with u p have "EscapedPath u = CHR ''/'' # escape encodePath p"
    by (simp add: EscapedPath_def plain_url_def)
  moreover have "CHR ''?'' \<notin> set (escape encodePath p)" by (rule escape_path_delimiters) simp
  ultimately show ?thesis by blast
qed

lemma url_String_plain:
  assumes "plain_url u"
  shows "url_String u = uScheme u @ ''://'' @ escape encodeHost (uHost u) @ EscapedPath u @
    (if uForceQuery u \<or> uRawQuery u \<noteq> [] then ''?'' @ uRawQuery u else [])"
  using assms EscapedPath_plain [OF assms]
  by (auto simp: url_String_def url_head_def Let_def plain_url_def)

lemma takeWhile_stop: "(\<And>x. x \<in> set xs \<Longrightarrow> P x) \<Longrightarrow> \<not> P y \<Longrightarrow> takeWhile P (xs @ y # ys) = xs"
  by (induction xs) auto

lemma dropWhile_stop: "(\<And>x. x \<in> set xs \<Longrightarrow> P x) \<Longrightarrow> \<not> P y \<Longrightarrow> dropWhile P (xs @ y # ys) = y # ys"
  by (induction xs) auto

lemma cut_none: "c \<notin> set s \<Longrightarrow> cut c s = (s, [])"
  by (induction s) (auto simp: cut_def)

lemma reference_parse_parts:
  assumes u: "plain_url u" and v: "reference_parse (url_String u) = Inr v"
  shows "uScheme v = uScheme u \<and> uOpaque v = [] \<and> uUser v = None \<and> uHost v = uHost u \<and>
    uPath v = uPath u \<and> uRawQuery v = uRawQuery u"
proof -
  obtain r where r: "EscapedPath u = CHR ''/'' # r" "CHR ''?'' \<notin> set r"
    using EscapedPath_plain [OF u] by blast
  let ?q = "if uForceQuery u \<or> uRawQuery u \<noteq> [] then ''?'' @ uRawQuery u else []"
  let ?h = "escape encodeHost (uHost u)"
  let ?t = "CHR ''/'' # r @ ?q"
  have s: "url_String u = uScheme u @ CHR '':'' # ''//'' @ ?h @ ?t"
    using url_String_plain [OF u] r by simp
  have sc: "x \<noteq> CHR '':''" if "x \<in> set (uScheme u)" for x
    using u that by (auto simp: plain_url_def)
  have h: "\<not> authority_end x" if "x \<in> set ?h" for x
    using escape_host_delimiters [of x] that by (auto simp: authority_end_def)
  note a = takeWhile_stop [of "uScheme u" "\<lambda>c. c \<noteq> CHR '':''", OF sc]
    dropWhile_stop [of "uScheme u" "\<lambda>c. c \<noteq> CHR '':''", OF sc]
    takeWhile_stop [of ?h "\<lambda>c. \<not> authority_end c", OF h]
    dropWhile_stop [of ?h "\<lambda>c. \<not> authority_end c", OF h]
  have "cut CHR ''?'' ?t = (CHR ''/'' # r, uRawQuery u)"
    using r(2) cut_pair [of "CHR ''?''" "CHR ''/'' # r" "uRawQuery u"]
      cut_none [of "CHR ''?''" "CHR ''/'' # r"] by auto
  moreover have "unescape encodeHost ?h = Some (uHost u)" by (rule unescape_escape)
  moreover have "unescape encodePath (CHR ''/'' # r) = Some (uPath u)"
    using unescape_EscapedPath [of u] r(1) by simp
  ultimately show ?thesis
    using v unfolding reference_parse_def Let_def s
    by (auto simp: a authority_end_def [of "CHR ''/''"] split: if_splits del: unescape.simps)
qed

lemma reference_parse_ok:
  "url_parser_ok (env\<lparr>url_Parse := reference_parse\<rparr>)"
  by (auto simp: url_parser_ok_def reference_parse_def Let_def
      split: prod.splits option.splits if_splits)

lemma unescape_slash: "unescape encodePath (CHR ''/'' # s) = Some ''/'' \<Longrightarrow> s = []"
  by (cases s) (auto split: if_splits option.splits list.splits)

lemma unescape_empty: "unescape m s = Some [] \<Longrightarrow> s = []"
  by (cases s) (auto split: if_splits option.splits list.splits)

lemma reference_parse_rawpath:
  assumes "reference_parse s = Inr u" "uPath u \<in> {[], ''/''}"
  shows "uRawPath u = []"
proof -
  let ?t = "dropWhile (\<lambda>c. \<not> authority_end c) (drop 3 (dropWhile (\<lambda>c. c \<noteq> CHR '':'') s))"
  let ?p = "fst (cut CHR ''?'' ?t)"
  have p: "unescape encodePath ?p = Some (uPath u)"
    "uRawPath u = (if escape encodePath (uPath u) = ?p then [] else ?p)"
    using assms(1) by (auto simp: reference_parse_def Let_def split: prod.splits option.splits if_splits)
  have hd: "?p = [] \<or> (\<exists>r. ?p = CHR ''/'' # r)"
  proof (cases ?t)
    case (Cons x xs)
    then have "authority_end x"
      using hd_dropWhile [of "\<lambda>c. \<not> authority_end c"] by (metis list.distinct(1) list.sel(1))
    with Cons show ?thesis by (auto simp: cut_def authority_end_def)
  next
    case Nil
    show ?thesis unfolding Nil by (simp add: cut_def)
  qed
  have "\<not> shouldEscape encodePath (CHR ''/'')" by (simp add: shouldEscape_def alnum_def)
  with assms(2) p hd show ?thesis
    by (elim disjE exE insertE) (auto dest: unescape_slash unescape_empty simp del: unescape.simps)
qed

lemma reference_reparse_ok:
  "url_reparse_ok (env\<lparr>url_Parse := reference_parse\<rparr>)"
  using reference_parse_parts reference_parse_rawpath by (auto simp: url_reparse_ok_def)

end
