(* ===== verification/Statements.thy ===== *)
theory Statements
  imports Workspace_URL Api_Types
begin

text \<open>
  Package \<^verbatim>\<open>backend\<close>, statement execution (\<^verbatim>\<open>backend/backend.go\<close>): the client of the Databricks
  statement API. Each operation takes the log of the requests sent so far and returns its result
  with the extended log; the transport may answer depending on the whole log. The contexts of
  the calls appear only through the errors a transport may return.
\<close>

subsection \<open>Constants and constructors\<close>

definition defaultStatementWaitTimeout :: string where "defaultStatementWaitTimeout = ''10s''"
definition statementOnWaitTimeoutCancel :: string where "statementOnWaitTimeoutCancel = ''CANCEL''"
definition statementStatusSucceeded :: string where "statementStatusSucceeded = ''SUCCEEDED''"
definition maxStatementResponseBytes :: int where "maxStatementResponseBytes = 1048576"
definition maxMetadataResponseBytes :: int where "maxMetadataResponseBytes = 65536"

record QueryExecutionTarget =
  qtTable :: TableRef
  qtConnection :: ConnectionRef
  qtWarehouse :: WarehouseRef
  qtBearerToken :: string
  qtProjection :: "string list"
  qtLimit :: int
  qtAllowedColumns :: "string list"

definition NewStatementClient :: StatementClient where
  "NewStatementClient =
     \<lparr>WaitTimeout = defaultStatementWaitTimeout, AllowedWorkspaceHostSuffixes = [],
      AllowInsecureWorkspaceHost = False\<rparr>"

definition NewDevelopmentLoopbackStatementClient :: StatementClient where
  "NewDevelopmentLoopbackStatementClient =
     \<lparr>WaitTimeout = [], AllowedWorkspaceHostSuffixes = [], AllowInsecureWorkspaceHost = True\<rparr>"

text \<open>
  The development transport: whether a request is sent without TLS verification. The argument
  is the host name of the request's URL, absent when it has none.
\<close>

definition loopback_relaxed :: "string option \<Rightarrow> bool" where
  "loopback_relaxed hostname =
     (case hostname of None \<Rightarrow> False | Some h \<Rightarrow> isLoopbackHost (ToLower h))"

definition RoundTrip ::
  "(http_request \<Rightarrow> http_response go_result) \<Rightarrow> (http_request \<Rightarrow> http_response go_result) \<Rightarrow>
   string option \<Rightarrow> http_request \<Rightarrow> http_response go_result" where
  "RoundTrip secure insecure hostname req =
     (if loopback_relaxed hostname then insecure req else secure req)"

definition waitTimeout :: "StatementClient \<Rightarrow> string" where
  "waitTimeout c = (if TrimSpace (WaitTimeout c) = [] then defaultStatementWaitTimeout else WaitTimeout c)"

subsection \<open>Sending and decoding\<close>

text \<open>
  \<^verbatim>\<open>http.NewRequestWithContext\<close> parses the URL; \<^verbatim>\<open>Client.Do\<close> sends, which is what the log records.
\<close>

definition new_request ::
  "backend_env \<Rightarrow> string \<Rightarrow> string \<Rightarrow> (string \<times> string) list \<Rightarrow> string \<Rightarrow>
   http_request go_result" where
  "new_request env verb endpoint header body =
     (case url_Parse env endpoint of
        Inl e \<Rightarrow> Inl e
      | Inr _ \<Rightarrow> Inr \<lparr>rqVerb = verb, rqURL = endpoint, rqHeader = header, rqBody = body\<rparr>)"

definition bearer_header :: "string \<Rightarrow> string \<Rightarrow> string \<Rightarrow> (string \<times> string) list" where
  "bearer_header token key value = [(''Authorization'', ''Bearer '' @ token), (key, value)]"

definition send ::
  "backend_env \<Rightarrow> http_request \<Rightarrow> http_request list \<Rightarrow> http_response go_result \<times> http_request list" where
  "send env req log = (transport env log req, log @ [req])"

definition read_limited :: "http_response \<Rightarrow> nat \<Rightarrow> string go_result" where
  "read_limited resp n =
     (if n \<le> length (rsBody resp) then Inr (take n (rsBody resp))
      else (case rsReadError resp of Some e \<Rightarrow> Inl e | None \<Rightarrow> Inr (rsBody resp)))"

definition decodeBoundedJSON ::
  "http_response \<Rightarrow> int \<Rightarrow> (string \<Rightarrow> 'a go_result) \<Rightarrow> 'a go_result" where
  "decodeBoundedJSON resp maxBytes unmarshal =
     (if maxBytes < 1 then Inl (ErrorString ''invalid response byte limit'')
      else (case read_limited resp (nat maxBytes + 1) of
              Inl e \<Rightarrow> Inl e
            | Inr payload \<Rightarrow>
                if maxBytes < int (length payload)
                then Inl (ErrorString (''response exceeds the '' @ show_int maxBytes @ ''-byte limit''))
                else unmarshal payload))"

text \<open>\<^verbatim>\<open>io.ReadAll(io.LimitReader(resp.Body, 4096))\<close> with the error ignored.\<close>

definition error_body :: "http_response \<Rightarrow> string" where
  "error_body resp = TrimSpace (take 4096 (rsBody resp))"

definition status_ok :: "http_response \<Rightarrow> bool" where
  "status_ok resp \<longleftrightarrow> \<not> (rsStatusCode resp < 200 \<or> 300 \<le> rsStatusCode resp)"

definition statement_payload :: "StatementClient \<Rightarrow> string \<Rightarrow> string \<Rightarrow> string" where
  "statement_payload c warehouseID sql =
     json_struct [(''statement'', json_string sql), (''warehouse_id'', json_string warehouseID),
       (''wait_timeout'', json_string (waitTimeout c)),
       (''on_wait_timeout'', json_string statementOnWaitTimeoutCancel),
       (''disposition'', json_string ''INLINE''), (''format'', json_string ''JSON_ARRAY'')]"

definition statement_outcome :: "backend_env \<Rightarrow> http_response \<Rightarrow> statementResponse go_result" where
  "statement_outcome env resp =
     (if \<not> status_ok resp
      then Inl (StatementHTTPError (rsStatusCode resp) (rsStatus resp) (error_body resp))
      else (case decodeBoundedJSON resp maxStatementResponseBytes (unmarshal_statement env) of
              Inl e \<Rightarrow> Inl (WrapError ''decode statement response: '' e)
            | Inr out \<Rightarrow>
                (let state = ToUpper (TrimSpace (spState out)) in
                 if state \<noteq> [] \<and> state \<noteq> statementStatusSucceeded
                 then Inl (StatementStateError state (spErrorMessage out))
                 else Inr out)))"

definition executeStatement ::
  "backend_env \<Rightarrow> StatementClient \<Rightarrow> TableTarget \<Rightarrow> string \<Rightarrow> http_request list \<Rightarrow>
   statementResponse go_result \<times> http_request list" where
  "executeStatement env c target sql log =
     (if TrimSpace (crHost (ttConnection target)) = []
      then (Inl (ErrorString ''databricks connection host is required''), log)
      else if TrimSpace (wrWarehouseID (ttWarehouse target)) = []
      then (Inl (ErrorString ''databricks warehouse_id is required''), log)
      else if TrimSpace (ttBearerToken target) = []
      then (Inl (ErrorString ''databricks bearer token is required''), log)
      else
     (case statementExecutionURL env c (crHost (ttConnection target)) of
        Inl e \<Rightarrow> (Inl e, log)
      | Inr endpoint \<Rightarrow>
     (case new_request env ''POST'' endpoint
             (bearer_header (ttBearerToken target) ''Content-Type'' ''application/json'')
             (statement_payload c (wrWarehouseID (ttWarehouse target)) sql) of
        Inl e \<Rightarrow> (Inl (WrapError ''build statement request: '' e), log)
      | Inr req \<Rightarrow>
     (case send env req log of (r, log) \<Rightarrow>
       (case r of
          Inl e \<Rightarrow> (Inl (WrapError ''execute statement: '' e), log)
        | Inr resp \<Rightarrow> (statement_outcome env resp, log))))))"

subsection \<open>Results\<close>

definition rowsFromStatement :: "statementResponse \<Rightarrow> go_map list" where
  "rowsFromStatement resp =
     map (\<lambda>values. rev (zip (map scName (spColumns resp)) values)) (spDataArray resp)"

definition manifest_type :: "StatementColumn \<Rightarrow> string" where
  "manifest_type column =
     (let typ = TrimSpace (scTypeText column) in
      if typ = [] then TrimSpace (scTypeName column) else typ)"

definition queryResultFromStatement :: "statementResponse \<Rightarrow> string \<Rightarrow> QueryTableResult" where
  "queryResultFromStatement resp tableRef =
     (let columns = map (\<lambda>column. \<lparr>qcName = scName column, qcType = manifest_type column\<rparr>)
                      (spColumns resp) in
      \<lparr>resActionVersion = ActionVersionV1, resTableRef = tableRef, resColumns = columns,
       resRows = map (\<lambda>values. rev (zip (map qcName columns) values)) (spDataArray resp),
       resTruncated = (spManifestTruncated resp \<or> spResultTruncated resp \<or>
         list_ex (\<lambda>values. length values \<noteq> length columns) (spDataArray resp))\<rparr>)"

definition boundQueryResult :: "QueryTableResult \<Rightarrow> QueryTableResult" where
  "boundQueryResult result = BoundQueryResult result"

definition ExecuteTableQuery ::
  "backend_env \<Rightarrow> StatementClient \<Rightarrow> QueryExecutionTarget \<Rightarrow> http_request list \<Rightarrow>
   QueryTableResult go_result \<times> http_request list" where
  "ExecuteTableQuery env c target log =
     (case NormalizeQueryRequest
             \<lparr>qrActionVersion = ActionVersionV1, qrTableRef = ''table'',
              qrColumns = qtProjection target, qrLimit = qtLimit target\<rparr> of
        Inl e \<Rightarrow> (Inl e, log)
      | Inr request \<Rightarrow>
     (case SelectTableSQL (qtTable target) (qrColumns request) (qrLimit request)
             (qtAllowedColumns target) of
        Inl e \<Rightarrow> (Inl e, log)
      | Inr sql \<Rightarrow>
     (case executeStatement env c
             \<lparr>ttTable = qtTable target, ttConnection = qtConnection target,
              ttWarehouse = qtWarehouse target, ttBearerToken = qtBearerToken target\<rparr> sql log of
        (Inl e, log) \<Rightarrow> (Inl e, log)
      | (Inr response, log) \<Rightarrow>
          (Inr (boundQueryResult (queryResultFromStatement response (qrTableRef request))), log))))"

subsection \<open>Action failure contract\<close>

text \<open>
  The methods \<^verbatim>\<open>ActionFailureCode\<close>, \<^verbatim>\<open>ActionFailureMessage\<close>, \<^verbatim>\<open>ActionFailureStatus\<close> and
  \<^verbatim>\<open>ActionFailureRetryable\<close> of the statement errors: what such an error answers, if it is one.
\<close>

record action_failure =
  afCode :: string
  afMessage :: string
  afStatus :: int
  afRetryable :: bool

definition statementActionStatus :: "int \<Rightarrow> int" where
  "statementActionStatus statusCode = (if statusCode = 429 \<or> 500 \<le> statusCode then 503 else 502)"

definition statementRetryable :: "int \<Rightarrow> bool" where
  "statementRetryable statusCode =
     (if statusCode = 408 \<or> statusCode = 425 \<or> statusCode = 429 then True
      else 500 \<le> statusCode \<and> statusCode \<le> 599)"

fun action_failure_of :: "go_error \<Rightarrow> action_failure option" where
  "action_failure_of (StatementHTTPError code status body) =
     Some \<lparr>afCode = ''backend_failure'',
           afMessage = statementHTTPFailureSafeMessage @ '': '' @ status,
           afStatus = statementActionStatus code, afRetryable = statementRetryable code\<rparr>"
| "action_failure_of (StatementStateError state msg) =
     Some \<lparr>afCode = ''backend_failure'', afMessage = statementStateMessage state,
           afStatus = 502, afRetryable = False\<rparr>"
| "action_failure_of _ = None"

subsection \<open>What a statement execution sends\<close>

definition token_request ::
  "backend_env \<Rightarrow> StatementClient \<Rightarrow> string \<Rightarrow> http_request \<Rightarrow> bool" where
  "token_request env c token rq \<longleftrightarrow>
     permitted_url env c (rqURL rq) \<and> (''Authorization'', ''Bearer '' @ token) \<in> set (rqHeader rq)"

definition sends ::
  "(http_request \<Rightarrow> bool) \<Rightarrow> http_request list \<Rightarrow> http_request list \<Rightarrow> bool" where
  "sends P log log' \<longleftrightarrow> (\<exists>new. log' = log @ new \<and> list_all P new)"

lemma sends_refl [simp]: "sends P log log"
  by (simp add: sends_def)

lemma sends_one: "P rq \<Longrightarrow> sends P log (log @ [rq])"
  by (simp add: sends_def)

lemma sends_trans: "sends P log log' \<Longrightarrow> sends P log' log'' \<Longrightarrow> sends P log log''"
  by (auto simp: sends_def)

lemma sends_mono: "sends P log log' \<Longrightarrow> (\<And>rq. P rq \<Longrightarrow> Q rq) \<Longrightarrow> sends Q log log'"
  by (auto simp: sends_def list_all_iff)

lemma new_request_InrD:
  "new_request env verb endpoint header body = Inr rq \<Longrightarrow>
     rq = \<lparr>rqVerb = verb, rqURL = endpoint, rqHeader = header, rqBody = body\<rparr>"
  by (auto simp: new_request_def split: sum.splits)

lemma token_request_new:
  "new_request env verb endpoint (bearer_header token k v) body = Inr rq \<Longrightarrow>
     permitted_url env c endpoint \<Longrightarrow> token_request env c token rq"
  by (auto simp: token_request_def bearer_header_def dest!: new_request_InrD)

lemma executeStatement_sends:
  assumes "url_parser_ok env" "executeStatement env c target sql log = (r, log')"
  shows "sends (token_request env c (ttBearerToken target)) log log'"
  using assms permitted_endpoints(3) [OF assms(1)]
  by (auto simp: executeStatement_def send_def intro!: sends_one token_request_new
      split: if_splits sum.splits)

text \<open>The statement request itself.\<close>

definition statement_request ::
  "backend_env \<Rightarrow> StatementClient \<Rightarrow> TableTarget \<Rightarrow> string \<Rightarrow> http_request \<Rightarrow> bool" where
  "statement_request env c target sql rq \<longleftrightarrow>
     token_request env c (ttBearerToken target) rq \<and> rqVerb rq = ''POST'' \<and>
     statementExecutionURL env c (crHost (ttConnection target)) = Inr (rqURL rq) \<and>
     rqBody rq = statement_payload c (wrWarehouseID (ttWarehouse target)) sql"

lemma executeStatement_log:
  assumes "url_parser_ok env" "executeStatement env c target sql log = (r, log')"
  shows "log' = log \<and> (\<exists>e. r = Inl e) \<or>
    (\<exists>rq. log' = log @ [rq] \<and> statement_request env c target sql rq \<and> \<not> blank (ttBearerToken target))"
  using assms permitted_endpoints(3) [OF assms(1)]
  by (auto simp: executeStatement_def send_def statement_request_def blank_def new_request_def
      token_request_def bearer_header_def split: if_splits sum.splits)

lemma executeStatement_InrD:
  assumes "executeStatement env c target sql log = (Inr out, log')"
  obtains rq resp where "log' = log @ [rq]" "transport env log rq = Inr resp"
    "statement_outcome env resp = Inr out"
  using assms
  by (auto simp: executeStatement_def send_def split: if_splits sum.splits)

lemma decodeBoundedJSON_InrD:
  assumes "decodeBoundedJSON resp maxBytes unmarshal = Inr x"
  shows "int (length (rsBody resp)) \<le> maxBytes \<and> rsReadError resp = None \<and> unmarshal (rsBody resp) = Inr x"
  using assms
  by (auto simp: decodeBoundedJSON_def read_limited_def split: if_splits option.splits sum.splits)

lemma statement_outcome_InrD:
  assumes "statement_outcome env resp = Inr out"
  shows "200 \<le> rsStatusCode resp \<and> rsStatusCode resp < 300 \<and>
    length (rsBody resp) \<le> 1048576 \<and> unmarshal_statement env (rsBody resp) = Inr out \<and>
    ToUpper (TrimSpace (spState out)) \<in> {[], ''SUCCEEDED''}"
  using assms
  by (auto simp: statement_outcome_def status_ok_def Let_def maxStatementResponseBytes_def
      statementStatusSucceeded_def split: if_splits sum.splits dest!: decodeBoundedJSON_InrD)

lemma ExecuteTableQuery_posts:
  assumes "url_parser_ok env" "ExecuteTableQuery env c target log = (r, log')"
  shows "(log' = log \<and> (\<exists>e. r = Inl e)) \<or>
    (\<exists>rq sql. log' = log @ [rq] \<and> token_request env c (qtBearerToken target) rq \<and>
       \<not> blank (qtBearerToken target) \<and> rqVerb rq = ''POST'' \<and>
       statementExecutionURL env c (crHost (qtConnection target)) = Inr (rqURL rq) \<and>
       SelectTableSQL (qtTable target) (qtProjection target)
         (if qtLimit target = 0 then 100 else qtLimit target) (qtAllowedColumns target) = Inr sql \<and>
       rqBody rq = statement_payload c (wrWarehouseID (qtWarehouse target)) sql)"
proof -
  let ?req = "\<lparr>qrActionVersion = ActionVersionV1, qrTableRef = ''table'',
    qrColumns = qtProjection target, qrLimit = qtLimit target\<rparr>"
  let ?t = "\<lparr>ttTable = qtTable target, ttConnection = qtConnection target,
    ttWarehouse = qtWarehouse target, ttBearerToken = qtBearerToken target\<rparr>"
  consider (none) e where "log' = log" "r = Inl e"
    | (run) request sql s where "NormalizeQueryRequest ?req = Inr request"
        "SelectTableSQL (qtTable target) (qrColumns request) (qrLimit request)
           (qtAllowedColumns target) = Inr sql"
        "executeStatement env c ?t sql log = (s, log')" "(\<exists>e. s = Inl e) \<longrightarrow> (\<exists>e. r = Inl e)"
    using assms(2) by (auto simp: ExecuteTableQuery_def split: sum.splits prod.splits)
  then show ?thesis
  proof cases
    case none
    then show ?thesis by simp
  next
    case run
    have "qrColumns request = qtProjection target \<and>
        qrLimit request = (if qtLimit target = 0 then 100 else qtLimit target)"
      using run(1) by (auto simp: NormalizeQueryRequest_iff NormalizeQueryControls_spec)
    with run executeStatement_log [OF assms(1) run(3)] show ?thesis
      by (auto simp: statement_request_def)
  qed
qed

text \<open>
  C6. Executing a table query sends nothing unless the statement could be built, and then
  exactly one POST: to a permitted workspace URL, with the resolved credential, carrying the
  statement built from the checked request.
\<close>

theorem ExecuteTableQuery_sends:
  assumes "url_parser_ok env" "ExecuteTableQuery env c target log = (r, log')"
  shows "(log' = log \<and> (\<exists>e. r = Inl e)) \<or>
    (\<exists>rq sql. log' = log @ [rq] \<and> permitted_url env c (rqURL rq) \<and>
       (''Authorization'', ''Bearer '' @ qtBearerToken target) \<in> set (rqHeader rq) \<and>
       \<not> blank (qtBearerToken target) \<and> rqVerb rq = ''POST'' \<and>
       SelectTableSQL (qtTable target) (qtProjection target)
         (if qtLimit target = 0 then 100 else qtLimit target) (qtAllowedColumns target) = Inr sql \<and>
       rqBody rq = statement_payload c (wrWarehouseID (qtWarehouse target)) sql)"
  using ExecuteTableQuery_posts [OF assms] by (auto simp: token_request_def)

text \<open>
  C25. A query result is returned only for a 2xx response of at most 1 MiB whose statement state,
  trimmed and upper-cased, is \<^verbatim>\<open>SUCCEEDED\<close> or absent (the empty state is accepted), and is the
  bounded form of that response's columns and rows.
\<close>

theorem ExecuteTableQuery_result:
  assumes "ExecuteTableQuery env c target log = (Inr res, log')"
  shows "\<exists>rq resp out. log' = log @ [rq] \<and> transport env log rq = Inr resp \<and>
    200 \<le> rsStatusCode resp \<and> rsStatusCode resp < 300 \<and> length (rsBody resp) \<le> 1048576 \<and>
    unmarshal_statement env (rsBody resp) = Inr out \<and>
    ToUpper (TrimSpace (spState out)) \<in> {[], ''SUCCEEDED''} \<and>
    res = BoundQueryResult (queryResultFromStatement out ''table'')"
proof -
  obtain request sql t out where n: "NormalizeQueryRequest
        \<lparr>qrActionVersion = ActionVersionV1, qrTableRef = ''table'',
         qrColumns = qtProjection target, qrLimit = qtLimit target\<rparr> = Inr request"
    and e: "executeStatement env c t sql log = (Inr out, log')"
    and res: "res = BoundQueryResult (queryResultFromStatement out (qrTableRef request))"
    using assms by (auto simp: ExecuteTableQuery_def boundQueryResult_def split: sum.splits prod.splits)
  have "qrTableRef request = ''table''"
    using n by (auto simp: NormalizeQueryRequest_iff tableRefRE_TrimSpace tableRefRE_def lower_alnum_def)
  with res obtain rq resp where "log' = log @ [rq]" "transport env log rq = Inr resp"
    "statement_outcome env resp = Inr out"
    "res = BoundQueryResult (queryResultFromStatement out ''table'')"
    using executeStatement_InrD [OF e] by metis
  with statement_outcome_InrD [OF this(3)] show ?thesis by blast
qed

subsection \<open>A concrete run\<close>

text \<open>A workspace, a service that answers every request alike, and one query against it.\<close>

definition example_host :: string where
  "example_host = ''https://demo.cloud.databricks.com''"

definition example_statement :: statementResponse where
  "example_statement =
     \<lparr>spState = ''SUCCEEDED'', spErrorMessage = [],
      spColumns = [\<lparr>scName = ''order_id'', scTypeName = ''LONG'', scTypeText = ''BIGINT''\<rparr>],
      spManifestTruncated = False, spDataArray = [[JNum ''7'']], spResultTruncated = False\<rparr>"

definition example_env :: backend_env where
  "example_env =
     \<lparr>url_Parse = reference_parse, env_suffixes = [],
      transport = (\<lambda>log rq. Inr \<lparr>rsStatusCode = 200, rsStatus = ''200 OK'', rsBody = ''{}'', rsReadError = None\<rparr>),
      unmarshal_statement = (\<lambda>_. Inr example_statement),
      unmarshal_object = (\<lambda>_. Inr [(''name'', JStr ''main''), (''state'', JStr ''RUNNING'')]),
      unmarshal_summaries = (\<lambda>_. Inr \<lparr>srTables = [\<lparr>smFullName = ''sales.gold.order_history'', smTableType = ''MANAGED''\<rparr>], srNextPageToken = []\<rparr>),
      format_float0 = (\<lambda>t. t)\<rparr>"

lemma example_parse_host: "reference_parse ''https://demo.cloud.databricks.com'' =
  Inr \<lparr>uScheme = ''https'', uOpaque = [], uUser = None, uHost = ''demo.cloud.databricks.com'', uPath = [],
     uRawPath = [], uOmitHost = False, uForceQuery = False, uRawQuery = [], uFragment = [], uRawFragment = []\<rparr>"
  by (simp add: reference_parse_def authority_end_def cut_def scheme_char_def alnum_def Let_def)

lemma example_host_allowed: "AllowedWorkspaceHost [] ''demo.cloud.databricks.com'' []"
  by (simp add: AllowedWorkspaceHost_def WorkspaceHostSuffixes_def Let_def TrimSpace_graphic graphic_def ToLower_def ascii_lower_def
    TrimSuffix_def Trim_def TrimRight_def ParseIP_def parseIPv4Fields_def parse_octet_def dec_digit_def defaultWorkspaceHostSuffixes_def
    default_suffixes_normal normalizeSuffix_def)

lemma example_workspaceURL: "workspaceURL example_env NewStatementClient example_host =
  Inr \<lparr>uScheme = ''https'', uOpaque = [], uUser = None, uHost = ''demo.cloud.databricks.com'', uPath = [],
     uRawPath = [], uOmitHost = False, uForceQuery = False, uRawQuery = [], uFragment = [], uRawFragment = []\<rparr>"
  by (simp add: workspaceURL_def example_env_def NewStatementClient_def example_host_def
    example_parse_host example_host_allowed TrimRight_def TrimSpace_graphic graphic_def
    Hostname_def Port_def splitHostPort_def cut_last_def ToLower_def ascii_lower_def schemeAllowed_def allowedWorkspaceHost_def)

lemma example_statementURL: "statementExecutionURL example_env NewStatementClient example_host = Inr ''https://demo.cloud.databricks.com/api/2.0/sql/statements''"
  by (simp add: statementExecutionURL_def example_workspaceURL TrimRight_def url_String_def url_head_def EscapedPath_def shouldEscape_def alnum_def)

definition example_target :: QueryExecutionTarget where
  "example_target =
     \<lparr>qtTable = example_ref,
      qtConnection = \<lparr>crName = ''demo'', crHost = example_host, crAuthType = ''pat''\<rparr>,
      qtWarehouse = \<lparr>wrName = ''main'', wrWarehouseID = ''abc123''\<rparr>, qtBearerToken = ''dapi1'',
      qtProjection = [''order_id''], qtLimit = 5, qtAllowedColumns = [''order_id'', ''total_amount'']\<rparr>"

lemma example_normalized: "NormalizeQueryRequest \<lparr>qrActionVersion = ActionVersionV1, qrTableRef = ''table'', qrColumns = [''order_id''], qrLimit = 5\<rparr> =
   Inr \<lparr>qrActionVersion = ActionVersionV1, qrTableRef = ''table'', qrColumns = [''order_id''], qrLimit = 5\<rparr>"
  by (simp add: NormalizeQueryRequest_iff NormalizeQueryControls_spec query_consts TrimSpace_graphic graphic_def tableRefRE_def lower_alnum_def
     digit_def ident_ascii_ok identifierRE_eval)

lemma example_parse_statementURL: "reference_parse ''https://demo.cloud.databricks.com/api/2.0/sql/statements'' =
  Inr \<lparr>uScheme = ''https'', uOpaque = [], uUser = None, uHost = ''demo.cloud.databricks.com'', uPath = ''/api/2.0/sql/statements'',
     uRawPath = [], uOmitHost = False, uForceQuery = False, uRawQuery = [], uFragment = [], uRawFragment = []\<rparr>"
  by (simp add: reference_parse_def authority_end_def cut_def scheme_char_def alnum_def Let_def shouldEscape_def)

lemma example_query_run: "\<exists>rq. ExecuteTableQuery example_env NewStatementClient example_target [] =
   (Inr (BoundQueryResult (queryResultFromStatement example_statement ''table'')), [rq])"
  by (simp add: ExecuteTableQuery_def example_target_def example_normalized
      example_select executeStatement_def TrimSpace_graphic graphic_def
      example_statementURL) (simp add: example_host_def TrimSpace_graphic graphic_def new_request_def example_env_def
      example_parse_statementURL send_def statement_outcome_def status_ok_def
    decodeBoundedJSON_def read_limited_def maxStatementResponseBytes_def example_statement_def ToUpper_def ascii_upper_def 
    statementStatusSucceeded_def boundQueryResult_def)

lemma example_env_simps [simp]:
  "url_Parse example_env = reference_parse" "env_suffixes example_env = []"
  "transport example_env log rq =
     Inr \<lparr>rsStatusCode = 200, rsStatus = ''200 OK'', rsBody = ''{}'', rsReadError = None\<rparr>"
  "unmarshal_statement example_env s = Inr example_statement"
  "unmarshal_object example_env s = Inr [(''name'', JStr ''main''), (''state'', JStr ''RUNNING'')]"
  "unmarshal_summaries example_env s =
     Inr \<lparr>srTables = [\<lparr>smFullName = ''sales.gold.order_history'', smTableType = ''MANAGED''\<rparr>],
          srNextPageToken = []\<rparr>"
  by (simp_all add: example_env_def)

lemma example_parser_ok: "url_parser_ok example_env" "url_reparse_ok example_env"
  using reference_parse_ok [of example_env] reference_reparse_ok [of example_env]
  by (simp_all add: example_env_def)

theorem ExecuteTableQuery_sends_witness:
  "\<exists>rq. snd (ExecuteTableQuery example_env NewStatementClient example_target []) = [rq] \<and>
     permitted_url example_env NewStatementClient (rqURL rq) \<and> rqVerb rq = ''POST''"
proof -
  obtain rq where run: "ExecuteTableQuery example_env NewStatementClient example_target [] =
      (Inr (BoundQueryResult (queryResultFromStatement example_statement ''table'')), [rq])"
    using example_query_run by blast
  from ExecuteTableQuery_sends [OF example_parser_ok(1) run] run show ?thesis by auto
qed

theorem ExecuteTableQuery_result_witness:
  "\<exists>res rq. ExecuteTableQuery example_env NewStatementClient example_target [] = (Inr res, [rq]) \<and>
     (\<exists>resp. transport example_env [] rq = Inr resp \<and> length (rsBody resp) \<le> 1048576)"
proof -
  obtain rq where run: "ExecuteTableQuery example_env NewStatementClient example_target [] =
      (Inr (BoundQueryResult (queryResultFromStatement example_statement ''table'')), [rq])"
    using example_query_run by blast
  from ExecuteTableQuery_result [OF run] run show ?thesis by auto
qed

end
