(* ===== verification/Validation.thy ===== *)
theory Validation
  imports Statements
begin

text \<open>
  Package \<^verbatim>\<open>backend\<close>, validation (\<^verbatim>\<open>backend/validation.go\<close>, \<^verbatim>\<open>backend/validation_reason.go\<close>): the checks
  of tenant-authored Connections, Warehouses and Tables against Databricks, the classification
  of their failures into stable condition reasons, and the development stub.
\<close>

subsection \<open>Targets, results, reasons\<close>

record ConnectionValidationTarget =
  cvHost :: string
  cvAuthType :: string
  cvBearerToken :: string

record ConnectionValidationResult =
  crPrincipal :: string
  crWorkspaceID :: string

record WarehouseValidationTarget =
  wvHost :: string
  wvWarehouseID :: string
  wvBearerToken :: string

record WarehouseValidationResult =
  wrResName :: string
  wrResState :: string

type_synonym TableValidationTarget = TableTarget
type_synonym TableValidationResult = "Column list"

definition ValidationReasonDatabricksUnavailable :: string where
  "ValidationReasonDatabricksUnavailable = ''DatabricksUnavailable''"
definition ValidationReasonAccessDenied :: string where
  "ValidationReasonAccessDenied = ''AccessDenied''"
definition ValidationReasonResourceNotFound :: string where
  "ValidationReasonResourceNotFound = ''ResourceNotFound''"
definition ValidationReasonUnsupportedTableType :: string where
  "ValidationReasonUnsupportedTableType = ''UnsupportedTableType''"
definition ValidationReasonValidationFailed :: string where
  "ValidationReasonValidationFailed = ''ValidationFailed''"

lemmas validation_reasons = ValidationReasonDatabricksUnavailable_def
  ValidationReasonAccessDenied_def ValidationReasonResourceNotFound_def
  ValidationReasonUnsupportedTableType_def ValidationReasonValidationFailed_def

subsection \<open>Safe messages and classification\<close>

definition SafeStatusMessage :: "go_error option \<Rightarrow> string" where
  "SafeStatusMessage err =
     (case err of
        None \<Rightarrow> []
      | Some e \<Rightarrow>
          (let safe = (case errors_As (\<lambda>x. safe_status_message x \<noteq> None) e of
                         None \<Rightarrow> []
                       | Some x \<Rightarrow> (case safe_status_message x of
                                      None \<Rightarrow> [] | Some m \<Rightarrow> TrimSpace m)) in
           if safe \<noteq> [] then safe
           else (case errors_As (\<lambda>x. http_status_code x \<noteq> None) e of
                   Some x \<Rightarrow> (case http_status_code x of
                                Some code \<Rightarrow> ''databricks validation failed: HTTP '' @ show_int code
                              | None \<Rightarrow> Error e)
                 | None \<Rightarrow> Error e)))"

fun is_unsupported :: "go_error \<Rightarrow> bool" where
  "is_unsupported (UnsupportedTableTypeError _) = True"
| "is_unsupported _ = False"

definition reason_of_status :: "int \<Rightarrow> string" where
  "reason_of_status status =
     (if status = 408 \<or> status = 429 \<or> (500 \<le> status \<and> status \<le> 599)
      then ValidationReasonDatabricksUnavailable
      else if status = 401 \<or> status = 403 then ValidationReasonAccessDenied
      else if status = 404 then ValidationReasonResourceNotFound
      else ValidationReasonValidationFailed)"

definition ClassifyValidationError :: "go_error option \<Rightarrow> string" where
  "ClassifyValidationError err =
     (case err of
        None \<Rightarrow> ValidationReasonValidationFailed
      | Some e \<Rightarrow>
          if errors_Is e ContextCanceled then ValidationReasonValidationFailed
          else if errors_As is_unsupported e \<noteq> None then ValidationReasonUnsupportedTableType
          else (case Option.bind (errors_As (\<lambda>x. http_status_code x \<noteq> None) e) http_status_code of
                  Some status \<Rightarrow> reason_of_status status
                | None \<Rightarrow>
                    if errors_As is_net_error e \<noteq> None \<or> errors_Is e ContextDeadlineExceeded
                    then ValidationReasonDatabricksUnavailable
                    else ValidationReasonValidationFailed))"

definition isEndpointNotFound :: "go_error \<Rightarrow> bool" where
  "isEndpointNotFound e =
     (case errors_As (\<lambda>x. case x of CurrentUserHTTPError _ _ _ \<Rightarrow> True | _ \<Rightarrow> False) e of
        Some (CurrentUserHTTPError code _ _) \<Rightarrow> code = 404
      | _ \<Rightarrow> False)"

fun firstString :: "backend_env \<Rightarrow> go_map \<Rightarrow> string list \<Rightarrow> string" where
  "firstString env values [] = []"
| "firstString env values (key # keys) =
     (case map_of values key of
        Some (JStr s) \<Rightarrow> if TrimSpace s \<noteq> [] then TrimSpace s else firstString env values keys
      | Some (JNum t) \<Rightarrow> format_float0 env t
      | _ \<Rightarrow> firstString env values keys)"

subsection \<open>Connections\<close>

definition validateCurrentUser ::
  "backend_env \<Rightarrow> string \<Rightarrow> string \<Rightarrow> http_request list \<Rightarrow>
   ConnectionValidationResult go_result \<times> http_request list" where
  "validateCurrentUser env endpoint token log =
     (case new_request env ''GET'' endpoint
             (bearer_header token ''Accept'' ''application/json'') [] of
        Inl e \<Rightarrow> (Inl (WrapError ''build current-user request: '' e), log)
      | Inr req \<Rightarrow>
     (case send env req log of
        (Inl e, log) \<Rightarrow> (Inl (WrapError ''validate databricks credential: '' e), log)
      | (Inr resp, log) \<Rightarrow>
          (if \<not> status_ok resp
           then Inl (CurrentUserHTTPError (rsStatusCode resp) (rsStatus resp) (error_body resp))
           else (case decodeBoundedJSON resp maxMetadataResponseBytes (unmarshal_object env) of
                   Inl e \<Rightarrow> Inl (WrapError ''decode current-user response: '' e)
                 | Inr payload \<Rightarrow>
                     Inr \<lparr>crPrincipal = firstString env payload
                            [''userName'', ''username'', ''user_name'', ''email'', ''displayName'', ''id''],
                          crWorkspaceID = firstString env payload
                            [''workspace_id'', ''workspaceId'', ''workspaceID'']\<rparr>), log)))"

fun tryEndpoints ::
  "backend_env \<Rightarrow> string \<Rightarrow> go_error option \<Rightarrow> string list \<Rightarrow> http_request list \<Rightarrow>
   ConnectionValidationResult go_result \<times> http_request list" where
  "tryEndpoints env token notFoundErr [] log =
     (case notFoundErr of
        Some e \<Rightarrow> (Inl e, log)
      | None \<Rightarrow> (Inl (ErrorString ''databricks current-user endpoint unavailable''), log))"
| "tryEndpoints env token notFoundErr (endpoint # rest) log =
     (case validateCurrentUser env endpoint token log of
        (Inr result, log') \<Rightarrow> (Inr result, log')
      | (Inl e, log') \<Rightarrow>
          if isEndpointNotFound e then tryEndpoints env token (Some e) rest log'
          else (Inl e, log'))"

definition ValidateConnection ::
  "backend_env \<Rightarrow> StatementClient \<Rightarrow> ConnectionValidationTarget \<Rightarrow> http_request list \<Rightarrow>
   ConnectionValidationResult go_result \<times> http_request list" where
  "ValidateConnection env c target log =
     (if cvAuthType target \<noteq> ConnectionAuthPAT
      then (Inl (ErrorString (''unsupported authType '' @ quoted (cvAuthType target))), log)
      else if TrimSpace (cvBearerToken target) = []
      then (Inl (ErrorString ''databricks bearer token is required''), log)
      else (case currentUserEndpoints env c (cvHost target) of
              Inl e \<Rightarrow> (Inl e, log)
            | Inr endpoints \<Rightarrow> tryEndpoints env (cvBearerToken target) None endpoints log))"

subsection \<open>Warehouses\<close>

definition ValidateWarehouse ::
  "backend_env \<Rightarrow> StatementClient \<Rightarrow> WarehouseValidationTarget \<Rightarrow> http_request list \<Rightarrow>
   WarehouseValidationResult go_result \<times> http_request list" where
  "ValidateWarehouse env c target log =
     (if TrimSpace (wvBearerToken target) = []
      then (Inl (ErrorString ''databricks bearer token is required''), log)
      else if TrimSpace (wvWarehouseID target) = []
      then (Inl (ErrorString ''databricks warehouse_id is required''), log)
      else
     (case warehouseEndpoint env c (wvHost target) (wvWarehouseID target) of
        Inl e \<Rightarrow> (Inl e, log)
      | Inr endpoint \<Rightarrow>
     (case new_request env ''GET'' endpoint
             (bearer_header (wvBearerToken target) ''Accept'' ''application/json'') [] of
        Inl e \<Rightarrow> (Inl (WrapError ''build warehouse request: '' e), log)
      | Inr req \<Rightarrow>
     (case send env req log of
        (Inl e, log) \<Rightarrow> (Inl (WrapError ''validate databricks warehouse: '' e), log)
      | (Inr resp, log) \<Rightarrow>
          (if \<not> status_ok resp
           then Inl (WarehouseHTTPError (rsStatusCode resp) (rsStatus resp) (error_body resp)
                  (TrimSpace (wvWarehouseID target)))
           else (case decodeBoundedJSON resp maxMetadataResponseBytes (unmarshal_object env) of
                   Inl e \<Rightarrow> Inl (WrapError ''decode warehouse response: '' e)
                 | Inr payload \<Rightarrow>
                     Inr \<lparr>wrResName = firstString env payload [''name''],
                          wrResState = firstString env payload [''state'']\<rparr>), log)))))"

subsection \<open>Tables\<close>

definition page_query :: "string \<Rightarrow> string \<Rightarrow> string" where
  "page_query rawQuery pageToken =
     (let query = ParseQuery rawQuery in
      values_Encode (if pageToken = [] then values_Del ''page_token'' query
                     else values_Set ''page_token'' pageToken query))"

fun summaryPages ::
  "nat \<Rightarrow> backend_env \<Rightarrow> string \<Rightarrow> string \<Rightarrow> URL \<Rightarrow> string list \<Rightarrow> string \<Rightarrow> http_request list \<Rightarrow>
   tableSummary go_result \<times> http_request list" where
  "summaryPages 0 env token fullName pageURL seenTokens pageToken log =
     (Inl (ErrorString ''databricks table summary pagination exceeded 100 pages''), log)"
| "summaryPages (Suc n) env token fullName pageURL seenTokens pageToken log =
     (let pageURL = pageURL\<lparr>uRawQuery := page_query (uRawQuery pageURL) pageToken\<rparr> in
      case new_request env ''GET'' (url_String pageURL)
             (bearer_header token ''Accept'' ''application/json'') [] of
        Inl e \<Rightarrow> (Inl (WrapError ''build table summary request: '' e), log)
      | Inr req \<Rightarrow>
     (case send env req log of
        (Inl e, log) \<Rightarrow> (Inl (WrapError ''get databricks table summary: '' e), log)
      | (Inr resp, log) \<Rightarrow>
          if \<not> status_ok resp
          then (Inl (TableSummaryHTTPError (rsStatusCode resp) (rsStatus resp)), log)
          else (case decodeBoundedJSON resp maxMetadataResponseBytes (unmarshal_summaries env) of
                  Inl e \<Rightarrow> (Inl (WrapError ''decode table summary response: '' e), log)
                | Inr summaries \<Rightarrow>
                    (case find (\<lambda>s. smFullName s = fullName) (srTables summaries) of
                       Some summary \<Rightarrow> (Inr summary, log)
                     | None \<Rightarrow>
                         (let next = srNextPageToken summaries in
                          if next = []
                          then (Inl (TableSummaryHTTPError 404 ''404 Not Found''), log)
                          else if next \<in> set seenTokens
                          then (Inl (ErrorString ''databricks table summary pagination returned a repeated page token''), log)
                          else summaryPages n env token fullName pageURL (next # seenTokens) next log)))))"

definition maxSummaryPages :: nat where
  "maxSummaryPages = 100"

definition getTableSummary ::
  "backend_env \<Rightarrow> StatementClient \<Rightarrow> TableTarget \<Rightarrow> http_request list \<Rightarrow>
   tableSummary go_result \<times> http_request list" where
  "getTableSummary env c target log =
     (if TrimSpace (ttBearerToken target) = []
      then (Inl (ErrorString ''databricks bearer token is required''), log)
      else
     (case tableSummariesEndpoint env c (crHost (ttConnection target)) (ttTable target) of
        Inl e \<Rightarrow> (Inl e, log)
      | Inr (endpoint, fullName) \<Rightarrow>
     (case url_Parse env endpoint of
        Inl e \<Rightarrow> (Inl (WrapError ''parse table summary endpoint: '' e), log)
      | Inr pageURL \<Rightarrow>
          summaryPages maxSummaryPages env (ttBearerToken target) fullName pageURL [] [] log)))"

definition columnsFromStatementManifest :: "statementResponse \<Rightarrow> Column list" where
  "columnsFromStatementManifest resp =
     concat (map (\<lambda>column.
       (let name = TrimSpace (scName column); typ = manifest_type column in
        if name = [] \<or> typ = [] then []
        else [\<lparr>colName = name, colType = typ, colNullable = False, colComment = []\<rparr>]))
       (spColumns resp))"

definition ValidateTable ::
  "backend_env \<Rightarrow> StatementClient \<Rightarrow> TableTarget \<Rightarrow> http_request list \<Rightarrow>
   TableValidationResult go_result \<times> http_request list" where
  "ValidateTable env c target log =
     (case getTableSummary env c target log of
        (Inl e, log) \<Rightarrow> (Inl e, log)
      | (Inr summary, log) \<Rightarrow>
     if EqualFold (TrimSpace (smTableType summary)) ''METRIC_VIEW''
     then (Inl (UnsupportedTableTypeError (smTableType summary)), log)
     else
     (case TableSchemaProbeSQL (ttTable target) of
        Inl e \<Rightarrow> (Inl e, log)
      | Inr sql \<Rightarrow>
     (case executeStatement env c target sql log of
        (Inl e, log) \<Rightarrow> (Inl e, log)
      | (Inr result, log) \<Rightarrow>
          (let columns = columnsFromStatementManifest result in
           if columns = []
           then (Inl (ErrorString ''databricks table schema probe returned no columns''), log)
           else (Inr columns, log)))))"

subsection \<open>The development stub\<close>

definition Stub_ValidateConnection ::
  "ConnectionValidationTarget \<Rightarrow> http_request list \<Rightarrow>
   ConnectionValidationResult go_result \<times> http_request list" where
  "Stub_ValidateConnection target log =
     (if TrimSpace (cvHost target) = []
      then (Inl (ErrorString ''databricks connection host is required''), log)
      else if TrimSpace (cvBearerToken target) = []
      then (Inl (ErrorString ''databricks bearer token is required''), log)
      else (Inr \<lparr>crPrincipal = ''stub'', crWorkspaceID = ''stub''\<rparr>, log))"

definition Stub_ValidateWarehouse ::
  "WarehouseValidationTarget \<Rightarrow> http_request list \<Rightarrow>
   WarehouseValidationResult go_result \<times> http_request list" where
  "Stub_ValidateWarehouse target log =
     (if TrimSpace (wvHost target) = []
      then (Inl (ErrorString ''databricks connection host is required''), log)
      else if TrimSpace (wvWarehouseID target) = []
      then (Inl (ErrorString ''databricks warehouse_id is required''), log)
      else if TrimSpace (wvBearerToken target) = []
      then (Inl (ErrorString ''databricks bearer token is required''), log)
      else (Inr \<lparr>wrResName = wvWarehouseID target, wrResState = ''RUNNING''\<rparr>, log))"

definition Stub_ValidateTable ::
  "TableTarget \<Rightarrow> http_request list \<Rightarrow> TableValidationResult go_result \<times> http_request list" where
  "Stub_ValidateTable target log =
     (if TrimSpace (crHost (ttConnection target)) = []
      then (Inl (ErrorString ''databricks connection host is required''), log)
      else if TrimSpace (wrWarehouseID (ttWarehouse target)) = []
      then (Inl (ErrorString ''databricks warehouse_id is required''), log)
      else if TrimSpace (ttBearerToken target) = []
      then (Inl (ErrorString ''databricks bearer token is required''), log)
      else if TrimSpace (trTable (ttTable target)) = []
      then (Inl (ErrorString ''databricks table is required''), log)
      else (Inr [\<lparr>colName = ''order_id'', colType = ''STRING'', colNullable = False,
                  colComment = ''Stub order identifier''\<rparr>,
                 \<lparr>colName = ''total_amount'', colType = ''DOUBLE'', colNullable = False,
                  colComment = []\<rparr>], log))"

subsection \<open>Failure classification\<close>

text \<open>
  The upstream texts kept inside errors never matter: \<open>scrub\<close> removes them, and neither the
  message nor the reason changes.
\<close>

fun scrub :: "go_error \<Rightarrow> go_error" where
  "scrub (WrapError pre e) = WrapError pre (scrub e)"
| "scrub (UrlError pre e) = UrlError pre (scrub e)"
| "scrub (ActionError code msg retry status (Some e)) =
     ActionError code msg retry status (Some (scrub e))"
| "scrub (CurrentUserHTTPError code status body) = CurrentUserHTTPError code status []"
| "scrub (WarehouseHTTPError code status body wid) = WarehouseHTTPError code status [] wid"
| "scrub (StatementHTTPError code status body) = StatementHTTPError code status []"
| "scrub (StatementStateError state msg) = StatementStateError state []"
| "scrub e = e"

lemma scrub_facts:
  "safe_status_message (scrub e) = safe_status_message e"
  "http_status_code (scrub e) = http_status_code e"
  "is_unsupported (scrub e) = is_unsupported e"
  "is_net_error (scrub e) = is_net_error e"
  "scrub e = ContextCanceled \<longleftrightarrow> e = ContextCanceled"
  "scrub e = ContextDeadlineExceeded \<longleftrightarrow> e = ContextDeadlineExceeded"
  by (cases e rule: scrub.cases; simp)+

lemma Error_scrub: "Error (scrub e) = Error e"
  by (induction e rule: scrub.induct) auto

lemma err_chain_scrub: "err_chain (scrub e) = map scrub (err_chain e)"
  by (induction e rule: scrub.induct) auto

lemma find_map: "find P (map f xs) = map_option f (find (\<lambda>x. P (f x)) xs)"
  by (induction xs) auto

lemma errors_scrub:
  "errors_As P (scrub e) = map_option scrub (errors_As (\<lambda>x. P (scrub x)) e)"
  "errors_Is (scrub e) ContextCanceled = errors_Is e ContextCanceled"
  "errors_Is (scrub e) ContextDeadlineExceeded = errors_Is e ContextDeadlineExceeded"
  by (auto simp: errors_As_def errors_Is_def err_chain_scrub find_map scrub_facts image_iff)
    (metis scrub_facts(5,6))+

lemma SafeStatusMessage_scrub: "SafeStatusMessage (Some (scrub e)) = SafeStatusMessage (Some e)"
  by (simp add: SafeStatusMessage_def errors_scrub scrub_facts Error_scrub Let_def split: option.splits)

lemma ClassifyValidationError_scrub:
  "ClassifyValidationError (Some (scrub e)) = ClassifyValidationError (Some e)"
  by (auto simp: ClassifyValidationError_def errors_scrub scrub_facts split: option.splits bind_split)

text \<open>
  Two services that differ only in what they say about a failure: the body of a response outside
  2xx, and the error message of a decoded statement response.
\<close>

fun reply_alike :: "http_response go_result \<Rightarrow> http_response go_result \<Rightarrow> bool" where
  "reply_alike (Inr p) (Inr q) \<longleftrightarrow>
     p = q \<or> \<not> status_ok p \<and> rsStatusCode q = rsStatusCode p \<and> rsStatus q = rsStatus p"
| "reply_alike p q \<longleftrightarrow> p = q"

definition service_alike :: "backend_env \<Rightarrow> backend_env \<Rightarrow> bool" where
  "service_alike env env' \<longleftrightarrow>
     env' = env\<lparr>transport := transport env', unmarshal_statement := unmarshal_statement env'\<rparr> \<and>
     (\<forall>log rq. reply_alike (transport env log rq) (transport env' log rq)) \<and>
     (\<forall>s. \<exists>m. unmarshal_statement env' s =
        map_sum id (\<lambda>out. out\<lparr>spErrorMessage := m\<rparr>) (unmarshal_statement env s))"

text \<open>What a validation shows outside: the log, and the result or the message and reason of its failure.\<close>

definition published ::
  "'a go_result \<times> http_request list \<Rightarrow> ((string \<times> string) + 'a) \<times> http_request list" where
  "published x =
     (map_sum (\<lambda>e. (SafeStatusMessage (Some e), ClassifyValidationError (Some e))) id (fst x), snd x)"

fun result_alike :: "('a \<Rightarrow> 'a \<Rightarrow> bool) \<Rightarrow> 'a go_result \<Rightarrow> 'a go_result \<Rightarrow> bool" where
  "result_alike R (Inr x) (Inr y) \<longleftrightarrow> R x y"
| "result_alike R (Inl e) (Inl e') \<longleftrightarrow> scrub e = scrub e'"
| "result_alike R _ _ \<longleftrightarrow> False"

lemma result_alike_refl [simp]: "result_alike (=) r r"
  by (cases r) auto

lemma published_alike:
  assumes "result_alike (=) r r'"
  shows "published (r', log) = published (r, log)"
proof (cases "(r, r')")
  case (Pair x y)
  with assms show ?thesis
    by (cases r; cases r') (auto simp: published_def, (metis SafeStatusMessage_scrub ClassifyValidationError_scrub)+)
qed

lemma other_service:
  fixes env :: backend_env
  shows "url_Parse (env\<lparr>transport := t, unmarshal_statement := u\<rparr>) = url_Parse env"
    "env_suffixes (env\<lparr>transport := t, unmarshal_statement := u\<rparr>) = env_suffixes env"
    "unmarshal_object (env\<lparr>transport := t, unmarshal_statement := u\<rparr>) = unmarshal_object env"
    "unmarshal_summaries (env\<lparr>transport := t, unmarshal_statement := u\<rparr>) = unmarshal_summaries env"
    "firstString (env\<lparr>transport := t, unmarshal_statement := u\<rparr>) m ks = firstString env m ks"
proof -
  show "firstString (env\<lparr>transport := t, unmarshal_statement := u\<rparr>) m ks = firstString env m ks"
    by (induction ks) (auto split: option.split json.split)
qed simp_all

lemma other_service_urls:
  fixes env :: backend_env
  shows "workspaceURL (env\<lparr>transport := t, unmarshal_statement := u\<rparr>) = workspaceURL env"
    "new_request (env\<lparr>transport := t, unmarshal_statement := u\<rparr>) = new_request env"
  unfolding fun_eq_iff workspaceURL_def new_request_def allowedWorkspaceHost_def other_service by simp_all

lemma other_service_endpoints:
  fixes env :: backend_env
  shows "statementExecutionURL (env\<lparr>transport := t, unmarshal_statement := u\<rparr>) = statementExecutionURL env"
    "currentUserEndpoints (env\<lparr>transport := t, unmarshal_statement := u\<rparr>) = currentUserEndpoints env"
    "warehouseEndpoint (env\<lparr>transport := t, unmarshal_statement := u\<rparr>) = warehouseEndpoint env"
    "tableSummariesEndpoint (env\<lparr>transport := t, unmarshal_statement := u\<rparr>) = tableSummariesEndpoint env"
  unfolding fun_eq_iff statementExecutionURL_def currentUserEndpoints_def warehouseEndpoint_def
    tableSummariesEndpoint_def other_service_urls by simp_all

lemmas other_service_rewrites = other_service other_service_urls other_service_endpoints

lemma service_alike_reply:
  assumes "\<And>log rq. reply_alike (transport env log rq) (t log rq)"
  obtains (same) "t log rq = transport env log rq"
  | (refused) p q where "transport env log rq = Inr p" "t log rq = Inr q" "\<not> status_ok p"
      "\<not> status_ok q" "rsStatusCode q = rsStatusCode p" "rsStatus q = rsStatus p"
  using assms [of log rq] same refused
  by (cases "transport env log rq"; cases "t log rq") (auto simp: status_ok_def)

lemma validateCurrentUser_alike:
  assumes "\<And>log rq. reply_alike (transport env log rq) (t log rq)"
    "validateCurrentUser env endpoint token log = (r, log')"
  shows "\<exists>r'. validateCurrentUser (env\<lparr>transport := t, unmarshal_statement := u\<rparr>) endpoint token log = (r', log') \<and>
    result_alike (=) r r' \<and> (\<forall>e e'. r = Inl e \<and> r' = Inl e' \<longrightarrow> isEndpointNotFound e' = isEndpointNotFound e)"
proof (cases "new_request env ''GET'' endpoint (bearer_header token ''Accept'' ''application/json'') []")
  case (Inl e)
  then show ?thesis using assms(2) by (auto simp: validateCurrentUser_def other_service_urls)
next
  case (Inr rq)
  from assms(1) show ?thesis
  proof (cases rule: service_alike_reply [of _ _ log rq])
    case same
    then have "validateCurrentUser (env\<lparr>transport := t, unmarshal_statement := u\<rparr>) endpoint token log = (r, log')"
      using Inr assms(2) unfolding validateCurrentUser_def other_service_rewrites by (simp add: send_def)
    then show ?thesis by auto
  next
    case (refused p q)
    then show ?thesis
      using assms(2) Inr
      by (auto simp: validateCurrentUser_def other_service_urls send_def isEndpointNotFound_def errors_As_def)
  qed
qed

lemma tryEndpoints_alike:
  assumes "\<And>log rq. reply_alike (transport env log rq) (t log rq)"
  shows "map_option scrub err' = map_option scrub err \<Longrightarrow> tryEndpoints env token err es log = (r, log') \<Longrightarrow>
    \<exists>r'. tryEndpoints (env\<lparr>transport := t, unmarshal_statement := u\<rparr>) token err' es log = (r', log') \<and>
      result_alike (=) r r'"
proof (induction es arbitrary: err err' log)
  case Nil
  then show ?case by (cases err; cases err') auto
next
  case (Cons e es)
  obtain s log1 where v: "validateCurrentUser env e token log = (s, log1)" by force
  from validateCurrentUser_alike [OF assms v] obtain s' where
    v': "validateCurrentUser (env\<lparr>transport := t, unmarshal_statement := u\<rparr>) e token log = (s', log1)"
    and s: "result_alike (=) s s'" "\<And>e e'. s = Inl e \<Longrightarrow> s' = Inl e' \<Longrightarrow> isEndpointNotFound e' = isEndpointNotFound e"
    by blast
  show ?case
  proof (cases s)
    case (Inr x)
    with s(1) have "s' = Inr x" by (cases s') auto
    with Inr v v' Cons.prems(2) show ?thesis by auto
  next
    case (Inl x)
    with s(1) obtain y where y: "s' = Inl y" "scrub y = scrub x" by (cases s') auto
    show ?thesis
    proof (cases "isEndpointNotFound x")
      case True
      with Cons.IH [of "Some y" "Some x" log1] Cons.prems(2) v v' y s(2) [OF Inl y(1)] Inl
      show ?thesis by simp
    next
      case False
      with Cons.prems(2) v v' y s(2) [OF Inl y(1)] Inl show ?thesis by auto
    qed
  qed
qed

lemma summaryPages_alike:
  assumes "\<And>log rq. reply_alike (transport env log rq) (t log rq)"
  shows "summaryPages n (env\<lparr>transport := t, unmarshal_statement := u\<rparr>) token fullName pageURL seen pageToken log =
    summaryPages n env token fullName pageURL seen pageToken log"
proof (induction n arbitrary: pageURL seen pageToken log)
  case (Suc n)
  let ?u = "pageURL\<lparr>uRawQuery := page_query (uRawQuery pageURL) pageToken\<rparr>"
  show ?case
  proof (cases "new_request env ''GET'' (url_String ?u) (bearer_header token ''Accept'' ''application/json'') []")
    case (Inl e)
    then show ?thesis by (simp add: other_service_urls Let_def)
  next
    case (Inr rq)
    from assms show ?thesis
      unfolding summaryPages.simps other_service_rewrites Suc.IH
      by (cases rule: service_alike_reply [of _ _ log rq]) (simp_all add: Inr Let_def send_def)
  qed
qed simp

definition statement_alike :: "statementResponse \<Rightarrow> statementResponse \<Rightarrow> bool" where
  "statement_alike out out' \<longleftrightarrow> (\<exists>m. out' = out\<lparr>spErrorMessage := m\<rparr>)"

lemma statement_outcome_alike:
  assumes "\<And>s. \<exists>m. u s = map_sum id (\<lambda>out. out\<lparr>spErrorMessage := m\<rparr>) (unmarshal_statement env s)"
  shows "result_alike statement_alike (statement_outcome env p)
    (statement_outcome (env\<lparr>transport := t, unmarshal_statement := u\<rparr>) p)"
proof (cases "status_ok p")
  case False
  then show ?thesis by (simp add: statement_outcome_def)
next
  case True
  let ?d = "\<lambda>u. decodeBoundedJSON p maxStatementResponseBytes u"
  have "\<exists>m. ?d u = map_sum id (\<lambda>out. out\<lparr>spErrorMessage := m\<rparr>) (?d (unmarshal_statement env))"
    using assms by (auto simp: decodeBoundedJSON_def split: sum.split)
  then obtain m where m: "?d u = map_sum id (\<lambda>out. out\<lparr>spErrorMessage := m\<rparr>) (?d (unmarshal_statement env))"
    by blast
  show ?thesis
    by (cases "?d (unmarshal_statement env)") (auto simp: True m statement_outcome_def statement_alike_def Let_def)
qed

lemma executeStatement_alike:
  assumes "\<And>log rq. reply_alike (transport env log rq) (t log rq)"
    "\<And>s. \<exists>m. u s = map_sum id (\<lambda>out. out\<lparr>spErrorMessage := m\<rparr>) (unmarshal_statement env s)"
    "executeStatement env c target sql log = (r, log')"
  shows "\<exists>r'. executeStatement (env\<lparr>transport := t, unmarshal_statement := u\<rparr>) c target sql log = (r', log') \<and>
    result_alike statement_alike r r'"
proof -
  have s: "result_alike statement_alike r r'"
    if "(case transport env log rq of Inl e \<Rightarrow> Inl (WrapError ''execute statement: '' e) | Inr resp \<Rightarrow> statement_outcome env resp) = r"
      "(case t log rq of Inl e \<Rightarrow> Inl (WrapError ''execute statement: '' e)
        | Inr resp \<Rightarrow> statement_outcome (env\<lparr>transport := t, unmarshal_statement := u\<rparr>) resp) = r'" for rq r r'
    using assms(1)
  proof (cases rule: service_alike_reply [of _ _ log rq])
    case same
    with that statement_outcome_alike [OF assms(2)] show ?thesis by (cases "transport env log rq") auto
  next
    case refused
    with that show ?thesis by (auto simp: statement_outcome_def)
  qed
  show ?thesis
  proof (cases "log' = log")
    case True
    have "executeStatement (env\<lparr>transport := t, unmarshal_statement := u\<rparr>) c target sql log = (r, log') \<and>
        (\<exists>e. r = Inl e)"
      using assms(3) True unfolding executeStatement_def other_service_rewrites
      by (auto simp: send_def split: if_split_asm sum.split_asm)
    then show ?thesis by auto
  next
    case False
    then obtain rq where "log' = log @ [rq]"
      "(case transport env log rq of Inl e \<Rightarrow> Inl (WrapError ''execute statement: '' e)
        | Inr resp \<Rightarrow> statement_outcome env resp) = r"
      "executeStatement (env\<lparr>transport := t, unmarshal_statement := u\<rparr>) c target sql log =
        (case t log rq of Inl e \<Rightarrow> (Inl (WrapError ''execute statement: '' e), log @ [rq])
        | Inr resp \<Rightarrow> (statement_outcome (env\<lparr>transport := t, unmarshal_statement := u\<rparr>) resp, log @ [rq]))"
      using assms(3) unfolding executeStatement_def other_service_rewrites
      by (auto simp: send_def split: if_split_asm sum.split_asm)
    with s show ?thesis by (cases "t log rq") auto
  qed
qed

lemma ValidateTable_alike:
  assumes "\<And>log rq. reply_alike (transport env log rq) (t log rq)"
    "\<And>s. \<exists>m. u s = map_sum id (\<lambda>out. out\<lparr>spErrorMessage := m\<rparr>) (unmarshal_statement env s)"
    "ValidateTable env c target log = (r, log')"
  shows "\<exists>r'. ValidateTable (env\<lparr>transport := t, unmarshal_statement := u\<rparr>) c target log = (r', log') \<and>
    result_alike (=) r r'"
proof -
  let ?env = "env\<lparr>transport := t, unmarshal_statement := u\<rparr>"
  have g: "getTableSummary ?env c target log = getTableSummary env c target log"
    unfolding getTableSummary_def other_service_rewrites summaryPages_alike [OF assms(1)] by simp
  show ?thesis
  proof (cases "\<exists>summary log1 sql. getTableSummary env c target log = (Inr summary, log1) \<and>
      \<not> EqualFold (TrimSpace (smTableType summary)) ''METRIC_VIEW'' \<and> TableSchemaProbeSQL (ttTable target) = Inr sql")
    case False
    then have "ValidateTable ?env c target log = ValidateTable env c target log"
      unfolding ValidateTable_def g by (auto split: sum.split prod.split)
    with assms(3) show ?thesis by auto
  next
    case True
    then obtain summary log1 sql where h: "getTableSummary env c target log = (Inr summary, log1)"
      "\<not> EqualFold (TrimSpace (smTableType summary)) ''METRIC_VIEW''" "TableSchemaProbeSQL (ttTable target) = Inr sql"
      by blast
    obtain x log2 where x: "executeStatement env c target sql log1 = (x, log2)" by force
    obtain x' where x': "executeStatement ?env c target sql log1 = (x', log2)" "result_alike statement_alike x x'"
      using executeStatement_alike [OF assms(1,2) x] by blast
    from x'(2) assms(3) show ?thesis
      by (cases x; cases x')
        (auto simp: ValidateTable_def g h x x'(1) Let_def statement_alike_def columnsFromStatementManifest_def
          split: if_split_asm)
  qed
qed

lemma ValidateConnection_alike:
  assumes "\<And>log rq. reply_alike (transport env log rq) (t log rq)"
    "ValidateConnection env c target log = (r, log')"
  shows "\<exists>r'. ValidateConnection (env\<lparr>transport := t, unmarshal_statement := u\<rparr>) c target log = (r', log') \<and>
    result_alike (=) r r'"
proof (cases "currentUserEndpoints env c (cvHost target)")
  case (Inl e)
  with assms(2) show ?thesis unfolding ValidateConnection_def other_service_rewrites by (auto split: if_splits)
next
  case (Inr es)
  with assms(2) tryEndpoints_alike [OF assms(1), where err = None and err' = None]
  show ?thesis unfolding ValidateConnection_def other_service_rewrites by (auto split: if_splits)
qed

lemma ValidateWarehouse_alike:
  assumes "\<And>log rq. reply_alike (transport env log rq) (t log rq)"
    "ValidateWarehouse env c target log = (r, log')"
  shows "\<exists>r'. ValidateWarehouse (env\<lparr>transport := t, unmarshal_statement := u\<rparr>) c target log = (r', log') \<and>
    result_alike (=) r r'"
proof (cases "ValidateWarehouse (env\<lparr>transport := t, unmarshal_statement := u\<rparr>) c target log =
    ValidateWarehouse env c target log")
  case True
  with assms(2) show ?thesis by auto
next
  case False
  then obtain endpoint rq where e: "TrimSpace (wvBearerToken target) \<noteq> []" "TrimSpace (wvWarehouseID target) \<noteq> []"
    "warehouseEndpoint env c (wvHost target) (wvWarehouseID target) = Inr endpoint"
    "new_request env ''GET'' endpoint
       (bearer_header (wvBearerToken target) ''Accept'' ''application/json'') [] = Inr rq"
    unfolding ValidateWarehouse_def other_service_rewrites by (auto split: if_splits sum.splits)
  from assms(1) show ?thesis
  proof (cases rule: service_alike_reply [of _ _ log rq])
    case same
    with False e show ?thesis unfolding ValidateWarehouse_def other_service_rewrites by (simp add: send_def)
  next
    case (refused p q)
    with e assms(2) show ?thesis by (auto simp: ValidateWarehouse_def other_service_rewrites send_def)
  qed
qed

text \<open>
  C26. What a validation publishes does not depend on how Databricks words a refusal: for two
  services that differ only in the bodies of responses outside 2xx, and in the error message of
  decoded statement responses, each validator sends the same requests, returns the same result
  when it succeeds, and fails with the same status message and the same condition reason.
\<close>

theorem validation_status_body_independent:
  assumes "service_alike env env'"
  shows "published (ValidateConnection env' c ct log) = published (ValidateConnection env c ct log) \<and>
    published (ValidateWarehouse env' c wt log) = published (ValidateWarehouse env c wt log) \<and>
    published (ValidateTable env' c tt log) = published (ValidateTable env c tt log)"
proof -
  define t u where "t = transport env'" and "u = unmarshal_statement env'"
  have env': "env' = env\<lparr>transport := t, unmarshal_statement := u\<rparr>"
    using assms by (simp add: service_alike_def t_def u_def)
  have a: "\<And>log rq. reply_alike (transport env log rq) (t log rq)"
    "\<And>s. \<exists>m. u s = map_sum id (\<lambda>out. out\<lparr>spErrorMessage := m\<rparr>) (unmarshal_statement env s)"
    using assms by (simp_all add: service_alike_def t_def u_def)
  note cw = ValidateConnection_alike [OF a(1) surjective_pairing, where c = c and target = ct and log = log and u = u]
    ValidateWarehouse_alike [OF a(1) surjective_pairing, where c = c and target = wt and log = log and u = u]
  note tb = ValidateTable_alike [OF a surjective_pairing, where c = c and target = tt and log = log]
  from cw tb show ?thesis unfolding env' by (metis published_alike surjective_pairing)
qed

subsection \<open>The validator interface\<close>

text \<open>
  \<^verbatim>\<open>backend.Validator\<close>, the surface the controllers use: what they rely on is that a call
  without a credential is refused before anything is sent, that what is sent is acceptable for
  the credential given, and that a validated table has columns.
\<close>

datatype validation_call =
    CallConnection ConnectionValidationTarget
  | CallWarehouse WarehouseValidationTarget
  | CallTable TableTarget

fun call_token :: "validation_call \<Rightarrow> string" where
  "call_token (CallConnection t) = cvBearerToken t"
| "call_token (CallWarehouse t) = wvBearerToken t"
| "call_token (CallTable t) = ttBearerToken t"

text \<open>A run of the controllers is a sequence of such calls over one request log.\<close>

fun run_call ::
  "(ConnectionValidationTarget \<Rightarrow> http_request list \<Rightarrow>
      ConnectionValidationResult go_result \<times> http_request list) \<Rightarrow>
   (WarehouseValidationTarget \<Rightarrow> http_request list \<Rightarrow>
      WarehouseValidationResult go_result \<times> http_request list) \<Rightarrow>
   (TableTarget \<Rightarrow> http_request list \<Rightarrow> TableValidationResult go_result \<times> http_request list) \<Rightarrow>
   validation_call \<Rightarrow> http_request list \<Rightarrow> http_request list" where
  "run_call vc vw vt (CallConnection t) log = snd (vc t log)"
| "run_call vc vw vt (CallWarehouse t) log = snd (vw t log)"
| "run_call vc vw vt (CallTable t) log = snd (vt t log)"

locale databricks_validator =
  fixes acceptable :: "string \<Rightarrow> http_request \<Rightarrow> bool"
    and validate_connection :: "ConnectionValidationTarget \<Rightarrow> http_request list \<Rightarrow>
      ConnectionValidationResult go_result \<times> http_request list"
    and validate_warehouse :: "WarehouseValidationTarget \<Rightarrow> http_request list \<Rightarrow>
      WarehouseValidationResult go_result \<times> http_request list"
    and validate_table :: "TableTarget \<Rightarrow> http_request list \<Rightarrow>
      TableValidationResult go_result \<times> http_request list"
  assumes connection_sends:
      "validate_connection ct log = (cr, log') \<Longrightarrow> sends (acceptable (cvBearerToken ct)) log log'"
    and warehouse_sends:
      "validate_warehouse wt log = (wr, log') \<Longrightarrow> sends (acceptable (wvBearerToken wt)) log log'"
    and table_sends:
      "validate_table tt log = (tr, log') \<Longrightarrow> sends (acceptable (ttBearerToken tt)) log log'"
    and connection_token: "blank (cvBearerToken ct) \<Longrightarrow> \<exists>e. validate_connection ct log = (Inl e, log)"
    and warehouse_token: "blank (wvBearerToken wt) \<Longrightarrow> \<exists>e. validate_warehouse wt log = (Inl e, log)"
    and table_token: "blank (ttBearerToken tt) \<Longrightarrow> \<exists>e. validate_table tt log = (Inl e, log)"
    and table_columns: "validate_table tt log = (Inr cols, log') \<Longrightarrow> cols \<noteq> []"
begin

abbreviation run where
  "run \<equiv> run_call validate_connection validate_warehouse validate_table"

lemma run_call_sends: "sends (acceptable (call_token k)) log (run k log)"
  by (cases k) (auto intro: connection_sends warehouse_sends table_sends simp: prod_eq_iff)

lemma run_call_blank: "blank (call_token k) \<Longrightarrow> run k log = log"
  using connection_token [of _ log] warehouse_token [of _ log] table_token [of _ log]
  by (cases k) (auto, (metis snd_conv)+)

lemma run_sends:
  "sends (\<lambda>rq. \<exists>k \<in> set ks. \<not> blank (call_token k) \<and> acceptable (call_token k) rq) log (fold run ks log)"
proof (induction ks arbitrary: log)
  case (Cons k ks)
  let ?P = "\<lambda>rq. \<exists>j \<in> set (k # ks). \<not> blank (call_token j) \<and> acceptable (call_token j) rq"
  have "sends ?P log (run k log)"
  proof (cases "blank (call_token k)")
    case True
    then show ?thesis by (simp add: run_call_blank)
  next
    case False
    with run_call_sends [of k log] show ?thesis by (auto intro: sends_mono)
  qed
  moreover have "sends ?P (run k log) (fold run ks (run k log))"
    by (rule sends_mono [OF Cons.IH]) auto
  ultimately show ?case by (auto intro: sends_trans)
qed simp

end

subsection \<open>The statement client is a validator\<close>

lemma validateCurrentUser_sends:
  assumes "permitted_url env c endpoint" "validateCurrentUser env endpoint token log = (r, log')"
  shows "sends (token_request env c token) log log'"
  using assms
  by (auto simp: validateCurrentUser_def send_def intro!: sends_one token_request_new
      split: sum.splits)

lemma tryEndpoints_sends:
  "list_all (permitted_url env c) endpoints \<Longrightarrow>
     tryEndpoints env token err endpoints log = (r, log') \<Longrightarrow> sends (token_request env c token) log log'"
proof (induction env token err endpoints log rule: tryEndpoints.induct)
  case (2 env token err endpoint rest log)
  obtain s log1 where v: "validateCurrentUser env endpoint token log = (s, log1)" by force
  with "2.prems" have "sends (token_request env c token) log log1"
    by (auto intro: validateCurrentUser_sends)
  with 2 v show ?case by (auto split: sum.splits if_splits intro: sends_trans)
qed (auto split: option.splits)

lemma ValidateConnection_sends:
  assumes "url_parser_ok env" "ValidateConnection env c target log = (r, log')"
  shows "sends (token_request env c (cvBearerToken target)) log log'"
  using assms permitted_endpoints(1) [OF assms(1)]
  by (auto simp: ValidateConnection_def intro: tryEndpoints_sends split: if_splits sum.splits)

lemma ValidateWarehouse_sends:
  assumes "url_parser_ok env" "ValidateWarehouse env c target log = (r, log')"
  shows "sends (token_request env c (wvBearerToken target)) log log'"
  using assms permitted_endpoints(2) [OF assms(1)]
  by (auto simp: ValidateWarehouse_def send_def intro!: sends_one token_request_new
      split: if_splits sum.splits)

lemma summaryPages_sends:
  assumes "leads_to_workspace env c pageURL"
    "summaryPages n env token fullName pageURL seen pageToken log = (r, log')"
  shows "sends (token_request env c token) log log'"
  using assms
proof (induction n arbitrary: pageURL seen pageToken log)
  case (Suc n)
  let ?u = "pageURL\<lparr>uRawQuery := page_query (uRawQuery pageURL) pageToken\<rparr>"
  have u: "leads_to_workspace env c ?u" using Suc.prems(1) by simp
  show ?case
  proof (cases "new_request env ''GET'' (url_String ?u)
      (bearer_header token ''Accept'' ''application/json'') []")
    case (Inl e)
    with Suc.prems show ?thesis by (simp add: Let_def)
  next
    case (Inr req)
    have s: "sends (token_request env c token) log (log @ [req])"
      by (intro sends_one token_request_new [OF Inr] leads_to_permitted u)
    show ?thesis
      using Suc.prems(2) s Suc.IH [OF u] Inr
      by (auto simp: Let_def send_def split: sum.splits option.splits if_splits intro: sends_trans)
  qed
qed simp

lemma workspaceURL_rawpath:
  assumes "url_reparse_ok env" "workspaceURL env c host = Inr u"
  shows "uRawPath u = []"
  using assms by (auto simp: workspaceURL_def url_reparse_ok_def Let_def split: sum.splits if_splits)

lemma join_chars: "x \<in> set (join sep ws) \<Longrightarrow> x \<in> set sep \<or> (\<exists>w \<in> set ws. x \<in> set w)"
  by (induction sep ws rule: join.induct) auto

lemma values_Encode_no_hash: "CHR ''#'' \<notin> set (values_Encode q)"
proof
  assume "CHR ''#'' \<in> set (values_Encode q)"
  then obtain k v where "CHR ''#'' \<in> set (query_pair k v)"
    unfolding values_Encode_def by (auto dest!: join_chars)
  then show False
    using escape_query_delimiters [of "CHR ''#''"] by (auto simp: query_pair_def QueryEscape_def)
qed

text \<open>The endpoint of the table lookup, parsed again, still leads to the workspace.\<close>

lemma summaries_page_url:
  assumes "url_parser_ok env" "url_reparse_ok env"
    "tableSummariesEndpoint env c host ref = Inr (endpoint, fullName)"
    "url_Parse env endpoint = Inr v"
  shows "leads_to_workspace env c v"
proof -
  obtain u q where w: "workspaceURL env c host = Inr u"
    and e: "endpoint = url_String (u\<lparr>uPath := tableSummariesPath, uRawQuery := values_Encode q\<rparr>)"
    using assms(3)
    by (auto simp: tableSummariesEndpoint_def Let_def TrimRight_def workspaceURL_shape(4)
        split: sum.splits)
  let ?u = "u\<lparr>uPath := tableSummariesPath, uRawQuery := values_Encode q\<rparr>"
  have l: "leads_to_workspace env c ?u"
    using workspaceURL_leads [OF assms(1) w, of tableSummariesPath]
      leads_to_query [where u = "u\<lparr>uPath := tableSummariesPath\<rparr>"]
    by (simp add: tableSummariesPath_def)
  then have "plain_url ?u"
    using workspaceURL_shape [OF w] workspaceURL_rawpath [OF assms(2) w] values_Encode_no_hash
    by (auto simp: plain_url_def leads_to_workspace_def permitted_scheme_def tableSummariesPath_def)
  with assms(2,4) e have "uScheme v = uScheme ?u" "uOpaque v = []" "uUser v = None"
    "uHost v = uHost ?u" "uPath v = uPath ?u"
    unfolding url_reparse_ok_def by blast+
  with l show ?thesis by (auto simp: leads_to_workspace_def)
qed

lemma getTableSummary_sends:
  assumes "url_parser_ok env" "url_reparse_ok env" "getTableSummary env c target log = (r, log')"
  shows "sends (token_request env c (ttBearerToken target)) log log'"
  using assms summaries_page_url [OF assms(1,2)]
  by (auto simp: getTableSummary_def split: if_splits sum.splits dest!: summaryPages_sends [rotated])

lemma ValidateTable_sends:
  assumes "url_parser_ok env" "url_reparse_ok env" "ValidateTable env c target log = (r, log')"
  shows "sends (token_request env c (ttBearerToken target)) log log'"
proof -
  obtain s log1 where g: "getTableSummary env c target log = (s, log1)" by force
  have 1: "sends (token_request env c (ttBearerToken target)) log log1"
    by (rule getTableSummary_sends [OF assms(1,2) g])
  have "sends (token_request env c (ttBearerToken target)) log1 log'"
    using assms(3) executeStatement_sends [OF assms(1)]
    by (auto simp: ValidateTable_def g Let_def split: sum.splits if_splits prod.splits)
  with 1 show ?thesis by (rule sends_trans)
qed

lemma columnsFromStatementManifest_ok:
  "col \<in> set (columnsFromStatementManifest resp) \<Longrightarrow> colName col \<noteq> [] \<and> colType col \<noteq> []"
  by (auto simp: columnsFromStatementManifest_def Let_def split: if_splits)

definition acceptable_request ::
  "backend_env \<Rightarrow> StatementClient \<Rightarrow> string \<Rightarrow> http_request \<Rightarrow> bool" where
  "acceptable_request env c token rq \<longleftrightarrow>
     (url_parser_ok env \<and> url_reparse_ok env \<longrightarrow> token_request env c token rq)"

lemma sends_acceptable:
  assumes "url_parser_ok env \<Longrightarrow> url_reparse_ok env \<Longrightarrow> sends (token_request env c token) log log'"
    and "\<exists>new. log' = log @ new"
  shows "sends (acceptable_request env c token) log log'"
  using assms by (auto simp: sends_def acceptable_request_def list_all_iff)

lemma tryEndpoints_log:
  "tryEndpoints env token err es log = (r, log') \<Longrightarrow>
     \<exists>new. log' = log @ new \<and> length new \<le> length es"
proof (induction env token err es log rule: tryEndpoints.induct)
  case (2 env token err endpoint rest log)
  obtain s log1 where v: "validateCurrentUser env endpoint token log = (s, log1)" by force
  then have "\<exists>new. log1 = log @ new \<and> length new \<le> 1"
    by (auto simp: validateCurrentUser_def send_def split: sum.splits)
  with 2 v show ?case by (fastforce split: sum.splits if_splits)
qed (auto split: option.splits)

lemma ValidateConnection_log:
  "ValidateConnection env c target log = (r, log') \<Longrightarrow> \<exists>new. log' = log @ new"
  by (auto simp: ValidateConnection_def dest: tryEndpoints_log split: if_splits sum.splits)

lemma ValidateWarehouse_log:
  "ValidateWarehouse env c target log = (r, log') \<Longrightarrow> \<exists>new. log' = log @ new \<and> length new \<le> 1"
  by (auto simp: ValidateWarehouse_def send_def split: if_splits sum.splits)

lemma summaryPages_log:
  "summaryPages n env token fullName pageURL seen pageToken log = (r, log') \<Longrightarrow>
     \<exists>new. log' = log @ new \<and> length new \<le> n"
proof (induction n arbitrary: pageURL seen pageToken log)
  case (Suc n)
  have step: "\<exists>new. log' = log @ new \<and> length new \<le> Suc n"
    if "\<exists>new. log' = (log @ [rq]) @ new \<and> length new \<le> n" for rq
    using that by auto
  show ?case
    using Suc.prems Suc.IH step
    by (force simp: Let_def send_def split: sum.splits option.splits if_splits)
qed simp

lemma getTableSummary_log:
  "getTableSummary env c target log = (r, log') \<Longrightarrow> \<exists>new. log' = log @ new \<and> length new \<le> 100"
  by (auto simp: getTableSummary_def maxSummaryPages_def dest: summaryPages_log
      split: if_splits sum.splits)

lemma executeStatement_count:
  "executeStatement env c target sql log = (r, log') \<Longrightarrow> \<exists>new. log' = log @ new \<and> length new \<le> 1"
  by (auto simp: executeStatement_def send_def split: if_splits sum.splits)

lemma ValidateTable_log:
  assumes "ValidateTable env c target log = (r, log')"
  shows "\<exists>new. log' = log @ new \<and> length new \<le> 101"
proof -
  obtain s log1 where g: "getTableSummary env c target log = (s, log1)" by force
  obtain new1 where 1: "log1 = log @ new1" "length new1 \<le> 100"
    using getTableSummary_log [OF g] by blast
  have "\<exists>new. log' = log1 @ new \<and> length new \<le> 1"
    using assms by (auto simp: ValidateTable_def g Let_def dest: executeStatement_count
        split: sum.splits if_splits prod.splits)
  with 1 show ?thesis by auto
qed

interpretation sc: databricks_validator "acceptable_request env c"
  "ValidateConnection env c" "ValidateWarehouse env c" "ValidateTable env c"
proof unfold_locales
  fix ct log cr log'
  assume "ValidateConnection env c ct log = (cr, log')"
  then show "sends (acceptable_request env c (cvBearerToken ct)) log log'"
    using ValidateConnection_sends ValidateConnection_log by (intro sends_acceptable) blast+
next
  fix wt log wr log'
  assume "ValidateWarehouse env c wt log = (wr, log')"
  then show "sends (acceptable_request env c (wvBearerToken wt)) log log'"
    using ValidateWarehouse_sends ValidateWarehouse_log by (intro sends_acceptable) blast+
next
  fix tt log tr log'
  assume "ValidateTable env c tt log = (tr, log')"
  then show "sends (acceptable_request env c (ttBearerToken tt)) log log'"
    using ValidateTable_sends ValidateTable_log by (intro sends_acceptable) blast+
next
  fix ct :: ConnectionValidationTarget and log
  assume "blank (cvBearerToken ct)"
  then show "\<exists>e. ValidateConnection env c ct log = (Inl e, log)"
    by (auto simp: ValidateConnection_def blank_def)
next
  fix wt :: WarehouseValidationTarget and log
  assume "blank (wvBearerToken wt)"
  then show "\<exists>e. ValidateWarehouse env c wt log = (Inl e, log)"
    by (auto simp: ValidateWarehouse_def blank_def)
next
  fix tt :: TableTarget and log
  assume "blank (ttBearerToken tt)"
  then show "\<exists>e. ValidateTable env c tt log = (Inl e, log)"
    by (auto simp: ValidateTable_def getTableSummary_def blank_def)
next
  fix tt log cols log'
  assume "ValidateTable env c tt log = (Inr cols, log')"
  then show "cols \<noteq> []"
    by (auto simp: ValidateTable_def Let_def split: sum.splits if_splits prod.splits)
qed

interpretation stub: databricks_validator "\<lambda>token rq. False"
  Stub_ValidateConnection Stub_ValidateWarehouse Stub_ValidateTable
  by unfold_locales
    (auto simp: Stub_ValidateConnection_def Stub_ValidateWarehouse_def Stub_ValidateTable_def
      blank_def split: if_splits)

text \<open>
  C27. In any sequence of validations, every request goes to a permitted workspace URL and
  carries the bearer token of one of the calls, which is not blank. The transport may answer
  anything.
\<close>

theorem validation_run_permitted:
  assumes "url_parser_ok env" "url_reparse_ok env"
  shows "list_all (\<lambda>rq. permitted_url env c (rqURL rq) \<and>
      (\<exists>k \<in> set ks. \<not> blank (call_token k) \<and>
        (''Authorization'', ''Bearer '' @ call_token k) \<in> set (rqHeader rq)))
    (fold (run_call (ValidateConnection env c) (ValidateWarehouse env c) (ValidateTable env c)) ks [])"
  using sc.run_sends [of ks env c "[]"] assms
  by (auto simp: sends_def list_all_iff acceptable_request_def token_request_def)

text \<open>A listing page that was asked for last, with the object it contains under the wanted name.\<close>

definition listed_by ::
  "backend_env \<Rightarrow> http_request list \<Rightarrow> http_request list \<Rightarrow> string \<Rightarrow> tableSummary \<Rightarrow> bool" where
  "listed_by env log log' fullName summary \<longleftrightarrow>
     (\<exists>pages rq resp summaries. log' = log @ pages @ [rq] \<and> length pages < 100 \<and>
        transport env (log @ pages) rq = Inr resp \<and>
        200 \<le> rsStatusCode resp \<and> rsStatusCode resp < 300 \<and> length (rsBody resp) \<le> 65536 \<and>
        unmarshal_summaries env (rsBody resp) = Inr summaries \<and>
        find (\<lambda>s. smFullName s = fullName) (srTables summaries) = Some summary)"

lemma summaryPages_listed:
  "summaryPages n env token fullName pageURL seen pageToken log = (Inr summary, log') \<Longrightarrow>
     \<exists>pages rq resp summaries. log' = log @ pages @ [rq] \<and> length pages < n \<and>
        transport env (log @ pages) rq = Inr resp \<and>
        200 \<le> rsStatusCode resp \<and> rsStatusCode resp < 300 \<and> length (rsBody resp) \<le> 65536 \<and>
        unmarshal_summaries env (rsBody resp) = Inr summaries \<and>
        find (\<lambda>s. smFullName s = fullName) (srTables summaries) = Some summary"
proof (induction n arbitrary: pageURL seen pageToken log)
  case (Suc n)
  let ?u = "pageURL\<lparr>uRawQuery := page_query (uRawQuery pageURL) pageToken\<rparr>"
  obtain rq resp summaries where r: "transport env log rq = Inr resp" "status_ok resp"
      "decodeBoundedJSON resp maxMetadataResponseBytes (unmarshal_summaries env) = Inr summaries"
    and cont: "find (\<lambda>s. smFullName s = fullName) (srTables summaries) = Some summary \<and> log' = log @ [rq] \<or>
      (\<exists>seen' next. summaryPages n env token fullName ?u seen' next (log @ [rq]) = (Inr summary, log'))"
    using Suc.prems by (auto simp: Let_def send_def split: sum.splits option.splits if_splits) blast
  from cont show ?case
  proof
    assume f: "find (\<lambda>s. smFullName s = fullName) (srTables summaries) = Some summary \<and> log' = log @ [rq]"
    show ?thesis
      by (rule exI [of _ "[]"], rule exI [of _ rq], rule exI [of _ resp], rule exI [of _ summaries])
        (use r f decodeBoundedJSON_InrD [OF r(3)] in \<open>auto simp: status_ok_def maxMetadataResponseBytes_def\<close>)
  next
    assume "\<exists>seen' next. summaryPages n env token fullName ?u seen' next (log @ [rq]) = (Inr summary, log')"
    then obtain pages rq' resp' summaries' where p: "log' = (log @ [rq]) @ pages @ [rq']" "length pages < n"
      "transport env ((log @ [rq]) @ pages) rq' = Inr resp'"
      "200 \<le> rsStatusCode resp' \<and> rsStatusCode resp' < 300 \<and> length (rsBody resp') \<le> 65536 \<and>
       unmarshal_summaries env (rsBody resp') = Inr summaries' \<and>
       find (\<lambda>s. smFullName s = fullName) (srTables summaries') = Some summary"
      using Suc.IH by blast
    show ?thesis
      by (rule exI [of _ "rq # pages"], rule exI [of _ rq'], rule exI [of _ resp'], rule exI [of _ summaries'])
        (use p in simp)
  qed
qed simp

lemma getTableSummary_listed:
  assumes "getTableSummary env c target log = (Inr summary, log')"
  shows "listed_by env log log' (table_full_name (ttTable target)) summary"
proof -
  obtain pageURL where "summaryPages maxSummaryPages env (ttBearerToken target)
      (table_full_name (ttTable target)) pageURL [] [] log = (Inr summary, log')"
    using assms by (auto simp: getTableSummary_def tableSummariesEndpoint_def Let_def split: if_splits sum.splits)
  from summaryPages_listed [OF this] show ?thesis unfolding listed_by_def maxSummaryPages_def .
qed

text \<open>
  C28. A table is accepted only after Databricks listed an object with exactly its full name - on
  one of at most 100 pages, in a 2xx response of at most 64 KiB - that is not a metric view, and
  then answered a zero-row probe of that same table with a 2xx response of at most 1 MiB whose
  statement state is \<^verbatim>\<open>SUCCEEDED\<close> or absent. The columns are exactly those of the manifest of that
  answer; there is at least one, and each has a name and a type.
\<close>

theorem ValidateTable_success:
  assumes "url_parser_ok env" "ValidateTable env c target log = (Inr cols, log')"
  shows "cols \<noteq> [] \<and> list_all (\<lambda>col. colName col \<noteq> [] \<and> colType col \<noteq> []) cols \<and>
    length log' \<le> length log + 101 \<and>
    (\<exists>summary log1 rq sql resp out. listed_by env log log1 (table_full_name (ttTable target)) summary \<and>
       smFullName summary = table_full_name (ttTable target) \<and>
       \<not> EqualFold (TrimSpace (smTableType summary)) ''METRIC_VIEW'' \<and>
       log' = log1 @ [rq] \<and> read_select sql = Some ([], ttTable target, 0) \<and>
       rqBody rq = statement_payload c (wrWarehouseID (ttWarehouse target)) sql \<and>
       transport env log1 rq = Inr resp \<and> 200 \<le> rsStatusCode resp \<and> rsStatusCode resp < 300 \<and>
       length (rsBody resp) \<le> 1048576 \<and> unmarshal_statement env (rsBody resp) = Inr out \<and>
       ToUpper (TrimSpace (spState out)) \<in> {[], ''SUCCEEDED''} \<and>
       cols = columnsFromStatementManifest out)"
proof -
  obtain summary log1 sql out where g: "getTableSummary env c target log = (Inr summary, log1)"
    and m: "\<not> EqualFold (TrimSpace (smTableType summary)) ''METRIC_VIEW''"
    and s: "TableSchemaProbeSQL (ttTable target) = Inr sql"
    and e: "executeStatement env c target sql log1 = (Inr out, log')"
    and cols: "cols = columnsFromStatementManifest out" "cols \<noteq> []"
    using assms(2)
    by (auto simp: ValidateTable_def Let_def split: sum.splits if_splits prod.splits)
  from executeStatement_InrD [OF e] obtain rq resp where r: "log' = log1 @ [rq]"
    "transport env log1 rq = Inr resp" "statement_outcome env resp = Inr out" .
  have "rqBody rq = statement_payload c (wrWarehouseID (ttWarehouse target)) sql"
    using executeStatement_log [OF assms(1) e] r(1) by (auto simp: statement_request_def)
  moreover have "list_all (\<lambda>col. colName col \<noteq> [] \<and> colType col \<noteq> []) cols"
    using columnsFromStatementManifest_ok cols(1) by (auto simp: list_all_iff)
  moreover have "length log' \<le> length log + 101"
    using ValidateTable_log [OF assms(2)] by auto
  moreover note l = getTableSummary_listed [OF g]
  moreover have "smFullName summary = table_full_name (ttTable target)"
    using l by (auto simp: listed_by_def find_Some_iff)
  ultimately show ?thesis
    using m cols r read_select_probe [OF s] statement_outcome_InrD [OF r(3)] by blast
qed

subsection \<open>The fallback endpoint\<close>

text \<open>
  Errors of the parser, the transport and the decoder are not the package's own unexported
  \<^verbatim>\<open>currentUserHTTPError\<close>.
\<close>

definition foreign_error :: "go_error \<Rightarrow> bool" where
  "foreign_error e \<longleftrightarrow>
     list_all (\<lambda>x. case x of CurrentUserHTTPError _ _ _ \<Rightarrow> False | _ \<Rightarrow> True) (err_chain e)"

definition foreign_errors :: "backend_env \<Rightarrow> bool" where
  "foreign_errors env \<longleftrightarrow>
     (\<forall>s e. url_Parse env s = Inl e \<longrightarrow> foreign_error e) \<and>
     (\<forall>log rq e. transport env log rq = Inl e \<longrightarrow> foreign_error e) \<and>
     (\<forall>log rq resp e. transport env log rq = Inr resp \<and> rsReadError resp = Some e \<longrightarrow> foreign_error e) \<and>
     (\<forall>s e. unmarshal_object env s = Inl e \<longrightarrow> foreign_error e)"

lemma foreign_not_found: "foreign_error e \<Longrightarrow> \<not> isEndpointNotFound (WrapError pre e)"
proof -
  assume f: "foreign_error e"
  let ?P = "\<lambda>x. case x of CurrentUserHTTPError _ _ _ \<Rightarrow> True | _ \<Rightarrow> False"
  from f have "\<forall>x \<in> set (err_chain (WrapError pre e)). \<not> ?P x"
    by (auto simp: foreign_error_def list_all_iff split: go_error.splits)
  then have "errors_As ?P (WrapError pre e) = None" by (simp add: errors_As_None_iff)
  then show ?thesis by (simp add: isEndpointNotFound_def)
qed

lemma foreign_decode:
  "decodeBoundedJSON resp maxBytes unmarshal = Inl e \<Longrightarrow>
     (\<And>e. rsReadError resp = Some e \<Longrightarrow> foreign_error e) \<Longrightarrow>
     (\<And>s e. unmarshal s = Inl e \<Longrightarrow> foreign_error e) \<Longrightarrow> foreign_error e"
  by (auto simp: decodeBoundedJSON_def read_limited_def split: if_splits option.splits sum.splits)
    (auto simp: foreign_error_def)

lemma validateCurrentUser_cases:
  assumes "foreign_errors env" "validateCurrentUser env endpoint token log = (r, log')"
  obtains (unsent) e where "r = Inl e" "log' = log" "\<not> isEndpointNotFound e"
  | (failed) rq e where "r = Inl e" "log' = log @ [rq]" "\<not> isEndpointNotFound e"
  | (missing) rq resp e where "r = Inl e" "log' = log @ [rq]" "transport env log rq = Inr resp"
      "rsStatusCode resp = 404"
  | (answered) rq resp res where "r = Inr res" "log' = log @ [rq]" "transport env log rq = Inr resp"
      "200 \<le> rsStatusCode resp" "rsStatusCode resp < 300"
proof (cases "new_request env ''GET'' endpoint (bearer_header token ''Accept'' ''application/json'') []")
  case (Inl e)
  then have "foreign_error e"
    using assms(1) by (auto simp: new_request_def foreign_errors_def split: sum.splits)
  with Inl assms(2) unsent show thesis
    by (auto simp: validateCurrentUser_def dest: foreign_not_found)
next
  case rq: (Inr rq)
  show thesis
  proof (cases "transport env log rq")
    case (Inl e)
    then have "foreign_error e" using assms(1) by (auto simp: foreign_errors_def)
    with Inl rq assms(2) failed show thesis
      by (auto simp: validateCurrentUser_def send_def dest: foreign_not_found)
  next
    case resp: (Inr resp)
    show thesis
    proof (cases "status_ok resp")
      case False
      let ?e = "CurrentUserHTTPError (rsStatusCode resp) (rsStatus resp) (error_body resp)"
      have "r = Inl ?e" "log' = log @ [rq]"
        using False rq resp assms(2) by (auto simp: validateCurrentUser_def send_def)
      then show thesis
        using failed missing resp
        by (cases "rsStatusCode resp = 404") (auto simp: isEndpointNotFound_def errors_As_def)
    next
      case ok: True
      show thesis
      proof (cases "decodeBoundedJSON resp maxMetadataResponseBytes (unmarshal_object env)")
        case (Inl e)
        then have "foreign_error e"
          using assms(1) resp by (intro foreign_decode [OF Inl]) (auto simp: foreign_errors_def)
        with Inl ok rq resp assms(2) failed show thesis
          by (auto simp: validateCurrentUser_def send_def dest: foreign_not_found)
      next
        case (Inr payload)
        with ok rq resp assms(2) show thesis
          by (intro answered) (auto simp: validateCurrentUser_def send_def status_ok_def)
      qed
    qed
  qed
qed

text \<open>
  The second current-user endpoint is asked only when the first answered 404; at most two
  requests are made, and a connection counts as validated only if the last one was answered
  with a 2xx status.
\<close>

theorem ValidateConnection_fallback:
  assumes "foreign_errors env" "ValidateConnection env c target log = (r, log')"
  shows "\<exists>new. log' = log @ new \<and> length new \<le> 2 \<and>
    (length new = 2 \<longrightarrow> (\<exists>resp. transport env log (new ! 0) = Inr resp \<and> rsStatusCode resp = 404)) \<and>
    (\<forall>res. r = Inr res \<longrightarrow> new \<noteq> [] \<and>
       (\<exists>resp. transport env (log @ butlast new) (last new) = Inr resp \<and>
          200 \<le> rsStatusCode resp \<and> rsStatusCode resp < 300))"
proof (cases "currentUserEndpoints env c (cvHost target)")
  case (Inl e)
  with assms(2) show ?thesis by (auto simp: ValidateConnection_def split: if_splits)
next
  case (Inr es)
  then obtain e1 e2 where es: "es = [e1, e2]"
    by (auto simp: currentUserEndpoints_def Let_def split: sum.splits)
  obtain r1 log1 where v1: "validateCurrentUser env e1 (cvBearerToken target) log = (r1, log1)" by force
  obtain r2 log2 where v2: "validateCurrentUser env e2 (cvBearerToken target) log1 = (r2, log2)" by force
  show ?thesis
  proof (cases "cvAuthType target \<noteq> ConnectionAuthPAT \<or> TrimSpace (cvBearerToken target) = []")
    case True
    with assms(2) show ?thesis by (auto simp: ValidateConnection_def split: if_splits)
  next
    case False
    then have run: "tryEndpoints env (cvBearerToken target) None [e1, e2] log = (r, log')"
      using assms(2) Inr es by (simp add: ValidateConnection_def)
    show ?thesis
      by (rule validateCurrentUser_cases [OF assms(1) v1];
          rule validateCurrentUser_cases [OF assms(1) v2])
        (use run v1 v2 in \<open>auto split: if_splits\<close>)
  qed
qed

subsection \<open>Concrete validations\<close>

lemmas url_eval = TrimRight_def url_String_def url_head_def EscapedPath_def shouldEscape_def alnum_def
  reference_parse_def authority_end_def cut_def scheme_char_def Let_def

definition example_warehouse_target :: WarehouseValidationTarget where
  "example_warehouse_target =
     \<lparr>wvHost = example_host, wvWarehouseID = ''abc123'', wvBearerToken = ''dapi1''\<rparr>"

lemma example_warehouse_run:
  "\<exists>rq. ValidateWarehouse example_env NewStatementClient example_warehouse_target [] =
     (Inr \<lparr>wrResName = ''main'', wrResState = ''RUNNING''\<rparr>, [rq])"
proof -
  have e: "warehouseEndpoint example_env NewStatementClient example_host ''abc123'' =
      Inr ''https://demo.cloud.databricks.com/api/2.0/sql/warehouses/abc123''"
    by (simp add: warehouseEndpoint_def example_workspaceURL warehousePathPrefix_def PathEscape_def
        TrimSpace_graphic graphic_def url_eval)
  have p: "reference_parse ''https://demo.cloud.databricks.com/api/2.0/sql/warehouses/abc123'' \<noteq> Inl x" for x
    by (simp add: url_eval)
  then obtain u where
    "reference_parse ''https://demo.cloud.databricks.com/api/2.0/sql/warehouses/abc123'' = Inr u"
    by (cases "reference_parse ''https://demo.cloud.databricks.com/api/2.0/sql/warehouses/abc123''") auto
  then show ?thesis
    by (simp add: ValidateWarehouse_def example_warehouse_target_def e TrimSpace_graphic graphic_def
        new_request_def send_def status_ok_def decodeBoundedJSON_def read_limited_def
        maxMetadataResponseBytes_def)
qed

text \<open>Two services that refuse the warehouse lookup with different explanations.\<close>

definition example_refusing :: "string \<Rightarrow> backend_env" where
  "example_refusing body = example_env\<lparr>transport := (\<lambda>log rq.
     Inr \<lparr>rsStatusCode = 403, rsStatus = ''403 Forbidden'', rsBody = body, rsReadError = None\<rparr>),
     unmarshal_statement := (\<lambda>_. Inr (example_statement\<lparr>spErrorMessage := body\<rparr>))\<rparr>"

lemma example_refused:
  "\<exists>rq. published (ValidateWarehouse (example_refusing body) NewStatementClient example_warehouse_target []) =
     (Inl (''databricks warehouse validation failed: 403 Forbidden'', ''AccessDenied''), [rq])"
proof -
  let ?t = example_warehouse_target
  obtain endpoint rq where e: "TrimSpace (wvBearerToken ?t) \<noteq> []" "TrimSpace (wvWarehouseID ?t) \<noteq> []"
    "warehouseEndpoint example_env NewStatementClient (wvHost ?t) (wvWarehouseID ?t) = Inr endpoint"
    "new_request example_env ''GET'' endpoint
       (bearer_header (wvBearerToken ?t) ''Accept'' ''application/json'') [] = Inr rq"
    using example_warehouse_run by (auto simp: ValidateWarehouse_def split: if_splits sum.splits)
  have "ValidateWarehouse (example_refusing body) NewStatementClient ?t [] =
      (Inl (WarehouseHTTPError 403 ''403 Forbidden'' (TrimSpace (take 4096 body)) (TrimSpace (wvWarehouseID ?t))), [rq])"
    unfolding example_refusing_def ValidateWarehouse_def other_service_rewrites
    by (simp add: e send_def status_ok_def error_body_def)
  then show ?thesis
    by (simp add: published_def SafeStatusMessage_def ClassifyValidationError_def errors_As_def errors_Is_def
        warehouseHTTPErrorMessage_def TrimSpace_graphic graphic_def reason_of_status_def validation_reasons)
qed

theorem validation_status_body_independent_witness:
  "\<exists>rq. published (ValidateWarehouse (example_refusing ''token dapi1 rejected'') NewStatementClient
       example_warehouse_target []) = published (ValidateWarehouse (example_refusing ''other'') NewStatementClient
       example_warehouse_target []) \<and>
     published (ValidateWarehouse (example_refusing ''other'') NewStatementClient example_warehouse_target []) =
       (Inl (''databricks warehouse validation failed: 403 Forbidden'', ''AccessDenied''), [rq])"
proof -
  have "service_alike (example_refusing ''other'') (example_refusing ''token dapi1 rejected'')"
    by (auto simp: service_alike_def example_refusing_def status_ok_def)
  from validation_status_body_independent [OF this] example_refused [of "''other''"] show ?thesis by simp
qed

theorem validation_run_permitted_witness:
  "\<exists>rq. fold (run_call (ValidateConnection example_env NewStatementClient)
       (ValidateWarehouse example_env NewStatementClient)
       (ValidateTable example_env NewStatementClient)) [CallWarehouse example_warehouse_target] [] = [rq] \<and>
     permitted_url example_env NewStatementClient (rqURL rq) \<and>
     (''Authorization'', ''Bearer dapi1'') \<in> set (rqHeader rq)"
proof -
  obtain rq where "ValidateWarehouse example_env NewStatementClient example_warehouse_target [] =
     (Inr \<lparr>wrResName = ''main'', wrResState = ''RUNNING''\<rparr>, [rq])"
    using example_warehouse_run by blast
  then show ?thesis
    using validation_run_permitted [OF example_parser_ok, of NewStatementClient
        "[CallWarehouse example_warehouse_target]"]
    by (simp add: example_warehouse_target_def)
qed

definition example_connection_target :: ConnectionValidationTarget where
  "example_connection_target =
     \<lparr>cvHost = example_host, cvAuthType = ''pat'', cvBearerToken = ''dapi1''\<rparr>"

lemma example_foreign: "foreign_errors example_env"
  by (auto simp: foreign_errors_def example_env_def foreign_error_def reference_parse_def Let_def
      split: prod.splits if_splits option.splits)

theorem ValidateConnection_fallback_witness:
  "\<exists>new. snd (ValidateConnection example_env NewStatementClient example_connection_target []) = new \<and>
     length new \<le> 2"
  using ValidateConnection_fallback [OF example_foreign surjective_pairing,
      of NewStatementClient example_connection_target "[]"] by auto

definition example_table_target :: TableTarget where
  "example_table_target =
     \<lparr>ttTable = example_ref,
      ttConnection = \<lparr>crName = ''demo'', crHost = example_host, crAuthType = ''pat''\<rparr>,
      ttWarehouse = \<lparr>wrName = ''main'', wrWarehouseID = ''abc123''\<rparr>, ttBearerToken = ''dapi1''\<rparr>"

lemma example_table_endpoint:
  "tableSummariesEndpoint example_env NewStatementClient example_host example_ref =
     Inr (''https://demo.cloud.databricks.com/api/2.1/unity-catalog/table-summaries?catalog_name=sales&include_manifest_capabilities=false&max_results=1&schema_name_pattern=gold&table_name_pattern=order%5C_history'', ''sales.gold.order_history'')"
  by (simp add: tableSummariesEndpoint_def validateTableRef_def ValidateIdentifier_def example_ref_def quoteIdent_plain identifierRE_eval
    example_workspaceURL tableSummariesPath_def table_full_name_def values_Set_def values_Del_def ParseQuery_def parse_pair_def
    escapeSQLLikeLiteral_def backslash_def values_Encode_def sort_key_def query_pair_def QueryEscape_def pct_def hex_upper_def char_of_eval url_eval)


lemma example_summary_url:
  "reference_parse ''https://demo.cloud.databricks.com/api/2.1/unity-catalog/table-summaries?catalog_name=sales&include_manifest_capabilities=false&max_results=1&schema_name_pattern=gold&table_name_pattern=order%5C_history'' =
  Inr \<lparr>uScheme = ''https'', uOpaque = [], uUser = None, uHost = ''demo.cloud.databricks.com'',
    uPath = tableSummariesPath, uRawPath = [], uOmitHost = False, uForceQuery = False,
    uRawQuery = ''catalog_name=sales&include_manifest_capabilities=false&max_results=1&schema_name_pattern=gold&table_name_pattern=order%5C_history'', uFragment = [], uRawFragment = []\<rparr>"
  by (simp add: url_eval tableSummariesPath_def)

lemma example_page_query:
  "page_query ''catalog_name=sales&include_manifest_capabilities=false&max_results=1&schema_name_pattern=gold&table_name_pattern=order%5C_history'' [] =
    ''catalog_name=sales&include_manifest_capabilities=false&max_results=1&schema_name_pattern=gold&table_name_pattern=order%5C_history''"
  by (simp add: page_query_def ParseQuery_def parse_pair_def cut_def values_Del_def values_Add_def values_Encode_def
    sort_key_def query_pair_def QueryEscape_def pct_def hex_upper_def hex_value_def char_of_eval shouldEscape_def alnum_def Let_def)

definition example_page :: URL where
  "example_page =
     \<lparr>uScheme = ''https'', uOpaque = [], uUser = None, uHost = ''demo.cloud.databricks.com'',
      uPath = tableSummariesPath, uRawPath = [], uOmitHost = False, uForceQuery = False,
      uRawQuery = ''catalog_name=sales&include_manifest_capabilities=false&max_results=1&schema_name_pattern=gold&table_name_pattern=order%5C_history'',
      uFragment = [], uRawFragment = []\<rparr>"

lemma example_page_same:
  "example_page\<lparr>uRawQuery := page_query (uRawQuery example_page) []\<rparr> = example_page"
  by (simp add: example_page_def example_page_query)

lemma example_page_request:
  "new_request example_env ''GET'' (url_String example_page) h [] =
     Inr \<lparr>rqVerb = ''GET'', rqURL = url_String example_page, rqHeader = h, rqBody = []\<rparr>"
proof -
  have "url_String example_page =
     ''https://demo.cloud.databricks.com/api/2.1/unity-catalog/table-summaries?catalog_name=sales&include_manifest_capabilities=false&max_results=1&schema_name_pattern=gold&table_name_pattern=order%5C_history''"
    by (simp add: example_page_def tableSummariesPath_def url_eval)
  then show ?thesis by (simp add: new_request_def example_summary_url)
qed

lemma example_summary_page:
  "\<exists>rq. summaryPages (Suc n) example_env token ''sales.gold.order_history'' example_page [] [] [] =
    (Inr \<lparr>smFullName = ''sales.gold.order_history'', smTableType = ''MANAGED''\<rparr>, [rq])"
  by (simp add: example_page_same example_page_request send_def status_ok_def decodeBoundedJSON_def
      read_limited_def maxMetadataResponseBytes_def)

lemma example_summary:
  "\<exists>rq. getTableSummary example_env NewStatementClient example_table_target [] =
    (Inr \<lparr>smFullName = ''sales.gold.order_history'', smTableType = ''MANAGED''\<rparr>, [rq])"
proof -
  have n: "maxSummaryPages = Suc 99" by (simp add: maxSummaryPages_def)
  have "getTableSummary example_env NewStatementClient example_table_target [] =
      summaryPages maxSummaryPages example_env ''dapi1'' ''sales.gold.order_history'' example_page [] [] []"
    by (simp add: getTableSummary_def example_table_target_def example_table_endpoint
        example_summary_url example_page_def TrimSpace_graphic graphic_def)
  then show ?thesis unfolding n using example_summary_page [of 99] by simp
qed

lemma example_table_run:
  "\<exists>cols log'. ValidateTable example_env NewStatementClient example_table_target [] = (Inr cols, log')"
proof -
  obtain rq where g: "getTableSummary example_env NewStatementClient example_table_target [] =
    (Inr \<lparr>smFullName = ''sales.gold.order_history'', smTableType = ''MANAGED''\<rparr>, [rq])"
    using example_summary by blast
  have p: "\<exists>sql. TableSchemaProbeSQL example_ref = Inr sql"
    by (simp add: TableSchemaProbeSQL_def qualifiedTable_def example_ref_def quoteIdent_plain identifierRE_eval)
  have e: "\<exists>log'. executeStatement example_env NewStatementClient example_table_target sql log = (Inr example_statement, log')" for sql log
    by (simp add: executeStatement_def example_table_target_def example_statementURL TrimSpace_graphic graphic_def)
      (simp add: example_host_def TrimSpace_graphic graphic_def new_request_def example_parse_statementURL send_def
      statement_outcome_def status_ok_def decodeBoundedJSON_def read_limited_def maxStatementResponseBytes_def example_statement_def ToUpper_def ascii_upper_def
    statementStatusSucceeded_def)
  obtain sql where s: "TableSchemaProbeSQL example_ref = Inr sql" using p by blast
  obtain log' where x: "executeStatement example_env NewStatementClient example_table_target sql [rq] = (Inr example_statement, log')"
    using e by blast
  have t: "ttTable example_table_target = example_ref" by (simp add: example_table_target_def)
  have "columnsFromStatementManifest example_statement \<noteq> []"
    by (simp add: columnsFromStatementManifest_def example_statement_def manifest_type_def TrimSpace_graphic graphic_def)
  then show ?thesis
    by (simp add: ValidateTable_def g t s x TrimSpace_graphic graphic_def EqualFold_def ascii_lower_def)
qed

theorem ValidateTable_success_witness:
  "\<exists>cols log' log1 summary out. ValidateTable example_env NewStatementClient example_table_target [] = (Inr cols, log') \<and>
     cols \<noteq> [] \<and> length log' \<le> 101 \<and>
     listed_by example_env [] log1 ''sales.gold.order_history'' summary \<and> out = example_statement \<and>
     cols = columnsFromStatementManifest out"
proof -
  obtain cols log' where run: "ValidateTable example_env NewStatementClient example_table_target [] = (Inr cols, log')"
    using example_table_run by blast
  have n: "table_full_name (ttTable example_table_target) = ''sales.gold.order_history''"
    by (simp add: example_table_target_def example_ref_def table_full_name_def)
  have u: "unmarshal_statement example_env s = Inr example_statement" for s
    by (simp add: example_env_def)
  from ValidateTable_success [OF example_parser_ok(1) run] run show ?thesis unfolding n u by auto
qed

end
