(* ===== verification/Controllers.thy ===== *)
theory Controllers
  imports Shared Validation
begin

text \<open>
  Packages \<^verbatim>\<open>controller/connection\<close>, \<^verbatim>\<open>controller/warehouse\<close> and \<^verbatim>\<open>controller/table\<close>: the reconcilers.
  A reconcile reads through the client, calls the validator (which extends the request log) and
  writes the status of its object back through the client; \<open>world\<close> is the API state and the log.
  A result is the delay after which the object is queued again (0 for never).
\<close>

record 'k world =
  wKube :: 'k
  wLog :: "http_request list"

type_synonym 'k outcome = "int go_result \<times> 'k world"

type_synonym connection_validator =
  "ConnectionValidationTarget \<Rightarrow> http_request list \<Rightarrow>
   ConnectionValidationResult go_result \<times> http_request list"
type_synonym warehouse_validator =
  "WarehouseValidationTarget \<Rightarrow> http_request list \<Rightarrow>
   WarehouseValidationResult go_result \<times> http_request list"
type_synonym table_validator =
  "TableTarget \<Rightarrow> http_request list \<Rightarrow> TableValidationResult go_result \<times> http_request list"

definition ReasonReady :: string where "ReasonReady = ''Ready''"
definition ReasonSchemaTruncated :: string where "ReasonSchemaTruncated = ''SchemaTruncated''"
definition ReasonCredentialUnavailable :: string where
  "ReasonCredentialUnavailable = ''CredentialUnavailable''"
definition ReasonValidatorUnavailable :: string where
  "ReasonValidatorUnavailable = ''ValidatorUnavailable''"
definition ReasonAuthTypeUnsupported :: string where
  "ReasonAuthTypeUnsupported = ''AuthTypeUnsupported''"
definition ReasonConnectionUnavailable :: string where
  "ReasonConnectionUnavailable = ''ConnectionUnavailable''"
definition ReasonConnectionNotReady :: string where
  "ReasonConnectionNotReady = ''ConnectionNotReady''"
definition ReasonWarehouseUnavailable :: string where
  "ReasonWarehouseUnavailable = ''WarehouseUnavailable''"
definition ReasonWarehouseNotReady :: string where "ReasonWarehouseNotReady = ''WarehouseNotReady''"
definition ReasonWarehouseConnectionMismatch :: string where
  "ReasonWarehouseConnectionMismatch = ''WarehouseConnectionMismatch''"

definition authtype_message :: "string \<Rightarrow> string" where
  "authtype_message authType =
     ''connection authType '' @ quoted authType @
     '' is declared, but this provider currently validates PAT credentials only''"

definition validationRequeueAfter :: "string \<Rightarrow> int" where
  "validationRequeueAfter reason =
     (if reason = ValidationReasonDatabricksUnavailable then DependencyRetryAfter
      else ValidationRefreshAfter)"

definition table_validationRequeueAfter :: "string \<Rightarrow> int" where
  "table_validationRequeueAfter reason =
     (if reason = ValidationReasonUnsupportedTableType then 0
      else if reason = ValidationReasonDatabricksUnavailable then DependencyRetryAfter
      else ValidationRefreshAfter)"

text \<open>The end of every reconcile: the status update decides between its error and the delay.\<close>

definition finish :: "int \<Rightarrow> 'k world \<Rightarrow> unit go_result \<times> 'k \<Rightarrow> 'k outcome" where
  "finish requeueAfter w u =
     (case u of
        (Inl e, k) \<Rightarrow> (Inl e, w\<lparr>wKube := k\<rparr>)
      | (Inr _, k) \<Rightarrow> (Inr requeueAfter, w\<lparr>wKube := k\<rparr>))"

subsection \<open>Connection controller\<close>

definition connection_failed :: "'k kube_client \<Rightarrow> Connection \<Rightarrow> string \<Rightarrow> string \<Rightarrow> Connection" where
  "connection_failed c conn reason msg =
     (let g = omGeneration (cnMeta conn); st = cnStatus conn;
          cs = SetCondition c (cstConditions st) ConditionValidated ConditionFalse reason msg g in
      conn\<lparr>cnStatus := st\<lparr>cstObservedGeneration := g, cstWorkspaceID := [],
             cstConditions := SetCondition c cs ConditionReady ConditionFalse reason msg g\<rparr>\<rparr>)"

definition connection_failAfter ::
  "'k kube_client \<Rightarrow> Connection \<Rightarrow> string \<Rightarrow> string \<Rightarrow> int \<Rightarrow> 'k world \<Rightarrow> 'k outcome" where
  "connection_failAfter c conn reason msg requeueAfter w =
     finish requeueAfter w (kUpdateConnectionStatus c (connection_failed c conn reason msg) (wKube w))"

definition connection_validated ::
  "'k kube_client \<Rightarrow> Connection \<Rightarrow> ConnectionValidationResult \<Rightarrow> Connection" where
  "connection_validated c conn result =
     (let g = omGeneration (cnMeta conn); st = cnStatus conn; msg = ''credential authenticated'';
          cs = SetCondition c (cstConditions st) ConditionValidated ConditionTrue ReasonReady msg g in
      conn\<lparr>cnStatus := st\<lparr>cstObservedGeneration := g, cstWorkspaceID := crWorkspaceID result,
             cstConditions := SetCondition c cs ConditionReady ConditionTrue ReasonReady msg g\<rparr>\<rparr>)"

definition reconcileConnection ::
  "connection_validator option \<Rightarrow> 'k kube_client \<Rightarrow> string \<Rightarrow> 'k world \<Rightarrow> 'k outcome" where
  "reconcileConnection validator c name w =
     (case kGetConnection c (wKube w) name of
        Inl e \<Rightarrow> if IsNotFound e then (Inr 0, w) else (Inl e, w)
      | Inr conn \<Rightarrow>
     if omDeleting (cnMeta conn) then (Inr 0, w)
     else if csAuthType (cnSpec conn) \<noteq> ConnectionAuthPAT
     then connection_failAfter c conn ReasonAuthTypeUnsupported
            (authtype_message (csAuthType (cnSpec conn))) 0 w
     else
     (case ResolveBearerToken c (wKube w) conn of
        Inl e \<Rightarrow> connection_failAfter c conn ReasonCredentialUnavailable (Error e) DependencyRetryAfter w
      | Inr token \<Rightarrow>
     (case validator of
        None \<Rightarrow> connection_failAfter c conn ReasonValidatorUnavailable
                  ''databricks credential validator is not configured'' 0 w
      | Some v \<Rightarrow>
     (case v \<lparr>cvHost = csHost (cnSpec conn), cvAuthType = csAuthType (cnSpec conn),
              cvBearerToken = token\<rparr> (wLog w) of
        (Inl e, log) \<Rightarrow>
          (let reason = ClassifyValidationError (Some e) in
           connection_failAfter c conn reason (SafeStatusMessage (Some e))
             (validationRequeueAfter reason) (w\<lparr>wLog := log\<rparr>))
      | (Inr result, log) \<Rightarrow>
          finish ValidationRefreshAfter (w\<lparr>wLog := log\<rparr>)
            (kUpdateConnectionStatus c (connection_validated c conn result) (wKube w))))))"

definition Reconcile_connection ::
  "connection_validator option \<Rightarrow> (string \<Rightarrow> 'k kube_client go_result) \<Rightarrow> string \<Rightarrow> string \<Rightarrow>
   'k world \<Rightarrow> 'k outcome" where
  "Reconcile_connection validator manager clusterName name w =
     (case ClusterClient manager clusterName of
        Inl e \<Rightarrow> (Inl e, w)
      | Inr c \<Rightarrow> reconcileConnection validator c name w)"

subsection \<open>Warehouse controller\<close>

definition connection_current :: "'k kube_client \<Rightarrow> Connection \<Rightarrow> bool" where
  "connection_current c conn \<longleftrightarrow>
     CurrentConditionTrue c (cstConditions (cnStatus conn)) (cstObservedGeneration (cnStatus conn))
       (omGeneration (cnMeta conn)) ConditionValidated \<and>
     CurrentConditionTrue c (cstConditions (cnStatus conn)) (cstObservedGeneration (cnStatus conn))
       (omGeneration (cnMeta conn)) ConditionReady"

definition warehouse_failed :: "'k kube_client \<Rightarrow> Warehouse \<Rightarrow> string \<Rightarrow> string \<Rightarrow> Warehouse" where
  "warehouse_failed c wh reason msg =
     (let g = omGeneration (whMeta wh); st = whStatus wh in
      wh\<lparr>whStatus := st\<lparr>wstObservedGeneration := g, wstState := [],
           wstConditions := SetCondition c (wstConditions st) ConditionReady ConditionFalse reason msg g\<rparr>\<rparr>)"

definition warehouse_failAfter ::
  "'k kube_client \<Rightarrow> Warehouse \<Rightarrow> string \<Rightarrow> string \<Rightarrow> int \<Rightarrow> 'k world \<Rightarrow> 'k outcome" where
  "warehouse_failAfter c wh reason msg requeueAfter w =
     finish requeueAfter w (kUpdateWarehouseStatus c (warehouse_failed c wh reason msg) (wKube w))"

definition warehouse_validated ::
  "'k kube_client \<Rightarrow> Warehouse \<Rightarrow> WarehouseValidationResult \<Rightarrow> Warehouse" where
  "warehouse_validated c wh result =
     (let g = omGeneration (whMeta wh); st = whStatus wh;
          msg = ''warehouse validated'' @
            (if wrResName result \<noteq> [] then '': '' @ wrResName result else []) @
            (if wrResState result \<noteq> [] then '' ('' @ wrResState result @ '')'' else []) in
      wh\<lparr>whStatus := st\<lparr>wstObservedGeneration := g, wstState := wrResState result,
           wstConditions := SetCondition c (wstConditions st) ConditionReady ConditionTrue ReasonReady msg g\<rparr>\<rparr>)"

definition reconcileWarehouse ::
  "warehouse_validator option \<Rightarrow> 'k kube_client \<Rightarrow> string \<Rightarrow> 'k world \<Rightarrow> 'k outcome" where
  "reconcileWarehouse validator c name w =
     (case kGetWarehouse c (wKube w) name of
        Inl e \<Rightarrow> if IsNotFound e then (Inr 0, w) else (Inl e, w)
      | Inr wh \<Rightarrow>
     if omDeleting (whMeta wh) then (Inr 0, w)
     else
     (case ResolveConnection c (wKube w) (wsConnectionRef (whSpec wh)) of
        Inl e \<Rightarrow> warehouse_failAfter c wh ReasonConnectionUnavailable (Error e) DependencyRetryAfter w
      | Inr conn \<Rightarrow>
     if csAuthType (cnSpec conn) \<noteq> ConnectionAuthPAT
     then warehouse_failAfter c wh ReasonAuthTypeUnsupported
            (authtype_message (csAuthType (cnSpec conn))) ValidationRefreshAfter w
     else if \<not> connection_current c conn
     then warehouse_failAfter c wh ReasonConnectionNotReady ''connection is not currently ready''
            DependencyRetryAfter w
     else
     (case ResolveBearerToken c (wKube w) conn of
        Inl e \<Rightarrow> warehouse_failAfter c wh ReasonCredentialUnavailable (Error e) DependencyRetryAfter w
      | Inr token \<Rightarrow>
     (case validator of
        None \<Rightarrow> warehouse_failAfter c wh ReasonValidatorUnavailable
                  ''databricks warehouse validator is not configured'' 0 w
      | Some v \<Rightarrow>
     (case v \<lparr>wvHost = csHost (cnSpec conn), wvWarehouseID = wsWarehouseID (whSpec wh),
              wvBearerToken = token\<rparr> (wLog w) of
        (Inl e, log) \<Rightarrow>
          (let reason = ClassifyValidationError (Some e) in
           warehouse_failAfter c wh reason (SafeStatusMessage (Some e))
             (validationRequeueAfter reason) (w\<lparr>wLog := log\<rparr>))
      | (Inr result, log) \<Rightarrow>
          finish ValidationRefreshAfter (w\<lparr>wLog := log\<rparr>)
            (kUpdateWarehouseStatus c (warehouse_validated c wh result) (wKube w)))))))"

definition Reconcile_warehouse ::
  "warehouse_validator option \<Rightarrow> (string \<Rightarrow> 'k kube_client go_result) \<Rightarrow> string \<Rightarrow> string \<Rightarrow>
   'k world \<Rightarrow> 'k outcome" where
  "Reconcile_warehouse validator manager clusterName name w =
     (case ClusterClient manager clusterName of
        Inl e \<Rightarrow> (Inl e, w)
      | Inr c \<Rightarrow> reconcileWarehouse validator c name w)"

definition warehouseRequestsForConnection :: "Warehouse list \<Rightarrow> string \<Rightarrow> string list" where
  "warehouseRequestsForConnection items connectionName =
     map (\<lambda>wh. omName (whMeta wh)) (filter (\<lambda>wh. wsConnectionRef (whSpec wh) = connectionName) items)"

text \<open>
  The mapping from a changed dependency to the objects to reconcile. The cluster comes from the
  context, or from the annotation of the object when the context has none.
\<close>

definition mapped_requests ::
  "(string \<Rightarrow> 'k kube_client go_result) option \<Rightarrow> string option \<Rightarrow> string \<Rightarrow>
   ('k kube_client \<Rightarrow> 'o list go_result) \<Rightarrow> ('o list \<Rightarrow> string list) \<Rightarrow> string list" where
  "mapped_requests manager ctxCluster annotation list_items requests =
     (let clusterName = (case ctxCluster of Some n \<Rightarrow> n | None \<Rightarrow> annotation) in
      case manager of
        None \<Rightarrow> []
      | Some get_cluster \<Rightarrow>
          (case get_cluster clusterName of
             Inl _ \<Rightarrow> []
           | Inr c \<Rightarrow> (case list_items c of Inl _ \<Rightarrow> [] | Inr items \<Rightarrow> requests items)))"

definition mapConnectionToWarehouses ::
  "(string \<Rightarrow> 'k kube_client go_result) option \<Rightarrow> string option \<Rightarrow> string \<Rightarrow> string \<Rightarrow> 'k \<Rightarrow> string list" where
  "mapConnectionToWarehouses manager ctxCluster annotation name k =
     mapped_requests manager ctxCluster annotation (\<lambda>c. kListWarehouses c k)
       (\<lambda>items. warehouseRequestsForConnection items name)"

subsection \<open>Table controller\<close>

definition tableRequestsForConnection :: "Table list \<Rightarrow> string \<Rightarrow> string list" where
  "tableRequestsForConnection items connectionName =
     map (\<lambda>t. omName (tbMeta t)) (filter (\<lambda>t. tsConnectionRef (tbSpec t) = connectionName) items)"

definition tableRequestsForWarehouse :: "Table list \<Rightarrow> string \<Rightarrow> string list" where
  "tableRequestsForWarehouse items warehouseName =
     map (\<lambda>t. omName (tbMeta t)) (filter (\<lambda>t. tsWarehouseRef (tbSpec t) = warehouseName) items)"

definition mapConnectionToTables ::
  "(string \<Rightarrow> 'k kube_client go_result) option \<Rightarrow> string option \<Rightarrow> string \<Rightarrow> string \<Rightarrow> 'k \<Rightarrow> string list" where
  "mapConnectionToTables manager ctxCluster annotation name k =
     mapped_requests manager ctxCluster annotation (\<lambda>c. kListTables c k)
       (\<lambda>items. tableRequestsForConnection items name)"

definition mapWarehouseToTables ::
  "(string \<Rightarrow> 'k kube_client go_result) option \<Rightarrow> string option \<Rightarrow> string \<Rightarrow> string \<Rightarrow> 'k \<Rightarrow> string list" where
  "mapWarehouseToTables manager ctxCluster annotation name k =
     mapped_requests manager ctxCluster annotation (\<lambda>c. kListTables c k)
       (\<lambda>items. tableRequestsForWarehouse items name)"

definition table_failed :: "'k kube_client \<Rightarrow> Table \<Rightarrow> string \<Rightarrow> string \<Rightarrow> Table" where
  "table_failed c tbl reason msg =
     (let g = omGeneration (tbMeta tbl); st = tbStatus tbl;
          cacheGenerationCurrent = (tstObservedGeneration st = g);
          st = st\<lparr>tstObservedGeneration := g\<rparr>;
          st = (if cacheGenerationCurrent then st
                else st\<lparr>tstRefreshedAt := None, tstColumns := []\<rparr>) in
      tbl\<lparr>tbStatus := st\<lparr>tstConditions :=
            SetCondition c (tstConditions st) ConditionReady ConditionFalse reason msg g\<rparr>\<rparr>)"

definition table_failAfter ::
  "'k kube_client \<Rightarrow> Table \<Rightarrow> string \<Rightarrow> string \<Rightarrow> int \<Rightarrow> 'k world \<Rightarrow> 'k outcome" where
  "table_failAfter c tbl reason msg requeueAfter w =
     finish requeueAfter w (kUpdateTableStatus c (table_failed c tbl reason msg) (wKube w))"

definition boundedSchema :: "Column list \<Rightarrow> Column list \<times> nat \<times> bool" where
  "boundedSchema input = (take MaxQueryColumns input, length input, MaxQueryColumns < length input)"

definition table_validated :: "'k kube_client \<Rightarrow> int \<Rightarrow> Table \<Rightarrow> Column list \<Rightarrow> Table" where
  "table_validated c now tbl result =
     (case boundedSchema result of (columns, totalColumns, columnsTruncated) \<Rightarrow>
        (let g = omGeneration (tbMeta tbl); st = tbStatus tbl;
             message = (if columnsTruncated
               then ''table schema refreshed (cached '' @ show_nat (length columns) @ '' of '' @
                      show_nat totalColumns @ '' columns; schema cache is truncated)''
               else ''table schema refreshed ('' @ show_nat totalColumns @ '' columns)'');
             conditionReason = (if columnsTruncated then ReasonSchemaTruncated else ReasonReady) in
         tbl\<lparr>tbStatus := st\<lparr>tstObservedGeneration := g, tstRefreshedAt := Some now,
               tstColumns := columns,
               tstConditions := SetCondition c (tstConditions st) ConditionReady ConditionTrue
                 conditionReason message g\<rparr>\<rparr>))"

definition table_target :: "Table \<Rightarrow> Connection \<Rightarrow> Warehouse \<Rightarrow> string \<Rightarrow> TableTarget" where
  "table_target tbl conn wh token =
     \<lparr>ttTable = \<lparr>trCatalog = tsCatalog (tbSpec tbl), trSchema = tsSchema (tbSpec tbl),
                 trTable = tsTable (tbSpec tbl)\<rparr>,
      ttConnection = \<lparr>crName = omName (cnMeta conn), crHost = csHost (cnSpec conn),
                      crAuthType = csAuthType (cnSpec conn)\<rparr>,
      ttWarehouse = \<lparr>wrName = omName (whMeta wh), wrWarehouseID = wsWarehouseID (whSpec wh)\<rparr>,
      ttBearerToken = token\<rparr>"

definition warehouse_current :: "'k kube_client \<Rightarrow> Warehouse \<Rightarrow> bool" where
  "warehouse_current c wh \<longleftrightarrow>
     CurrentConditionTrue c (wstConditions (whStatus wh)) (wstObservedGeneration (whStatus wh))
       (omGeneration (whMeta wh)) ConditionReady"

definition reconcileTable ::
  "table_validator option \<Rightarrow> int \<Rightarrow> 'k kube_client \<Rightarrow> string \<Rightarrow> 'k world \<Rightarrow> 'k outcome" where
  "reconcileTable validator now c name w =
     (case kGetTable c (wKube w) name of
        Inl e \<Rightarrow> if IsNotFound e then (Inr 0, w) else (Inl e, w)
      | Inr tbl \<Rightarrow>
     if omDeleting (tbMeta tbl) then (Inr 0, w)
     else
     (case ResolveWarehouse c (wKube w) (tsWarehouseRef (tbSpec tbl)) of
        Inl e \<Rightarrow> table_failAfter c tbl ReasonWarehouseUnavailable (Error e) DependencyRetryAfter w
      | Inr wh \<Rightarrow>
     if wsConnectionRef (whSpec wh) \<noteq> tsConnectionRef (tbSpec tbl)
     then table_failAfter c tbl ReasonWarehouseConnectionMismatch
            (''table connectionRef '' @ quoted (tsConnectionRef (tbSpec tbl)) @
             '' does not match warehouse connectionRef '' @ quoted (wsConnectionRef (whSpec wh)))
            ValidationRefreshAfter w
     else if \<not> warehouse_current c wh
     then table_failAfter c tbl ReasonWarehouseNotReady ''warehouse is not currently ready''
            DependencyRetryAfter w
     else
     (case ResolveConnection c (wKube w) (tsConnectionRef (tbSpec tbl)) of
        Inl e \<Rightarrow> table_failAfter c tbl ReasonConnectionUnavailable (Error e) DependencyRetryAfter w
      | Inr conn \<Rightarrow>
     if \<not> connection_current c conn
     then table_failAfter c tbl ReasonConnectionNotReady ''connection is not currently ready''
            DependencyRetryAfter w
     else if csAuthType (cnSpec conn) \<noteq> ConnectionAuthPAT
     then table_failAfter c tbl ReasonAuthTypeUnsupported
            (authtype_message (csAuthType (cnSpec conn))) ValidationRefreshAfter w
     else
     (case ResolveBearerToken c (wKube w) conn of
        Inl e \<Rightarrow> table_failAfter c tbl ReasonCredentialUnavailable (Error e) DependencyRetryAfter w
      | Inr token \<Rightarrow>
     (case validator of
        None \<Rightarrow> table_failAfter c tbl ReasonValidatorUnavailable
                  ''databricks table validator is not configured'' 0 w
      | Some v \<Rightarrow>
     (case v (table_target tbl conn wh token) (wLog w) of
        (Inl e, log) \<Rightarrow>
          (let reason = ClassifyValidationError (Some e) in
           table_failAfter c tbl reason (SafeStatusMessage (Some e))
             (table_validationRequeueAfter reason) (w\<lparr>wLog := log\<rparr>))
      | (Inr result, log) \<Rightarrow>
          finish ValidationRefreshAfter (w\<lparr>wLog := log\<rparr>)
            (kUpdateTableStatus c (table_validated c now tbl result) (wKube w))))))))"

definition Reconcile_table ::
  "table_validator option \<Rightarrow> int \<Rightarrow> (string \<Rightarrow> 'k kube_client go_result) \<Rightarrow> string \<Rightarrow> string \<Rightarrow>
   'k world \<Rightarrow> 'k outcome" where
  "Reconcile_table validator now manager clusterName name w =
     (case ClusterClient manager clusterName of
        Inl e \<Rightarrow> (Inl e, w)
      | Inr c \<Rightarrow> reconcileTable validator now c name w)"

end
