(* ===== verification/Lifecycle.thy ===== *)
theory Lifecycle
  imports Controllers
begin

text \<open>
  What the reconcilers of \<^verbatim>\<open>controller/\<close> guarantee about the resources over their whole life: the
  writes of one reconcile, the histories of creations, edits and reconciles, and the contract that
  readiness and cached schemas are always backed by a validation of the present specification.
\<close>

subsection \<open>What a reconcile writes\<close>

text \<open>
  A client that also records the objects handed to \<^verbatim>\<open>Status().Update\<close>, in order.
\<close>

datatype status_write =
    WriteConnection Connection
  | WriteWarehouse Warehouse
  | WriteTable Table

definition recording :: "'k kube_client \<Rightarrow> ('k \<times> status_write list) kube_client" where
  "recording c =
     \<lparr>kGetConnection = (\<lambda>k. kGetConnection c (fst k)), kGetWarehouse = (\<lambda>k. kGetWarehouse c (fst k)),
      kGetTable = (\<lambda>k. kGetTable c (fst k)), kGetSecret = (\<lambda>k. kGetSecret c (fst k)),
      kListWarehouses = (\<lambda>k. kListWarehouses c (fst k)), kListTables = (\<lambda>k. kListTables c (fst k)),
      kUpdateConnectionStatus = (\<lambda>x k. case kUpdateConnectionStatus c x (fst k) of
         (r, k') \<Rightarrow> (r, (k', snd k @ [WriteConnection x]))),
      kUpdateWarehouseStatus = (\<lambda>x k. case kUpdateWarehouseStatus c x (fst k) of
         (r, k') \<Rightarrow> (r, (k', snd k @ [WriteWarehouse x]))),
      kUpdateTableStatus = (\<lambda>x k. case kUpdateTableStatus c x (fst k) of
         (r, k') \<Rightarrow> (r, (k', snd k @ [WriteTable x]))),
      kSetStatusCondition = kSetStatusCondition c, kFindStatusCondition = kFindStatusCondition c\<rparr>"

lemma recording_simps [simp]:
  "kGetConnection (recording c) k = kGetConnection c (fst k)"
  "kGetWarehouse (recording c) k = kGetWarehouse c (fst k)"
  "kGetTable (recording c) k = kGetTable c (fst k)"
  "kGetSecret (recording c) k = kGetSecret c (fst k)"
  "kSetStatusCondition (recording c) = kSetStatusCondition c"
  "kFindStatusCondition (recording c) = kFindStatusCondition c"
  by (simp_all add: recording_def)

lemma recording_shared [simp]:
  "ResolveConnection (recording c) k = ResolveConnection c (fst k)"
  "ResolveWarehouse (recording c) k = ResolveWarehouse c (fst k)"
  "ResolveBearerToken (recording c) k = ResolveBearerToken c (fst k)"
  "SetCondition (recording c) = SetCondition c"
  "CurrentConditionTrue (recording c) = CurrentConditionTrue c"
  by (simp_all add: ResolveConnection_def ResolveWarehouse_def ResolveBearerToken_def SetCondition_def
      CurrentConditionTrue_def fun_eq_iff)

lemma recording_status [simp]:
  "connection_current (recording c) = connection_current c"
  "warehouse_current (recording c) = warehouse_current c"
  "connection_failed (recording c) = connection_failed c"
  "connection_validated (recording c) = connection_validated c"
  "warehouse_failed (recording c) = warehouse_failed c"
  "warehouse_validated (recording c) = warehouse_validated c"
  "table_failed (recording c) = table_failed c"
  "table_validated (recording c) = table_validated c"
  by (simp_all add: fun_eq_iff connection_current_def warehouse_current_def connection_failed_def
      connection_validated_def warehouse_failed_def warehouse_validated_def table_failed_def
      table_validated_def Let_def)

lemma recording_updates:
  "snd (wKube (snd (finish d w (kUpdateConnectionStatus (recording c) x (k, ws))))) = ws @ [WriteConnection x]"
  "snd (wKube (snd (finish d w (kUpdateWarehouseStatus (recording c) y (k, ws))))) = ws @ [WriteWarehouse y]"
  "snd (wKube (snd (finish d w (kUpdateTableStatus (recording c) z (k, ws))))) = ws @ [WriteTable z]"
  by (auto simp: recording_def finish_def split: prod.splits sum.splits)

text \<open>The writes of one reconcile, started on API state \<open>k\<close> with request log \<open>log\<close>.\<close>

definition writes_of :: "('k \<times> status_write list) outcome \<Rightarrow> status_write list" where
  "writes_of x = snd (wKube (snd x))"

abbreviation start :: "'k \<Rightarrow> http_request list \<Rightarrow> ('k \<times> status_write list) world" where
  "start k log \<equiv> \<lparr>wKube = (k, []), wLog = log\<rparr>"

text \<open>
  An accepted resource was, at its present generation and with its present specification, read at
  some API state \<open>k\<close> of the workspace; at that same state its references led to the dependencies,
  which were Ready, and to the token, and the validator accepted exactly these.
\<close>

definition connection_accepted ::
  "'k kube_client \<Rightarrow> connection_validator option \<Rightarrow> Connection \<Rightarrow> ConnectionValidationResult \<Rightarrow> bool" where
  "connection_accepted c validator conn result \<longleftrightarrow>
     (\<exists>v k name old token log log'. validator = Some v \<and> kGetConnection c k name = Inr old \<and>
        cnSpec old = cnSpec conn \<and> omGeneration (cnMeta old) = omGeneration (cnMeta conn) \<and>
        csAuthType (cnSpec conn) = ConnectionAuthPAT \<and>
        ResolveBearerToken c k old = Inr token \<and> token \<noteq> [] \<and>
        v \<lparr>cvHost = csHost (cnSpec conn), cvAuthType = csAuthType (cnSpec conn),
           cvBearerToken = token\<rparr> log = (Inr result, log'))"

definition warehouse_accepted ::
  "'k kube_client \<Rightarrow> warehouse_validator option \<Rightarrow> Warehouse \<Rightarrow> WarehouseValidationResult \<Rightarrow> bool" where
  "warehouse_accepted c validator wh result \<longleftrightarrow>
     (\<exists>v k name old conn token log log'. validator = Some v \<and> kGetWarehouse c k name = Inr old \<and>
        whSpec old = whSpec wh \<and> omGeneration (whMeta old) = omGeneration (whMeta wh) \<and>
        ResolveConnection c k (wsConnectionRef (whSpec wh)) = Inr conn \<and>
        connection_current c conn \<and> csAuthType (cnSpec conn) = ConnectionAuthPAT \<and>
        ResolveBearerToken c k conn = Inr token \<and> token \<noteq> [] \<and>
        v \<lparr>wvHost = csHost (cnSpec conn), wvWarehouseID = wsWarehouseID (whSpec wh),
           wvBearerToken = token\<rparr> log = (Inr result, log'))"

definition table_accepted ::
  "'k kube_client \<Rightarrow> table_validator option \<Rightarrow> Table \<Rightarrow> Column list \<Rightarrow> bool" where
  "table_accepted c validator tbl result \<longleftrightarrow>
     (\<exists>v k name old conn wh token log log'. validator = Some v \<and> kGetTable c k name = Inr old \<and>
        tbSpec old = tbSpec tbl \<and> omGeneration (tbMeta old) = omGeneration (tbMeta tbl) \<and>
        ResolveWarehouse c k (tsWarehouseRef (tbSpec tbl)) = Inr wh \<and> warehouse_current c wh \<and>
        wsConnectionRef (whSpec wh) = tsConnectionRef (tbSpec tbl) \<and>
        ResolveConnection c k (tsConnectionRef (tbSpec tbl)) = Inr conn \<and>
        connection_current c conn \<and> csAuthType (cnSpec conn) = ConnectionAuthPAT \<and>
        ResolveBearerToken c k conn = Inr token \<and> token \<noteq> [] \<and>
        v (table_target tbl conn wh token) log = (Inr result, log'))"

inductive connection_write ::
  "'k kube_client \<Rightarrow> connection_validator option \<Rightarrow> Connection \<Rightarrow> Connection \<Rightarrow> bool" where
  "connection_write c v conn (connection_failed c conn reason msg)"
| "connection_accepted c v conn result \<Longrightarrow> connection_write c v conn (connection_validated c conn result)"

inductive warehouse_write ::
  "'k kube_client \<Rightarrow> warehouse_validator option \<Rightarrow> Warehouse \<Rightarrow> Warehouse \<Rightarrow> bool" where
  "warehouse_write c v wh (warehouse_failed c wh reason msg)"
| "warehouse_accepted c v wh result \<Longrightarrow> warehouse_write c v wh (warehouse_validated c wh result)"

inductive table_write ::
  "'k kube_client \<Rightarrow> table_validator option \<Rightarrow> Table \<Rightarrow> Table \<Rightarrow> bool" where
  "table_write c v tbl (table_failed c tbl reason msg)"
| "table_accepted c v tbl result \<Longrightarrow> table_write c v tbl (table_validated c now tbl result)"

lemma connection_acceptedI:
  "kGetConnection c k name = Inr conn \<Longrightarrow> ResolveBearerToken c k conn = Inr token \<Longrightarrow>
   csAuthType (cnSpec conn) = ConnectionAuthPAT \<Longrightarrow>
   v \<lparr>cvHost = csHost (cnSpec conn), cvAuthType = ConnectionAuthPAT, cvBearerToken = token\<rparr> log =
     (Inr result, log') \<Longrightarrow> connection_accepted c (Some v) conn result"
  unfolding connection_accepted_def
  by (rule exI [of _ v], rule exI [of _ k], rule exI [of _ name], rule exI [of _ conn], rule exI [of _ token],
      rule exI [of _ log], rule exI [of _ log'], simp add: ResolveBearerToken_nonempty)

lemma warehouse_acceptedI:
  "kGetWarehouse c k name = Inr wh \<Longrightarrow>
   ResolveConnection c k (wsConnectionRef (whSpec wh)) = Inr conn \<Longrightarrow>
   ResolveBearerToken c k conn = Inr token \<Longrightarrow> csAuthType (cnSpec conn) = ConnectionAuthPAT \<Longrightarrow>
   connection_current c conn \<Longrightarrow>
   v \<lparr>wvHost = csHost (cnSpec conn), wvWarehouseID = wsWarehouseID (whSpec wh),
      wvBearerToken = token\<rparr> log = (Inr result, log') \<Longrightarrow> warehouse_accepted c (Some v) wh result"
  unfolding warehouse_accepted_def
  by (rule exI [of _ v], rule exI [of _ k], rule exI [of _ name], rule exI [of _ wh], rule exI [of _ conn],
      rule exI [of _ token], rule exI [of _ log], rule exI [of _ log'], simp add: ResolveBearerToken_nonempty)

lemma table_acceptedI:
  "kGetTable c k name = Inr tbl \<Longrightarrow> ResolveWarehouse c k (tsWarehouseRef (tbSpec tbl)) = Inr wh \<Longrightarrow>
   ResolveConnection c k (tsConnectionRef (tbSpec tbl)) = Inr conn \<Longrightarrow>
   ResolveBearerToken c k conn = Inr token \<Longrightarrow> csAuthType (cnSpec conn) = ConnectionAuthPAT \<Longrightarrow>
   connection_current c conn \<Longrightarrow> warehouse_current c wh \<Longrightarrow>
   wsConnectionRef (whSpec wh) = tsConnectionRef (tbSpec tbl) \<Longrightarrow>
   v (table_target tbl conn wh token) log = (Inr result, log') \<Longrightarrow> table_accepted c (Some v) tbl result"
  unfolding table_accepted_def
  by (rule exI [of _ v], rule exI [of _ k], rule exI [of _ name], rule exI [of _ tbl], rule exI [of _ conn],
      rule exI [of _ wh], rule exI [of _ token], rule exI [of _ log], rule exI [of _ log'],
      simp add: ResolveBearerToken_nonempty)

lemma reconcileConnection_writes:
  assumes "kGetConnection c k name = Inr conn"
    "writes_of (reconcileConnection validator (recording c) name (start k log)) = [WriteConnection x]"
  shows "connection_write c validator conn x"
  using assms(2)
  by (simp add: assms(1) reconcileConnection_def writes_of_def connection_failAfter_def
      recording_updates Let_def split: if_split_asm sum.split_asm option.split_asm prod.split_asm)
    (auto intro: connection_write.intros connection_acceptedI [OF assms(1)])

lemma reconcileWarehouse_writes:
  assumes "kGetWarehouse c k name = Inr wh"
    "writes_of (reconcileWarehouse validator (recording c) name (start k log)) = [WriteWarehouse x]"
  shows "warehouse_write c validator wh x"
  using assms(2)
  by (simp add: assms(1) reconcileWarehouse_def writes_of_def warehouse_failAfter_def
      recording_updates Let_def split: if_split_asm sum.split_asm option.split_asm prod.split_asm)
    (auto intro: warehouse_write.intros warehouse_acceptedI [OF assms(1)])

lemma reconcileTable_writes:
  assumes "kGetTable c k name = Inr tbl"
    "writes_of (reconcileTable validator now (recording c) name (start k log)) = [WriteTable x]"
  shows "table_write c validator tbl x"
  using assms(2)
  by (simp add: assms(1) reconcileTable_def writes_of_def table_failAfter_def
      recording_updates Let_def split: if_split_asm sum.split_asm option.split_asm prod.split_asm)
    (auto intro: table_write.intros table_acceptedI [OF assms(1)])

subsection \<open>The life of a resource\<close>

text \<open>
  A resource is created, edited by its tenant and reconciled, in any order. The API server
  raises the generation whenever the specification changes, never lets an edit touch the status
  and accepts a status update only for the object version that was read; so a reconcile writes
  the status it computed from the current object. Everything else a reconcile reads (dependencies,
  secrets, the answers of Databricks) may be anything at that moment.
\<close>

inductive life :: "('o \<Rightarrow> bool) \<Rightarrow> ('o \<Rightarrow> 'o \<Rightarrow> bool) \<Rightarrow> ('o \<Rightarrow> 'o \<Rightarrow> bool) \<Rightarrow> 'o \<Rightarrow> bool"
  for fresh edit reconcile where
  created: "fresh x \<Longrightarrow> life fresh edit reconcile x"
| edited: "life fresh edit reconcile x \<Longrightarrow> edit x y \<Longrightarrow> life fresh edit reconcile y"
| reconciled: "life fresh edit reconcile x \<Longrightarrow> reconcile x y \<Longrightarrow> life fresh edit reconcile y"

locale status_lifecycle =
  fixes fresh :: "'o \<Rightarrow> bool" and edit reconcile :: "'o \<Rightarrow> 'o \<Rightarrow> bool"
    and generation observed :: "'o \<Rightarrow> int" and good :: "'o \<Rightarrow> bool"
  assumes fresh_good: "fresh x \<Longrightarrow> observed x \<le> generation x \<and> good x"
    and edit_good: "edit x y \<Longrightarrow> observed y = observed x \<and>
      (generation x < generation y \<or> generation y = generation x \<and> (good x \<longrightarrow> good y))"
    and reconcile_good: "reconcile x y \<Longrightarrow> (observed x = generation x \<longrightarrow> good x) \<Longrightarrow>
      observed y = generation y \<and> good y"
begin

lemma life_good:
  "life fresh edit reconcile x \<Longrightarrow> observed x \<le> generation x \<and> (observed x = generation x \<longrightarrow> good x)"
proof (induction rule: life.induct)
  case (created x)
  then show ?case using fresh_good by blast
next
  case (edited x y)
  then show ?case using edit_good [of x y] by auto
next
  case (reconciled x y)
  then show ?case using reconcile_good [of x y] by auto
qed

end

subsection \<open>Connections\<close>

definition connection_fresh :: "'k kube_client \<Rightarrow> Connection \<Rightarrow> bool" where
  "connection_fresh c x \<longleftrightarrow>
     (\<forall>t. kFindStatusCondition c (cstConditions (cnStatus x)) t = None) \<and>
     cstObservedGeneration (cnStatus x) \<le> omGeneration (cnMeta x)"

definition connection_edit :: "Connection \<Rightarrow> Connection \<Rightarrow> bool" where
  "connection_edit x y \<longleftrightarrow>
     cnStatus y = cnStatus x \<and>
     (omGeneration (cnMeta x) < omGeneration (cnMeta y) \<or>
      omGeneration (cnMeta y) = omGeneration (cnMeta x) \<and> cnSpec y = cnSpec x)"

definition connection_reconcile ::
  "'k kube_client \<Rightarrow> connection_validator option \<Rightarrow> Connection \<Rightarrow> Connection \<Rightarrow> bool" where
  "connection_reconcile c v x y \<longleftrightarrow>
     (\<exists>k name log z. kGetConnection c k name = Inr x \<and>
        writes_of (reconcileConnection v (recording c) name (start k log)) = [WriteConnection z] \<and>
        y = x\<lparr>cnStatus := cnStatus z\<rparr>)"

definition connection_good :: "'k kube_client \<Rightarrow> connection_validator option \<Rightarrow> Connection \<Rightarrow> bool" where
  "connection_good c v x \<longleftrightarrow>
     (conditions_ok c \<longrightarrow>
        (CurrentConditionTrue c (cstConditions (cnStatus x)) (cstObservedGeneration (cnStatus x))
           (omGeneration (cnMeta x)) ConditionReady \<longrightarrow>
         (\<exists>result. connection_accepted c v x result \<and>
            cstWorkspaceID (cnStatus x) = crWorkspaceID result \<and> connection_current c x)))"

lemma connection_accepted_cong:
  "cnSpec y = cnSpec x \<Longrightarrow> omGeneration (cnMeta y) = omGeneration (cnMeta x) \<Longrightarrow>
     connection_accepted c v y r = connection_accepted c v x r"
  by (simp add: connection_accepted_def ResolveBearerToken_def)

lemma connection_write_good:
  assumes "connection_write c v x z"
  shows "cstObservedGeneration (cnStatus z) = omGeneration (cnMeta x) \<and>
    connection_good c v (x\<lparr>cnStatus := cnStatus z\<rparr>)"
  using assms
proof cases
  case 1
  then show ?thesis
    by (simp add: connection_good_def connection_failed_def Let_def CurrentConditionTrue_set)
next
  case (2 result)
  let ?y = "x\<lparr>cnStatus := cnStatus z\<rparr>"
  have n: "ConditionValidated \<noteq> ConditionReady" by (simp add: condition_types)
  have a: "connection_accepted c v ?y result"
    using 2(2) connection_accepted_cong [of ?y x c v result] by simp
  have w: "cstWorkspaceID (cnStatus ?y) = crWorkspaceID result"
    "cstObservedGeneration (cnStatus z) = omGeneration (cnMeta x)"
    by (simp_all add: 2(1) connection_validated_def Let_def)
  have cur: "connection_current c ?y" if "conditions_ok c"
    using that n by (simp add: 2(1) connection_validated_def Let_def connection_current_def
        CurrentConditionTrue_set CurrentConditionTrue_other)
  show ?thesis unfolding connection_good_def using a w cur by blast
qed

interpretation connections: status_lifecycle "connection_fresh c" connection_edit
  "connection_reconcile c v" "\<lambda>x. omGeneration (cnMeta x)"
  "\<lambda>x. cstObservedGeneration (cnStatus x)" "connection_good c v"
proof unfold_locales
  fix x
  assume "connection_fresh c x"
  then show "cstObservedGeneration (cnStatus x) \<le> omGeneration (cnMeta x) \<and> connection_good c v x"
    by (simp add: connection_fresh_def connection_good_def CurrentConditionTrue_def)
next
  fix x y
  assume e: "connection_edit x y"
  have "connection_good c v x \<Longrightarrow> connection_good c v y"
    if "omGeneration (cnMeta y) = omGeneration (cnMeta x)" "cnSpec y = cnSpec x"
    using e that connection_accepted_cong [of y x c v]
    by (simp add: connection_good_def connection_edit_def connection_current_def)
  with e show "cstObservedGeneration (cnStatus y) = cstObservedGeneration (cnStatus x) \<and>
      (omGeneration (cnMeta x) < omGeneration (cnMeta y) \<or>
       omGeneration (cnMeta y) = omGeneration (cnMeta x) \<and> (connection_good c v x \<longrightarrow> connection_good c v y))"
    by (auto simp: connection_edit_def)
next
  fix x y
  assume "connection_reconcile c v x y"
  then show "cstObservedGeneration (cnStatus y) = omGeneration (cnMeta y) \<and> connection_good c v y"
    using connection_write_good reconcileConnection_writes
    by (fastforce simp: connection_reconcile_def)
qed

subsection \<open>Warehouses\<close>

definition warehouse_fresh :: "'k kube_client \<Rightarrow> Warehouse \<Rightarrow> bool" where
  "warehouse_fresh c x \<longleftrightarrow>
     (\<forall>t. kFindStatusCondition c (wstConditions (whStatus x)) t = None) \<and>
     wstObservedGeneration (whStatus x) \<le> omGeneration (whMeta x)"

definition warehouse_edit :: "Warehouse \<Rightarrow> Warehouse \<Rightarrow> bool" where
  "warehouse_edit x y \<longleftrightarrow>
     whStatus y = whStatus x \<and>
     (omGeneration (whMeta x) < omGeneration (whMeta y) \<or>
      omGeneration (whMeta y) = omGeneration (whMeta x) \<and> whSpec y = whSpec x)"

definition warehouse_reconcile ::
  "'k kube_client \<Rightarrow> warehouse_validator option \<Rightarrow> Warehouse \<Rightarrow> Warehouse \<Rightarrow> bool" where
  "warehouse_reconcile c v x y \<longleftrightarrow>
     (\<exists>k name log z. kGetWarehouse c k name = Inr x \<and>
        writes_of (reconcileWarehouse v (recording c) name (start k log)) = [WriteWarehouse z] \<and>
        y = x\<lparr>whStatus := whStatus z\<rparr>)"

definition warehouse_good :: "'k kube_client \<Rightarrow> warehouse_validator option \<Rightarrow> Warehouse \<Rightarrow> bool" where
  "warehouse_good c v x \<longleftrightarrow>
     (conditions_ok c \<longrightarrow> warehouse_current c x \<longrightarrow>
        (\<exists>result. warehouse_accepted c v x result \<and> wstState (whStatus x) = wrResState result))"

lemma warehouse_accepted_cong:
  "whSpec y = whSpec x \<Longrightarrow> omGeneration (whMeta y) = omGeneration (whMeta x) \<Longrightarrow>
     warehouse_accepted c v y r = warehouse_accepted c v x r"
  by (simp add: warehouse_accepted_def)

lemma warehouse_write_good:
  assumes "warehouse_write c v x z"
  shows "wstObservedGeneration (whStatus z) = omGeneration (whMeta x) \<and>
    warehouse_good c v (x\<lparr>whStatus := whStatus z\<rparr>)"
  using assms
proof cases
  case 1
  then show ?thesis
    by (simp add: warehouse_good_def warehouse_current_def warehouse_failed_def Let_def
        CurrentConditionTrue_set)
next
  case (2 result)
  let ?y = "x\<lparr>whStatus := whStatus z\<rparr>"
  have "warehouse_accepted c v ?y result"
    using 2(2) warehouse_accepted_cong [of ?y x c v result] by simp
  moreover have "wstState (whStatus ?y) = wrResState result"
    "wstObservedGeneration (whStatus z) = omGeneration (whMeta x)"
    by (simp_all add: 2(1) warehouse_validated_def Let_def)
  ultimately show ?thesis unfolding warehouse_good_def by blast
qed

interpretation warehouses: status_lifecycle "warehouse_fresh c" warehouse_edit
  "warehouse_reconcile c v" "\<lambda>x. omGeneration (whMeta x)"
  "\<lambda>x. wstObservedGeneration (whStatus x)" "warehouse_good c v"
proof unfold_locales
  fix x
  assume "warehouse_fresh c x"
  then show "wstObservedGeneration (whStatus x) \<le> omGeneration (whMeta x) \<and> warehouse_good c v x"
    by (simp add: warehouse_fresh_def warehouse_good_def warehouse_current_def CurrentConditionTrue_def)
next
  fix x y
  assume e: "warehouse_edit x y"
  have "warehouse_good c v x \<Longrightarrow> warehouse_good c v y"
    if "omGeneration (whMeta y) = omGeneration (whMeta x)" "whSpec y = whSpec x"
    using e that warehouse_accepted_cong [of y x c v]
    by (simp add: warehouse_good_def warehouse_edit_def warehouse_current_def)
  with e show "wstObservedGeneration (whStatus y) = wstObservedGeneration (whStatus x) \<and>
      (omGeneration (whMeta x) < omGeneration (whMeta y) \<or>
       omGeneration (whMeta y) = omGeneration (whMeta x) \<and> (warehouse_good c v x \<longrightarrow> warehouse_good c v y))"
    by (auto simp: warehouse_edit_def)
next
  fix x y
  assume "warehouse_reconcile c v x y"
  then show "wstObservedGeneration (whStatus y) = omGeneration (whMeta y) \<and> warehouse_good c v y"
    using warehouse_write_good reconcileWarehouse_writes
    by (fastforce simp: warehouse_reconcile_def)
qed

subsection \<open>Tables\<close>

definition table_fresh :: "'k kube_client \<Rightarrow> Table \<Rightarrow> bool" where
  "table_fresh c x \<longleftrightarrow>
     (\<forall>t. kFindStatusCondition c (tstConditions (tbStatus x)) t = None) \<and>
     tstColumns (tbStatus x) = [] \<and> tstObservedGeneration (tbStatus x) \<le> omGeneration (tbMeta x)"

definition table_edit :: "Table \<Rightarrow> Table \<Rightarrow> bool" where
  "table_edit x y \<longleftrightarrow>
     tbStatus y = tbStatus x \<and>
     (omGeneration (tbMeta x) < omGeneration (tbMeta y) \<or>
      omGeneration (tbMeta y) = omGeneration (tbMeta x) \<and> tbSpec y = tbSpec x)"

definition table_reconcile ::
  "'k kube_client \<Rightarrow> table_validator option \<Rightarrow> Table \<Rightarrow> Table \<Rightarrow> bool" where
  "table_reconcile c v x y \<longleftrightarrow>
     (\<exists>k name log now z. kGetTable c k name = Inr x \<and>
        writes_of (reconcileTable v now (recording c) name (start k log)) = [WriteTable z] \<and>
        y = x\<lparr>tbStatus := tbStatus z\<rparr>)"

definition table_current :: "'k kube_client \<Rightarrow> Table \<Rightarrow> bool" where
  "table_current c x \<longleftrightarrow>
     CurrentConditionTrue c (tstConditions (tbStatus x)) (tstObservedGeneration (tbStatus x))
       (omGeneration (tbMeta x)) ConditionReady"

definition table_good :: "'k kube_client \<Rightarrow> table_validator option \<Rightarrow> Table \<Rightarrow> bool" where
  "table_good c v x \<longleftrightarrow>
     (tstColumns (tbStatus x) \<noteq> [] \<longrightarrow>
        (\<exists>result. table_accepted c v x result \<and> tstColumns (tbStatus x) = take 64 result)) \<and>
     (conditions_ok c \<longrightarrow> table_current c x \<longrightarrow>
        (\<exists>result. table_accepted c v x result \<and> tstColumns (tbStatus x) = take 64 result))"

lemma table_accepted_cong:
  "tbSpec y = tbSpec x \<Longrightarrow> omGeneration (tbMeta y) = omGeneration (tbMeta x) \<Longrightarrow>
     table_accepted c v y r = table_accepted c v x r"
  by (simp add: table_accepted_def table_target_def)

lemma table_write_good:
  assumes "table_write c v x z" "tstObservedGeneration (tbStatus x) = omGeneration (tbMeta x) \<longrightarrow> table_good c v x"
  shows "tstObservedGeneration (tbStatus z) = omGeneration (tbMeta x) \<and>
    table_good c v (x\<lparr>tbStatus := tbStatus z\<rparr>)"
  using assms(1)
proof cases
  case (1 reason msg)
  let ?y = "x\<lparr>tbStatus := tbStatus z\<rparr>"
  have a: "table_accepted c v ?y r = table_accepted c v x r" for r
    by (rule table_accepted_cong) simp_all
  have "\<not> table_current c ?y" if "conditions_ok c"
    using that by (simp add: 1 table_failed_def table_current_def Let_def CurrentConditionTrue_set)
  moreover have "tstColumns (tbStatus ?y) = [] \<or>
      tstObservedGeneration (tbStatus x) = omGeneration (tbMeta x) \<and>
      tstColumns (tbStatus ?y) = tstColumns (tbStatus x)"
    by (simp add: 1 table_failed_def Let_def)
  ultimately show ?thesis
    using assms(2) unfolding table_good_def a by (auto simp: 1 table_failed_def Let_def)
next
  case (2 result now)
  let ?y = "x\<lparr>tbStatus := tbStatus z\<rparr>"
  have "table_accepted c v ?y result"
    using 2(2) table_accepted_cong [of ?y x c v result] by simp
  moreover have "tstColumns (tbStatus ?y) = take 64 result"
    "tstObservedGeneration (tbStatus z) = omGeneration (tbMeta x)"
    by (simp_all add: 2(1) table_validated_def boundedSchema_def query_consts Let_def)
  ultimately show ?thesis unfolding table_good_def by blast
qed

interpretation tables: status_lifecycle "table_fresh c" table_edit
  "table_reconcile c v" "\<lambda>x. omGeneration (tbMeta x)"
  "\<lambda>x. tstObservedGeneration (tbStatus x)" "table_good c v"
proof unfold_locales
  fix x
  assume "table_fresh c x"
  then show "tstObservedGeneration (tbStatus x) \<le> omGeneration (tbMeta x) \<and> table_good c v x"
    by (simp add: table_fresh_def table_good_def table_current_def CurrentConditionTrue_def)
next
  fix x y
  assume e: "table_edit x y"
  have "table_good c v x \<Longrightarrow> table_good c v y"
    if "omGeneration (tbMeta y) = omGeneration (tbMeta x)" "tbSpec y = tbSpec x"
    using e that table_accepted_cong [of y x c v]
    by (simp add: table_good_def table_edit_def table_current_def)
  with e show "tstObservedGeneration (tbStatus y) = tstObservedGeneration (tbStatus x) \<and>
      (omGeneration (tbMeta x) < omGeneration (tbMeta y) \<or>
       omGeneration (tbMeta y) = omGeneration (tbMeta x) \<and> (table_good c v x \<longrightarrow> table_good c v y))"
    by (auto simp: table_edit_def)
next
  fix x y
  assume "table_reconcile c v x y"
    and g: "tstObservedGeneration (tbStatus x) = omGeneration (tbMeta x) \<longrightarrow> table_good c v x"
  then obtain k name log now z where r: "kGetTable c k name = Inr x"
    "writes_of (reconcileTable v now (recording c) name (start k log)) = [WriteTable z]"
    and y: "y = x\<lparr>tbStatus := tbStatus z\<rparr>"
    by (auto simp: table_reconcile_def)
  have "table_write c v x z" using r by (rule reconcileTable_writes)
  from table_write_good [OF this g] y
  show "tstObservedGeneration (tbStatus y) = omGeneration (tbMeta y) \<and> table_good c v y" by simp
qed

subsection \<open>Readiness is earned\<close>

text \<open>
  C14. Whatever edits, failures and retries a Connection goes through, it is Ready for its
  current generation only if a validation of exactly its present host and auth type, with the
  non-empty token of the Secret it names, succeeded; the workspace ID shown is the one that
  validation returned.
\<close>

theorem connection_ready_sound:
  assumes "life (connection_fresh c) connection_edit (connection_reconcile c (Some v)) x"
    and "conditions_ok c"
    and "CurrentConditionTrue c (cstConditions (cnStatus x)) (cstObservedGeneration (cnStatus x))
           (omGeneration (cnMeta x)) ConditionReady"
  shows "csAuthType (cnSpec x) = ''pat'' \<and>
    (\<exists>k token log result log'. ResolveBearerToken c k x = Inr token \<and> token \<noteq> [] \<and>
       v \<lparr>cvHost = csHost (cnSpec x), cvAuthType = ''pat'', cvBearerToken = token\<rparr> log =
         (Inr result, log') \<and>
       cstWorkspaceID (cnStatus x) = crWorkspaceID result)"
proof -
  have "cstObservedGeneration (cnStatus x) = omGeneration (cnMeta x)"
    using assms(3) by (auto simp: CurrentConditionTrue_def split: if_splits)
  with connections.life_good [OF assms(1)] assms(2,3)
  obtain result where a: "connection_accepted c (Some v) x result"
    and id: "cstWorkspaceID (cnStatus x) = crWorkspaceID result"
    unfolding connection_good_def by blast
  from a obtain k old token log log' where
    r: "cnSpec old = cnSpec x" "ResolveBearerToken c k old = Inr token" "token \<noteq> []"
    and p: "csAuthType (cnSpec x) = ''pat''"
      "v \<lparr>cvHost = csHost (cnSpec x), cvAuthType = csAuthType (cnSpec x), cvBearerToken = token\<rparr> log =
         (Inr result, log')"
    unfolding connection_accepted_def ConnectionAuthPAT_def by blast
  from r have "ResolveBearerToken c k x = Inr token" by (simp add: ResolveBearerToken_def)
  with r(3) p id have "ResolveBearerToken c k x = Inr token \<and> token \<noteq> [] \<and>
      v \<lparr>cvHost = csHost (cnSpec x), cvAuthType = ''pat'', cvBearerToken = token\<rparr> log = (Inr result, log') \<and>
      cstWorkspaceID (cnStatus x) = crWorkspaceID result" by simp
  with p(1) show ?thesis by blast
qed

text \<open>
  C15. A Warehouse is Ready for its current generation only if Databricks accepted its present
  warehouse ID, at the host of the Connection its reference led to and with that Connection's
  token: at one API state, at which the Warehouse already had this generation and specification,
  the API returned that Connection under the Warehouse's \<^verbatim>\<open>connectionRef\<close>, Ready for its own current
  generation, and the Secret with the token. The state shown is the one reported then.
\<close>

theorem warehouse_ready_sound:
  assumes "life (warehouse_fresh c) warehouse_edit (warehouse_reconcile c (Some v)) x"
    and "conditions_ok c" and "warehouse_current c x"
  shows "\<exists>k name old conn token log result log'.
    kGetWarehouse c k name = Inr old \<and> whSpec old = whSpec x \<and>
    omGeneration (whMeta old) = omGeneration (whMeta x) \<and>
    ResolveConnection c k (wsConnectionRef (whSpec x)) = Inr conn \<and> connection_current c conn \<and>
    csAuthType (cnSpec conn) = ''pat'' \<and> ResolveBearerToken c k conn = Inr token \<and> token \<noteq> [] \<and>
    v \<lparr>wvHost = csHost (cnSpec conn), wvWarehouseID = wsWarehouseID (whSpec x),
       wvBearerToken = token\<rparr> log = (Inr result, log') \<and>
    wstState (whStatus x) = wrResState result"
proof -
  have "wstObservedGeneration (whStatus x) = omGeneration (whMeta x)"
    using assms(3) by (auto simp: warehouse_current_def CurrentConditionTrue_def split: if_splits)
  with warehouses.life_good [OF assms(1)] assms(2,3)
  obtain result where "warehouse_accepted c (Some v) x result"
    "wstState (whStatus x) = wrResState result"
    unfolding warehouse_good_def by blast
  then show ?thesis unfolding warehouse_accepted_def ConnectionAuthPAT_def by blast
qed

text \<open>
  C4. The schema cached on a Table is never stale for the generation it is recorded under: a
  non-empty column list at the current generation, and any column list of a Ready table, is the
  first 64 columns of a successful validation of exactly the present catalog, schema and table
  name. The validation went over the Warehouse and the Connection the API returned under the
  table's references at one state, at which the table had this generation and specification;
  both were Ready there and belonged together, and the token was that of the Connection's Secret.
\<close>

theorem table_schema_sound:
  assumes "life (table_fresh c) table_edit (table_reconcile c (Some v)) x"
    and "conditions_ok c"
    and "tstObservedGeneration (tbStatus x) = omGeneration (tbMeta x)"
    and "tstColumns (tbStatus x) \<noteq> [] \<or> table_current c x"
  shows "\<exists>k name old conn wh token log result log'.
    kGetTable c k name = Inr old \<and> tbSpec old = tbSpec x \<and>
    omGeneration (tbMeta old) = omGeneration (tbMeta x) \<and>
    ResolveWarehouse c k (tsWarehouseRef (tbSpec x)) = Inr wh \<and> warehouse_current c wh \<and>
    ResolveConnection c k (tsConnectionRef (tbSpec x)) = Inr conn \<and> connection_current c conn \<and>
    wsConnectionRef (whSpec wh) = tsConnectionRef (tbSpec x) \<and>
    ResolveBearerToken c k conn = Inr token \<and> token \<noteq> [] \<and>
    v (table_target x conn wh token) log = (Inr result, log') \<and>
    tstColumns (tbStatus x) = take 64 result"
proof -
  obtain result where "table_accepted c (Some v) x result" "tstColumns (tbStatus x) = take 64 result"
    using tables.life_good [OF assms(1)] assms(2-4) unfolding table_good_def by blast
  then show ?thesis unfolding table_accepted_def by blast
qed

subsection \<open>Gates\<close>

text \<open>
  A table reconcile asks the validator only about a table that exists and is not being
  deleted, over a warehouse with the same connection reference and a connection, both Ready for
  their current generation, with PAT authentication and a non-empty token; and with exactly the
  names of the table's specification.
\<close>

theorem reconcileTable_gate:
  assumes "wLog (snd (reconcileTable (Some v) now c name w)) \<noteq> wLog w"
  shows "\<exists>tbl wh conn token. kGetTable c (wKube w) name = Inr tbl \<and> \<not> omDeleting (tbMeta tbl) \<and>
    ResolveWarehouse c (wKube w) (tsWarehouseRef (tbSpec tbl)) = Inr wh \<and>
    ResolveConnection c (wKube w) (tsConnectionRef (tbSpec tbl)) = Inr conn \<and>
    wsConnectionRef (whSpec wh) = tsConnectionRef (tbSpec tbl) \<and>
    warehouse_current c wh \<and> connection_current c conn \<and> csAuthType (cnSpec conn) = ''pat'' \<and>
    ResolveBearerToken c (wKube w) conn = Inr token \<and> token \<noteq> [] \<and>
    wLog (snd (reconcileTable (Some v) now c name w)) = snd (v (table_target tbl conn wh token) (wLog w))"
proof -
  have f: "wLog (snd (finish d w' u)) = wLog w'" for d and w' :: "'a world" and u
    by (auto simp: finish_def split: prod.splits sum.splits)
  show ?thesis
    using assms
    by (simp add: reconcileTable_def table_failAfter_def f Let_def ConnectionAuthPAT_def
        split: if_split_asm sum.split_asm option.split_asm prod.split_asm)
      (auto dest: ResolveBearerToken_nonempty)
qed

subsection \<open>A workspace with one connection, warehouse and table\<close>

definition demo_meta :: "string \<Rightarrow> ObjectMeta" where
  "demo_meta name = \<lparr>omName = name, omGeneration = 1, omResourceVersion = 1, omDeleting = False\<rparr>"

definition demo_connection :: Connection where
  "demo_connection =
     \<lparr>cnMeta = demo_meta ''main'',
      cnSpec = \<lparr>csHost = ''ws'', csAuthType = ''pat'',
                csSecretRef = \<lparr>srName = ''pat'', srNamespace = [], srKey = []\<rparr>\<rparr>,
      cnStatus = \<lparr>cstObservedGeneration = 0, cstWorkspaceID = [], cstConditions = []\<rparr>\<rparr>"

definition demo_warehouse :: Warehouse where
  "demo_warehouse =
     \<lparr>whMeta = demo_meta ''wh'', whSpec = \<lparr>wsConnectionRef = ''main'', wsWarehouseID = ''w1''\<rparr>,
      whStatus = \<lparr>wstObservedGeneration = 0, wstState = [], wstConditions = []\<rparr>\<rparr>"

definition demo_table :: Table where
  "demo_table =
     \<lparr>tbMeta = demo_meta ''orders'',
      tbSpec = \<lparr>tsConnectionRef = ''main'', tsWarehouseRef = ''wh'', tsCatalog = ''c'',
                tsSchema = ''s'', tsTable = ''t''\<rparr>,
      tbStatus = \<lparr>tstObservedGeneration = 0, tstRefreshedAt = None, tstColumns = [],
                  tstConditions = []\<rparr>\<rparr>"

definition demo_client :: "Connection \<Rightarrow> Warehouse \<Rightarrow> unit kube_client" where
  "demo_client conn wh =
     \<lparr>kGetConnection = (\<lambda>_ _. Inr conn), kGetWarehouse = (\<lambda>_ _. Inr wh),
      kGetTable = (\<lambda>_ _. Inr demo_table), kGetSecret = (\<lambda>_ _ _. Inr [(''token'', ''dapi'')]),
      kListWarehouses = (\<lambda>_. Inr [wh]), kListTables = (\<lambda>_. Inr [demo_table]),
      kUpdateConnectionStatus = (\<lambda>_ k. (Inr (), k)), kUpdateWarehouseStatus = (\<lambda>_ k. (Inr (), k)),
      kUpdateTableStatus = (\<lambda>_ k. (Inr (), k)),
      kSetStatusCondition = (\<lambda>cs x. x # filter (\<lambda>c. cndType c \<noteq> cndType x) cs),
      kFindStatusCondition = (\<lambda>cs t. List.find (\<lambda>c. cndType c = t) cs)\<rparr>"

definition demo_ready_connection :: Connection where
  "demo_ready_connection =
     connection_validated (demo_client demo_connection demo_warehouse) demo_connection
       \<lparr>crPrincipal = ''stub'', crWorkspaceID = ''stub''\<rparr>"

definition demo_ready_warehouse :: Warehouse where
  "demo_ready_warehouse =
     warehouse_validated (demo_client demo_ready_connection demo_warehouse) demo_warehouse
       \<lparr>wrResName = ''w1'', wrResState = ''RUNNING''\<rparr>"

definition demo_ready_table :: Table where
  "demo_ready_table =
     table_validated (demo_client demo_ready_connection demo_ready_warehouse) 7 demo_table
       [\<lparr>colName = ''order_id'', colType = ''STRING'', colNullable = False,
         colComment = ''Stub order identifier''\<rparr>,
        \<lparr>colName = ''total_amount'', colType = ''DOUBLE'', colNullable = False, colComment = []\<rparr>]"

lemma demo_client_conditions [simp]: "conditions_ok (demo_client conn wh)"
proof -
  have "List.find P (filter (\<lambda>c. cndType c \<noteq> u) cs) = List.find P cs"
    if "\<And>c. P c \<Longrightarrow> cndType c \<noteq> u" for P u and cs :: "Condition list"
    using that by (induction cs) auto
  then show ?thesis by (auto simp: conditions_ok_def demo_client_def same_condition_def)
qed

lemmas demo_conditions = SetCondition_def CurrentConditionTrue_def condition_types demo_client_def

lemma demo_client_simps [simp]:
  "kGetConnection (demo_client conn wh) k n = Inr conn"
  "kGetWarehouse (demo_client conn wh) k n = Inr wh"
  "kGetTable (demo_client conn wh) k n = Inr demo_table"
  "kGetSecret (demo_client conn wh) k n m = Inr [(''token'', ''dapi'')]"
  "kFindStatusCondition (demo_client conn wh) [] t = None"
  "kUpdateTableStatus (demo_client conn wh) x k = (Inr (), k)"
  by (simp_all add: demo_client_def)

lemma demo_trim [simp]:
  "TrimSpace ''ws'' = ''ws''" "TrimSpace ''dapi'' = ''dapi''" "TrimSpace ''w1'' = ''w1''"
  "TrimSpace ''t'' = ''t''" "TrimSpace ''main'' = ''main''" "TrimSpace ''wh'' = ''wh''"
  by (simp_all add: TrimSpace_graphic graphic_def)

lemma demo_resolve [simp]:
  "csSecretRef (cnSpec x) = csSecretRef (cnSpec demo_connection) \<Longrightarrow>
     ResolveBearerToken (demo_client conn wh) k x = Inr ''dapi''"
  "ResolveConnection (demo_client conn wh) k ''main'' = Inr conn"
  "ResolveWarehouse (demo_client conn wh) k ''wh'' = Inr wh"
  by (simp_all add: ResolveBearerToken_def ResolveConnection_def ResolveWarehouse_def resolve_named_def
      shared_consts demo_connection_def Let_def)

lemma demo_connection_ready:
  "life (connection_fresh (demo_client demo_connection demo_warehouse)) connection_edit
     (connection_reconcile (demo_client demo_connection demo_warehouse) (Some Stub_ValidateConnection))
     demo_ready_connection"
proof (rule life.reconciled [OF life.created])
  show "connection_fresh (demo_client demo_connection demo_warehouse) demo_connection"
    by (simp add: connection_fresh_def demo_connection_def demo_meta_def)
  have [simp]: "csAuthType (cnSpec demo_connection) = ConnectionAuthPAT"
    "csHost (cnSpec demo_connection) = ''ws''" "\<not> omDeleting (cnMeta demo_connection)"
    by (simp_all add: demo_connection_def demo_meta_def ConnectionAuthPAT_def)
  show "connection_reconcile (demo_client demo_connection demo_warehouse) (Some Stub_ValidateConnection)
      demo_connection demo_ready_connection"
    unfolding connection_reconcile_def
    by (intro exI [of _ "()"] exI [of _ "[]"] exI [of _ demo_ready_connection])
      (simp add: reconcileConnection_def writes_of_def recording_updates Stub_ValidateConnection_def
        demo_ready_connection_def [symmetric],
       simp add: demo_ready_connection_def connection_validated_def Let_def)
qed

lemma demo_warehouse_ready:
  "life (warehouse_fresh (demo_client demo_ready_connection demo_warehouse)) warehouse_edit
     (warehouse_reconcile (demo_client demo_ready_connection demo_warehouse) (Some Stub_ValidateWarehouse))
     demo_ready_warehouse"
proof (rule life.reconciled [OF life.created])
  let ?c = "demo_client demo_ready_connection demo_warehouse"
  show "warehouse_fresh ?c demo_warehouse"
    by (simp add: warehouse_fresh_def demo_warehouse_def demo_meta_def)
  have [simp]: "wsConnectionRef (whSpec demo_warehouse) = ''main''"
    "wsWarehouseID (whSpec demo_warehouse) = ''w1''" "\<not> omDeleting (whMeta demo_warehouse)"
    "csSecretRef (cnSpec demo_ready_connection) = csSecretRef (cnSpec demo_connection)"
    "csAuthType (cnSpec demo_ready_connection) = ConnectionAuthPAT"
    "csHost (cnSpec demo_ready_connection) = ''ws''"
    "connection_current ?c demo_ready_connection"
    by (simp_all add: demo_warehouse_def demo_meta_def demo_ready_connection_def demo_connection_def
        connection_validated_def ConnectionAuthPAT_def connection_current_def demo_conditions Let_def)
  show "warehouse_reconcile ?c (Some Stub_ValidateWarehouse) demo_warehouse demo_ready_warehouse"
    unfolding warehouse_reconcile_def
    by (intro exI [of _ "()"] exI [of _ "[]"] exI [of _ demo_ready_warehouse])
      (simp add: reconcileWarehouse_def writes_of_def recording_updates Stub_ValidateWarehouse_def
        demo_ready_warehouse_def [symmetric],
       simp add: demo_ready_warehouse_def warehouse_validated_def Let_def)
qed

lemma demo_table_facts:
  "tsConnectionRef (tbSpec demo_table) = ''main''" "tsWarehouseRef (tbSpec demo_table) = ''wh''"
  "tsTable (tbSpec demo_table) = ''t''" "\<not> omDeleting (tbMeta demo_table)"
  "wsConnectionRef (whSpec demo_ready_warehouse) = ''main''"
  "wsWarehouseID (whSpec demo_ready_warehouse) = ''w1''"
  "csSecretRef (cnSpec demo_ready_connection) = csSecretRef (cnSpec demo_connection)"
  "csAuthType (cnSpec demo_ready_connection) = ConnectionAuthPAT"
  "csHost (cnSpec demo_ready_connection) = ''ws''"
  "connection_current (demo_client conn wh) demo_ready_connection"
  "warehouse_current (demo_client conn wh) demo_ready_warehouse"
  by (simp_all add: demo_table_def demo_warehouse_def demo_meta_def demo_ready_connection_def
      demo_connection_def demo_ready_warehouse_def warehouse_validated_def connection_validated_def
      ConnectionAuthPAT_def connection_current_def warehouse_current_def demo_conditions Let_def)

lemma demo_table_ready:
  "life (table_fresh (demo_client demo_ready_connection demo_ready_warehouse)) table_edit
     (table_reconcile (demo_client demo_ready_connection demo_ready_warehouse) (Some Stub_ValidateTable))
     demo_ready_table"
proof (rule life.reconciled [OF life.created])
  let ?c = "demo_client demo_ready_connection demo_ready_warehouse"
  show "table_fresh ?c demo_table"
    by (simp add: table_fresh_def demo_table_def demo_meta_def)
  show "table_reconcile ?c (Some Stub_ValidateTable) demo_table demo_ready_table"
    unfolding table_reconcile_def
    by (intro exI [of _ "()"] exI [of _ "[]"] exI [of _ "7"] exI [of _ demo_ready_table])
      (simp add: reconcileTable_def writes_of_def recording_updates Stub_ValidateTable_def
        demo_table_facts table_target_def demo_ready_table_def [symmetric],
       simp add: demo_ready_table_def table_validated_def boundedSchema_def Let_def)
qed

theorem connection_ready_sound_witness:
  "\<exists>token log result log'. token \<noteq> [] \<and>
     Stub_ValidateConnection \<lparr>cvHost = ''ws'', cvAuthType = ''pat'', cvBearerToken = token\<rparr> log =
       (Inr result, log') \<and> crWorkspaceID result = ''stub''"
proof -
  let ?c = "demo_client demo_connection demo_warehouse"
  have "CurrentConditionTrue ?c (cstConditions (cnStatus demo_ready_connection))
      (cstObservedGeneration (cnStatus demo_ready_connection))
      (omGeneration (cnMeta demo_ready_connection)) ConditionReady"
    by (simp add: demo_ready_connection_def connection_validated_def demo_conditions Let_def)
  note r = connection_ready_sound [OF demo_connection_ready demo_client_conditions this]
  have f: "csHost (cnSpec demo_ready_connection) = ''ws''"
    "cstWorkspaceID (cnStatus demo_ready_connection) = ''stub''"
    by (simp_all add: demo_ready_connection_def connection_validated_def demo_connection_def Let_def)
  from r [unfolded f] obtain token log result log' where "token \<noteq> []"
    "Stub_ValidateConnection \<lparr>cvHost = ''ws'', cvAuthType = ''pat'', cvBearerToken = token\<rparr> log =
       (Inr result, log')" "''stub'' = crWorkspaceID result" by blast
  then show ?thesis by - (rule exI [of _ token], rule exI [of _ log], rule exI [of _ result], rule exI [of _ log'], simp)
qed

theorem warehouse_ready_sound_witness:
  "\<exists>conn token log result log'.
     ResolveConnection (demo_client demo_ready_connection demo_warehouse) () ''main'' = Inr conn \<and>
     connection_current (demo_client demo_ready_connection demo_warehouse) conn \<and> token = ''dapi'' \<and>
     Stub_ValidateWarehouse \<lparr>wvHost = csHost (cnSpec conn), wvWarehouseID = ''w1'',
       wvBearerToken = token\<rparr> log = (Inr result, log') \<and> wrResState result = ''RUNNING''"
proof -
  have f: "wsWarehouseID (whSpec demo_ready_warehouse) = ''w1''"
    "wsConnectionRef (whSpec demo_ready_warehouse) = ''main''"
    "wstState (whStatus demo_ready_warehouse) = ''RUNNING''"
    by (simp_all add: demo_ready_warehouse_def warehouse_validated_def demo_warehouse_def Let_def)
  show ?thesis
    using warehouse_ready_sound [OF demo_warehouse_ready demo_client_conditions demo_table_facts(11)]
    unfolding f by (auto simp: demo_table_facts) metis
qed

theorem table_schema_sound_witness:
  "\<exists>conn wh token log result log'.
     ResolveConnection (demo_client demo_ready_connection demo_ready_warehouse) () ''main'' = Inr conn \<and>
     connection_current (demo_client demo_ready_connection demo_ready_warehouse) conn \<and>
     ResolveWarehouse (demo_client demo_ready_connection demo_ready_warehouse) () ''wh'' = Inr wh \<and>
     warehouse_current (demo_client demo_ready_connection demo_ready_warehouse) wh \<and>
     wsConnectionRef (whSpec wh) = ''main'' \<and> token \<noteq> [] \<and>
     Stub_ValidateTable (table_target demo_ready_table conn wh token) log = (Inr result, log') \<and>
     length (take 64 result) = 2"
proof -
  have f: "tsConnectionRef (tbSpec demo_ready_table) = ''main''"
    "tsWarehouseRef (tbSpec demo_ready_table) = ''wh''"
    "length (tstColumns (tbStatus demo_ready_table)) = 2"
    "tstObservedGeneration (tbStatus demo_ready_table) = omGeneration (tbMeta demo_ready_table)"
    by (simp_all add: demo_ready_table_def table_validated_def boundedSchema_def demo_table_def
        query_consts Let_def)
  have "tstColumns (tbStatus demo_ready_table) \<noteq> [] \<or>
      table_current (demo_client demo_ready_connection demo_ready_warehouse) demo_ready_table"
    using f(3) by auto
  from table_schema_sound [OF demo_table_ready demo_client_conditions f(4) this]
  show ?thesis unfolding f(1,2) using f(3) by (metis old.unit.exhaust)
qed

text \<open>A validator that records the names it is asked about.\<close>

definition noting_validator :: table_validator where
  "noting_validator target log =
     (Inr [], log @ [\<lparr>rqVerb = trTable (ttTable target), rqURL = [], rqHeader = [], rqBody = []\<rparr>])"

theorem reconcileTable_gate_witness:
  "let c = demo_client demo_ready_connection demo_ready_warehouse;
       w = snd (reconcileTable (Some noting_validator) 0 c ''orders'' \<lparr>wKube = (), wLog = []\<rparr>) in
   wLog w \<noteq> [] \<and>
   (\<exists>tbl wh conn token. kGetTable c () ''orders'' = Inr tbl \<and> warehouse_current c wh \<and>
      connection_current c conn \<and> token \<noteq> [] \<and>
      wLog w = snd (noting_validator (table_target tbl conn wh token) []))"
proof -
  let ?c = "demo_client demo_ready_connection demo_ready_warehouse"
  let ?w = "snd (reconcileTable (Some noting_validator) 0 ?c ''orders'' \<lparr>wKube = (), wLog = []\<rparr>)"
  have "wLog ?w \<noteq> []"
    by (simp add: reconcileTable_def demo_table_facts noting_validator_def finish_def)
  then show ?thesis
    using reconcileTable_gate [of noting_validator 0 ?c "''orders''" "\<lparr>wKube = (), wLog = []\<rparr>"]
    unfolding Let_def by simp blast
qed

end
