(* ===== verification/Go_Sha256.thy ===== *)
theory Go_Sha256
  imports Go_Strings "HOL-Library.Word"
begin

text \<open>
  \<^verbatim>\<open>crypto/sha256\<close>, which \<^verbatim>\<open>tenant/client.go\<close> uses to key its client caches: the hash of FIPS 180-4
  on 32-bit words. \<open>Sum256\<close> gives the 32 digest bytes.
\<close>

unbundle bit_operations_syntax

definition sha256_init :: "32 word list" where
  "sha256_init =
     [1779033703, 3144134277, 1013904242, 2773480762, 1359893119, 2600822924,
      528734635, 1541459225]"

definition sha256_k :: "32 word list" where
  "sha256_k =
     [1116352408, 1899447441, 3049323471, 3921009573, 961987163, 1508970993,
      2453635748, 2870763221, 3624381080, 310598401, 607225278, 1426881987,
      1925078388, 2162078206, 2614888103, 3248222580, 3835390401, 4022224774,
      264347078, 604807628, 770255983, 1249150122, 1555081692, 1996064986,
      2554220882, 2821834349, 2952996808, 3210313671, 3336571891, 3584528711,
      113926993, 338241895, 666307205, 773529912, 1294757372, 1396182291,
      1695183700, 1986661051, 2177026350, 2456956037, 2730485921, 2820302411,
      3259730800, 3345764771, 3516065817, 3600352804, 4094571909, 275423344,
      430227734, 506948616, 659060556, 883997877, 958139571, 1322822218,
      1537002063, 1747873779, 1955562222, 2024104815, 2227730452, 2361852424,
      2428436474, 2756734187, 3204031479, 3329325298]"

definition sha_s0 :: "32 word \<Rightarrow> 32 word" where
  "sha_s0 x = word_rotr 7 x XOR word_rotr 18 x XOR drop_bit 3 x"

definition sha_s1 :: "32 word \<Rightarrow> 32 word" where
  "sha_s1 x = word_rotr 17 x XOR word_rotr 19 x XOR drop_bit 10 x"

text \<open>The message schedule; the newest word is kept at the head.\<close>

primrec sha_schedule :: "nat \<Rightarrow> 32 word list \<Rightarrow> 32 word list" where
  "sha_schedule 0 ws = ws"
| "sha_schedule (Suc n) ws =
     sha_schedule n ((sha_s1 (ws ! 1) + ws ! 6 + sha_s0 (ws ! 14) + ws ! 15) # ws)"

fun sha_round :: "32 word \<times> 32 word \<Rightarrow> 32 word list \<Rightarrow> 32 word list" where
  "sha_round (k, w) [a, b, c, d, e, f, g, h] =
     (let t1 = h + (word_rotr 6 e XOR word_rotr 11 e XOR word_rotr 25 e) +
               ((e AND f) XOR (NOT e AND g)) + k + w;
          t2 = (word_rotr 2 a XOR word_rotr 13 a XOR word_rotr 22 a) +
               ((a AND b) XOR (a AND c) XOR (b AND c)) in
      [t1 + t2, a, b, c, d + t1, e, f, g])"
| "sha_round _ hs = hs"

definition sha_block :: "32 word list \<Rightarrow> 32 word list \<Rightarrow> 32 word list" where
  "sha_block hs ws =
     map2 (+) hs (fold sha_round (zip sha256_k (rev (sha_schedule 48 (rev ws)))) hs)"

text \<open>Padding to whole blocks of 16 words: the mark, zeros, and the length in bits as 64 bits.\<close>

definition sha_pad :: "string \<Rightarrow> 32 word list" where
  "sha_pad msg =
     (let n = length msg; bits = (of_nat (8 * n) :: 64 word) in
      map (\<lambda>c. of_nat (byte c)) msg @ [128] @ replicate ((119 - n mod 64) mod 64) 0 @
      map (\<lambda>i. ucast (drop_bit (8 * i) bits AND 255)) (rev [0..<8]))"

fun sha_words :: "32 word list \<Rightarrow> 32 word list" where
  "sha_words (a # b # c # d # rest) =
     (push_bit 24 a OR push_bit 16 b OR push_bit 8 c OR d) # sha_words rest"
| "sha_words _ = []"

fun sha_blocks :: "32 word list \<Rightarrow> 32 word list \<Rightarrow> 32 word list" where
  "sha_blocks hs ws = (if ws = [] then hs else sha_blocks (sha_block hs (take 16 ws)) (drop 16 ws))"

definition Sum256 :: "string \<Rightarrow> 32 word list" where
  "Sum256 msg =
     concat (map (\<lambda>w. map (\<lambda>i. drop_bit (8 * i) w AND 255) (rev [0..<4]))
       (sha_blocks sha256_init (sha_words (sha_pad msg))))"

declare sha_blocks.simps [simp del]

lemma length_sha_round [simp]: "length (sha_round kw hs) = length hs"
  by (induction kw hs rule: sha_round.induct) (auto simp: Let_def)

lemma length_fold_round [simp]: "length (fold sha_round kws hs) = length hs"
  by (induction kws arbitrary: hs) auto

lemma length_sha_blocks: "length (sha_blocks hs ws) = length hs"
proof (induction hs ws rule: sha_blocks.induct)
  case (1 hs ws)
  then show ?case by (subst sha_blocks.simps) (simp add: sha_block_def)
qed

lemma length_Sum256: "length (Sum256 msg) = 32"
proof -
  have "length (concat (map (\<lambda>w. map (f w) (rev [0..<4])) ws)) = 4 * length ws"
    for f :: "32 word \<Rightarrow> nat \<Rightarrow> 32 word" and ws
    by (induction ws) auto
  then show ?thesis by (simp add: Sum256_def length_sha_blocks sha256_init_def)
qed

lemma Sum256_abc: "map unat (take 4 (Sum256 ''abc'')) = [186, 120, 22, 191]"
  by code_simp

end
