(* ===== verification/Tenant_Client.thy ===== *)
theory Tenant_Client
  imports Errors Go_Net Go_Sha256 "HOL-Library.AList"
begin

text \<open>
  Package \<^verbatim>\<open>tenant\<close>, \<^verbatim>\<open>client.go\<close>: the factory of caller-token clients for tenant logical clusters, with
  its base configuration, its provider authority and its two bounded client caches. The nil
  receiver is \<open>None\<close>. A Go map is an association list whose order stands for the order of
  iteration; the theorems hold for every order. The types \<open>'d\<close> and \<open>'a\<close> are the dynamic and the authorization clients,
  \<open>'c\<close> the provider clients of the authority and \<open>'s\<close> its state. The constructors of client-go and
  \<^verbatim>\<open>url.Parse\<close> are arguments. Times are nanoseconds, 0 the zero time; every locked step reads the
  clock once.
\<close>

subsection \<open>Data\<close>

definition defaultClientCacheCapacity :: int where "defaultClientCacheCapacity = 128"
definition defaultClientCacheTTL :: int where "defaultClientCacheTTL = 600000000000"

record TLSClientConfig =
  tlsInsecure :: bool
  tlsServerName :: string
  tlsCertFile :: string
  tlsKeyFile :: string
  tlsCAFile :: string
  tlsCertData :: string
  tlsKeyData :: string
  tlsCAData :: string
  tlsNextProtos :: "string list"

record rest_config =
  rcHost :: string
  rcBearerToken :: string
  rcTLS :: TLSClientConfig

record cacheRecord =
  recCreatedAt :: int
  recLastUsed :: "64 word"

text \<open>The pair of maps \<^verbatim>\<open>hot\<close>, \<^verbatim>\<open>hotMeta\<close> (and \<^verbatim>\<open>authHot\<close>, \<^verbatim>\<open>authMeta\<close>).\<close>

record 'v client_cache =
  ccHot :: "(string \<times> 'v) list"
  ccMeta :: "(string \<times> cacheRecord) list"

type_synonym ('c, 's) ClusterAuthority = "string \<Rightarrow> 's \<Rightarrow> 'c option go_result \<times> 's"

record ('d, 'a, 'c, 's) ClientFactory =
  cfBaseHost :: string
  cfBaseTLS :: TLSClientConfig
  cfAuthority :: "('c, 's) ClusterAuthority option"
  cfConfigured :: bool
  cfDynamic :: "'d client_cache"
  cfAuth :: "'a client_cache"
  cfCacheCapacity :: int
  cfCacheTTL :: int
  cfCacheClock :: "64 word"

definition empty_cache :: "'v client_cache" where
  "empty_cache = \<lparr>ccHot = [], ccMeta = []\<rparr>"

definition zero_tls :: TLSClientConfig where
  "zero_tls =
     \<lparr>tlsInsecure = False, tlsServerName = [], tlsCertFile = [], tlsKeyFile = [], tlsCAFile = [],
      tlsCertData = [], tlsKeyData = [], tlsCAData = [], tlsNextProtos = []\<rparr>"

definition newClientFactory :: "('d, 'a, 'c, 's) ClientFactory" where
  "newClientFactory =
     \<lparr>cfBaseHost = [], cfBaseTLS = zero_tls, cfAuthority = None, cfConfigured = False,
      cfDynamic = empty_cache, cfAuth = empty_cache,
      cfCacheCapacity = defaultClientCacheCapacity, cfCacheTTL = defaultClientCacheTTL,
      cfCacheClock = 0\<rparr>"

subsection \<open>Configuration\<close>

text \<open>The text before the first occurrence of \<open>sub\<close>, if there is one.\<close>

fun text_before :: "'a list \<Rightarrow> 'a list \<Rightarrow> 'a list option" where
  "text_before sub [] = (if sub = [] then Some [] else None)"
| "text_before sub (x # xs) =
     (if prefix sub (x # xs) then Some [] else map_option (Cons x) (text_before sub xs))"

definition stripClusterSuffix :: "(string \<Rightarrow> URL go_result) \<Rightarrow> string \<Rightarrow> string go_result" where
  "stripClusterSuffix parse host =
     (case parse host of
        Inl e \<Rightarrow> Inl (WrapError (''parse base kubeconfig host '' @ quoted host @ '': '') e)
      | Inr u \<Rightarrow>
          (case text_before ''/clusters/'' (uPath u) of
             None \<Rightarrow> Inr (TrimRight host ''/'')
           | Some p \<Rightarrow> Inr (TrimRight (url_String (u\<lparr>uPath := p\<rparr>)) ''/'')))"

definition SetBaseConfig ::
  "(string \<Rightarrow> URL go_result) \<Rightarrow> rest_config option \<Rightarrow> ('d, 'a, 'c, 's) ClientFactory option \<Rightarrow>
   unit go_result \<times> ('d, 'a, 'c, 's) ClientFactory option" where
  "SetBaseConfig parse base factory =
     (case factory of
        None \<Rightarrow> (Inl (ErrorString ''tenant client unavailable''), None)
      | Some f \<Rightarrow>
     (case base of
        None \<Rightarrow> (Inl (ErrorString ''provider kubeconfig is unavailable''), Some f)
      | Some base \<Rightarrow>
     (let baseHost = (case stripClusterSuffix parse (rcHost base) of
                        Inl _ \<Rightarrow> TrimRight (rcHost base) ''/''
                      | Inr h \<Rightarrow> h) in
      if TrimSpace baseHost = []
      then (Inl (ErrorString ''provider kubeconfig host is empty''), Some f)
      else
        (let tls = (rcTLS base)\<lparr>tlsCertData := [], tlsCertFile := [], tlsKeyData := [], tlsKeyFile := []\<rparr> in
         (Inr (), Some (f\<lparr>cfBaseHost := baseHost, cfBaseTLS := tls, cfConfigured := True,
                          cfDynamic := empty_cache, cfAuth := empty_cache\<rparr>))))))"

definition NewClientFactory ::
  "(string \<Rightarrow> URL go_result) \<Rightarrow> rest_config option \<Rightarrow> ('d, 'a, 'c, 's) ClientFactory option" where
  "NewClientFactory parse base =
     (case base of
        None \<Rightarrow> None
      | Some b \<Rightarrow>
          (case SetBaseConfig parse (Some b) (Some newClientFactory) of
             (Inl _, _) \<Rightarrow> None
           | (Inr _, f) \<Rightarrow> f))"

definition NewDeferredClientFactory :: "('d, 'a, 'c, 's) ClientFactory option" where
  "NewDeferredClientFactory = Some newClientFactory"

definition Configured :: "('d, 'a, 'c, 's) ClientFactory option \<Rightarrow> bool" where
  "Configured factory = (case factory of None \<Rightarrow> False | Some f \<Rightarrow> cfConfigured f)"

definition SetAuthority ::
  "('c, 's) ClusterAuthority option \<Rightarrow> ('d, 'a, 'c, 's) ClientFactory option \<Rightarrow>
   ('d, 'a, 'c, 's) ClientFactory option" where
  "SetAuthority authority factory = map_option (\<lambda>f. f\<lparr>cfAuthority := authority\<rparr>) factory"

definition Ready :: "('d, 'a, 'c, 's) ClientFactory option \<Rightarrow> bool" where
  "Ready factory =
     (case factory of None \<Rightarrow> False | Some f \<Rightarrow> Configured factory \<and> cfAuthority f \<noteq> None)"

definition cluster_id_ok :: "string \<Rightarrow> bool" where
  "cluster_id_ok clusterID \<longleftrightarrow>
     \<not> (clusterID = [] \<or> clusterID = ''.'' \<or> clusterID = ''..'' \<or> PathEscape clusterID \<noteq> clusterID)"

definition AuthorityClient ::
  "('d, 'a, 'c, 's) ClientFactory option \<Rightarrow> string \<Rightarrow> 's \<Rightarrow> 'c go_result \<times> 's" where
  "AuthorityClient factory clusterID s =
     (case factory of
        None \<Rightarrow> (Inl (ErrorString ''provider authority client unavailable''), s)
      | Some f \<Rightarrow>
     (case cfAuthority f of
        None \<Rightarrow> (Inl (ErrorString ''provider authority client unavailable''), s)
      | Some authority \<Rightarrow>
     (let clusterID = TrimSpace clusterID in
      if \<not> cluster_id_ok clusterID then (Inl (ErrorString ''invalid tenant logical-cluster ID''), s)
      else
     (case authority clusterID s of
        (Inl e, s') \<Rightarrow> (Inl (WrapError (''provider authority cluster '' @ quoted clusterID @ '': '') e), s')
      | (Inr None, s') \<Rightarrow>
          (Inl (ErrorString (''provider authority cluster '' @ quoted clusterID @ '' has no client'')), s')
      | (Inr (Some cl), s') \<Rightarrow> (Inr cl, s')))))"

definition configFor ::
  "('d, 'a, 'c, 's) ClientFactory option \<Rightarrow> string \<Rightarrow> string \<Rightarrow> rest_config go_result" where
  "configFor factory clusterID token =
     (case factory of
        None \<Rightarrow> Inl (ErrorString ''tenant client unavailable'')
      | Some f \<Rightarrow>
     (let clusterID = TrimSpace clusterID in
      if \<not> cluster_id_ok clusterID then Inl (ErrorString ''invalid tenant logical-cluster ID'')
      else if TrimSpace token = []
      then Inl (ErrorString ''no bearer token on request; cannot act on the tenant's behalf'')
      else if \<not> cfConfigured f
      then Inl (ErrorString ''tenant client unavailable (provider kubeconfig not set)'')
      else Inr \<lparr>rcHost = cfBaseHost f @ ''/clusters/'' @ clusterID, rcBearerToken = token,
                rcTLS = cfBaseTLS f\<rparr>))"

subsection \<open>The client caches\<close>

definition hashToken :: "string \<Rightarrow> string" where
  "hashToken token = concat (map (\<lambda>w. hex 2 (unat w)) (take 8 (Sum256 token)))"

definition client_key :: "string \<Rightarrow> string \<Rightarrow> string" where
  "client_key clusterID token = clusterID @ '':'' @ hashToken token"

definition cacheTTLValue :: "('d, 'a, 'c, 's) ClientFactory \<Rightarrow> int" where
  "cacheTTLValue f = (if 0 < cfCacheTTL f then cfCacheTTL f else defaultClientCacheTTL)"

definition cacheCapacityValue :: "('d, 'a, 'c, 's) ClientFactory \<Rightarrow> int" where
  "cacheCapacityValue f =
     (if 0 < cfCacheCapacity f then cfCacheCapacity f else defaultClientCacheCapacity)"

definition zero_record :: cacheRecord where
  "zero_record = \<lparr>recCreatedAt = 0, recLastUsed = 0\<rparr>"

definition meta_record :: "'v client_cache \<Rightarrow> string \<Rightarrow> cacheRecord" where
  "meta_record c key = (case map_of (ccMeta c) key of Some r \<Rightarrow> r | None \<Rightarrow> zero_record)"

definition created_by :: "int \<Rightarrow> cacheRecord \<Rightarrow> cacheRecord" where
  "created_by now r = (if recCreatedAt r = 0 then r\<lparr>recCreatedAt := now\<rparr> else r)"

definition drop_client :: "string \<Rightarrow> 'v client_cache \<Rightarrow> 'v client_cache" where
  "drop_client key c =
     c\<lparr>ccHot := AList.delete key (ccHot c), ccMeta := AList.delete key (ccMeta c)\<rparr>"

definition touch_client ::
  "cacheRecord \<Rightarrow> string \<Rightarrow> 'v client_cache \<times> 64 word \<Rightarrow> 'v client_cache \<times> 64 word" where
  "touch_client r key = (\<lambda>(c, clock).
     (c\<lparr>ccMeta := AList.update key (r\<lparr>recLastUsed := clock + 1\<rparr>) (ccMeta c)\<rparr>, clock + 1))"

definition fromCache ::
  "int \<Rightarrow> int \<Rightarrow> string \<Rightarrow> 'v client_cache \<times> 64 word \<Rightarrow> 'v option \<times> 'v client_cache \<times> 64 word" where
  "fromCache ttl now key = (\<lambda>(c, clock).
     (case map_of (ccHot c) key of
        None \<Rightarrow> (None, c, clock)
      | Some v \<Rightarrow>
          (let r = created_by now (meta_record c key) in
           if ttl \<le> now - recCreatedAt r then (None, drop_client key c, clock)
           else (Some v, touch_client r key (c, clock)))))"

fun oldest_step :: "string \<times> 64 word \<Rightarrow> string \<times> cacheRecord \<Rightarrow> string \<times> 64 word" where
  "oldest_step (oldestKey, oldest) (key, r) =
     (if oldestKey = [] \<or> recLastUsed r < oldest then (key, recLastUsed r) else (oldestKey, oldest))"

definition oldestCacheKey :: "(string \<times> cacheRecord) list \<Rightarrow> string \<times> 64 word" where
  "oldestCacheKey records = foldl oldest_step ([], 0) records"

lemma oldest_key_in: "fst (foldl oldest_step a rs) = fst a \<or> fst (foldl oldest_step a rs) \<in> fst ` set rs"
proof (induction rs arbitrary: a)
  case (Cons x rs)
  from Cons [of "oldest_step a x"] show ?case by (cases a; cases x) (auto split: if_splits)
qed simp

lemma length_delete_less: "k \<in> fst ` set al \<Longrightarrow> length (AList.delete k al) < length al"
  by (auto simp: AList.delete_eq filter_id_conv length_filter_less)

function evictLocked :: "int \<Rightarrow> 'v client_cache \<Rightarrow> 'v client_cache" where
  "evictLocked cap c =
     (if cap < int (length (ccHot c)) then
        (let oldestKey = fst (oldestCacheKey (ccMeta c)) in
         if oldestKey = [] then c else evictLocked cap (drop_client oldestKey c))
      else c)"
  by pat_completeness auto

termination
proof (relation "measure (\<lambda>(_, c). length (ccMeta c))")
  fix cap :: int and c :: "'a client_cache" and oldestKey
  assume "oldestKey = fst (oldestCacheKey (ccMeta c))" "oldestKey \<noteq> []"
  then have "oldestKey \<in> fst ` set (ccMeta c)"
    using oldest_key_in [of "([], 0)" "ccMeta c"] by (auto simp: oldestCacheKey_def)
  then show "((cap, drop_client oldestKey c), cap, c) \<in> measure (\<lambda>(_, c). length (ccMeta c))"
    by (simp add: drop_client_def length_delete_less)
qed simp

declare evictLocked.simps [simp del]

text \<open>Entries without a record get one first.\<close>

definition backfill_step ::
  "int \<Rightarrow> string \<Rightarrow> 'v client_cache \<times> 64 word \<Rightarrow> 'v client_cache \<times> 64 word" where
  "backfill_step now key = (\<lambda>(c, clock).
     (case map_of (ccMeta c) key of
        Some _ \<Rightarrow> (c, clock)
      | None \<Rightarrow> touch_client \<lparr>recCreatedAt = now, recLastUsed = 0\<rparr> key (c, clock)))"

definition storeClient ::
  "int \<Rightarrow> int \<Rightarrow> string \<Rightarrow> 'v \<Rightarrow> 'v client_cache \<times> 64 word \<Rightarrow> 'v \<times> 'v client_cache \<times> 64 word" where
  "storeClient cap now key v = (\<lambda>(c, clock).
     (case fold (backfill_step now) (map fst (ccHot c)) (c, clock) of
        (c, clock) \<Rightarrow>
          (case map_of (ccHot c) key of
             Some existing \<Rightarrow>
               (existing, touch_client (created_by now (meta_record c key)) key (c, clock))
           | None \<Rightarrow>
               (case touch_client \<lparr>recCreatedAt = now, recLastUsed = 0\<rparr> key
                       (c\<lparr>ccHot := AList.update key v (ccHot c)\<rparr>, clock) of
                  (c, clock) \<Rightarrow> (v, evictLocked cap c, clock)))))"

definition dynamicFromCache ::
  "int \<Rightarrow> string \<Rightarrow> ('d, 'a, 'c, 's) ClientFactory \<Rightarrow> 'd option \<times> ('d, 'a, 'c, 's) ClientFactory" where
  "dynamicFromCache now key f =
     (case fromCache (cacheTTLValue f) now key (cfDynamic f, cfCacheClock f) of
        (r, c, clock) \<Rightarrow> (r, f\<lparr>cfDynamic := c, cfCacheClock := clock\<rparr>))"

definition authFromCache ::
  "int \<Rightarrow> string \<Rightarrow> ('d, 'a, 'c, 's) ClientFactory \<Rightarrow> 'a option \<times> ('d, 'a, 'c, 's) ClientFactory" where
  "authFromCache now key f =
     (case fromCache (cacheTTLValue f) now key (cfAuth f, cfCacheClock f) of
        (r, c, clock) \<Rightarrow> (r, f\<lparr>cfAuth := c, cfCacheClock := clock\<rparr>))"

definition storeDynamic ::
  "int \<Rightarrow> string \<Rightarrow> 'd \<Rightarrow> ('d, 'a, 'c, 's) ClientFactory \<Rightarrow> 'd \<times> ('d, 'a, 'c, 's) ClientFactory" where
  "storeDynamic now key dyn f =
     (case storeClient (cacheCapacityValue f) now key dyn (cfDynamic f, cfCacheClock f) of
        (r, c, clock) \<Rightarrow> (r, f\<lparr>cfDynamic := c, cfCacheClock := clock\<rparr>))"

definition storeAuth ::
  "int \<Rightarrow> string \<Rightarrow> 'a \<Rightarrow> ('d, 'a, 'c, 's) ClientFactory \<Rightarrow> 'a \<times> ('d, 'a, 'c, 's) ClientFactory" where
  "storeAuth now key v f =
     (case storeClient (cacheCapacityValue f) now key v (cfAuth f, cfCacheClock f) of
        (r, c, clock) \<Rightarrow> (r, f\<lparr>cfAuth := c, cfCacheClock := clock\<rparr>))"

text \<open>
  The two client constructors. The cache lock is taken twice, in the lookup and in the store; here
  the steps run without another call in between. \<open>newForConfig\<close> is the constructor of client-go.
\<close>

definition For ::
  "(rest_config \<Rightarrow> 'd go_result) \<Rightarrow> int \<Rightarrow> string \<Rightarrow> string \<Rightarrow>
   ('d, 'a, 'c, 's) ClientFactory option \<Rightarrow> 'd go_result \<times> ('d, 'a, 'c, 's) ClientFactory option" where
  "For newForConfig now clusterID token factory =
     (let clusterID = TrimSpace clusterID in
      case configFor factory clusterID token of
        Inl e \<Rightarrow> (Inl e, factory)
      | Inr cfg \<Rightarrow>
     (case factory of
        None \<Rightarrow> (Inl (ErrorString ''tenant client unavailable''), None)
      | Some f \<Rightarrow>
     (case dynamicFromCache now (client_key clusterID token) f of
        (Some dyn, f') \<Rightarrow> (Inr dyn, Some f')
      | (None, f') \<Rightarrow>
     (case newForConfig cfg of
        Inl e \<Rightarrow> (Inl (WrapError (''dynamic client for cluster '' @ quoted clusterID @ '': '') e), Some f')
      | Inr dyn \<Rightarrow>
     (case storeDynamic now (client_key clusterID token) dyn f' of (r, f'') \<Rightarrow> (Inr r, Some f''))))))"

definition AuthorizationFor ::
  "(rest_config \<Rightarrow> 'a go_result) \<Rightarrow> int \<Rightarrow> string \<Rightarrow> string \<Rightarrow>
   ('d, 'a, 'c, 's) ClientFactory option \<Rightarrow> 'a go_result \<times> ('d, 'a, 'c, 's) ClientFactory option" where
  "AuthorizationFor newForConfig now clusterID token factory =
     (let clusterID = TrimSpace clusterID in
      case configFor factory clusterID token of
        Inl e \<Rightarrow> (Inl e, factory)
      | Inr cfg \<Rightarrow>
     (case factory of
        None \<Rightarrow> (Inl (ErrorString ''tenant client unavailable''), None)
      | Some f \<Rightarrow>
     (case authFromCache now (client_key clusterID token) f of
        (Some cl, f') \<Rightarrow> (Inr cl, Some f')
      | (None, f') \<Rightarrow>
     (case newForConfig cfg of
        Inl e \<Rightarrow>
          (Inl (WrapError (''authorization client for cluster '' @ quoted clusterID @ '': '') e), Some f')
      | Inr cl \<Rightarrow>
     (case storeAuth now (client_key clusterID token) cl f' of (r, f'') \<Rightarrow> (Inr r, Some f''))))))"

subsection \<open>The caches leave the authority alone\<close>

lemma client_authority:
  "AuthorizationFor newA now clusterID token (Some f) = (ra, Some g) \<Longrightarrow> cfAuthority g = cfAuthority f"
  "For newD now clusterID token (Some f) = (rd, Some g) \<Longrightarrow> cfAuthority g = cfAuthority f"
  by (auto simp: AuthorizationFor_def For_def Let_def authFromCache_def storeAuth_def dynamicFromCache_def
      storeDynamic_def split: sum.split_asm prod.split_asm option.split_asm)

lemma AuthorizationFor_authority:
  assumes "AuthorizationFor newA now clusterID token factory = (r, factory')"
  shows "AuthorityClient factory' = AuthorityClient factory"
proof (cases factory)
  case None
  with assms show ?thesis by (auto simp: AuthorizationFor_def configFor_def Let_def)
next
  case (Some f)
  then obtain g where g: "factory' = Some g"
    using assms by (auto simp: AuthorizationFor_def Let_def split: sum.split_asm prod.split_asm option.split_asm)
  from client_authority(1) [OF assms [unfolded Some g]] show ?thesis
    by (simp add: Some g AuthorityClient_def fun_eq_iff)
qed

subsection \<open>The cache contract\<close>

text \<open>
  What \<^verbatim>\<open>For\<close> and \<^verbatim>\<open>AuthorizationFor\<close> rely on: the caches only forget or keep, and a store adds
  nothing but the given key with the value it returns.
\<close>

lemma map_leD: "f \<subseteq>\<^sub>m g \<Longrightarrow> f x = Some v \<Longrightarrow> g x = Some v"
  by (auto simp: map_le_def dom_def)

locale keyed_cache =
  fixes lookup :: "int \<Rightarrow> string \<Rightarrow> 's \<Rightarrow> 'v option \<times> 's"
    and store :: "int \<Rightarrow> string \<Rightarrow> 'v \<Rightarrow> 's \<Rightarrow> 'v \<times> 's"
    and content :: "'s \<Rightarrow> string \<Rightarrow> 'v option" and inv :: "'s \<Rightarrow> bool"
  assumes lookup_ok: "inv s \<Longrightarrow> lookup now k s = (r, s') \<Longrightarrow>
      inv s' \<and> content s' \<subseteq>\<^sub>m content s \<and> (r = None \<or> r = content s k)"
    and store_ok: "inv s \<Longrightarrow> k \<noteq> [] \<Longrightarrow> store now k v s = (a, s') \<Longrightarrow>
      inv s' \<and> content s' \<subseteq>\<^sub>m (content s)(k \<mapsto> a) \<and> (a = v \<or> content s k = Some a)"
begin

definition fetch :: "'v go_result \<Rightarrow> int \<Rightarrow> string \<Rightarrow> 's \<Rightarrow> 'v go_result \<times> 's" where
  "fetch build now k s =
     (case lookup now k s of
        (Some v, s') \<Rightarrow> (Inr v, s')
      | (None, s') \<Rightarrow>
          (case build of
             Inl e \<Rightarrow> (Inl e, s')
           | Inr v \<Rightarrow> (case store now k v s' of (r, s'') \<Rightarrow> (Inr r, s''))))"

lemma fetch_ok:
  assumes "inv s" "k \<noteq> []" "\<And>k v. content s k = Some v \<Longrightarrow> P k v" "\<And>v. build = Inr v \<Longrightarrow> P k v"
    "fetch build now k s = (r, s')"
  shows "inv s' \<and> (\<forall>k v. content s' k = Some v \<longrightarrow> P k v) \<and> (\<forall>v. r = Inr v \<longrightarrow> P k v)"
proof -
  obtain a t where l: "lookup now k s = (a, t)" by fastforce
  note lk = lookup_ok [OF assms(1) l]
  have t: "content t j = Some v \<Longrightarrow> P j v" for j v
    using lk assms(3) map_leD by metis
  show ?thesis
  proof (cases a)
    case (Some v)
    with l assms(5) have "r = Inr v" "s' = t" by (auto simp: fetch_def)
    with lk Some assms(3) t show ?thesis by auto
  next
    case None
    show ?thesis
    proof (cases build)
      case (Inl e)
      with None lk assms(5) l t show ?thesis by (auto simp: fetch_def)
    next
      case (Inr v)
      obtain b u where st: "store now k v t = (b, u)" by fastforce
      from None Inr l st assms(5) have e: "r = Inr b" "s' = u" by (auto simp: fetch_def)
      note sk = store_ok [OF _ assms(2) st]
      have b: "P k b" using sk lk t assms(4) Inr by auto
      have "content u \<subseteq>\<^sub>m (content t)(k \<mapsto> b)" using sk lk by blast
      then have "content u j = Some x \<Longrightarrow> P j x" for j x
        using t [of j x] b map_leD [of "content u" _ j x] by (fastforce split: if_splits)
      with e sk lk b show ?thesis by auto
    qed
  qed
qed

end

subsection \<open>The caches keep it\<close>

text \<open>Both maps have the same keys, none is empty, and there are at most \<open>cap\<close> of them.\<close>

definition cache_ok :: "int \<Rightarrow> 'v client_cache \<Rightarrow> bool" where
  "cache_ok cap c \<longleftrightarrow>
     distinct (map fst (ccHot c)) \<and> distinct (map fst (ccMeta c)) \<and>
     set (map fst (ccHot c)) = set (map fst (ccMeta c)) \<and> [] \<notin> set (map fst (ccMeta c)) \<and>
     int (length (ccHot c)) \<le> cap"

lemma keys_delete [simp]: "fst ` set (AList.delete k al) = fst ` set al - {k}"
  by (auto simp: AList.delete_eq)

lemma cache_ok_drop: "cache_ok cap c \<Longrightarrow> cache_ok cap (drop_client k c)"
  using AList.length_delete_le [of k "ccHot c"]
  by (auto simp: cache_ok_def drop_client_def AList.distinct_delete)

lemma cache_ok_length: "cache_ok cap c \<Longrightarrow> cache_ok (int (length (ccHot c))) c"
  by (simp add: cache_ok_def)

lemma touch_present:
  assumes "cache_ok cap c" "k \<in> fst ` set (ccHot c)" "touch_client r k (c, clock) = (c', clock')"
  shows "cache_ok cap c' \<and> ccHot c' = ccHot c"
proof -
  have "c' = c\<lparr>ccMeta := AList.update k (r\<lparr>recLastUsed := clock + 1\<rparr>) (ccMeta c)\<rparr>"
    using assms(3) by (auto simp: touch_client_def)
  then show ?thesis
    using assms(1,2) by (simp add: cache_ok_def AList.distinct_update AList.dom_update insert_absorb)
qed

lemma fromCache_ok:
  assumes "cache_ok cap c" "fromCache ttl now k (c, clock) = (r, c', clock')"
  shows "cache_ok cap c' \<and> map_of (ccHot c') \<subseteq>\<^sub>m map_of (ccHot c) \<and>
    (r = None \<or> r = map_of (ccHot c) k)"
proof (cases "map_of (ccHot c) k")
  case None
  with assms show ?thesis by (auto simp: fromCache_def)
next
  case (Some v)
  then have k: "k \<in> fst ` set (ccHot c)" by (metis domI dom_map_of_conv_image_fst)
  show ?thesis
  proof (cases "ttl \<le> now - recCreatedAt (created_by now (meta_record c k))")
    case True
    with Some assms cache_ok_drop [OF assms(1), of k] show ?thesis
      by (auto simp: fromCache_def Let_def drop_client_def AList.delete_conv' map_le_def split: if_splits)
  next
    case False
    with Some assms k touch_present [OF assms(1) k] show ?thesis
      by (auto simp: fromCache_def Let_def)
  qed
qed

lemma oldest_step_nonempty: "fst x \<noteq> [] \<Longrightarrow> fst (oldest_step a x) \<noteq> []"
  by (cases a; cases x) auto

lemma oldest_nonempty:
  "[] \<notin> fst ` set rs \<Longrightarrow> fst a \<noteq> [] \<or> rs \<noteq> [] \<Longrightarrow> fst (foldl oldest_step a rs) \<noteq> []"
proof (induction rs arbitrary: a)
  case (Cons x rs)
  from Cons.IH [of "oldest_step a x"] Cons.prems oldest_step_nonempty [of x a] show ?case by auto
qed simp

lemma evictLocked_ok:
  assumes "0 \<le> cap" "cache_ok (int (length (ccHot c))) c"
  shows "cache_ok cap (evictLocked cap c) \<and> map_of (ccHot (evictLocked cap c)) \<subseteq>\<^sub>m map_of (ccHot c)"
  using assms
proof (induction cap c rule: evictLocked.induct)
  case (1 cap c)
  show ?case
  proof (cases "cap < int (length (ccHot c))")
    case True
    let ?k = "fst (oldestCacheKey (ccMeta c))"
    have ne: "ccMeta c \<noteq> []" using 1(3) True 1(2) by (auto simp: cache_ok_def)
    have k: "?k \<noteq> []"
      using oldest_nonempty [of "ccMeta c" "([], 0)"] 1(3) ne
      by (auto simp: oldestCacheKey_def cache_ok_def)
    have d: "cache_ok (int (length (ccHot (drop_client ?k c)))) (drop_client ?k c)"
      using cache_ok_length [OF cache_ok_drop [OF 1(3)]] .
    have "map_of (ccHot (drop_client ?k c)) \<subseteq>\<^sub>m map_of (ccHot c)"
      by (auto simp: drop_client_def AList.delete_conv' map_le_def split: if_splits)
    with 1(1) [OF True refl k 1(2) d] map_le_trans show ?thesis
      by (subst (1 2) evictLocked.simps) (simp add: True k, blast)
  next
    case False
    with 1(3) show ?thesis by (simp add: evictLocked.simps cache_ok_def)
  qed
qed

lemma backfill_id:
  "set ks \<subseteq> fst ` set (ccMeta c) \<Longrightarrow> fold (backfill_step now) ks (c, clock) = (c, clock)"
proof (induction ks)
  case (Cons k ks)
  then have "map_of (ccMeta c) k \<noteq> None" by (simp add: map_of_eq_None_iff)
  with Cons show ?case by (auto simp: backfill_step_def)
qed simp

lemma storeClient_eq:
  assumes "cache_ok cap c"
  shows "storeClient cap now k v (c, clock) =
    (case map_of (ccHot c) k of
       Some existing \<Rightarrow> (existing, touch_client (created_by now (meta_record c k)) k (c, clock))
     | None \<Rightarrow> (v, evictLocked cap (\<lparr>ccHot = AList.update k v (ccHot c),
          ccMeta = AList.update k \<lparr>recCreatedAt = now, recLastUsed = clock + 1\<rparr> (ccMeta c)\<rparr>),
         clock + 1))"
proof -
  have "fold (backfill_step now) (map fst (ccHot c)) (c, clock) = (c, clock)"
    by (rule backfill_id) (use assms in \<open>auto simp: cache_ok_def\<close>)
  then show ?thesis by (cases c) (simp add: storeClient_def touch_client_def split: option.split)
qed

lemma storeClient_ok:
  assumes "0 \<le> cap" "cache_ok cap c" "k \<noteq> []" "storeClient cap now k v (c, clock) = (r, c', clock')"
  shows "cache_ok cap c' \<and> map_of (ccHot c') \<subseteq>\<^sub>m (map_of (ccHot c))(k \<mapsto> r) \<and>
    (r = v \<or> map_of (ccHot c) k = Some r)"
proof (cases "map_of (ccHot c) k")
  case None
  let ?c = "\<lparr>ccHot = AList.update k v (ccHot c),
      ccMeta = AList.update k \<lparr>recCreatedAt = now, recLastUsed = clock + 1\<rparr> (ccMeta c)\<rparr>"
  have "cache_ok (int (length (ccHot ?c))) ?c"
    using assms(2,3) by (auto simp: cache_ok_def AList.distinct_update AList.dom_update)
  with evictLocked_ok [OF assms(1), of ?c] assms(4) None storeClient_eq [OF assms(2)]
  show ?thesis by (auto simp: AList.update_conv')
next
  case (Some existing)
  then have "k \<in> fst ` set (ccHot c)" by (metis domI dom_map_of_conv_image_fst)
  from touch_present [OF assms(2) this] assms(4) Some storeClient_eq [OF assms(2)]
  show ?thesis by (auto simp: map_le_def)
qed

interpretation clients: keyed_cache "fromCache ttl" "storeClient 128"
  "\<lambda>s. map_of (ccHot (fst s))" "\<lambda>s. cache_ok 128 (fst s)"
proof unfold_locales
  fix s s' :: "'a client_cache \<times> 64 word" and now k r
  assume "cache_ok 128 (fst s)" "fromCache ttl now k s = (r, s')"
  then show "cache_ok 128 (fst s') \<and> map_of (ccHot (fst s')) \<subseteq>\<^sub>m map_of (ccHot (fst s)) \<and>
      (r = None \<or> r = map_of (ccHot (fst s)) k)"
    using fromCache_ok [of 128 "fst s" ttl now k "snd s" r "fst s'" "snd s'"] by simp
next
  fix s s' :: "'a client_cache \<times> 64 word" and now k v r
  assume "cache_ok 128 (fst s)" "k \<noteq> []" "storeClient 128 now k v s = (r, s')"
  then show "cache_ok 128 (fst s') \<and> map_of (ccHot (fst s')) \<subseteq>\<^sub>m (map_of (ccHot (fst s)))(k \<mapsto> r) \<and>
      (r = v \<or> map_of (ccHot (fst s)) k = Some r)"
    using storeClient_ok [of 128 "fst s" k now v "snd s" r "fst s'" "snd s'"] by simp
qed

subsection \<open>Every tenant client is scoped to its cluster and token\<close>

lemma length_hashToken: "length (hashToken token) = 16"
proof -
  have "length (concat (map (\<lambda>w. hex 2 (unat w)) ws)) = 2 * length ws" for ws :: "32 word list"
    by (induction ws) (auto simp: length_hex)
  then show ?thesis by (simp add: hashToken_def length_Sum256)
qed

lemma client_key_inject:
  "client_key c t = client_key c' t' \<longleftrightarrow> c = c' \<and> hashToken t = hashToken t'"
  using length_hashToken by (auto simp: client_key_def append_eq_append_conv)

lemma client_key_nonempty [simp]: "client_key c t \<noteq> []"
  by (simp add: client_key_def)

definition tenant_config :: "('d, 'a, 'c, 's) ClientFactory \<Rightarrow> string \<Rightarrow> string \<Rightarrow> rest_config" where
  "tenant_config f clusterID token =
     \<lparr>rcHost = cfBaseHost f @ ''/clusters/'' @ clusterID, rcBearerToken = token, rcTLS = cfBaseTLS f\<rparr>"

definition scoped_client ::
  "(rest_config \<Rightarrow> 'v go_result) \<Rightarrow> ('d, 'a, 'c, 's) ClientFactory \<Rightarrow> string \<Rightarrow> 'v \<Rightarrow> bool" where
  "scoped_client newForConfig f key v \<longleftrightarrow>
     (\<exists>clusterID token. key = client_key clusterID token \<and> cluster_id_ok clusterID \<and>
        TrimSpace token \<noteq> [] \<and> newForConfig (tenant_config f clusterID token) = Inr v)"

definition no_client_certificate :: "TLSClientConfig \<Rightarrow> bool" where
  "no_client_certificate tls \<longleftrightarrow>
     tlsCertData tls = [] \<and> tlsCertFile tls = [] \<and> tlsKeyData tls = [] \<and> tlsKeyFile tls = []"

definition factory_ok ::
  "(rest_config \<Rightarrow> 'd go_result) \<Rightarrow> (rest_config \<Rightarrow> 'a go_result) \<Rightarrow>
   ('d, 'a, 'c, 's) ClientFactory \<Rightarrow> bool" where
  "factory_ok newD newA f \<longleftrightarrow>
     cfCacheCapacity f = defaultClientCacheCapacity \<and> no_client_certificate (cfBaseTLS f) \<and>
     cache_ok 128 (cfDynamic f) \<and> cache_ok 128 (cfAuth f) \<and>
     (\<forall>k v. map_of (ccHot (cfDynamic f)) k = Some v \<longrightarrow> scoped_client newD f k v) \<and>
     (\<forall>k v. map_of (ccHot (cfAuth f)) k = Some v \<longrightarrow> scoped_client newA f k v)"

abbreviation fetch_client where
  "fetch_client ttl \<equiv> keyed_cache.fetch (fromCache ttl) (storeClient 128)"

lemma configFor_Inr:
  "configFor (Some f) clusterID token = Inr cfg \<longleftrightarrow>
     cluster_id_ok (TrimSpace clusterID) \<and> TrimSpace token \<noteq> [] \<and> cfConfigured f \<and>
     cfg = tenant_config f (TrimSpace clusterID) token"
  by (auto simp: configFor_def tenant_config_def Let_def)

lemma capacity_default: "cfCacheCapacity f = defaultClientCacheCapacity \<Longrightarrow> cacheCapacityValue f = 128"
  by (simp add: cacheCapacityValue_def defaultClientCacheCapacity_def)

lemma For_fetch:
  assumes "configFor (Some f) (TrimSpace clusterID) token = Inr cfg"
    "cfCacheCapacity f = defaultClientCacheCapacity"
  shows "\<exists>build. (\<forall>v. build = Inr v \<longrightarrow> newD cfg = Inr v) \<and>
    For newD now clusterID token (Some f) =
      (case fetch_client (cacheTTLValue f) build now (client_key (TrimSpace clusterID) token)
              (cfDynamic f, cfCacheClock f) of
         (r, c, clock) \<Rightarrow> (r, Some (f\<lparr>cfDynamic := c, cfCacheClock := clock\<rparr>)))"
  using assms(1) capacity_default [OF assms(2)]
  by (intro exI [of _ "case newD cfg of Inl e \<Rightarrow> Inl (WrapError (''dynamic client for cluster '' @
        quoted (TrimSpace clusterID) @ '': '') e) | Inr v \<Rightarrow> Inr v"])
    (auto simp: For_def dynamicFromCache_def storeDynamic_def clients.fetch_def Let_def
      cacheCapacityValue_def split: sum.splits option.splits prod.splits)

lemma AuthorizationFor_fetch:
  assumes "configFor (Some f) (TrimSpace clusterID) token = Inr cfg"
    "cfCacheCapacity f = defaultClientCacheCapacity"
  shows "\<exists>build. (\<forall>v. build = Inr v \<longrightarrow> newA cfg = Inr v) \<and>
    AuthorizationFor newA now clusterID token (Some f) =
      (case fetch_client (cacheTTLValue f) build now (client_key (TrimSpace clusterID) token)
              (cfAuth f, cfCacheClock f) of
         (r, c, clock) \<Rightarrow> (r, Some (f\<lparr>cfAuth := c, cfCacheClock := clock\<rparr>)))"
  using assms(1) capacity_default [OF assms(2)]
  by (intro exI [of _ "case newA cfg of Inl e \<Rightarrow> Inl (WrapError (''authorization client for cluster '' @
        quoted (TrimSpace clusterID) @ '': '') e) | Inr v \<Rightarrow> Inr v"])
    (auto simp: AuthorizationFor_def authFromCache_def storeAuth_def clients.fetch_def Let_def
      cacheCapacityValue_def split: sum.splits option.splits prod.splits)

lemma factory_refused:
  assumes "configFor factory (TrimSpace clusterID) token = Inl e"
  shows "For newD now clusterID token factory = (Inl e, factory)"
    "AuthorizationFor newA now clusterID token factory = (Inl e, factory)"
  using assms by (simp_all add: For_def AuthorizationFor_def Let_def)

lemma scoped_clientI:
  "configFor (Some f) (TrimSpace clusterID) token = Inr cfg \<Longrightarrow> newD cfg = Inr v \<Longrightarrow>
   scoped_client newD f (client_key (TrimSpace clusterID) token) v"
  by (auto simp: configFor_Inr scoped_client_def)

lemma scoped_client_cache:
  "scoped_client n (f\<lparr>cfDynamic := d, cfCacheClock := t\<rparr>) = scoped_client n f"
  "scoped_client n (f\<lparr>cfAuth := a, cfCacheClock := t\<rparr>) = scoped_client n f"
  by (simp_all add: scoped_client_def tenant_config_def fun_eq_iff)

lemma For_ok:
  assumes "factory_ok newD newA f" "For newD now clusterID token (Some f) = (r, f')"
  shows "\<exists>g. f' = Some g \<and> factory_ok newD newA g \<and> cfBaseHost g = cfBaseHost f \<and>
    cfBaseTLS g = cfBaseTLS f \<and>
    (\<forall>v. r = Inr v \<longrightarrow> scoped_client newD f (client_key (TrimSpace clusterID) token) v)"
proof (cases "configFor (Some f) (TrimSpace clusterID) token")
  case (Inl e)
  from factory_refused(1) [OF this, of newD now] assms(2) have "r = Inl e" "f' = Some f" by simp_all
  then show ?thesis using assms(1) by simp
next
  case (Inr cfg)
  let ?k = "client_key (TrimSpace clusterID) token"
  have "cfCacheCapacity f = defaultClientCacheCapacity" using assms(1) by (simp add: factory_ok_def)
  from For_fetch [OF Inr this, of newD now] obtain build where
    b: "\<And>v. build = Inr v \<Longrightarrow> newD cfg = Inr v" and
    e: "For newD now clusterID token (Some f) =
      (case fetch_client (cacheTTLValue f) build now ?k (cfDynamic f, cfCacheClock f) of
         (r, c, clock) \<Rightarrow> (r, Some (f\<lparr>cfDynamic := c, cfCacheClock := clock\<rparr>)))"
    by blast
  obtain r' c clock where
    g: "fetch_client (cacheTTLValue f) build now ?k (cfDynamic f, cfCacheClock f) = (r', c, clock)"
    by (rule prod_cases3)
  have inv: "cache_ok 128 (fst (cfDynamic f, cfCacheClock f))"
    "map_of (ccHot (fst (cfDynamic f, cfCacheClock f))) k = Some v \<Longrightarrow> scoped_client newD f k v" for k v
    using assms(1) unfolding factory_ok_def fst_conv by blast+
  have built: "build = Inr v \<Longrightarrow> scoped_client newD f ?k v" for v
    by (rule scoped_clientI [where newD = newD, OF Inr]) (rule b)
  have c: "cache_ok 128 c \<and> (\<forall>k v. map_of (ccHot c) k = Some v \<longrightarrow> scoped_client newD f k v) \<and>
      (\<forall>v. r' = Inr v \<longrightarrow> scoped_client newD f ?k v)"
    using clients.fetch_ok [where P = "scoped_client newD f", OF inv(1) client_key_nonempty inv(2) built g]
    unfolding fst_conv .
  have "(r, f') = (r', Some (f\<lparr>cfDynamic := c, cfCacheClock := clock\<rparr>))"
    using e assms(2) unfolding g by simp
  moreover have "factory_ok newD newA (f\<lparr>cfDynamic := c, cfCacheClock := clock\<rparr>)"
    using assms(1) c unfolding factory_ok_def scoped_client_cache by simp
  ultimately show ?thesis using c by auto
qed

lemma AuthorizationFor_ok:
  assumes "factory_ok newD newA f" "AuthorizationFor newA now clusterID token (Some f) = (r, f')"
  shows "\<exists>g. f' = Some g \<and> factory_ok newD newA g \<and> cfBaseHost g = cfBaseHost f \<and>
    cfBaseTLS g = cfBaseTLS f \<and>
    (\<forall>v. r = Inr v \<longrightarrow> scoped_client newA f (client_key (TrimSpace clusterID) token) v)"
proof (cases "configFor (Some f) (TrimSpace clusterID) token")
  case (Inl e)
  from factory_refused(2) [OF this, of newA now] assms(2) have "r = Inl e" "f' = Some f" by simp_all
  then show ?thesis using assms(1) by simp
next
  case (Inr cfg)
  let ?k = "client_key (TrimSpace clusterID) token"
  have "cfCacheCapacity f = defaultClientCacheCapacity" using assms(1) by (simp add: factory_ok_def)
  from AuthorizationFor_fetch [OF Inr this, of newA now] obtain build where
    b: "\<And>v. build = Inr v \<Longrightarrow> newA cfg = Inr v" and
    e: "AuthorizationFor newA now clusterID token (Some f) =
      (case fetch_client (cacheTTLValue f) build now ?k (cfAuth f, cfCacheClock f) of
         (r, c, clock) \<Rightarrow> (r, Some (f\<lparr>cfAuth := c, cfCacheClock := clock\<rparr>)))"
    by blast
  obtain r' c clock where
    g: "fetch_client (cacheTTLValue f) build now ?k (cfAuth f, cfCacheClock f) = (r', c, clock)"
    by (rule prod_cases3)
  have inv: "cache_ok 128 (fst (cfAuth f, cfCacheClock f))"
    "map_of (ccHot (fst (cfAuth f, cfCacheClock f))) k = Some v \<Longrightarrow> scoped_client newA f k v" for k v
    using assms(1) unfolding factory_ok_def fst_conv by blast+
  have built: "build = Inr v \<Longrightarrow> scoped_client newA f ?k v" for v
    by (rule scoped_clientI [where newD = newA, OF Inr]) (rule b)
  have c: "cache_ok 128 c \<and> (\<forall>k v. map_of (ccHot c) k = Some v \<longrightarrow> scoped_client newA f k v) \<and>
      (\<forall>v. r' = Inr v \<longrightarrow> scoped_client newA f ?k v)"
    using clients.fetch_ok [where P = "scoped_client newA f", OF inv(1) client_key_nonempty inv(2) built g]
    unfolding fst_conv .
  have "(r, f') = (r', Some (f\<lparr>cfAuth := c, cfCacheClock := clock\<rparr>))"
    using e assms(2) unfolding g by simp
  moreover have "factory_ok newD newA (f\<lparr>cfAuth := c, cfCacheClock := clock\<rparr>)"
    using assms(1) c unfolding factory_ok_def scoped_client_cache by simp
  ultimately show ?thesis using c by auto
qed

lemma cache_ok_empty [simp]: "0 \<le> cap \<Longrightarrow> cache_ok cap empty_cache"
  by (simp add: cache_ok_def empty_cache_def)

lemma newClientFactory_ok: "factory_ok newD newA newClientFactory"
  by (simp add: factory_ok_def newClientFactory_def no_client_certificate_def zero_tls_def)
    (simp add: empty_cache_def)

lemma SetBaseConfig_ok:
  assumes "factory_ok newD newA f" "SetBaseConfig parse base (Some f) = (r, f')"
  shows "\<exists>g. f' = Some g \<and> factory_ok newD newA g"
proof -
  have "\<exists>g. f' = Some g \<and> (g = f \<or> (\<exists>h tls. no_client_certificate tls \<and>
      g = f\<lparr>cfBaseHost := h, cfBaseTLS := tls, cfConfigured := True, cfDynamic := empty_cache,
            cfAuth := empty_cache\<rparr>))"
    using assms(2)
    by (simp add: SetBaseConfig_def Let_def split: option.split_asm if_split_asm)
      (auto intro!: exI simp: no_client_certificate_def)
  moreover have "factory_ok newD newA (f\<lparr>cfBaseHost := h, cfBaseTLS := tls, cfConfigured := True,
      cfDynamic := empty_cache, cfAuth := empty_cache\<rparr>)" if "no_client_certificate tls" for h tls
    using that assms(1) by (simp add: factory_ok_def) (simp add: empty_cache_def)
  ultimately show ?thesis using assms(1) by blast
qed

subsection \<open>Reachable factories\<close>

inductive factory_reachable ::
  "(string \<Rightarrow> URL go_result) \<Rightarrow> (rest_config \<Rightarrow> 'd go_result) \<Rightarrow> (rest_config \<Rightarrow> 'a go_result) \<Rightarrow>
   ('d, 'a, 'c, 's) ClientFactory \<Rightarrow> bool"
  for parse newD newA where
  created: "factory_reachable parse newD newA newClientFactory"
| configured: "factory_reachable parse newD newA f \<Longrightarrow>
    SetBaseConfig parse base (Some f) = (r, Some g) \<Longrightarrow> factory_reachable parse newD newA g"
| authorised: "factory_reachable parse newD newA f \<Longrightarrow>
    SetAuthority authority (Some f) = Some g \<Longrightarrow> factory_reachable parse newD newA g"
| client_served: "factory_reachable parse newD newA f \<Longrightarrow>
    For newD now clusterID token (Some f) = (rd, Some g) \<Longrightarrow> factory_reachable parse newD newA g"
| review_served: "factory_reachable parse newD newA f \<Longrightarrow>
    AuthorizationFor newA now clusterID token (Some f) = (ra, Some g) \<Longrightarrow>
    factory_reachable parse newD newA g"

lemma factory_reachable_ok: "factory_reachable parse newD newA f \<Longrightarrow> factory_ok newD newA f"
proof (induction rule: factory_reachable.induct)
  case created
  show ?case by (rule newClientFactory_ok)
next
  case (configured f base r g)
  then show ?case using SetBaseConfig_ok by blast
next
  case (authorised f authority g)
  then show ?case by (auto simp: SetAuthority_def factory_ok_def scoped_client_def tenant_config_def)
next
  case (client_served f now clusterID token rd g)
  then show ?case using For_ok by blast
next
  case (review_served f now clusterID token ra g)
  then show ?case using AuthorizationFor_ok by blast
qed

lemma scoped_clientD:
  assumes "scoped_client newForConfig f (client_key clusterID token) v"
  shows "\<exists>token'. hashToken token' = hashToken token \<and> TrimSpace token' \<noteq> [] \<and>
    cluster_id_ok clusterID \<and> newForConfig (tenant_config f clusterID token') = Inr v"
  using assms by (auto simp: scoped_client_def client_key_inject)

text \<open>
  C16. Over any sequence of calls on a client factory, the dynamic client and the authorization
  client handed out for a cluster and a token were built for exactly that cluster under the
  current base host, without a client certificate, with a non-blank token of the same hash.
\<close>

theorem tenant_clients_scoped:
  assumes "factory_reachable parse newD newA f"
  shows "(\<forall>d. fst (For newD now clusterID token (Some f)) = Inr d \<longrightarrow>
      (\<exists>tls token'. hashToken token' = hashToken token \<and> TrimSpace token' \<noteq> [] \<and>
         no_client_certificate tls \<and>
         newD \<lparr>rcHost = cfBaseHost f @ ''/clusters/'' @ TrimSpace clusterID, rcBearerToken = token',
               rcTLS = tls\<rparr> = Inr d)) \<and>
    (\<forall>a. fst (AuthorizationFor newA now clusterID token (Some f)) = Inr a \<longrightarrow>
      (\<exists>tls token'. hashToken token' = hashToken token \<and> TrimSpace token' \<noteq> [] \<and>
         no_client_certificate tls \<and>
         newA \<lparr>rcHost = cfBaseHost f @ ''/clusters/'' @ TrimSpace clusterID, rcBearerToken = token',
               rcTLS = tls\<rparr> = Inr a))"
proof -
  note ok = factory_reachable_ok [OF assms]
  have tls: "no_client_certificate (cfBaseTLS f)" using ok by (simp add: factory_ok_def)
  have "scoped_client newD f (client_key (TrimSpace clusterID) token) d"
    if "fst (For newD now clusterID token (Some f)) = Inr d" for d
    using that For_ok [OF ok, of now clusterID token] by (metis prod.collapse)
  moreover have "scoped_client newA f (client_key (TrimSpace clusterID) token) a"
    if "fst (AuthorizationFor newA now clusterID token (Some f)) = Inr a" for a
    using that AuthorizationFor_ok [OF ok, of now clusterID token] by (metis prod.collapse)
  ultimately show ?thesis
    using tls scoped_clientD [where newForConfig = newD and f = f]
      scoped_clientD [where newForConfig = newA and f = f]
    unfolding tenant_config_def by metis
qed

text \<open>
  Over any sequence of calls the two client caches stay within 128 entries each, no client
  is without its record or record without its client, and no key is stored twice.
\<close>

theorem client_caches_bounded:
  assumes "factory_reachable parse newD newA f"
  shows "length (ccHot (cfDynamic f)) \<le> 128 \<and> length (ccHot (cfAuth f)) \<le> 128 \<and>
    dom (map_of (ccHot (cfDynamic f))) = dom (map_of (ccMeta (cfDynamic f))) \<and>
    dom (map_of (ccHot (cfAuth f))) = dom (map_of (ccMeta (cfAuth f))) \<and>
    distinct (map fst (ccHot (cfDynamic f))) \<and> distinct (map fst (ccHot (cfAuth f)))"
  using factory_reachable_ok [OF assms]
  by (simp add: factory_ok_def cache_ok_def dom_map_of_conv_image_fst)

subsection \<open>Which client is evicted\<close>

lemma oldest_min:
  assumes "[] \<notin> fst ` set rs" "fst a \<noteq> [] \<or> rs \<noteq> []"
  shows "(fst a \<noteq> [] \<longrightarrow> snd (foldl oldest_step a rs) \<le> snd a) \<and>
    (\<forall>(k, r) \<in> set rs. snd (foldl oldest_step a rs) \<le> recLastUsed r) \<and>
    (foldl oldest_step a rs = a \<or> foldl oldest_step a rs \<in> (\<lambda>(k, r). (k, recLastUsed r)) ` set rs)"
  using assms
proof (induction rs arbitrary: a)
  case (Cons x rs)
  obtain k r where x: "x = (k, r)" by fastforce
  obtain k0 t0 where a: "a = (k0, t0)" by fastforce
  let ?b = "oldest_step a x"
  have b: "fst ?b \<noteq> []" using Cons.prems oldest_step_nonempty [of x a] by auto
  note ih = Cons.IH [of ?b]
  have "snd ?b \<le> recLastUsed r" "k0 \<noteq> [] \<longrightarrow> snd ?b \<le> t0" "?b = a \<or> ?b = (k, recLastUsed r)"
    by (auto simp: x a)
  with ih b Cons.prems show ?case by (auto simp: x a intro: order_trans)
qed simp

text \<open>The use counter has not wrapped around.\<close>

definition clock_ok :: "'v client_cache \<Rightarrow> 64 word \<Rightarrow> bool" where
  "clock_ok c clock \<longleftrightarrow> clock < -1 \<and> (\<forall>(k, r) \<in> set (ccMeta c). recLastUsed r \<le> clock)"

lemma word_less_plus_one: "(x :: 64 word) < -1 \<Longrightarrow> x < x + 1"
  by unat_arith

lemma oldestCacheKey_min:
  assumes "[] \<notin> fst ` set rs" "rs \<noteq> []"
  obtains k r where "(k, r) \<in> set rs" "fst (oldestCacheKey rs) = k"
    "\<And>k' r'. (k', r') \<in> set rs \<Longrightarrow> recLastUsed r \<le> recLastUsed r'"
proof -
  have "fst (foldl oldest_step ([], 0) rs) \<noteq> []" using oldest_nonempty [of rs "([], 0)"] assms by simp
  then have "foldl oldest_step ([], 0) rs \<noteq> ([], 0)" by auto
  with oldest_min [of rs "([], 0)"] assms
  have "foldl oldest_step ([], 0) rs \<in> (\<lambda>(k, r). (k, recLastUsed r)) ` set rs"
    and m: "\<forall>(k, r) \<in> set rs. snd (foldl oldest_step ([], 0) rs) \<le> recLastUsed r"
    by blast+
  then obtain k r where "(k, r) \<in> set rs" "foldl oldest_step ([], 0) rs = (k, recLastUsed r)" by auto
  with m that [of k r] show ?thesis by (fastforce simp: oldestCacheKey_def)
qed

lemma evict_one:
  assumes "cache_ok (cap + 1) c" "int (length (ccHot c)) = cap + 1" "0 \<le> cap"
  shows "\<exists>j m. map_of (ccMeta c) j = Some m \<and> evictLocked cap c = drop_client j c \<and>
    (\<forall>i n. map_of (ccMeta c) i = Some n \<longrightarrow> recLastUsed m \<le> recLastUsed n)"
proof -
  have k: "[] \<notin> fst ` set (ccMeta c)" "distinct (map fst (ccMeta c))"
    "fst ` set (ccHot c) = fst ` set (ccMeta c)"
    using assms(1) by (simp_all add: cache_ok_def)
  have "ccHot c \<noteq> []" using assms(2,3) by auto
  then have "ccMeta c \<noteq> []" using k(3) by auto
  from oldestCacheKey_min [OF k(1) this] obtain j m where j: "(j, m) \<in> set (ccMeta c)" "fst (oldestCacheKey (ccMeta c)) = j"
    and le: "\<And>i n. (i, n) \<in> set (ccMeta c) \<Longrightarrow> recLastUsed m \<le> recLastUsed n"
    by metis
  have jk: "j \<in> fst ` set (ccMeta c)" using j(1) by (rule rev_image_eqI) simp
  then have jn: "j \<noteq> []" using k(1) by blast
  have "length (AList.delete j (ccHot c)) < length (ccHot c)"
    using length_delete_less [of j "ccHot c"] jk k(3) by simp
  then have "evictLocked cap (drop_client j c) = drop_client j c"
    using assms(2) by (subst evictLocked.simps) (simp add: drop_client_def)
  then have "evictLocked cap c = drop_client j c"
    using j(2) jn assms(2) by (subst evictLocked.simps) simp
  moreover have "map_of (ccMeta c) j = Some m" using j(1) k(2) by simp
  moreover have "recLastUsed m \<le> recLastUsed n" if "map_of (ccMeta c) i = Some n" for i n
    using le map_of_SomeD [OF that] by blast
  ultimately show ?thesis by blast
qed

lemma full_cache_used:
  assumes "cache_ok cap c" "clock_ok c clock" "int (length (ccHot c)) = cap" "1 \<le> cap"
  shows "\<exists>i n. map_of (ccMeta c) i = Some n \<and> recLastUsed n < clock + 1"
proof -
  have "ccHot c \<noteq> []" using assms(3,4) by auto
  then have "ccMeta c \<noteq> []" using assms(1) by (auto simp: cache_ok_def)
  then obtain i n where i: "(i, n) \<in> set (ccMeta c)" by (cases "ccMeta c") auto
  then have "recLastUsed n \<le> clock" using assms(2) by (auto simp: clock_ok_def)
  moreover have "clock < clock + 1" using assms(2) word_less_plus_one by (simp add: clock_ok_def)
  moreover have "map_of (ccMeta c) i = Some n" using i assms(1) by (simp add: cache_ok_def)
  ultimately show ?thesis by fastforce
qed

text \<open>
  Storing a new client keeps it and, only when the cache is full, drops exactly one other
  client: the one whose last use is the oldest. The use counter must not have wrapped around.
\<close>

theorem storeClient_lru:
  assumes "cache_ok cap c" "1 \<le> cap" "clock_ok c clock" "k \<noteq> []" "map_of (ccHot c) k = None"
    "storeClient cap now k v (c, clock) = (r, c', clock')"
  shows "r = v \<and>
    (int (length (ccHot c)) < cap \<longrightarrow> map_of (ccHot c') = (map_of (ccHot c))(k \<mapsto> v)) \<and>
    (int (length (ccHot c)) = cap \<longrightarrow>
      (\<exists>j m. j \<noteq> k \<and> map_of (ccMeta c) j = Some m \<and>
         map_of (ccHot c') = ((map_of (ccHot c))(k \<mapsto> v))(j := None) \<and>
         (\<forall>i n. map_of (ccMeta c) i = Some n \<longrightarrow> recLastUsed m \<le> recLastUsed n)))"
proof -
  define meta where
    "meta = AList.update k \<lparr>recCreatedAt = now, recLastUsed = clock + 1\<rparr> (ccMeta c)"
  define d where "d = \<lparr>ccHot = AList.update k v (ccHot c), ccMeta = meta\<rparr>"
  have e: "r = v" "c' = evictLocked cap d"
    using assms(5,6) storeClient_eq [OF assms(1)] by (auto simp: d_def meta_def)
  have kn: "k \<notin> fst ` set (ccHot c)" "k \<notin> fst ` set (ccMeta c)"
    using assms(1,5) by (simp_all add: map_of_eq_None_iff cache_ok_def)
  have len: "length (ccHot d) = Suc (length (ccHot c))"
    using arg_cong [OF AList.update_keys [of k v "ccHot c"], of length] kn(1) by (simp add: d_def)
  have hot: "map_of (ccHot d) = (map_of (ccHot c))(k \<mapsto> v)" by (simp add: d_def AList.update_conv')
  have small: "map_of (ccHot c') = (map_of (ccHot c))(k \<mapsto> v)" if "int (length (ccHot c)) < cap"
    using that len hot e(2) by (simp add: evictLocked.simps)
  have full: "\<exists>j m. j \<noteq> k \<and> map_of (ccMeta c) j = Some m \<and>
      map_of (ccHot c') = ((map_of (ccHot c))(k \<mapsto> v))(j := None) \<and>
      (\<forall>i n. map_of (ccMeta c) i = Some n \<longrightarrow> recLastUsed m \<le> recLastUsed n)"
    if "int (length (ccHot c)) = cap"
  proof -
    have "cache_ok (cap + 1) d"
      using assms(1,4) len that
      by (simp add: cache_ok_def d_def meta_def AList.distinct_update AList.dom_update)
    with evict_one [of cap d] len that assms(2) e(2) obtain j m where
      j: "map_of meta j = Some m" "c' = drop_client j d"
      and le: "\<And>i n. map_of meta i = Some n \<Longrightarrow> recLastUsed m \<le> recLastUsed n"
      by (auto simp: d_def)
    have old: "map_of (ccMeta c) i = Some n \<Longrightarrow> map_of meta i = Some n" for i n
      using kn(2) by (cases "i = k") (simp_all add: meta_def AList.update_conv' flip: map_of_eq_None_iff)
    from full_cache_used [OF assms(1,3) that assms(2)] obtain i n where
      i: "map_of (ccMeta c) i = Some n" "recLastUsed n < clock + 1" by blast
    have "recLastUsed m < clock + 1" using le [OF old [OF i(1)]] i(2) by order
    then have jk: "j \<noteq> k" using j(1) by (auto simp: meta_def AList.update_conv')
    then have "map_of (ccMeta c) j = Some m" using j(1) by (simp add: meta_def AList.update_conv')
    moreover have "map_of (ccHot c') = ((map_of (ccHot c))(k \<mapsto> v))(j := None)"
      by (simp add: j(2) drop_client_def AList.delete_conv' hot)
    moreover have "\<forall>i n. map_of (ccMeta c) i = Some n \<longrightarrow> recLastUsed m \<le> recLastUsed n"
      using le old by blast
    ultimately show ?thesis using jk by blast
  qed
  show ?thesis using e(1) small full by blast
qed

subsection \<open>A base change during a request\<close>

text \<open>
  C32. A request that read its configuration before \<^verbatim>\<open>SetBaseConfig\<close> and stores its client after it
  puts a client of the previous host back into the cache the base change has just emptied; later
  calls are served that client until it expires, although the factory names the new host.
\<close>

theorem stale_client_after_base_change:
  assumes "configFor (Some f) clusterID token = Inr cfg" "newD cfg = Inr old"
    "SetBaseConfig parse (Some base) (Some f) = (Inr (), Some g)"
    "storeDynamic t0 (client_key (TrimSpace clusterID) token) old g = (r, h)"
    "t1 - t0 < cacheTTLValue f"
  shows "rcHost cfg = cfBaseHost f @ ''/clusters/'' @ TrimSpace clusterID \<and>
    cfBaseHost h = cfBaseHost g \<and> fst (For newD' t1 clusterID token (Some h)) = Inr old"
proof -
  let ?k = "client_key (TrimSpace clusterID) token"
  from assms(3) have g: "cfConfigured g" "cfDynamic g = empty_cache" "cacheTTLValue g = cacheTTLValue f"
    by (auto simp: SetBaseConfig_def Let_def cacheTTLValue_def split: if_splits)
  have ttl: "0 < cacheTTLValue f" by (simp add: cacheTTLValue_def defaultClientCacheTTL_def)
  have cap: "0 < cacheCapacityValue g"
    by (simp add: cacheCapacityValue_def defaultClientCacheCapacity_def)
  have h: "h = g\<lparr>cfDynamic := \<lparr>ccHot = [(?k, old)],
      ccMeta = [(?k, \<lparr>recCreatedAt = t0, recLastUsed = cfCacheClock g + 1\<rparr>)]\<rparr>,
      cfCacheClock := cfCacheClock g + 1\<rparr>"
    using assms(4) g(2) cap
    by (auto simp: storeDynamic_def storeClient_def empty_cache_def touch_client_def evictLocked.simps)
  have "configFor (Some h) (TrimSpace clusterID) token \<noteq> Inl e" for e
    using assms(1) g(1) by (auto simp: configFor_Inr h configFor_def Let_def)
  then obtain cfg' where "configFor (Some h) (TrimSpace clusterID) token = Inr cfg'"
    by (cases "configFor (Some h) (TrimSpace clusterID) token") auto
  moreover have "cacheTTLValue h = cacheTTLValue g" by (simp add: h cacheTTLValue_def)
  ultimately have "fst (For newD' t1 clusterID token (Some h)) = Inr old"
    using assms(5) ttl g(3)
    by (simp add: For_def Let_def dynamicFromCache_def fromCache_def meta_record_def created_by_def
        touch_client_def h)
  then show ?thesis using assms(1) by (simp add: configFor_Inr tenant_config_def h)
qed

subsection \<open>Example runs\<close>

definition demo_factory :: "(rest_config, rest_config, unit, unit) ClientFactory" where
  "demo_factory = newClientFactory\<lparr>cfBaseHost := ''https://a'', cfConfigured := True\<rparr>"

definition demo_base :: "string \<Rightarrow> rest_config" where
  "demo_base host = \<lparr>rcHost = host, rcBearerToken = [], rcTLS = zero_tls\<rparr>"

abbreviation no_parse :: "string \<Rightarrow> URL go_result" where
  "no_parse s \<equiv> Inl (ErrorString ''no URL'')"

lemma demo_cluster [simp]:
  "TrimSpace ''c1'' = ''c1''" "TrimSpace ''tok'' = ''tok''" "cluster_id_ok ''c1''"
  by (simp_all add: TrimSpace_graphic graphic_def cluster_id_ok_def PathEscape_def escape_def
      shouldEscape_def alnum_def char_of_eval)

lemma demo_SetBaseConfig:
  "h \<in> {''https://a'', ''https://b''} \<Longrightarrow> SetBaseConfig no_parse (Some (demo_base h)) (Some f) =
     (Inr (), Some (f\<lparr>cfBaseHost := h, cfBaseTLS := zero_tls, cfConfigured := True,
        cfDynamic := empty_cache, cfAuth := empty_cache\<rparr>))"
  by (auto simp: SetBaseConfig_def demo_base_def stripClusterSuffix_def TrimRight_def zero_tls_def
      TrimSpace_graphic graphic_def)

lemma demo_factory_reachable:
  "factory_reachable no_parse (\<lambda>cfg. Inr cfg) (\<lambda>cfg. Inr cfg) demo_factory"
proof (rule factory_reachable.configured [OF factory_reachable.created])
  show "SetBaseConfig no_parse (Some (demo_base ''https://a'')) (Some newClientFactory) =
      (Inr (), Some demo_factory)"
    by (simp add: demo_SetBaseConfig) (simp add: demo_factory_def newClientFactory_def)
qed

lemma demo_config:
  "configFor (Some demo_factory) ''c1'' ''tok'' =
     Inr \<lparr>rcHost = ''https://a/clusters/c1'', rcBearerToken = ''tok'', rcTLS = zero_tls\<rparr>"
  by (simp add: configFor_def demo_factory_def newClientFactory_def)

theorem tenant_clients_scoped_witness:
  "\<exists>d tls token'. fst (For (\<lambda>cfg. Inr cfg) 5 ''c1'' ''tok'' (Some demo_factory)) = Inr d \<and>
     hashToken token' = hashToken ''tok'' \<and> no_client_certificate tls \<and>
     d = \<lparr>rcHost = ''https://a/clusters/c1'', rcBearerToken = token', rcTLS = tls\<rparr>"
proof -
  have "\<exists>d. fst (For (\<lambda>cfg. Inr cfg) 5 ''c1'' ''tok'' (Some demo_factory)) = Inr d"
    using demo_config by (auto simp: For_def Let_def split: prod.splits option.splits sum.splits)
  moreover have "cfBaseHost demo_factory = ''https://a''" by (simp add: demo_factory_def)
  ultimately show ?thesis
    using tenant_clients_scoped [OF demo_factory_reachable, of 5 "''c1''" "''tok''"] by fastforce
qed

theorem client_caches_bounded_witness:
  "length (ccHot (cfDynamic demo_factory)) \<le> 128 \<and> length (ccHot (cfAuth demo_factory)) \<le> 128"
  using client_caches_bounded [OF demo_factory_reachable] by simp

theorem stale_client_after_base_change_witness:
  "\<exists>g h. SetBaseConfig no_parse (Some (demo_base ''https://b'')) (Some demo_factory) = (Inr (), Some g) \<and>
     h = snd (storeDynamic 5 (client_key ''c1'' ''tok'')
            \<lparr>rcHost = ''https://a/clusters/c1'', rcBearerToken = ''tok'', rcTLS = zero_tls\<rparr> g) \<and>
     cfBaseHost h = ''https://b'' \<and>
     fst (For (\<lambda>cfg. Inr cfg) 6 ''c1'' ''tok'' (Some h)) =
       Inr \<lparr>rcHost = ''https://a/clusters/c1'', rcBearerToken = ''tok'', rcTLS = zero_tls\<rparr>"
proof -
  let ?g = "demo_factory\<lparr>cfBaseHost := ''https://b'', cfBaseTLS := zero_tls, cfConfigured := True,
        cfDynamic := empty_cache, cfAuth := empty_cache\<rparr>"
  have g: "SetBaseConfig no_parse (Some (demo_base ''https://b'')) (Some demo_factory) = (Inr (), Some ?g)"
    by (simp add: demo_SetBaseConfig)
  have ttl: "6 - 5 < cacheTTLValue demo_factory"
    by (simp add: cacheTTLValue_def demo_factory_def newClientFactory_def defaultClientCacheTTL_def)
  show ?thesis
    using stale_client_after_base_change [where newD = "\<lambda>cfg. Inr cfg" and newD' = "\<lambda>cfg. Inr cfg",
        OF demo_config refl g surjective_pairing ttl] g
    by simp
qed

definition demo_cache :: "nat client_cache" where
  "demo_cache = \<lparr>ccHot = [(''x'', 1), (''y'', 2)],
     ccMeta = [(''x'', \<lparr>recCreatedAt = 1, recLastUsed = 4\<rparr>), (''y'', \<lparr>recCreatedAt = 1, recLastUsed = 3\<rparr>)]\<rparr>"

theorem storeClient_lru_witness:
  "\<exists>c clock. storeClient 2 9 ''z'' 3 (demo_cache, 4) = (3, c, clock) \<and>
     map_of (ccHot c) = [''x'' \<mapsto> 1, ''z'' \<mapsto> 3]"
proof -
  obtain r c clock where s: "storeClient 2 9 ''z'' 3 (demo_cache, 4) = (r, c, clock)" by (rule prod_cases3)
  have "cache_ok 2 demo_cache" "clock_ok demo_cache 4" "map_of (ccHot demo_cache) ''z'' = None"
    by (simp_all add: cache_ok_def clock_ok_def demo_cache_def)
  note lru = storeClient_lru [OF this(1) _ this(2) _ this(3) s]
  then have "r = 3" by simp
  have "int (length (ccHot demo_cache)) = 2" by (simp add: demo_cache_def)
  with lru obtain j m where j: "map_of (ccMeta demo_cache) j = Some m"
    "map_of (ccHot c) = ((map_of (ccHot demo_cache))(''z'' \<mapsto> 3))(j := None)"
    and le: "\<forall>i n. map_of (ccMeta demo_cache) i = Some n \<longrightarrow> recLastUsed m \<le> recLastUsed n"
    by auto
  have "recLastUsed m \<le> 3" using le [rule_format, of "''y''"] by (simp add: demo_cache_def)
  then have "j = ''y''" using j(1) by (auto simp: demo_cache_def split: if_splits)
  then have "map_of (ccHot c) = [''x'' \<mapsto> 1, ''z'' \<mapsto> 3]"
    unfolding j(2) by (auto simp: demo_cache_def fun_eq_iff)
  then show ?thesis using s \<open>r = 3\<close> by blast
qed

end
