(* ===== verification/Tenant_Action.thy ===== *)
theory Tenant_Action
  imports Actions Lifecycle Tenant_Client
begin

text \<open>
  Package \<^verbatim>\<open>tenant\<close>, \<^verbatim>\<open>action.go\<close>: the executor behind query_table/v1. It reviews the caller's
  rights with the caller's own token, resolves the Table, Warehouse, Connection and Secret with the
  provider's authority, runs the statement and turns every failure into a typed action error. The
  Kubernetes clients, the review API and the SQL backend are arguments.
\<close>

subsection \<open>Caller-scoped authorization\<close>

definition GroupName :: string where "GroupName = ''databricks.faros.sh''"
definition Version :: string where "Version = ''v1alpha1''"

record ResourceAttributes =
  raGroup :: string
  raVersion :: string
  raResource :: string
  raSubresource :: string
  raName :: string
  raVerb :: string

record access_review =
  rvAllowed :: bool
  rvReason :: string

text \<open>
  What the package takes from its environment: the constructor of authorization clients, the
  creation of a \<^verbatim>\<open>SelfSubjectAccessReview\<close> with such a client, the text of \<^verbatim>\<open>apierrors.NewForbidden\<close>
  and the clock.
\<close>

record 'a review_env =
  reNewForConfig :: "rest_config \<Rightarrow> 'a go_result"
  reCreate :: "'a \<Rightarrow> ResourceAttributes \<Rightarrow> access_review go_result"
  reForbiddenText :: "string \<Rightarrow> string \<Rightarrow> string \<Rightarrow> string"
  reNow :: int

definition NewForbidden :: "'a review_env \<Rightarrow> string \<Rightarrow> string \<Rightarrow> go_error" where
  "NewForbidden env name reason =
     StatusError ReasonForbidden (reForbiddenText env (''tables.'' @ GroupName) name reason)"

definition get_attributes :: "string \<Rightarrow> ResourceAttributes" where
  "get_attributes name =
     \<lparr>raGroup = GroupName, raVersion = Version, raResource = ''tables'', raSubresource = [],
      raName = name, raVerb = ''get''\<rparr>"

definition action_attributes :: "string \<Rightarrow> string \<Rightarrow> ResourceAttributes" where
  "action_attributes action name =
     \<lparr>raGroup = GroupName, raVersion = Version, raResource = ''tables'', raSubresource = action,
      raName = name, raVerb = ''create''\<rparr>"

definition AuthorizeTable ::
  "'a review_env \<Rightarrow> string \<Rightarrow> string \<Rightarrow> string \<Rightarrow> ('d, 'a, 'c, 's) ClientFactory option \<Rightarrow>
   unit go_result \<times> ('d, 'a, 'c, 's) ClientFactory option" where
  "AuthorizeTable env clusterID token name factory =
     (if factory = None then (Inl (ErrorString ''tenant authorization unavailable''), factory)
      else
     (case AuthorizationFor (reNewForConfig env) (reNow env) clusterID token factory of
        (Inl e, factory) \<Rightarrow> (Inl e, factory)
      | (Inr cl, factory) \<Rightarrow>
     (case reCreate env cl (get_attributes name) of
        Inl e \<Rightarrow> (Inl (WrapError ''authorize table action: '' e), factory)
      | Inr review \<Rightarrow>
          if \<not> rvAllowed review then
            (let reason = TrimSpace (rvReason review);
                 reason = (if reason = [] then ''caller is not allowed to read the imported table''
                           else reason) in
             (Inl (NewForbidden env name reason), factory))
          else (Inr (), factory))))"

definition AuthorizeTableAction ::
  "'a review_env \<Rightarrow> string \<Rightarrow> string \<Rightarrow> string \<Rightarrow> string \<Rightarrow> ('d, 'a, 'c, 's) ClientFactory option \<Rightarrow>
   unit go_result \<times> ('d, 'a, 'c, 's) ClientFactory option" where
  "AuthorizeTableAction env clusterID token name action factory =
     (if factory = None then (Inl (ErrorString ''tenant authorization unavailable''), factory)
      else
     (let action = TrimSpace action in
      if action = [] then (Inl (ErrorString ''action name is required for authorization''), factory)
      else
     (case AuthorizationFor (reNewForConfig env) (reNow env) clusterID token factory of
        (Inl e, factory) \<Rightarrow> (Inl e, factory)
      | (Inr cl, factory) \<Rightarrow>
     (case reCreate env cl (action_attributes action name) of
        Inl e \<Rightarrow> (Inl (WrapError ''authorize table action verb: '' e), factory)
      | Inr review \<Rightarrow>
          if \<not> rvAllowed review then
            (let reason = TrimSpace (rvReason review);
                 reason = (if reason = [] then ''caller is not granted this action on the imported table''
                           else reason) in
             (Inl (NewForbidden env name reason), factory))
          else (Inr (), factory)))))"

subsection \<open>Failures\<close>

fun is_validation_error :: "go_error \<Rightarrow> bool" where
  "is_validation_error (ValidationError code msg) = True"
| "is_validation_error _ = False"

definition not_ready_text :: "string \<Rightarrow> bool" where
  "not_ready_text message \<longleftrightarrow>
     contains ''not ready'' message \<or> contains ''not validated'' message \<or>
     contains ''schema is not available'' message \<or> contains ''unsupported'' message"

definition is_gateway_code :: "string \<Rightarrow> bool" where
  "is_gateway_code code \<longleftrightarrow> code = ActionErrorCodeBackendFailure \<or> code = ActionErrorCodeActionFailed"

definition sanitizeTyped :: "go_error \<Rightarrow> go_error" where
  "sanitizeTyped typed =
     (case typed of
        ActionError code message retryable status cause \<Rightarrow>
          ActionError code message retryable
            (if is_gateway_code code then gatewayFailureStatus retryable
             else if status < 400 \<or> 599 < status then 502 else status) cause
      | e \<Rightarrow> e)"

definition sanitizeMetadata :: "action_failure \<Rightarrow> go_error \<Rightarrow> go_error" where
  "sanitizeMetadata m err =
     (let code = TrimSpace (afCode m); message = TrimSpace (afMessage m); status = afStatus m;
          code = (if code = [] then ActionErrorCodeBackendFailure else code);
          message = (if message = [] \<or> 512 < length message then ''databricks action failed'' else message);
          status = (if is_gateway_code code then gatewayFailureStatus (afRetryable m)
                    else if status < 400 \<or> 599 < status then 502 else status) in
      ActionError code message (afRetryable m) status (Some err))"

definition sanitizeOther :: "go_error \<Rightarrow> go_error" where
  "sanitizeOther err =
     (if IsNotFound err
      then ActionError ActionErrorCodeResourceNotFound ''bound Databricks resource was not found'' False
             404 (Some err)
      else if IsForbidden err \<or> IsUnauthorized err
      then ActionError ActionErrorCodeResourceForbidden
             ''caller is not allowed to read the bound Databricks resource'' False 403 (Some err)
      else if not_ready_text (ToLower (TrimSpace (Error err)))
      then ActionError ActionErrorCodeResourceNotReady ''bound Databricks resource is not ready'' False
             409 (Some err)
      else ActionError ActionErrorCodeBackendFailure ''databricks action failed'' False 502 (Some err))"

definition sanitizeUntyped :: "go_error \<Rightarrow> go_error" where
  "sanitizeUntyped err =
     (if errors_Is err ContextDeadlineExceeded
      then ActionError ActionErrorCodeActionTimeout ''databricks action timed out'' True 504 (Some err)
      else if errors_Is err ContextCanceled
      then ActionError ActionErrorCodeActionTimeout ''databricks action was canceled'' True 504 (Some err)
      else
     (case errors_As is_validation_error err of
        Some (ValidationError code message) \<Rightarrow>
          if code = ErrorCodeSchemaProjectionInvalid then
            (let message = TrimSpace message;
                 message = (if message = [] \<or> 512 < length message
                   then ''requested projection is not present in the imported table schema'' else message) in
             ActionError ActionErrorCodeSchemaProjectionInvalid message False 400 (Some err))
          else sanitizeOther err
      | _ \<Rightarrow> sanitizeOther err))"

definition is_action_failure :: "go_error \<Rightarrow> bool" where
  "is_action_failure e \<longleftrightarrow> action_failure_of e \<noteq> None"

definition sanitizeActionError :: "go_error option \<Rightarrow> go_error option" where
  "sanitizeActionError err =
     (case err of
        None \<Rightarrow> None
      | Some err \<Rightarrow>
     (case errors_As is_action_error err of
        Some typed \<Rightarrow> Some (sanitizeTyped typed)
      | None \<Rightarrow>
     (case Option.bind (errors_As is_action_failure err) action_failure_of of
        Some m \<Rightarrow> Some (sanitizeMetadata m err)
      | None \<Rightarrow> Some (sanitizeUntyped err))))"

subsection \<open>The executor\<close>

text \<open>
  The state a query works on: the client factory, the state of its provider authority and the
  requests sent to Databricks.
\<close>

record ('d, 'a, 'k, 's) tenant_world =
  twFactory :: "('d, 'a, 'k kube_client, 's) ClientFactory option"
  twAuthority :: 's
  twLog :: "http_request list"

type_synonym query_backend =
  "QueryExecutionTarget \<Rightarrow> http_request list \<Rightarrow> QueryTableResult go_result \<times> http_request list"

record 'w TableAuthorizer =
  taAuthorizeTable :: "string \<Rightarrow> string \<Rightarrow> string \<Rightarrow> 'w \<Rightarrow> unit go_result \<times> 'w"
  taAuthorizeTableAction :: "string \<Rightarrow> string \<Rightarrow> string \<Rightarrow> string \<Rightarrow> 'w \<Rightarrow> unit go_result \<times> 'w"

record ('k, 'w) ActionExecutor =
  aeClusterID :: string
  aeToken :: string
  aeExecutor :: "query_backend option"
  aeAuthorizer :: "'w TableAuthorizer option"
  aeAuthorityClient :: "'k kube_client option"

definition bearerToken :: "string \<Rightarrow> string" where
  "bearerToken authorization =
     (let auth = TrimSpace authorization in
      if auth = [] then []
      else (case SplitN2 CHR '' '' auth of
              [scheme, rest] \<Rightarrow> if EqualFold scheme ''Bearer'' then TrimSpace rest else []
            | _ \<Rightarrow> []))"

definition factory_op ::
  "(('d, 'a, 'k kube_client, 's) ClientFactory option \<Rightarrow>
     'r \<times> ('d, 'a, 'k kube_client, 's) ClientFactory option) \<Rightarrow>
   ('d, 'a, 'k, 's) tenant_world \<Rightarrow> 'r \<times> ('d, 'a, 'k, 's) tenant_world" where
  "factory_op f w = (case f (twFactory w) of (r, factory) \<Rightarrow> (r, w\<lparr>twFactory := factory\<rparr>))"

definition factory_authorizer :: "'a review_env \<Rightarrow> ('d, 'a, 'k, 's) tenant_world TableAuthorizer" where
  "factory_authorizer env =
     \<lparr>taAuthorizeTable = (\<lambda>cluster token name. factory_op (AuthorizeTable env cluster token name)),
      taAuthorizeTableAction =
        (\<lambda>cluster token name action. factory_op (AuthorizeTableAction env cluster token name action))\<rparr>"

definition ActionExecutorForRoute ::
  "'a review_env \<Rightarrow> string \<Rightarrow> string \<Rightarrow> query_backend option \<Rightarrow>
   ('k, ('d, 'a, 'k, 's) tenant_world) ActionExecutor" where
  "ActionExecutorForRoute env authorization clusterID executor =
     \<lparr>aeClusterID = TrimSpace clusterID, aeToken = bearerToken authorization, aeExecutor = executor,
      aeAuthorizer = Some (factory_authorizer env), aeAuthorityClient = None\<rparr>"

definition authorize_query ::
  "('k, 'w) ActionExecutor \<Rightarrow> string \<Rightarrow> 'w \<Rightarrow> unit go_result \<times> 'w" where
  "authorize_query e name w =
     (case aeAuthorizer e of
        None \<Rightarrow> (Inr (), w)
      | Some authorizer \<Rightarrow>
          (case taAuthorizeTable authorizer (aeClusterID e) (aeToken e) name w of
             (Inl err, w) \<Rightarrow> (Inl err, w)
           | (Inr _, w) \<Rightarrow>
               taAuthorizeTableAction authorizer (aeClusterID e) (aeToken e) name ActionQueryName w))"

definition provider_client ::
  "('k, ('d, 'a, 'k, 's) tenant_world) ActionExecutor \<Rightarrow> ('d, 'a, 'k, 's) tenant_world \<Rightarrow>
   'k kube_client go_result \<times> ('d, 'a, 'k, 's) tenant_world" where
  "provider_client e w =
     (case aeAuthorityClient e of
        Some c \<Rightarrow> (Inr c, w)
      | None \<Rightarrow>
          (case AuthorityClient (twFactory w) (aeClusterID e) (twAuthority w) of
             (r, s) \<Rightarrow> (r, w\<lparr>twAuthority := s\<rparr>)))"

text \<open>
  The dependency chain. The four reads happen one after the other; \<open>api i\<close> is the state of the API
  at the \<open>i\<close>th of them.
\<close>

definition query_target ::
  "query_backend option \<Rightarrow> 'k kube_client \<Rightarrow> (nat \<Rightarrow> 'k) \<Rightarrow> QueryTableRequest \<Rightarrow>
   (query_backend \<times> QueryExecutionTarget) go_result" where
  "query_target executor c api request =
     (case ResolveTable c (api 0) (qrTableRef request) of
        Inl e \<Rightarrow> Inl e
      | Inr tbl \<Rightarrow>
     (case ResolveWarehouse c (api 1) (tsWarehouseRef (tbSpec tbl)) of
        Inl e \<Rightarrow> Inl e
      | Inr wh \<Rightarrow>
     if TrimSpace (tsConnectionRef (tbSpec tbl)) = [] \<or>
        tsConnectionRef (tbSpec tbl) \<noteq> wsConnectionRef (whSpec wh)
     then Inl (ErrorString ''table and warehouse connection references do not match'')
     else if \<not> table_current c tbl then Inl (ErrorString ''table is not ready'')
     else if \<not> warehouse_current c wh then Inl (ErrorString ''warehouse is not ready'')
     else
     (case ResolveConnection c (api 2) (tsConnectionRef (tbSpec tbl)) of
        Inl e \<Rightarrow> Inl e
      | Inr conn \<Rightarrow>
     if \<not> connection_current c conn then Inl (ErrorString ''connection is not ready'')
     else if csAuthType (cnSpec conn) \<noteq> ConnectionAuthPAT
     then Inl (ErrorString ''connection authType is unsupported'')
     else
     (case ResolveBearerToken c (api 3) conn of
        Inl e \<Rightarrow> Inl e
      | Inr token \<Rightarrow>
     (case executor of
        None \<Rightarrow> Inl (ErrorString ''databricks query executor is unavailable'')
      | Some ex \<Rightarrow>
          (let allowed = map colName (tstColumns (tbStatus tbl)) in
           if qrColumns request \<noteq> [] \<and> allowed = []
           then Inl (ErrorString ''table schema is not available for projection'')
           else Inr (ex, \<lparr>qtTable = \<lparr>trCatalog = tsCatalog (tbSpec tbl), trSchema = tsSchema (tbSpec tbl),
                                    trTable = tsTable (tbSpec tbl)\<rparr>,
                         qtConnection = \<lparr>crName = omName (cnMeta conn), crHost = csHost (cnSpec conn),
                                         crAuthType = csAuthType (cnSpec conn)\<rparr>,
                         qtWarehouse = \<lparr>wrName = omName (whMeta wh),
                                        wrWarehouseID = wsWarehouseID (whSpec wh)\<rparr>,
                         qtBearerToken = token, qtProjection = qrColumns request,
                         qtLimit = qrLimit request, qtAllowedColumns = allowed\<rparr>)))))))"

definition run_query ::
  "('k, ('d, 'a, 'k, 's) tenant_world) ActionExecutor option \<Rightarrow> (nat \<Rightarrow> 'k) \<Rightarrow> ResourceRef \<Rightarrow>
   QueryInput \<Rightarrow> ('d, 'a, 'k, 's) tenant_world \<Rightarrow>
   QueryTableResult go_result \<times> ('d, 'a, 'k, 's) tenant_world" where
  "run_query executor api ref input w =
     (case executor of
        None \<Rightarrow> (Inl (ErrorString ''tenant client unavailable''), w)
      | Some e \<Rightarrow>
     if twFactory w = None then (Inl (ErrorString ''tenant client unavailable''), w)
     else if TrimSpace (aeClusterID e) = [] then (Inl (ErrorString ''tenant identity is missing''), w)
     else if TrimSpace (aeToken e) = [] then (Inl (ErrorString ''caller credential is missing''), w)
     else if TrimSpace (rrName ref) = [] then (Inl (ErrorString ''resourceRef.name is required''), w)
     else
     (case NormalizeQueryRequest
             \<lparr>qrActionVersion = ActionVersionV1, qrTableRef = rrName ref, qrColumns = qiColumns input,
              qrLimit = qiLimit input\<rparr> of
        Inl err \<Rightarrow> (Inl err, w)
      | Inr request \<Rightarrow>
     (case authorize_query e (qrTableRef request) w of
        (Inl err, w) \<Rightarrow> (Inl err, w)
      | (Inr _, w) \<Rightarrow>
     (case provider_client e w of
        (Inl err, w) \<Rightarrow> (Inl err, w)
      | (Inr c, w) \<Rightarrow>
     (case query_target (aeExecutor e) c api request of
        Inl err \<Rightarrow> (Inl err, w)
      | Inr (ex, target) \<Rightarrow>
     (case ex target (twLog w) of
        (Inl err, log) \<Rightarrow> (Inl err, w\<lparr>twLog := log\<rparr>)
      | (Inr result, log) \<Rightarrow>
          (Inr (BoundQueryResult (result\<lparr>resActionVersion := qrActionVersion request,
                                         resTableRef := qrTableRef request\<rparr>)),
           w\<lparr>twLog := log\<rparr>)))))))"

definition QueryTable ::
  "('k, ('d, 'a, 'k, 's) tenant_world) ActionExecutor option \<Rightarrow> (nat \<Rightarrow> 'k) \<Rightarrow> ResourceRef \<Rightarrow>
   QueryInput \<Rightarrow> ('d, 'a, 'k, 's) tenant_world \<Rightarrow>
   QueryTableResult go_result \<times> ('d, 'a, 'k, 's) tenant_world" where
  "QueryTable executor api ref input w =
     (case run_query executor api ref input w of
        (Inl err, w) \<Rightarrow> (Inl (case sanitizeActionError (Some err) of Some e \<Rightarrow> e | None \<Rightarrow> err), w)
      | (Inr result, w) \<Rightarrow> (Inr result, w))"

subsection \<open>What sanitising guarantees\<close>

lemma is_action_error_iff:
  "is_action_error e \<longleftrightarrow> (\<exists>code msg retry status cause. e = ActionError code msg retry status cause)"
  by (cases e) auto

lemma is_validation_error_iff: "is_validation_error e \<longleftrightarrow> (\<exists>code msg. e = ValidationError code msg)"
  by (cases e) auto

definition sanitized :: "go_error \<Rightarrow> bool" where
  "sanitized e \<longleftrightarrow>
     (case e of
        ActionError code msg retry status cause \<Rightarrow>
          (if is_gateway_code code then status = gatewayFailureStatus retry
           else 400 \<le> status \<and> status \<le> 599)
      | _ \<Rightarrow> False)"

lemma sanitized_intro:
  "(if is_gateway_code code then status = gatewayFailureStatus retry else 400 \<le> status \<and> status \<le> 599) \<Longrightarrow>
   sanitized (ActionError code msg retry status cause)"
  by (simp add: sanitized_def)

lemma sanitizeOther_sanitized: "sanitized (sanitizeOther err)"
  by (simp add: sanitizeOther_def sanitized_def is_gateway_code_def action_codes gatewayFailureStatus_def)

lemma sanitizeUntyped_sanitized: "sanitized (sanitizeUntyped err)"
proof -
  have "sanitized (ActionError ActionErrorCodeActionTimeout m b 504 c)"
    "sanitized (ActionError ActionErrorCodeSchemaProjectionInvalid m b 400 c)" for m b c
    by (simp_all add: sanitized_def is_gateway_code_def action_codes)
  with sanitizeOther_sanitized show ?thesis
    by (auto simp: sanitizeUntyped_def Let_def split: option.split go_error.split)
qed

lemma sanitizeTyped_sanitized: "is_action_error e \<Longrightarrow> sanitized (sanitizeTyped e)"
  by (auto simp: is_action_error_iff sanitizeTyped_def sanitized_def)

lemma sanitizeMetadata_sanitized: "sanitized (sanitizeMetadata m err)"
  by (auto simp: sanitizeMetadata_def sanitized_def Let_def)

lemma sanitizeActionError_sanitized: "\<exists>e. sanitizeActionError (Some err) = Some e \<and> sanitized e"
  using sanitizeTyped_sanitized sanitizeMetadata_sanitized sanitizeUntyped_sanitized
    errors_As_SomeD [of is_action_error err]
  by (simp add: sanitizeActionError_def split: option.split)

lemma sanitized_sanitizeTyped: "sanitized e \<Longrightarrow> sanitizeTyped e = e"
  by (auto simp: sanitized_def sanitizeTyped_def split: go_error.split_asm if_splits)

lemma errors_As_head: "P e \<Longrightarrow> errors_As P e = Some e"
  by (cases e rule: err_chain.cases) (simp_all add: errors_As_def)

lemma sanitized_is_action_error: "sanitized e \<Longrightarrow> is_action_error e"
  by (cases e) (auto simp: sanitized_def)

lemma sanitizeActionError_id: "sanitized e \<Longrightarrow> sanitizeActionError (Some e) = Some e"
  by (simp add: sanitizeActionError_def errors_As_head sanitized_is_action_error sanitized_sanitizeTyped)

definition fixed_failure_texts :: "string list" where
  "fixed_failure_texts =
     [''databricks action timed out'', ''databricks action was canceled'',
      ''bound Databricks resource was not found'',
      ''caller is not allowed to read the bound Databricks resource'',
      ''bound Databricks resource is not ready'', ''databricks action failed'']"

lemma sanitizeOther_text: "\<exists>code r s c. sanitizeOther err = ActionError code m r s c \<Longrightarrow> m \<in> set fixed_failure_texts"
  by (auto simp: sanitizeOther_def fixed_failure_texts_def split: if_splits)

lemma sanitizeUntyped_text:
  assumes "sanitizeUntyped err = ActionError code m r s c" "errors_As is_validation_error err = None"
  shows "m \<in> set fixed_failure_texts"
proof (cases "errors_Is err ContextDeadlineExceeded \<or> errors_Is err ContextCanceled")
  case True
  with assms show ?thesis by (auto simp: sanitizeUntyped_def fixed_failure_texts_def split: if_splits)
next
  case False
  with assms have "sanitizeOther err = ActionError code m r s c" by (simp add: sanitizeUntyped_def)
  with sanitizeOther_text show ?thesis by blast
qed

text \<open>
  C33. Every failure of a query leaves the executor as a typed action error: backend and generic
  failures carry exactly 502, or 503 when retryable, all others a status between 400 and 599.
  Unless the failure chain itself has a typed, a statement or a validation error, the text is one
  of six fixed messages. Sanitising again changes nothing.
\<close>

theorem sanitizeActionError_typed:
  "\<exists>code msg retry status cause.
     sanitizeActionError (Some err) = Some (ActionError code msg retry status cause) \<and>
     (if code = ''backend_failure'' \<or> code = ''action_failed''
      then status = (if retry then 503 else 502) else 400 \<le> status \<and> status \<le> 599) \<and>
     (msg \<in> set fixed_failure_texts \<or>
      (\<exists>e \<in> set (err_chain err). is_action_error e \<or> is_action_failure e \<or> is_validation_error e)) \<and>
     sanitizeActionError (sanitizeActionError (Some err)) = sanitizeActionError (Some err)"
proof -
  obtain e where e: "sanitizeActionError (Some err) = Some e" "sanitized e"
    using sanitizeActionError_sanitized by blast
  then obtain code msg retry status cause where a: "e = ActionError code msg retry status cause"
    using sanitized_is_action_error is_action_error_iff by blast
  have fixed: "msg \<in> set fixed_failure_texts"
    if n: "\<not> (\<exists>e \<in> set (err_chain err). is_action_error e \<or> is_action_failure e \<or> is_validation_error e)"
  proof -
    have "errors_As is_action_error err = None" "errors_As is_action_failure err = None"
      "errors_As is_validation_error err = None"
      using n by (auto simp: errors_As_None_iff)
    then show ?thesis using e(1) a sanitizeUntyped_text by (simp add: sanitizeActionError_def)
  qed
  have st: "if code = ''backend_failure'' \<or> code = ''action_failed''
      then status = (if retry then 503 else 502) else 400 \<le> status \<and> status \<le> 599"
    using e(2) by (simp add: a sanitized_def is_gateway_code_def action_codes gatewayFailureStatus_def)
  have id: "sanitizeActionError (sanitizeActionError (Some err)) = sanitizeActionError (Some err)"
    using e sanitizeActionError_id by simp
  show ?thesis
    by (rule exI [of _ code], rule exI [of _ msg], rule exI [of _ retry], rule exI [of _ status],
        rule exI [of _ cause]) (use e(1) a fixed st id in blast)
qed

subsection \<open>Authorization comes first\<close>

text \<open>
  An authorizer decides with the caller's rights alone: it leaves the provider's authority and the
  request log untouched.
\<close>

locale table_authorizer =
  fixes authorize :: "string \<Rightarrow> string \<Rightarrow> string \<Rightarrow> 'w \<Rightarrow> unit go_result \<times> 'w"
    and authorize_action :: "string \<Rightarrow> string \<Rightarrow> string \<Rightarrow> string \<Rightarrow> 'w \<Rightarrow> unit go_result \<times> 'w"
    and provider_part :: "'w \<Rightarrow> 'p"
  assumes authorize_frame: "provider_part (snd (authorize c t n w)) = provider_part w"
    and authorize_action_frame: "provider_part (snd (authorize_action c t n a w)) = provider_part w"
begin

lemma authorize_query_frame:
  assumes "aeAuthorizer e = Some \<lparr>taAuthorizeTable = authorize, taAuthorizeTableAction = authorize_action\<rparr>"
  shows "provider_part (snd (authorize_query e name w)) = provider_part w"
  using assms authorize_frame [of "aeClusterID e" "aeToken e" name w] authorize_action_frame
  by (auto simp: authorize_query_def split: prod.split sum.split)

end

interpretation reviews: table_authorizer "taAuthorizeTable (factory_authorizer env)"
  "taAuthorizeTableAction (factory_authorizer env)" "\<lambda>w. (twAuthority w, twLog w)"
  by unfold_locales (simp_all add: factory_authorizer_def factory_op_def split: prod.split)

definition granted_review ::
  "'a review_env \<Rightarrow> ('d, 'a, 'c, 's) ClientFactory \<Rightarrow> string \<Rightarrow> string \<Rightarrow> ResourceAttributes \<Rightarrow> bool" where
  "granted_review env f clusterID token attributes \<longleftrightarrow>
     (\<exists>cl review token' tls. hashToken token' = hashToken token \<and> TrimSpace token' \<noteq> [] \<and>
        no_client_certificate tls \<and>
        reNewForConfig env \<lparr>rcHost = cfBaseHost f @ ''/clusters/'' @ TrimSpace clusterID,
          rcBearerToken = token', rcTLS = tls\<rparr> = Inr cl \<and>
        reCreate env cl attributes = Inr review \<and> rvAllowed review)"

lemma authorized_client:
  assumes "factory_ok newD (reNewForConfig env) f"
    "AuthorizationFor (reNewForConfig env) now clusterID token (Some f) = (Inr cl, f')"
    "reCreate env cl attributes = Inr review" "rvAllowed review"
  shows "granted_review env f clusterID token attributes \<and>
    (\<exists>g. f' = Some g \<and> factory_ok newD (reNewForConfig env) g \<and> cfBaseHost g = cfBaseHost f)"
proof -
  from AuthorizationFor_ok [OF assms(1,2)] obtain g where
    g: "f' = Some g" "factory_ok newD (reNewForConfig env) g" "cfBaseHost g = cfBaseHost f"
    and s: "scoped_client (reNewForConfig env) f (client_key (TrimSpace clusterID) token) cl"
    by blast
  have "no_client_certificate (cfBaseTLS f)" using assms(1) by (simp add: factory_ok_def)
  with scoped_clientD [OF s] assms(3,4) have "granted_review env f clusterID token attributes"
    unfolding granted_review_def tenant_config_def by blast
  with g show ?thesis by blast
qed

lemma AuthorizeTable_granted:
  assumes "factory_ok newD (reNewForConfig env) f"
    "AuthorizeTable env clusterID token name (Some f) = (Inr (), f')"
  shows "granted_review env f clusterID token (get_attributes name) \<and>
    (\<exists>g. f' = Some g \<and> factory_ok newD (reNewForConfig env) g \<and> cfBaseHost g = cfBaseHost f)"
proof -
  from assms(2) obtain cl review where
    "AuthorizationFor (reNewForConfig env) (reNow env) clusterID token (Some f) = (Inr cl, f')"
    "reCreate env cl (get_attributes name) = Inr review" "rvAllowed review"
    by (simp add: AuthorizeTable_def Let_def split: prod.split_asm sum.split_asm if_split_asm)
  with authorized_client [OF assms(1)] show ?thesis by blast
qed

lemma AuthorizeTableAction_granted:
  assumes "factory_ok newD (reNewForConfig env) f"
    "AuthorizeTableAction env clusterID token name action (Some f) = (Inr (), f')"
  shows "granted_review env f clusterID token (action_attributes (TrimSpace action) name) \<and>
    (\<exists>g. f' = Some g \<and> factory_ok newD (reNewForConfig env) g \<and> cfBaseHost g = cfBaseHost f)"
proof -
  from assms(2) obtain cl review where
    "AuthorizationFor (reNewForConfig env) (reNow env) clusterID token (Some f) = (Inr cl, f')"
    "reCreate env cl (action_attributes (TrimSpace action) name) = Inr review" "rvAllowed review"
    by (simp add: AuthorizeTableAction_def Let_def split: prod.split_asm sum.split_asm if_split_asm)
  with authorized_client [OF assms(1)] show ?thesis by blast
qed

lemma TrimSpace_ActionQueryName [simp]: "TrimSpace ActionQueryName = ''query_table''"
  by (simp add: ActionQueryName_def TrimSpace_graphic graphic_def)

lemma authorize_query_granted:
  assumes "factory_ok newD (reNewForConfig env) f" "twFactory w = Some f"
    "aeAuthorizer e = Some (factory_authorizer env)" "authorize_query e name w = (Inr (), w')"
  shows "granted_review env f (aeClusterID e) (aeToken e) (get_attributes name) \<and>
    granted_review env f (aeClusterID e) (aeToken e) (action_attributes ''query_table'' name) \<and>
    (\<exists>g. twFactory w' = Some g \<and> factory_ok newD (reNewForConfig env) g)"
proof -
  from assms(2-4) obtain f1 f2 where
    1: "AuthorizeTable env (aeClusterID e) (aeToken e) name (Some f) = (Inr (), f1)" and
    2: "AuthorizeTableAction env (aeClusterID e) (aeToken e) name ActionQueryName f1 = (Inr (), f2)"
    and w: "twFactory w' = f2"
    by (simp add: authorize_query_def factory_authorizer_def factory_op_def
        split: prod.split_asm sum.split_asm)
      (auto split: prod.splits)
  from AuthorizeTable_granted [OF assms(1) 1] obtain g where
    g: "f1 = Some g" "factory_ok newD (reNewForConfig env) g" "cfBaseHost g = cfBaseHost f"
    and r: "granted_review env f (aeClusterID e) (aeToken e) (get_attributes name)" by blast
  from AuthorizeTableAction_granted [OF g(2) 2 [unfolded g(1)]] w g(3) r show ?thesis
    by (auto simp: granted_review_def)
qed

subsection \<open>Queries\<close>

definition normalized_query :: "ResourceRef \<Rightarrow> QueryInput \<Rightarrow> QueryTableRequest go_result" where
  "normalized_query ref input =
     NormalizeQueryRequest
       \<lparr>qrActionVersion = ActionVersionV1, qrTableRef = rrName ref, qrColumns = qiColumns input,
        qrLimit = qiLimit input\<rparr>"

text \<open>Beyond its guards, a query either stops at the authorization or passes it.\<close>

lemma run_query_cases:
  assumes "run_query (Some e) api ref input w = (r, w')"
  obtains (refused) err where "r = Inl err" "w' = w"
  | (denied) request err where "normalized_query ref input = Inr request"
      "authorize_query e (qrTableRef request) w = (Inl err, w')" "r = Inl err"
  | (passed) request v where "normalized_query ref input = Inr request"
      "authorize_query e (qrTableRef request) w = (Inr (), v)"
  using assms
  by (simp add: run_query_def normalized_query_def
      split: if_split_asm sum.split_asm prod.split_asm) blast+

lemma query_guards:
  assumes "twFactory w = Some f" "TrimSpace (aeClusterID e) \<noteq> []" "TrimSpace (aeToken e) \<noteq> []"
    "TrimSpace (rrName ref) \<noteq> []" "normalized_query ref input = Inr request"
  shows "run_query (Some e) api ref input w =
    (case authorize_query e (qrTableRef request) w of
        (Inl err, w) \<Rightarrow> (Inl err, w)
      | (Inr _, w) \<Rightarrow>
     (case provider_client e w of
        (Inl err, w) \<Rightarrow> (Inl err, w)
      | (Inr c, w) \<Rightarrow>
     (case query_target (aeExecutor e) c api request of
        Inl err \<Rightarrow> (Inl err, w)
      | Inr (ex, target) \<Rightarrow>
     (case ex target (twLog w) of
        (Inl err, log) \<Rightarrow> (Inl err, w\<lparr>twLog := log\<rparr>)
      | (Inr result, log) \<Rightarrow>
          (Inr (BoundQueryResult (result\<lparr>resActionVersion := qrActionVersion request,
                                         resTableRef := qrTableRef request\<rparr>)),
           w\<lparr>twLog := log\<rparr>)))))"
  using assms by (simp add: run_query_def normalized_query_def)

lemma authorize_query_provider_part:
  assumes "aeAuthorizer e = Some (factory_authorizer env)" "authorize_query e name w = (r, w')"
  shows "twAuthority w' = twAuthority w \<and> twLog w' = twLog w"
  using reviews.authorize_query_frame [of e env name w] assms by simp

text \<open>The two reviews leave the provider's authority of the factory as it is.\<close>

lemma reviews_authority:
  "AuthorizeTable env clusterID token name factory = (r, factory') \<Longrightarrow>
     AuthorityClient factory' = AuthorityClient factory"
  "AuthorizeTableAction env clusterID token name action factory = (r, factory') \<Longrightarrow>
     AuthorityClient factory' = AuthorityClient factory"
  by (auto simp: AuthorizeTable_def AuthorizeTableAction_def Let_def dest!: AuthorizationFor_authority
      split: if_split_asm prod.split_asm sum.split_asm)

lemma authorize_query_authority:
  assumes "aeAuthorizer e = Some (factory_authorizer env)" "authorize_query e name w = (r, w')"
  shows "AuthorityClient (twFactory w') = AuthorityClient (twFactory w)"
  using assms
  by (auto simp: authorize_query_def factory_authorizer_def factory_op_def dest!: reviews_authority
      split: prod.split_asm sum.split_asm)

text \<open>
  Nothing of the provider is used on behalf of a caller who was not granted it: if a query
  returns a result, consults the provider authority or sends a request, then both reviews - get
  on the table and create on its action subresource - were answered as allowed by clients for the
  route's cluster that carry the caller's token.
\<close>

theorem QueryTable_authorized:
  assumes "factory_ok newD (reNewForConfig env) f" "twFactory w = Some f"
    and "QueryTable (Some (ActionExecutorForRoute env authorization clusterID ex)) api ref input w = (r, w')"
    and "r = Inr result \<or> twAuthority w' \<noteq> twAuthority w \<or> twLog w' \<noteq> twLog w"
  shows "\<exists>request. normalized_query ref input = Inr request \<and>
    granted_review env f clusterID (bearerToken authorization) (get_attributes (qrTableRef request)) \<and>
    granted_review env f clusterID (bearerToken authorization)
      (action_attributes ''query_table'' (qrTableRef request))"
proof -
  let ?e = "ActionExecutorForRoute env authorization clusterID ex"
  obtain r0 where run: "run_query (Some ?e) api ref input w = (r0, w')"
    and err: "\<And>err. r0 = Inl err \<Longrightarrow> \<exists>x. r = Inl x"
    using assms(3) by (auto simp: QueryTable_def split: prod.split_asm sum.split_asm)
  have auth: "aeAuthorizer ?e = Some (factory_authorizer env)"
    by (simp add: ActionExecutorForRoute_def)
  from run show ?thesis
  proof (cases rule: run_query_cases)
    case (refused e)
    with assms(4) err show ?thesis by auto
  next
    case (denied request e)
    with assms(4) err authorize_query_provider_part [OF auth denied(2)] show ?thesis by auto
  next
    case (passed request v)
    from authorize_query_granted [OF assms(1,2) auth passed(2)] passed(1)
    show ?thesis by (auto simp: ActionExecutorForRoute_def granted_review_def)
  qed
qed

text \<open>The caller is known and one of the two reviews answers that it is not allowed.\<close>

definition review_denied ::
  "'a review_env \<Rightarrow> string \<Rightarrow> string \<Rightarrow> string \<Rightarrow> ('d, 'a, 'c, 's) ClientFactory \<Rightarrow> bool" where
  "review_denied env clusterID token name f \<longleftrightarrow>
     (\<exists>cl f1 review.
        AuthorizationFor (reNewForConfig env) (reNow env) clusterID token (Some f) = (Inr cl, f1) \<and>
        reCreate env cl (get_attributes name) = Inr review \<and>
        (\<not> rvAllowed review \<or>
         (\<exists>cl2 f2 review2.
            AuthorizationFor (reNewForConfig env) (reNow env) clusterID token f1 = (Inr cl2, f2) \<and>
            reCreate env cl2 (action_attributes ''query_table'' name) = Inr review2 \<and>
            \<not> rvAllowed review2)))"

lemma AuthorizationFor_None: "AuthorizationFor newA now clusterID token None \<noteq> (Inr cl, f)"
  by (simp add: AuthorizationFor_def configFor_def Let_def)

lemma review_denied_forbidden:
  assumes "review_denied env (aeClusterID e) (aeToken e) name f" "twFactory w = Some f"
    "aeAuthorizer e = Some (factory_authorizer env)"
  shows "\<exists>reason g. authorize_query e name w = (Inl (NewForbidden env name reason), w\<lparr>twFactory := g\<rparr>)"
proof -
  from assms(1) obtain cl f1 review where
    1: "AuthorizationFor (reNewForConfig env) (reNow env) (aeClusterID e) (aeToken e) (Some f) = (Inr cl, f1)"
      "reCreate env cl (get_attributes name) = Inr review" and
    2: "\<not> rvAllowed review \<or> (\<exists>cl2 f2 review2.
        AuthorizationFor (reNewForConfig env) (reNow env) (aeClusterID e) (aeToken e) f1 = (Inr cl2, f2) \<and>
        reCreate env cl2 (action_attributes ''query_table'' name) = Inr review2 \<and> \<not> rvAllowed review2)"
    by (auto simp: review_denied_def)
  show ?thesis
  proof (cases "rvAllowed review")
    case False
    with 1 assms(2,3) show ?thesis
      by (simp add: authorize_query_def factory_authorizer_def factory_op_def AuthorizeTable_def Let_def)
        blast
  next
    case True
    with 2 obtain cl2 f2 review2 where
      3: "AuthorizationFor (reNewForConfig env) (reNow env) (aeClusterID e) (aeToken e) f1 = (Inr cl2, f2)"
        "reCreate env cl2 (action_attributes ''query_table'' name) = Inr review2" "\<not> rvAllowed review2"
      by blast
    have "f1 \<noteq> None" using 3(1) AuthorizationFor_None by metis
    with True 1 3 assms(2,3) show ?thesis
      by (simp add: authorize_query_def factory_authorizer_def factory_op_def AuthorizeTable_def
          AuthorizeTableAction_def Let_def) blast
  qed
qed

text \<open>
  C34. A denied caller gets the same answer whatever the provider holds: when one of the reviews
  answers that the caller is not allowed, the query fails with resource_forbidden and status 403,
  for every API state and backend, and neither authority nor request log is touched.
\<close>

theorem QueryTable_denied:
  assumes "normalized_query ref input = Inr request" "twFactory w = Some f"
    "TrimSpace clusterID \<noteq> []" "bearerToken authorization \<noteq> []"
    "review_denied env (TrimSpace clusterID) (bearerToken authorization) (qrTableRef request) f"
  shows "\<exists>cause g. QueryTable (Some (ActionExecutorForRoute env authorization clusterID ex)) api ref input w =
      (Inl (ActionError ''resource_forbidden''
              ''caller is not allowed to read the bound Databricks resource'' False 403 (Some cause)),
       w\<lparr>twFactory := g\<rparr>)"
proof -
  let ?e = "ActionExecutorForRoute env authorization clusterID ex"
  obtain reason g where
    a: "authorize_query ?e (qrTableRef request) w =
      (Inl (NewForbidden env (qrTableRef request) reason), w\<lparr>twFactory := g\<rparr>)"
    using review_denied_forbidden [of env ?e "qrTableRef request" f w] assms(2,5)
    by (auto simp: ActionExecutorForRoute_def)
  let ?err = "NewForbidden env (qrTableRef request) reason"
  have "TrimSpace (rrName ref) \<noteq> []"
    using assms(1) by (auto simp: normalized_query_def NormalizeQueryRequest_def Let_def
        ValidateTableRef_def split: sum.split_asm if_split_asm)
  moreover have "TrimSpace (bearerToken authorization) = bearerToken authorization"
    by (simp add: bearerToken_def Let_def split: list.split)
  ultimately have "run_query (Some ?e) api ref input w = (Inl ?err, w\<lparr>twFactory := g\<rparr>)"
    using query_guards [OF assms(2) _ _ _ assms(1), of ?e api] assms(3,4) a
    by (simp add: ActionExecutorForRoute_def)
  moreover have "sanitizeActionError (Some ?err) = Some (ActionError ''resource_forbidden''
      ''caller is not allowed to read the bound Databricks resource'' False 403 (Some ?err))"
    by (simp add: sanitizeActionError_def NewForbidden_def errors_As_def errors_Is_def is_action_failure_def
        sanitizeUntyped_def sanitizeOther_def api_reason_defs action_codes)
  ultimately show ?thesis by (auto simp: QueryTable_def)
qed

subsection \<open>The dependency chain behind a request\<close>

text \<open>The resources a query may be answered from, as they were read.\<close>

definition ready_chain ::
  "'k kube_client \<Rightarrow> (nat \<Rightarrow> 'k) \<Rightarrow> string \<Rightarrow> Table \<Rightarrow> Warehouse \<Rightarrow> Connection \<Rightarrow> string \<Rightarrow> bool" where
  "ready_chain c api name tbl wh conn token \<longleftrightarrow>
     ResolveTable c (api 0) name = Inr tbl \<and> table_current c tbl \<and>
     ResolveWarehouse c (api 1) (tsWarehouseRef (tbSpec tbl)) = Inr wh \<and> warehouse_current c wh \<and>
     wsConnectionRef (whSpec wh) = tsConnectionRef (tbSpec tbl) \<and>
     ResolveConnection c (api 2) (tsConnectionRef (tbSpec tbl)) = Inr conn \<and> connection_current c conn \<and>
     csAuthType (cnSpec conn) = ''pat'' \<and> ResolveBearerToken c (api 3) conn = Inr token"

definition chain_target :: "QueryTableRequest \<Rightarrow> Table \<Rightarrow> Warehouse \<Rightarrow> Connection \<Rightarrow> string \<Rightarrow> QueryExecutionTarget" where
  "chain_target request tbl wh conn token =
     \<lparr>qtTable = \<lparr>trCatalog = tsCatalog (tbSpec tbl), trSchema = tsSchema (tbSpec tbl),
                 trTable = tsTable (tbSpec tbl)\<rparr>,
      qtConnection = \<lparr>crName = omName (cnMeta conn), crHost = csHost (cnSpec conn),
                      crAuthType = csAuthType (cnSpec conn)\<rparr>,
      qtWarehouse = \<lparr>wrName = omName (whMeta wh), wrWarehouseID = wsWarehouseID (whSpec wh)\<rparr>,
      qtBearerToken = token, qtProjection = qrColumns request, qtLimit = qrLimit request,
      qtAllowedColumns = map colName (tstColumns (tbStatus tbl))\<rparr>"

lemma query_target_chain:
  assumes "query_target executor c api request = Inr (ex, target)"
  shows "executor = Some ex \<and> (\<exists>tbl wh conn token. ready_chain c api (qrTableRef request) tbl wh conn token \<and>
    target = chain_target request tbl wh conn token)"
  using assms
  by (auto simp: query_target_def ready_chain_def chain_target_def Let_def ConnectionAuthPAT_def
      split: sum.split_asm if_split_asm option.split_asm)

lemma normalized_query_ref:
  "normalized_query ref input = Inr request \<Longrightarrow> qrTableRef request = TrimSpace (rrName ref)"
  by (auto simp: normalized_query_def NormalizeQueryRequest_def Let_def split: sum.split_asm)

definition query_ran ::
  "('k, ('d, 'a, 'k, 's) tenant_world) ActionExecutor \<Rightarrow> (nat \<Rightarrow> 'k) \<Rightarrow> ResourceRef \<Rightarrow> QueryInput \<Rightarrow>
   ('d, 'a, 'k, 's) tenant_world \<Rightarrow> QueryTableResult go_result \<Rightarrow> ('d, 'a, 'k, 's) tenant_world \<Rightarrow> bool" where
  "query_ran e api ref input w r w' \<longleftrightarrow>
     (\<exists>request c ex target raw. normalized_query ref input = Inr request \<and>
        AuthorityClient (twFactory w) (aeClusterID e) (twAuthority w) = (Inr c, twAuthority w') \<and>
        query_target (aeExecutor e) c api request = Inr (ex, target) \<and>
        ex target (twLog w) = (raw, twLog w') \<and>
        r = map_sum id (\<lambda>res. BoundQueryResult (res\<lparr>resActionVersion := qrActionVersion request,
              resTableRef := qrTableRef request\<rparr>)) raw)"

lemma run_query_past_review:
  assumes "run_query (Some e) api ref input w = (r, w')" "aeAuthorizer e = Some (factory_authorizer env)"
    "aeAuthorityClient e = None"
  shows "(twLog w' = twLog w \<and> (\<exists>err. r = Inl err)) \<or> query_ran e api ref input w r w'"
proof (cases "twLog w' = twLog w \<and> (\<exists>err. r = Inl err)")
  case False
  obtain f request where q: "twFactory w = Some f" "TrimSpace (aeClusterID e) \<noteq> []" "TrimSpace (aeToken e) \<noteq> []"
    "TrimSpace (rrName ref) \<noteq> []" "normalized_query ref input = Inr request"
    using assms(1) False by (auto simp: run_query_def simp flip: normalized_query_def split: if_split_asm sum.split_asm)
  note run = assms(1) [unfolded query_guards [OF q]]
  obtain a v where a: "authorize_query e (qrTableRef request) w = (a, v)" by fastforce
  note v = authorize_query_provider_part [OF assms(2) a] authorize_query_authority [OF assms(2) a]
  obtain cl s where cl: "AuthorityClient (twFactory v) (aeClusterID e) (twAuthority v) = (cl, s)" by fastforce
  have p: "provider_client e v = (cl, v\<lparr>twAuthority := s\<rparr>)"
    by (simp add: provider_client_def assms(3) cl)
  obtain c where c: "cl = Inr c"
    using run False v by (cases a; cases cl) (auto simp: a p)
  obtain u where a': "a = Inr u" using run False v by (cases a) (auto simp: a)
  obtain ex target where t: "query_target (aeExecutor e) c api request = Inr (ex, target)"
    using run False v by (cases "query_target (aeExecutor e) c api request") (auto simp: a p c a')
  obtain raw log where x: "ex target (twLog w) = (raw, log)" by fastforce
  have "twLog w' = log" "twAuthority w' = s"
    "r = map_sum id (\<lambda>res. BoundQueryResult (res\<lparr>resActionVersion := qrActionVersion request,
              resTableRef := qrTableRef request\<rparr>)) raw"
    using run v x by (cases raw; auto simp: a p c a' t)+
  with q(5) cl c t x v show ?thesis unfolding query_ran_def by auto
qed simp

lemma normalized_query_version:
  "normalized_query ref input = Inr request \<Longrightarrow> qrActionVersion request = ActionVersionV1"
  by (auto simp: normalized_query_def NormalizeQueryRequest_def Let_def split: sum.split_asm)

lemma normalized_query_controls:
  "normalized_query ref input = Inr request \<Longrightarrow> qrColumns request = qiColumns input \<and> qrLimit request \<noteq> 0"
  by (auto simp: normalized_query_def NormalizeQueryRequest_iff NormalizeQueryControls_spec)

lemma ExecuteTableQuery_chain:
  assumes "url_parser_ok env" "ExecuteTableQuery env sc (chain_target request tbl wh conn token) log = (raw, log')"
    "qrLimit request \<noteq> 0"
  obtains (none) e where "log' = log" "raw = Inl e"
  | (sent) rq sql where "log' = log @ [rq]" "permitted_url env sc (rqURL rq)" "rqVerb rq = ''POST''"
      "statementExecutionURL env sc (csHost (cnSpec conn)) = Inr (rqURL rq)"
      "(''Authorization'', ''Bearer '' @ token) \<in> set (rqHeader rq)"
      "SelectTableSQL \<lparr>trCatalog = tsCatalog (tbSpec tbl), trSchema = tsSchema (tbSpec tbl),
          trTable = tsTable (tbSpec tbl)\<rparr> (qrColumns request) (qrLimit request)
        (map colName (tstColumns (tbStatus tbl))) = Inr sql"
      "rqBody rq = statement_payload sc (wsWarehouseID (whSpec wh)) sql"
  using ExecuteTableQuery_posts [OF assms(1,2)] assms(3)
  by (auto simp: chain_target_def token_request_def)

text \<open>
  C9. A query sends at most one request to Databricks. Its Table, Warehouse, Connection and Secret
  are what the client that the factory's authority gives for the route's cluster reads under the
  requested name and the references of these objects; they belong together and Table, Warehouse and
  Connection are Ready for their current generation. The request goes to the statement endpoint of
  that Connection's host, which is permitted, carries that Secret's token, and contains the statement
  built for that Table, the requested columns within its cached schema and the Warehouse's ID. A
  result is bounded and carries the name that was asked for.
\<close>

theorem QueryTable_request:
  assumes "url_parser_ok env"
    "QueryTable (Some (ActionExecutorForRoute renv authorization clusterID
        (Some (ExecuteTableQuery env sc)))) api ref input w = (r, w')"
  shows "(twLog w' = twLog w \<and> (\<exists>err. r = Inl err) \<or>
     (\<exists>request rq c tbl wh conn token sql. normalized_query ref input = Inr request \<and>
        AuthorityClient (twFactory w) (TrimSpace clusterID) (twAuthority w) = (Inr c, twAuthority w') \<and>
        ready_chain c api (TrimSpace (rrName ref)) tbl wh conn token \<and>
        twLog w' = twLog w @ [rq] \<and> permitted_url env sc (rqURL rq) \<and> rqVerb rq = ''POST'' \<and>
        statementExecutionURL env sc (csHost (cnSpec conn)) = Inr (rqURL rq) \<and>
        (''Authorization'', ''Bearer '' @ token) \<in> set (rqHeader rq) \<and>
        SelectTableSQL \<lparr>trCatalog = tsCatalog (tbSpec tbl), trSchema = tsSchema (tbSpec tbl),
            trTable = tsTable (tbSpec tbl)\<rparr> (qiColumns input) (qrLimit request)
          (map colName (tstColumns (tbStatus tbl))) = Inr sql \<and>
        rqBody rq = statement_payload sc (wsWarehouseID (whSpec wh)) sql)) \<and>
    (\<forall>result. r = Inr result \<longrightarrow> (\<exists>raw. result = BoundQueryResult
       (raw\<lparr>resActionVersion := ActionVersionV1, resTableRef := TrimSpace (rrName ref)\<rparr>)))"
proof -
  let ?e = "ActionExecutorForRoute renv authorization clusterID (Some (ExecuteTableQuery env sc))"
  obtain r0 where run: "run_query (Some ?e) api ref input w = (r0, w')"
    and r: "(\<exists>e. r0 = Inl e) \<and> (\<exists>e. r = Inl e) \<or> r = r0"
    using assms(2) by (auto simp: QueryTable_def split: prod.split_asm sum.split_asm)
  have e: "aeAuthorizer ?e = Some (factory_authorizer renv)" "aeExecutor ?e = Some (ExecuteTableQuery env sc)"
    "aeAuthorityClient ?e = None" "aeClusterID ?e = TrimSpace clusterID"
    by (simp_all add: ActionExecutorForRoute_def)
  from run_query_past_review [OF run e(1,3)] show ?thesis
  proof
    assume "twLog w' = twLog w \<and> (\<exists>err. r0 = Inl err)"
    with r show ?thesis by auto
  next
    assume "query_ran ?e api ref input w r0 w'"
    then obtain request c ex target raw where q: "normalized_query ref input = Inr request"
      "AuthorityClient (twFactory w) (TrimSpace clusterID) (twAuthority w) = (Inr c, twAuthority w')"
      "query_target (Some (ExecuteTableQuery env sc)) c api request = Inr (ex, target)"
      "ex target (twLog w) = (raw, twLog w')"
      and r0: "r0 = map_sum id (\<lambda>res. BoundQueryResult (res\<lparr>resActionVersion := qrActionVersion request,
              resTableRef := qrTableRef request\<rparr>)) raw"
      unfolding query_ran_def e(2,4) by blast
    note names = normalized_query_ref [OF q(1)] normalized_query_version [OF q(1)]
      normalized_query_controls [OF q(1), THEN conjunct1] normalized_query_controls [OF q(1), THEN conjunct2]
    from query_target_chain [OF q(3)] q(4) obtain tbl wh conn token where
      x: "ExecuteTableQuery env sc (chain_target request tbl wh conn token) (twLog w) = (raw, twLog w')"
      and chain: "ready_chain c api (TrimSpace (rrName ref)) tbl wh conn token" by (auto simp: names)
    have res: "\<forall>result. r = Inr result \<longrightarrow> (\<exists>raw. result = BoundQueryResult
       (raw\<lparr>resActionVersion := ActionVersionV1, resTableRef := TrimSpace (rrName ref)\<rparr>))"
      using r r0 names by (cases raw) auto
    from assms(1) x names(4) show ?thesis
    proof (cases rule: ExecuteTableQuery_chain)
      case none
      with r r0 res show ?thesis by auto
    next
      case sent
      with q(1,2) chain res show ?thesis unfolding names(3) by blast
    qed
  qed
qed

subsection \<open>Failures that lose their meaning\<close>

text \<open>
  A table that does not exist is answered as backend_failure with status 502: the resolver
  has dropped the reason of the API error before the failure is sanitised.
\<close>

theorem missing_table_backend_failure:
  assumes "kGetTable c k ''orders'' = Inl e" "IsNotFound e"
  shows "\<exists>cause. ResolveTable c k ''orders'' = Inl cause \<and>
    sanitizeActionError (Some cause) =
      Some (ActionError ''backend_failure'' ''databricks action failed'' False 502 (Some cause))"
proof -
  have q: "quoted ''orders'' = CHR 0x22 # ''orders'' @ [CHR 0x22]"
    by (simp add: quoted_def decode_ascii quote_rune_def is_print_def char_of_eval)
  have t: "TrimSpace ''orders'' = ''orders''" by (simp add: TrimSpace_graphic graphic_def)
  let ?m = "''tableRef '' @ quoted ''orders'' @ '' not found''"
  have "TrimSpace ?m = ?m" by (rule TrimSpace_graphic) (simp_all add: graphic_def)
  then have "\<not> not_ready_text (ToLower (TrimSpace ?m))"
    by (simp add: q not_ready_text_def ToLower_def ascii_lower_def char_of_eval)
  then have "sanitizeActionError (Some (ErrorString ?m)) =
      Some (ActionError ''backend_failure'' ''databricks action failed'' False 502 (Some (ErrorString ?m)))"
    by (simp add: sanitizeActionError_def errors_As_def errors_Is_def is_action_failure_def
        sanitizeUntyped_def sanitizeOther_def api_reason_defs action_codes)
  moreover have "ResolveTable c k ''orders'' = Inl (ErrorString ?m)"
    using assms by (simp add: ResolveTable_def resolve_named_def t)
  ultimately show ?thesis by blast
qed

subsection \<open>A tenant with one query\<close>

definition ready_condition :: "string \<Rightarrow> Condition" where
  "ready_condition t =
     \<lparr>cndType = t, cndStatus = ConditionTrue, cndObservedGeneration = 1, cndLastTransitionTime = 0,
      cndReason = ''Ready'', cndMessage = []\<rparr>"

definition sample_connection :: Connection where
  "sample_connection =
     \<lparr>cnMeta = demo_meta ''demo'',
      cnSpec = \<lparr>csHost = example_host, csAuthType = ''pat'',
                csSecretRef = \<lparr>srName = ''pat'', srNamespace = [], srKey = []\<rparr>\<rparr>,
      cnStatus = \<lparr>cstObservedGeneration = 1, cstWorkspaceID = [],
                  cstConditions = [ready_condition ''Validated'', ready_condition ''Ready'']\<rparr>\<rparr>"

definition sample_warehouse :: Warehouse where
  "sample_warehouse =
     \<lparr>whMeta = demo_meta ''main'', whSpec = \<lparr>wsConnectionRef = ''demo'', wsWarehouseID = ''abc123''\<rparr>,
      whStatus = \<lparr>wstObservedGeneration = 1, wstState = ''RUNNING'',
                  wstConditions = [ready_condition ''Ready'']\<rparr>\<rparr>"

definition sample_column :: "string \<Rightarrow> Column" where
  "sample_column name = \<lparr>colName = name, colType = ''STRING'', colNullable = False, colComment = []\<rparr>"

definition sample_table :: Table where
  "sample_table =
     \<lparr>tbMeta = demo_meta ''table'',
      tbSpec = \<lparr>tsConnectionRef = ''demo'', tsWarehouseRef = ''main'', tsCatalog = ''sales'',
                tsSchema = ''gold'', tsTable = ''order_history''\<rparr>,
      tbStatus = \<lparr>tstObservedGeneration = 1, tstRefreshedAt = Some 1,
                  tstColumns = [sample_column ''order_id'', sample_column ''total_amount''],
                  tstConditions = [ready_condition ''Ready'']\<rparr>\<rparr>"

definition sample_client :: "unit kube_client" where
  "sample_client = (demo_client sample_connection sample_warehouse)
     \<lparr>kGetTable := (\<lambda>_ name. if name = ''table'' then Inr sample_table
                              else Inl (StatusError ReasonNotFound ''no such table'')),
      kGetSecret := (\<lambda>_ _ _. Inr [(''token'', ''dapi1'')])\<rparr>"

definition sample_factory :: "(unit, rest_config, unit kube_client, nat) ClientFactory" where
  "sample_factory = newClientFactory
     \<lparr>cfBaseHost := ''https://a'', cfConfigured := True,
      cfAuthority := Some (\<lambda>_ n. (Inr (Some sample_client), Suc n))\<rparr>"

definition sample_world :: "(unit, rest_config, unit, nat) tenant_world" where
  "sample_world = \<lparr>twFactory = Some sample_factory, twAuthority = 0, twLog = []\<rparr>"

definition sample_reviews :: "bool \<Rightarrow> rest_config review_env" where
  "sample_reviews allowed =
     \<lparr>reNewForConfig = (\<lambda>cfg. Inr cfg), reCreate = (\<lambda>_ _. Inr \<lparr>rvAllowed = allowed, rvReason = []\<rparr>),
      reForbiddenText = (\<lambda>_ _ _. ''forbidden''), reNow = 5\<rparr>"

definition sample_input :: QueryInput where
  "sample_input = \<lparr>qiColumns = [''order_id''], qiLimit = 5\<rparr>"

abbreviation sample_executor where
  "sample_executor allowed \<equiv> ActionExecutorForRoute (sample_reviews allowed) ''Bearer tok'' ''c1''
     (Some (ExecuteTableQuery example_env NewStatementClient))"

abbreviation sample_query where
  "sample_query allowed \<equiv> QueryTable (Some (sample_executor allowed)) (\<lambda>_. ()) (table_ref ''table'') sample_input
     sample_world"

lemma sample_bearer [simp]: "bearerToken ''Bearer tok'' = ''tok''"
  by (simp add: bearerToken_def TrimSpace_graphic graphic_def SplitN2_def EqualFold_def char_of_eval
      ToLower_def ascii_lower_def)

lemma sample_normalized: "normalized_query (table_ref ''table'') sample_input =
   Inr \<lparr>qrActionVersion = ActionVersionV1, qrTableRef = ''table'', qrColumns = [''order_id''], qrLimit = 5\<rparr>"
  by (simp add: normalized_query_def table_ref_def sample_input_def example_normalized)

lemma sample_AuthorizationFor:
  "\<exists>f cl. AuthorizationFor (\<lambda>cfg. Inr cfg) 5 ''c1'' ''tok'' (Some sample_factory) = (Inr cl, Some f) \<and>
     cfAuthority f = cfAuthority sample_factory \<and>
     (\<exists>g cl2. AuthorizationFor (\<lambda>cfg. Inr cfg) 5 ''c1'' ''tok'' (Some f) = (Inr cl2, Some g) \<and>
        cfAuthority g = cfAuthority sample_factory)"
  by (simp add: AuthorizationFor_def Let_def configFor_def sample_factory_def newClientFactory_def
      authFromCache_def fromCache_def storeAuth_def storeClient_def empty_cache_def touch_client_def
      evictLocked.simps cacheCapacityValue_def defaultClientCacheCapacity_def cacheTTLValue_def
      defaultClientCacheTTL_def meta_record_def created_by_def)

lemma sample_chain:
  "query_target (Some ex) sample_client (\<lambda>_. ())
     \<lparr>qrActionVersion = ActionVersionV1, qrTableRef = ''table'', qrColumns = [''order_id''], qrLimit = 5\<rparr> =
   Inr (ex, example_target)"
proof -
  have [simp]: "TrimSpace ''table'' = ''table''" "TrimSpace ''demo'' = ''demo''" "TrimSpace ''main'' = ''main''"
    by (simp_all add: TrimSpace_graphic graphic_def)
  have r: "ResolveTable sample_client () ''table'' = Inr sample_table"
    "ResolveWarehouse sample_client () ''main'' = Inr sample_warehouse"
    "ResolveConnection sample_client () ''demo'' = Inr sample_connection"
    "ResolveBearerToken sample_client () sample_connection = Inr ''dapi1''"
    by (simp_all add: ResolveTable_def ResolveWarehouse_def ResolveConnection_def ResolveBearerToken_def
        resolve_named_def sample_client_def sample_connection_def shared_consts demo_client_def Let_def)
  have c: "table_current sample_client sample_table" "warehouse_current sample_client sample_warehouse"
    "connection_current sample_client sample_connection"
    by (simp_all add: table_current_def warehouse_current_def connection_current_def sample_client_def
        CurrentConditionTrue_def condition_types demo_client_def sample_table_def sample_warehouse_def
        sample_connection_def ready_condition_def demo_meta_def)
  have s: "tsWarehouseRef (tbSpec sample_table) = ''main''" "tsConnectionRef (tbSpec sample_table) = ''demo''"
    "wsConnectionRef (whSpec sample_warehouse) = ''demo''"
    "csAuthType (cnSpec sample_connection) = ConnectionAuthPAT"
    by (simp_all add: sample_table_def sample_warehouse_def sample_connection_def ConnectionAuthPAT_def)
  show ?thesis
    by (simp add: query_target_def r c s Let_def)
      (simp add: sample_table_def sample_column_def sample_connection_def sample_warehouse_def demo_meta_def
        example_target_def example_ref_def ConnectionAuthPAT_def)
qed

lemma sample_run: "\<exists>w' rq. sample_query True = (Inr (BoundQueryResult ((BoundQueryResult
    (queryResultFromStatement example_statement ''table''))\<lparr>resActionVersion := ActionVersionV1, resTableRef := ''table''\<rparr>)), w') \<and>
    twLog w' = [rq]"
proof -
  obtain f cl g cl2 where a: "AuthorizationFor (\<lambda>cfg. Inr cfg) 5 ''c1'' ''tok'' (Some sample_factory) = (Inr cl, Some f)"
    "AuthorizationFor (\<lambda>cfg. Inr cfg) 5 ''c1'' ''tok'' (Some f) = (Inr cl2, Some g)"
    "cfAuthority g = cfAuthority sample_factory"
    using sample_AuthorizationFor by blast
  have auth: "authorize_query (sample_executor True) ''table'' sample_world = (Inr (), sample_world\<lparr>twFactory := Some g\<rparr>)"
    using a by (simp add: authorize_query_def ActionExecutorForRoute_def factory_authorizer_def factory_op_def
        AuthorizeTable_def AuthorizeTableAction_def sample_reviews_def sample_world_def)
  have prov: "provider_client (sample_executor True) (sample_world\<lparr>twFactory := Some g\<rparr>) =
      (Inr sample_client, sample_world\<lparr>twFactory := Some g, twAuthority := 1\<rparr>)"
    using a(3) by (simp add: provider_client_def ActionExecutorForRoute_def AuthorityClient_def sample_world_def
        sample_factory_def Let_def)
  obtain rq where x: "ExecuteTableQuery example_env NewStatementClient example_target [] =
      (Inr (BoundQueryResult (queryResultFromStatement example_statement ''table'')), [rq])"
    using example_query_run by blast
  have n: "TrimSpace (rrName (table_ref ''table'')) \<noteq> []"
    by (simp add: table_ref_def TrimSpace_graphic graphic_def)
  show ?thesis
    using query_guards [of sample_world sample_factory "sample_executor True" "table_ref ''table''",
        OF _ _ _ n sample_normalized, of "\<lambda>_. ()"] auth prov x
    by (simp add: QueryTable_def ActionExecutorForRoute_def sample_world_def sample_chain)
qed

lemma sample_factory_reachable:
  "factory_reachable no_parse (\<lambda>_. Inr ()) (reNewForConfig (sample_reviews b)) sample_factory"
proof (rule factory_reachable.authorised [OF factory_reachable.configured [OF factory_reachable.created]])
  show "SetBaseConfig no_parse (Some (demo_base ''https://a'')) (Some newClientFactory) =
      (Inr (), Some (newClientFactory\<lparr>cfBaseHost := ''https://a'', cfConfigured := True\<rparr>))"
    by (simp add: demo_SetBaseConfig) (simp add: newClientFactory_def)
  show "SetAuthority (Some (\<lambda>_ n. (Inr (Some sample_client), Suc n)))
      (Some (newClientFactory\<lparr>cfBaseHost := ''https://a'', cfConfigured := True\<rparr>)) = Some sample_factory"
    by (simp add: SetAuthority_def sample_factory_def)
qed

theorem QueryTable_authorized_witness:
  "\<exists>result. fst (sample_query True) = Inr result \<and>
     granted_review (sample_reviews True) sample_factory ''c1'' ''tok'' (get_attributes ''table'') \<and>
     granted_review (sample_reviews True) sample_factory ''c1'' ''tok'' (action_attributes ''query_table'' ''table'')"
proof -
  obtain result w' where run: "sample_query True = (Inr result, w')" using sample_run by blast
  have "twFactory sample_world = Some sample_factory" by (simp add: sample_world_def)
  from QueryTable_authorized [OF factory_reachable_ok [OF sample_factory_reachable] this run, of result] sample_normalized run
  show ?thesis by auto
qed

theorem QueryTable_denied_witness:
  "\<exists>cause g. sample_query False =
     (Inl (ActionError ''resource_forbidden''
             ''caller is not allowed to read the bound Databricks resource'' False 403 (Some cause)),
      sample_world\<lparr>twFactory := g\<rparr>)"
proof -
  obtain f cl where
    "AuthorizationFor (\<lambda>cfg. Inr cfg) 5 ''c1'' ''tok'' (Some sample_factory) = (Inr cl, Some f)"
    using sample_AuthorizationFor by blast
  then have "review_denied (sample_reviews False) (TrimSpace ''c1'') (bearerToken ''Bearer tok'') ''table'' sample_factory"
    by (simp add: review_denied_def sample_reviews_def)
  with QueryTable_denied [OF sample_normalized, of sample_world sample_factory "''c1''" "''Bearer tok''"
      "sample_reviews False" "Some (ExecuteTableQuery example_env NewStatementClient)" "\<lambda>_. ()"]
  show ?thesis by (simp add: sample_world_def)
qed

theorem QueryTable_request_witness:
  "\<exists>rq c s tbl wh conn token sql. twLog (snd (sample_query True)) = [rq] \<and>
     AuthorityClient (Some sample_factory) ''c1'' 0 = (Inr c, s) \<and>
     permitted_url example_env NewStatementClient (rqURL rq) \<and>
     (''Authorization'', ''Bearer '' @ token) \<in> set (rqHeader rq) \<and>
     ready_chain c (\<lambda>_. ()) ''table'' tbl wh conn token \<and>
     statementExecutionURL example_env NewStatementClient (csHost (cnSpec conn)) = Inr (rqURL rq) \<and>
     rqBody rq = statement_payload NewStatementClient (wsWarehouseID (whSpec wh)) sql"
proof -
  obtain r w' rq where run: "sample_query True = (Inr r, w')" "twLog w' = [rq]" using sample_run by blast
  have n: "TrimSpace (rrName (table_ref ''table'')) = ''table''" "TrimSpace ''c1'' = ''c1''"
    by (simp_all add: table_ref_def TrimSpace_graphic graphic_def)
  have w: "twLog sample_world = []" "twFactory sample_world = Some sample_factory" "twAuthority sample_world = 0"
    by (simp_all add: sample_world_def)
  from QueryTable_request [OF example_parser_ok(1) run(1), unfolded n w] run show ?thesis by simp blast
qed

theorem missing_table_backend_failure_witness:
  "\<exists>cause. ResolveTable sample_client () ''orders'' = Inl cause \<and>
     sanitizeActionError (Some cause) =
       Some (ActionError ''backend_failure'' ''databricks action failed'' False 502 (Some cause))"
  by (rule missing_table_backend_failure [of _ _ "StatusError ReasonNotFound ''no such table''"])
    (simp_all add: sample_client_def api_reason_defs)

subsection \<open>A projection error whose column name is a marker\<close>

text \<open>
  A missing column whose name contains a marker loses its typed error: the executor reports
  schema_projection_invalid with 400, and the action endpoint replaces it by action_failed with 502.
\<close>

theorem schema_projection_marker_generic:
  "let err = ValidationError ErrorCodeSchemaProjectionInvalid
         (''requested column '' @ quoted ''token_id'' @ '' is not present in the imported table schema'') in
   \<exists>e. sanitizeActionError (Some err) = Some e \<and>
     e = ActionError ActionErrorCodeSchemaProjectionInvalid (ve_Message err) False 400 (Some err) \<and>
     normalizeActionError (Some e) = genericActionFailure"
proof -
  let ?m = "''requested column '' @ quoted ''token_id'' @ '' is not present in the imported table schema''"
  let ?err = "ValidationError ErrorCodeSchemaProjectionInvalid ?m"
  have q: "quoted ''token_id'' = CHR 0x22 # ''token_id'' @ [CHR 0x22]"
    by (simp add: quoted_def decode_ascii quote_rune_def is_print_def char_of_eval)
  have t: "TrimSpace ?m = ?m" by (rule TrimSpace_graphic) (simp_all add: graphic_def)
  have len: "length ?m \<le> 512" "?m \<noteq> []" by (simp_all add: q)
  have s: "sanitizeActionError (Some ?err) =
      Some (ActionError ActionErrorCodeSchemaProjectionInvalid ?m False 400 (Some ?err))"
    unfolding sanitizeActionError_def option.case
    using t len by (simp only: errors_As_def errors_Is_def err_chain.simps find.simps is_action_error.simps
        is_action_failure_def action_failure_of.simps sanitizeUntyped_def is_validation_error.simps
        set_simps Let_def option.case go_error.case bind.simps if_True if_False) simp
  have "contains ''token'' (ToLower ?m)" by (simp add: q ToLower_def ascii_lower_def)
  then have "\<not> message_safe ?m" by (simp add: message_safe_def forbidden_markers_def)
  then have "safeActionErrorMessage ?m = defaultActionFailureMessage"
    using t by (simp add: safeActionErrorMessage_cases)
  moreover have "?m \<noteq> defaultActionFailureMessage" by (simp add: defaultActionFailureMessage_def)
  ultimately have "normalizeTyped ActionErrorCodeSchemaProjectionInvalid ?m False 400 c = genericActionFailure" for c
    using t len(2) by (simp only: normalizeTyped_def Let_def) simp
  then have "normalizeActionError (Some (ActionError ActionErrorCodeSchemaProjectionInvalid ?m False 400 (Some ?err))) =
      genericActionFailure"
    by (simp only: normalizeActionError_def option.case errors_As_def err_chain.simps find.simps
        is_action_error.simps if_True go_error.case)
  with s show ?thesis by (simp only: Let_def go_error.sel) blast
qed

end
