(* ===== verification/Importapi.thy ===== *)
theory Importapi
  imports Statements
begin

text \<open>
  Package \<^verbatim>\<open>importapi\<close>: the metadata discovery client and the registration request contract. As in
  the \<^verbatim>\<open>backend\<close> package, a call takes the log of the requests sent so far and returns it extended;
  the transport, the URL parser and the JSON decoders are arguments, and so is the name validation
  of apimachinery.
\<close>

subsection \<open>Constants and data\<close>

definition KindWarehouse :: string where "KindWarehouse = ''warehouse''"
definition KindTable :: string where "KindTable = ''table''"
definition MaxItems :: int where "MaxItems = 50"
definition MaxFieldBytes :: int where "MaxFieldBytes = 2048"
definition maxResponseSize :: nat where "maxResponseSize = 4 * 1024 * 1024"
definition pageSize :: nat where "pageSize = 50"
definition metricViewUnsupportedReason :: string where
  "metricViewUnsupportedReason = ''Databricks METRIC_VIEW objects cannot be registered because query_table/v1 does not support metric-view query semantics.''"

record ImportConnection =
  icHost :: string
  icAuthType :: string
  icToken :: string

record 'a Page =
  pgItems :: "'a list"
  pgNextPageToken :: string

record support =
  supSupported :: bool
  supUnsupported :: bool
  supReason :: string

record ImportWarehouse = support +
  iwID :: string
  iwName :: string
  iwState :: string
  iwWarehouseType :: string

record ImportCatalog = support +
  ikName :: string
  ikComment :: string
  ikCatalogType :: string

record ImportSchema = support +
  isName :: string
  isCatalog :: string
  isComment :: string

record ImportTable = support +
  itName :: string
  itCatalog :: string
  itSchema :: string
  itTableType :: string
  itDataSourceFormat :: string
  itComment :: string

text \<open>The response bodies the client decodes.\<close>

record warehouse_item =
  dwID :: string
  dwName :: string
  dwState :: string
  dwWarehouseType :: string

record catalog_item =
  dcName :: string
  dcComment :: string
  dcCatalogType :: string

record schema_item =
  dsName :: string
  dsCatalogName :: string
  dsComment :: string

record table_item =
  dtName :: string
  dtCatalogName :: string
  dtSchemaName :: string
  dtTableType :: string
  dtDataSourceFormat :: string
  dtComment :: string

record import_env =
  imBackend :: backend_env
  imWarehouses :: "string \<Rightarrow> warehouse_item Page go_result"
  imCatalogs :: "string \<Rightarrow> catalog_item Page go_result"
  imSchemas :: "string \<Rightarrow> schema_item Page go_result"
  imTables :: "string \<Rightarrow> table_item Page go_result"

subsection \<open>One metadata request\<close>

definition import_host :: "URL \<Rightarrow> string" where
  "import_host u = TrimSuffix (ToLower (Hostname u)) ''.''"

definition WorkspaceURL :: "backend_env \<Rightarrow> string \<Rightarrow> URL go_result" where
  "WorkspaceURL env raw =
     (case url_Parse env (TrimSpace raw) of
        Inl _ \<Rightarrow> Inl (ErrorString ''invalid Databricks workspace host'')
      | Inr u \<Rightarrow>
     if uScheme u \<noteq> ''https'' \<or> uUser u \<noteq> None \<or> uHost u = [] \<or> (uPath u \<noteq> [] \<and> uPath u \<noteq> ''/'') \<or>
        uRawQuery u \<noteq> [] \<or> uFragment u \<noteq> []
     then Inl (ErrorString ''invalid Databricks workspace host'')
     else if Port u \<noteq> [] \<and> Port u \<noteq> ''443''
     then Inl (ErrorString ''Databricks workspace host must use the default https port'')
     else if \<not> AllowedWorkspaceHost (env_suffixes env) (import_host u) []
     then Inl (ErrorString ''not an allowed Databricks workspace host'')
     else Inr (u\<lparr>uPath := [], uRawPath := []\<rparr>))"

definition import_response ::
  "http_response \<Rightarrow> (string \<Rightarrow> 'a go_result) \<Rightarrow> 'a go_result" where
  "import_response resp unmarshal =
     (if \<not> status_ok resp
      then Inl (ErrorString (''Databricks discovery returned HTTP '' @ show_int (rsStatusCode resp)))
      else (case read_limited resp (maxResponseSize + 1) of
              Inl e \<Rightarrow> Inl (WrapError ''read Databricks metadata: '' e)
            | Inr payload \<Rightarrow>
                if maxResponseSize < length payload
                then Inl (ErrorString (''Databricks metadata response exceeds '' @ show_nat maxResponseSize @
                       '' bytes''))
                else (case unmarshal payload of
                        Inl _ \<Rightarrow> Inl (ErrorString ''decode Databricks metadata: invalid JSON response'')
                      | Inr v \<Rightarrow> Inr v)))"

definition import_get ::
  "backend_env \<Rightarrow> ImportConnection \<Rightarrow> string \<Rightarrow> url_values \<Rightarrow> (string \<Rightarrow> 'a go_result) \<Rightarrow>
   http_request list \<Rightarrow> 'a go_result \<times> http_request list" where
  "import_get env conn path query unmarshal log =
     (if icAuthType conn \<noteq> ''pat'' then (Inl (ErrorString ''unsupported Databricks auth type''), log)
      else if TrimSpace (icToken conn) = []
      then (Inl (ErrorString ''Databricks credential is required''), log)
      else
     (case WorkspaceURL env (icHost conn) of
        Inl e \<Rightarrow> (Inl e, log)
      | Inr base \<Rightarrow>
     (case new_request env ''GET'' (url_String (base\<lparr>uPath := path, uRawQuery := values_Encode query\<rparr>))
             (bearer_header (icToken conn) ''Accept'' ''application/json'') [] of
        Inl e \<Rightarrow> (Inl (WrapError ''build discovery request: '' e), log)
      | Inr req \<Rightarrow>
     (case send env req log of
        (Inl e, log) \<Rightarrow> (Inl (WrapError ''Databricks discovery request: '' e), log)
      | (Inr resp, log) \<Rightarrow> (import_response resp unmarshal, log)))))"

subsection \<open>Listings\<close>

definition pageQuery :: "string \<Rightarrow> url_values" where
  "pageQuery token =
     (let query = [(''max_results'', [show_nat pageSize])] in
      if token \<noteq> [] then values_Set ''page_token'' token query else query)"

definition missingReason :: "string \<Rightarrow> string \<Rightarrow> string" where
  "missingReason val field =
     (if val = [] then ''Databricks did not return a '' @ field @ ''.'' else [])"

definition warehouse_query :: "string \<Rightarrow> url_values" where
  "warehouse_query token =
     (let query = values_Set ''page_size'' (show_nat pageSize) [] in
      if token \<noteq> [] then values_Set ''page_token'' token query else query)"

definition warehouse_entry :: "warehouse_item \<Rightarrow> ImportWarehouse" where
  "warehouse_entry item =
     (let supported = (dwID item \<noteq> []) in
      \<lparr>supSupported = supported, supUnsupported = (\<not> supported),
       supReason = missingReason (dwID item) ''warehouse ID'',
       iwID = dwID item, iwName = dwName item, iwState = dwState item, iwWarehouseType = dwWarehouseType item\<rparr>)"

definition listing ::
  "'i Page go_result \<times> http_request list \<Rightarrow> ('i \<Rightarrow> 'o) \<Rightarrow> 'o Page go_result \<times> http_request list" where
  "listing r entry =
     (case r of
        (Inl e, log) \<Rightarrow> (Inl e, log)
      | (Inr page, log) \<Rightarrow>
          (Inr \<lparr>pgItems = map entry (pgItems page), pgNextPageToken = pgNextPageToken page\<rparr>, log))"

definition ListWarehouses ::
  "import_env \<Rightarrow> ImportConnection \<Rightarrow> string \<Rightarrow> http_request list \<Rightarrow>
   ImportWarehouse Page go_result \<times> http_request list" where
  "ListWarehouses env conn token log =
     listing (import_get (imBackend env) conn ''/api/2.0/sql/warehouses'' (warehouse_query token)
       (imWarehouses env) log) warehouse_entry"

definition catalog_entry :: "catalog_item \<Rightarrow> ImportCatalog" where
  "catalog_entry item =
     (let supported = (dcName item \<noteq> []) in
      \<lparr>supSupported = supported, supUnsupported = (\<not> supported),
       supReason = missingReason (dcName item) ''catalog name'',
       ikName = dcName item, ikComment = dcComment item, ikCatalogType = dcCatalogType item\<rparr>)"

definition ListCatalogs ::
  "import_env \<Rightarrow> ImportConnection \<Rightarrow> string \<Rightarrow> http_request list \<Rightarrow>
   ImportCatalog Page go_result \<times> http_request list" where
  "ListCatalogs env conn token log =
     listing (import_get (imBackend env) conn ''/api/2.1/unity-catalog/catalogs'' (pageQuery token)
       (imCatalogs env) log) catalog_entry"

definition schema_entry :: "schema_item \<Rightarrow> ImportSchema" where
  "schema_entry item =
     (let supported = (dsName item \<noteq> []) in
      \<lparr>supSupported = supported, supUnsupported = (\<not> supported),
       supReason = missingReason (dsName item) ''schema name'',
       isName = dsName item, isCatalog = dsCatalogName item, isComment = dsComment item\<rparr>)"

definition ListSchemas ::
  "import_env \<Rightarrow> ImportConnection \<Rightarrow> string \<Rightarrow> string \<Rightarrow> http_request list \<Rightarrow>
   ImportSchema Page go_result \<times> http_request list" where
  "ListSchemas env conn catalog token log =
     listing (import_get (imBackend env) conn ''/api/2.1/unity-catalog/schemas''
       (values_Set ''catalog_name'' catalog (pageQuery token)) (imSchemas env) log) schema_entry"

definition table_query :: "string \<Rightarrow> string \<Rightarrow> string \<Rightarrow> url_values" where
  "table_query catalog schemaName token =
     values_Set ''include_manifest_capabilities'' ''false''
       (values_Set ''omit_username'' ''true''
       (values_Set ''omit_properties'' ''true''
       (values_Set ''omit_columns'' ''true''
       (values_Set ''schema_name'' schemaName
       (values_Set ''catalog_name'' catalog (pageQuery token))))))"

definition table_entry :: "table_item \<Rightarrow> ImportTable" where
  "table_entry item =
     (let supported = (dtName item \<noteq> [] \<and> dtCatalogName item \<noteq> [] \<and> dtSchemaName item \<noteq> []);
          reason = missingReason (dtName item) ''table name'';
          reason = (if dtName item \<noteq> [] \<and> dtCatalogName item = []
                    then ''Databricks did not return a catalog name.'' else reason);
          reason = (if dtName item \<noteq> [] \<and> dtCatalogName item \<noteq> [] \<and> dtSchemaName item = []
                    then ''Databricks did not return a schema name.'' else reason);
          metric = EqualFold (TrimSpace (dtTableType item)) ''METRIC_VIEW'';
          supported = (if metric then False else supported);
          reason = (if metric then metricViewUnsupportedReason else reason) in
      \<lparr>supSupported = supported, supUnsupported = (\<not> supported), supReason = reason,
       itName = dtName item, itCatalog = dtCatalogName item, itSchema = dtSchemaName item,
       itTableType = dtTableType item, itDataSourceFormat = dtDataSourceFormat item,
       itComment = dtComment item\<rparr>)"

definition ListTables ::
  "import_env \<Rightarrow> ImportConnection \<Rightarrow> string \<Rightarrow> string \<Rightarrow> string \<Rightarrow> http_request list \<Rightarrow>
   ImportTable Page go_result \<times> http_request list" where
  "ListTables env conn catalog schemaName token log =
     listing (import_get (imBackend env) conn ''/api/2.1/unity-catalog/tables''
       (table_query catalog schemaName token) (imTables env) log) table_entry"

subsection \<open>Registration requests\<close>

record Item =
  riName :: string
  riWarehouseID :: string
  riCatalog :: string
  riSchema :: string
  riTable :: string

record Request =
  rgKind :: string
  rgConnectionRef :: string
  rgWarehouseRef :: string
  rgItems :: "Item list"

record NormalizedItem =
  niIndex :: int
  niName :: string
  niSpec :: go_map

definition NormalizedKind :: "Request \<Rightarrow> string" where
  "NormalizedKind r = ToLower (TrimSpace (rgKind r))"

text \<open>\<open>dns\<close> is \<^verbatim>\<open>validation.NameIsDNSSubdomain\<close> with prefixes off: the problems of a name.\<close>

definition Validate :: "(string \<Rightarrow> string list) \<Rightarrow> Request \<Rightarrow> unit go_result" where
  "Validate dns r =
     (let kind = NormalizedKind r in
      if kind \<noteq> KindWarehouse \<and> kind \<noteq> KindTable
      then Inl (ErrorString ''kind must be warehouse or table'')
      else if TrimSpace (rgConnectionRef r) = [] \<or> 253 < length (rgConnectionRef r)
      then Inl (ErrorString ''connectionRef is required and must be at most 253 bytes'')
      else if dns (TrimSpace (rgConnectionRef r)) \<noteq> []
      then Inl (ErrorString ''connectionRef must name a Kubernetes resource'')
      else if rgItems r = [] \<or> MaxItems < int (length (rgItems r))
      then Inl (ErrorString (''items must contain between 1 and '' @ show_int MaxItems @ '' entries''))
      else if kind = KindTable \<and> TrimSpace (rgWarehouseRef r) = []
      then Inl (ErrorString ''warehouseRef is required for table registration'')
      else if kind = KindTable \<and> dns (TrimSpace (rgWarehouseRef r)) \<noteq> []
      then Inl (ErrorString ''warehouseRef must name a Kubernetes resource'')
      else Inr ())"

definition line_breakers :: string where
  "line_breakers = [CHR 0x0D, CHR 0x0A, CHR 0x00]"

definition warehouse_spec :: "Request \<Rightarrow> Item \<Rightarrow> go_map go_result" where
  "warehouse_spec request item =
     (let warehouseID = TrimSpace (riWarehouseID item) in
      if warehouseID = [] \<or> riCatalog item \<noteq> [] \<or> riSchema item \<noteq> [] \<or> riTable item \<noteq> []
      then Inl (ErrorString ''warehouseID is required and table fields are not allowed'')
      else if MaxFieldBytes < int (length warehouseID) then Inl (ErrorString ''warehouseID is too long'')
      else if ContainsAny warehouseID line_breakers then Inl (ErrorString ''warehouseID is invalid'')
      else Inr [(''connectionRef'', JStr (TrimSpace (rgConnectionRef request))),
                (''warehouseID'', JStr warehouseID)])"

definition bad_identifier :: "string \<Rightarrow> bool" where
  "bad_identifier val \<longleftrightarrow> 255 < length val \<or> ContainsAny val line_breakers"

definition table_spec :: "Request \<Rightarrow> Item \<Rightarrow> go_map go_result" where
  "table_spec request item =
     (let catalog = TrimSpace (riCatalog item); schema = TrimSpace (riSchema item);
          table = TrimSpace (riTable item) in
      if catalog = [] \<or> schema = [] \<or> table = [] \<or> riWarehouseID item \<noteq> []
      then Inl (ErrorString ''catalog, schema, and table are required and warehouseID is not allowed'')
      else if list_ex bad_identifier [catalog, schema, table]
      then Inl (ErrorString ''table identifier is invalid'')
      else Inr [(''connectionRef'', JStr (TrimSpace (rgConnectionRef request))),
                (''warehouseRef'', JStr (TrimSpace (rgWarehouseRef request))),
                (''catalog'', JStr catalog), (''schema'', JStr schema), (''table'', JStr table)])"

definition Normalize ::
  "(string \<Rightarrow> string list) \<Rightarrow> Request \<Rightarrow> int \<Rightarrow> NormalizedItem go_result" where
  "Normalize dns request index =
     (if index < 0 \<or> int (length (rgItems request)) \<le> index
      then Inl (ErrorString ''item index is out of range'')
      else
     (let item = rgItems request ! nat index; name = TrimSpace (riName item) in
      if dns name \<noteq> [] then Inl (ErrorString ''name must be a DNS subdomain'')
      else
     (case (if NormalizedKind request = KindWarehouse then warehouse_spec request item
            else table_spec request item) of
        Inl e \<Rightarrow> Inl e
      | Inr spec \<Rightarrow> Inr \<lparr>niIndex = index, niName = name, niSpec = spec\<rparr>)))"

text \<open>
  \<^verbatim>\<open>reflect.DeepEqual\<close> on two maps, the second of which holds strings only: the same keys with the
  same values, whatever the order. \<open>nested\<close> is \<^verbatim>\<open>unstructured.NestedMap\<close> of the object at \<^verbatim>\<open>spec\<close>: the map
  and whether it was found.
\<close>

definition same_map :: "go_map \<Rightarrow> go_map \<Rightarrow> bool" where
  "same_map actual expected \<longleftrightarrow>
     set (map fst actual) = set (map fst expected) \<and>
     list_all (\<lambda>k. map_of actual k = map_of expected k) (map fst expected)"

definition SpecEqual ::
  "(go_map \<Rightarrow> (go_map \<times> bool) go_result) \<Rightarrow> go_map option \<Rightarrow> go_map \<Rightarrow> bool" where
  "SpecEqual nested object expected =
     (case object of
        None \<Rightarrow> False
      | Some obj \<Rightarrow>
          (case nested obj of Inl _ \<Rightarrow> False | Inr (actual, ok) \<Rightarrow> ok \<and> same_map actual expected))"

definition ResourceForKind :: "string \<Rightarrow> string" where
  "ResourceForKind kind = (if EqualFold (TrimSpace kind) KindTable then ''tables'' else ''warehouses'')"

subsection \<open>What discovery sends\<close>

text \<open>
  The four listings as one operation, the way the import endpoint selects them, with the path and
  the query parameters the Databricks API documents for each.
\<close>

datatype discovery =
    Warehouses string
  | Catalogs string
  | Schemas string string
  | Tables string string string

datatype discovered =
    WarehousePage "ImportWarehouse Page"
  | CatalogPage "ImportCatalog Page"
  | SchemaPage "ImportSchema Page"
  | TablePage "ImportTable Page"

definition discover ::
  "import_env \<Rightarrow> ImportConnection \<Rightarrow> discovery \<Rightarrow> http_request list \<Rightarrow>
   discovered go_result \<times> http_request list" where
  "discover env conn d log =
     (case d of
        Warehouses t \<Rightarrow> apfst (map_sum id WarehousePage) (ListWarehouses env conn t log)
      | Catalogs t \<Rightarrow> apfst (map_sum id CatalogPage) (ListCatalogs env conn t log)
      | Schemas c t \<Rightarrow> apfst (map_sum id SchemaPage) (ListSchemas env conn c t log)
      | Tables c s t \<Rightarrow> apfst (map_sum id TablePage) (ListTables env conn c s t log))"

fun discovery_path :: "discovery \<Rightarrow> string" where
  "discovery_path (Warehouses t) = ''/api/2.0/sql/warehouses''"
| "discovery_path (Catalogs t) = ''/api/2.1/unity-catalog/catalogs''"
| "discovery_path (Schemas c t) = ''/api/2.1/unity-catalog/schemas''"
| "discovery_path (Tables c s t) = ''/api/2.1/unity-catalog/tables''"

definition page_param :: "string \<Rightarrow> (string \<times> string) list" where
  "page_param t = (if t = [] then [] else [(''page_token'', t)])"

fun discovery_params :: "discovery \<Rightarrow> (string \<times> string) list" where
  "discovery_params (Warehouses t) = (''page_size'', ''50'') # page_param t"
| "discovery_params (Catalogs t) = (''max_results'', ''50'') # page_param t"
| "discovery_params (Schemas c t) = (''max_results'', ''50'') # page_param t @ [(''catalog_name'', c)]"
| "discovery_params (Tables c s t) = (''max_results'', ''50'') # page_param t @
     [(''catalog_name'', c), (''schema_name'', s), (''omit_columns'', ''true''), (''omit_properties'', ''true''),
      (''omit_username'', ''true''), (''include_manifest_capabilities'', ''false'')]"

lemma show_pageSize: "show_nat pageSize = ''50''"
  by (simp add: pageSize_def show_nat.simps char_of_eval bytes_def)

lemma discovery_params_keys: "distinct (map fst (discovery_params d)) \<and> discovery_params d \<noteq> []"
  by (cases d) (simp_all add: page_param_def)

text \<open>A URL that leads to an allowlisted workspace over https, on the default port.\<close>

definition allowlisted_origin :: "backend_env \<Rightarrow> string \<Rightarrow> bool" where
  "allowlisted_origin env origin \<longleftrightarrow>
     (\<exists>hostport. origin = ''https://'' @ escape encodeHost hostport \<and>
        set (escape encodeHost hostport) \<inter> set ''/?#@'' = {} \<and>
        AllowedWorkspaceHost (env_suffixes env) (TrimSuffix (ToLower (fst (splitHostPort hostport))) ''.'') [] \<and>
        snd (splitHostPort hostport) \<in> {[], ''443''})"

definition metadata_request :: "backend_env \<Rightarrow> ImportConnection \<Rightarrow> string \<Rightarrow> url_values \<Rightarrow> http_request \<Rightarrow> bool" where
  "metadata_request env conn path query rq \<longleftrightarrow>
     (\<exists>origin. allowlisted_origin env origin \<and>
        rqURL rq = origin @ path @ ''?'' @ values_Encode query) \<and>
     rqVerb rq = ''GET'' \<and> rqBody rq = [] \<and> (''Authorization'', ''Bearer '' @ icToken conn) \<in> set (rqHeader rq) \<and>
     icAuthType conn = ''pat'' \<and> TrimSpace (icToken conn) \<noteq> []"

definition plain_path :: "string \<Rightarrow> bool" where
  "plain_path path \<longleftrightarrow> list_all (\<lambda>c. \<not> shouldEscape encodePath c) path \<and> hd path = CHR ''/'' \<and> path \<noteq> []"

lemma discovery_path_plain: "plain_path (discovery_path d)"
  by (cases d) (simp_all add: plain_path_def shouldEscape_def alnum_def)

lemma WorkspaceURL_checked:
  assumes "url_parser_ok env" "WorkspaceURL env raw = Inr u"
  shows "allowlisted_origin env (''https://'' @ escape encodeHost (uHost u)) \<and>
    uScheme u = ''https'' \<and> uOpaque u = [] \<and> uUser u = None \<and> uHost u \<noteq> [] \<and> uFragment u = [] \<and>
    uRawPath u = []"
proof -
  from assms(2) obtain v where v: "url_Parse env (TrimSpace raw) = Inr v" "uScheme v = ''https''" "uUser v = None"
    "uHost v \<noteq> []" "uFragment v = []" "Port v = [] \<or> Port v = ''443''"
    "AllowedWorkspaceHost (env_suffixes env) (import_host v) []" and u: "u = v\<lparr>uPath := [], uRawPath := []\<rparr>"
    by (auto simp: WorkspaceURL_def split: sum.split_asm if_split_asm)
  moreover have "set (escape encodeHost (uHost v)) \<inter> set ''/?#@'' = {}"
    using escape_host_delimiters by blast
  moreover note url_parser_okD(1) [OF assms(1) v(1)]
  ultimately show ?thesis
    by (auto simp: allowlisted_origin_def import_host_def Hostname_def Port_def)
qed

lemma import_url_String:
  assumes "uScheme u = ''https''" "uOpaque u = []" "uUser u = None" "uHost u \<noteq> []" "uFragment u = []"
    "uRawPath u = []" "plain_path path" "q \<noteq> []"
  shows "url_String (u\<lparr>uPath := path, uRawQuery := q\<rparr>) =
    ''https://'' @ escape encodeHost (uHost u) @ path @ ''?'' @ q"
proof -
  have "escape encodePath path = path" "path \<noteq> ''*''" "path \<noteq> []" "hd path = CHR ''/''"
    using assms(7) escape_id by (auto simp: plain_path_def)
  with assms show ?thesis by (simp add: url_String_def url_head_def EscapedPath_def Let_def)
qed

lemma import_response_ok:
  "import_response resp unmarshal = Inr v \<Longrightarrow>
     status_ok resp \<and> length (rsBody resp) \<le> maxResponseSize \<and> unmarshal (rsBody resp) = Inr v"
  by (auto simp: import_response_def read_limited_def split: if_splits sum.splits option.splits)

lemma import_get_cases:
  assumes "import_get env conn path query unmarshal log = (r, log')"
  obtains (refused) e where "r = Inl e" "log' = log"
  | (sent) u rq where "icAuthType conn = ''pat''" "TrimSpace (icToken conn) \<noteq> []"
      "WorkspaceURL env (icHost conn) = Inr u"
      "rq = \<lparr>rqVerb = ''GET'', rqURL = url_String (u\<lparr>uPath := path, uRawQuery := values_Encode query\<rparr>),
         rqHeader = bearer_header (icToken conn) ''Accept'' ''application/json'', rqBody = []\<rparr>"
      "log' = log @ [rq]"
      "\<And>v. r = Inr v \<Longrightarrow> \<exists>resp. transport env log rq = Inr resp \<and> import_response resp unmarshal = Inr v"
  using assms unfolding import_get_def send_def new_request_def
  by (simp split: if_split_asm sum.split_asm) blast+

lemma import_get_log:
  assumes "url_parser_ok env" "plain_path path" "values_Encode query \<noteq> []"
    "import_get env conn path query unmarshal log = (r, log')"
  shows "(log' = log \<and> (\<exists>e. r = Inl e)) \<or>
    (\<exists>rq. log' = log @ [rq] \<and> metadata_request env conn path query rq \<and>
       (\<forall>v. r = Inr v \<longrightarrow> (\<exists>resp. transport env log rq = Inr resp \<and> status_ok resp \<and>
          length (rsBody resp) \<le> maxResponseSize \<and> unmarshal (rsBody resp) = Inr v)))"
  using assms(4)
proof (cases rule: import_get_cases)
  case (sent u rq)
  note W = WorkspaceURL_checked [OF assms(1) sent(3)]
  have "rqURL rq = (''https://'' @ escape encodeHost (uHost u)) @ path @ ''?'' @ values_Encode query"
    using import_url_String [of u path "values_Encode query"] W assms(2,3) sent(4) by simp
  with W have "\<exists>origin. allowlisted_origin env origin \<and> rqURL rq = origin @ path @ ''?'' @ values_Encode query"
    by blast
  then have "metadata_request env conn path query rq"
    unfolding metadata_request_def using sent(1,2,4) by (simp add: bearer_header_def)
  with sent(5,6) import_response_ok [of _ unmarshal] show ?thesis by metis
qed auto

lemma discovery_queries:
  "warehouse_query t = map (\<lambda>(k, v). (k, [v])) (discovery_params (Warehouses t))"
  "pageQuery t = map (\<lambda>(k, v). (k, [v])) (discovery_params (Catalogs t))"
  "values_Set ''catalog_name'' c (pageQuery t) = map (\<lambda>(k, v). (k, [v])) (discovery_params (Schemas c t))"
  "table_query c s t = map (\<lambda>(k, v). (k, [v])) (discovery_params (Tables c s t))"
  by (simp_all add: warehouse_query_def pageQuery_def table_query_def values_Set_def values_Del_def
      page_param_def show_pageSize Let_def)

lemma query_nonempty: "values_Encode (map (\<lambda>(k, v). (k, [v])) (discovery_params d)) \<noteq> []"
proof
  assume "values_Encode (map (\<lambda>(k, v). (k, [v])) (discovery_params d)) = []"
  then have "ParseQuery [] = map (\<lambda>(k, v). (k, [v])) (sort_key fst (discovery_params d))"
    using ParseQuery_Encode [of "discovery_params d"] discovery_params_keys [of d] by simp
  then show False
    using discovery_params_keys [of d] length_sort [of fst "discovery_params d"]
    by (simp add: ParseQuery_def parse_pair_def del: length_sort)
qed

lemma listing_log: "snd (listing r entry) = snd r"
  by (cases r; cases "fst r") (auto simp: listing_def)

lemma listing_Inr: "fst (listing r entry) = Inr p \<Longrightarrow> \<exists>q. fst r = Inr q"
  by (cases r; cases "fst r") (auto simp: listing_def)

definition discovery_sent ::
  "backend_env \<Rightarrow> ImportConnection \<Rightarrow> discovery \<Rightarrow> http_request list \<Rightarrow> bool \<Rightarrow> http_request list \<Rightarrow> bool" where
  "discovery_sent env conn d log ok log' \<longleftrightarrow>
     log' = log \<and> \<not> ok \<or>
     (\<exists>rq. log' = log @ [rq] \<and>
        metadata_request env conn (discovery_path d) (map (\<lambda>(k, v). (k, [v])) (discovery_params d)) rq \<and>
        (ok \<longrightarrow> (\<exists>resp. transport env log rq = Inr resp \<and> status_ok resp \<and>
           length (rsBody resp) \<le> maxResponseSize)))"

lemma discovery_get_sent:
  assumes "url_parser_ok env" "x = import_get env conn (discovery_path d)
      (map (\<lambda>(k, v). (k, [v])) (discovery_params d)) unmarshal log"
  shows "discovery_sent env conn d log (\<exists>v. fst x = Inr v) (snd x)"
proof -
  obtain r log' where x: "x = (r, log')" by fastforce
  from import_get_log [OF assms(1) discovery_path_plain query_nonempty assms(2) [symmetric, unfolded x]]
  show ?thesis unfolding discovery_sent_def x fst_conv snd_conv by (metis Inl_Inr_False)
qed

lemma discover_listed:
  assumes "listing x entry = (p, log')" "discovery_sent env conn d log (\<exists>v. fst x = Inr v) (snd x)"
  shows "discovery_sent env conn d log (\<exists>v. p = Inr v) log'"
proof -
  have "snd x = log'" using listing_log [of x entry] assms(1) by simp
  moreover have "(\<exists>v. p = Inr v) = (\<exists>v. fst x = Inr v)"
    using assms(1) by (auto simp: listing_def split: prod.split_asm sum.split_asm)
  ultimately show ?thesis using assms(2) by simp
qed

lemma discover_page_sent:
  assumes "url_parser_ok env"
    "apfst (map_sum id C) (listing (import_get env conn (discovery_path d)
       (map (\<lambda>(k, v). (k, [v])) (discovery_params d)) unmarshal log) entry) = (r, log')"
  shows "discovery_sent env conn d log (\<exists>page. r = Inr page) log'"
proof -
  let ?x = "import_get env conn (discovery_path d)
      (map (\<lambda>(k, v). (k, [v])) (discovery_params d)) unmarshal log"
  obtain p l where p: "listing ?x entry = (p, l)" by fastforce
  from discover_listed [OF p discovery_get_sent [OF assms(1) refl]] assms(2) p show ?thesis
    by (cases p) auto
qed

lemma listing_forms:
  "ListWarehouses env conn t log = listing (import_get (imBackend env) conn (discovery_path (Warehouses t))
     (map (\<lambda>(k, v). (k, [v])) (discovery_params (Warehouses t))) (imWarehouses env) log) warehouse_entry"
  "ListCatalogs env conn t log = listing (import_get (imBackend env) conn (discovery_path (Catalogs t))
     (map (\<lambda>(k, v). (k, [v])) (discovery_params (Catalogs t))) (imCatalogs env) log) catalog_entry"
  "ListSchemas env conn c t log = listing (import_get (imBackend env) conn (discovery_path (Schemas c t))
     (map (\<lambda>(k, v). (k, [v])) (discovery_params (Schemas c t))) (imSchemas env) log) schema_entry"
  "ListTables env conn c s t log = listing (import_get (imBackend env) conn (discovery_path (Tables c s t))
     (map (\<lambda>(k, v). (k, [v])) (discovery_params (Tables c s t))) (imTables env) log) table_entry"
  by (simp_all only: ListWarehouses_def ListCatalogs_def ListSchemas_def ListTables_def discovery_path.simps
      discovery_queries [symmetric])

lemma discover_sent:
  assumes "url_parser_ok (imBackend env)" "discover env conn d log = (r, log')"
  shows "discovery_sent (imBackend env) conn d log (\<exists>page. r = Inr page) log'"
proof -
  note sent = discover_page_sent [OF assms(1)]
  show ?thesis
  proof (cases d)
    case (Warehouses t)
    show ?thesis using assms(2) unfolding Warehouses discover_def discovery.case listing_forms by (rule sent)
  next
    case (Catalogs t)
    show ?thesis using assms(2) unfolding Catalogs discover_def discovery.case listing_forms by (rule sent)
  next
    case (Schemas c t)
    show ?thesis using assms(2) unfolding Schemas discover_def discovery.case listing_forms by (rule sent)
  next
    case (Tables c s t)
    show ?thesis using assms(2) unfolding Tables discover_def discovery.case listing_forms by (rule sent)
  qed
qed

lemma discovery_sent_cases:
  assumes "discovery_sent env conn d log ok log'"
  obtains (none) "log' = log" "\<not> ok"
  | (one) rq where "log' = log @ [rq]"
      "metadata_request env conn (discovery_path d) (map (\<lambda>(k, v). (k, [v])) (discovery_params d)) rq"
      "ok \<Longrightarrow> \<exists>resp. transport env log rq = Inr resp \<and> status_ok resp \<and> length (rsBody resp) \<le> maxResponseSize"
  using assms unfolding discovery_sent_def by (elim disjE conjE exE) simp_all

lemma metadata_requestE:
  assumes "metadata_request env conn path query rq"
  obtains origin where "allowlisted_origin env origin" "rqURL rq = origin @ path @ ''?'' @ values_Encode query"
    "rqVerb rq = ''GET''" "rqBody rq = []" "TrimSpace (icToken conn) \<noteq> []"
    "(''Authorization'', ''Bearer '' @ icToken conn) \<in> set (rqHeader rq)"
  using assms unfolding metadata_request_def by (elim conjE exE) simp_all

text \<open>
  A discovery call sends at most one request: a GET without body to an allowlisted workspace
  over https, with the token of the connection, on the documented path of the listing; its query
  string reads back as exactly the documented parameters with the caller's names and page token.
  It succeeds only on a 2xx answer of at most 4 MiB.
\<close>

theorem discovery_requests:
  assumes "url_parser_ok (imBackend env)" "discover env conn d log = (r, log')"
  shows "log' = log \<and> (\<exists>e. r = Inl e) \<or>
    (\<exists>rq origin query. log' = log @ [rq] \<and> allowlisted_origin (imBackend env) origin \<and>
       rqVerb rq = ''GET'' \<and> rqBody rq = [] \<and> rqURL rq = origin @ discovery_path d @ ''?'' @ query \<and>
       ParseQuery query = map (\<lambda>(k, v). (k, [v])) (sort_key fst (discovery_params d)) \<and>
       (''Authorization'', ''Bearer '' @ icToken conn) \<in> set (rqHeader rq) \<and> TrimSpace (icToken conn) \<noteq> [] \<and>
       (\<forall>page. r = Inr page \<longrightarrow> (\<exists>resp. transport (imBackend env) log rq = Inr resp \<and>
          200 \<le> rsStatusCode resp \<and> rsStatusCode resp < 300 \<and> length (rsBody resp) \<le> 4 * 1024 * 1024)))"
proof -
  note P = ParseQuery_Encode [of "discovery_params d", OF discovery_params_keys [THEN conjunct1]
      discovery_params_keys [THEN conjunct2]]
  from discover_sent [OF assms] show ?thesis
  proof (cases rule: discovery_sent_cases)
    case none
    then show ?thesis by (cases r) auto
  next
    case (one rq)
    from one(3) have ok: "\<forall>page. r = Inr page \<longrightarrow> (\<exists>resp. transport (imBackend env) log rq = Inr resp \<and>
          200 \<le> rsStatusCode resp \<and> rsStatusCode resp < 300 \<and> length (rsBody resp) \<le> 4 * 1024 * 1024)"
      by (auto simp: status_ok_def maxResponseSize_def)
    from one(2) show ?thesis
    proof (rule metadata_requestE)
      fix origin
      assume o: "allowlisted_origin (imBackend env) origin"
        "rqURL rq = origin @ discovery_path d @ ''?'' @ values_Encode (map (\<lambda>(k, v). (k, [v])) (discovery_params d))"
        "rqVerb rq = ''GET''" "rqBody rq = []" "TrimSpace (icToken conn) \<noteq> []"
        "(''Authorization'', ''Bearer '' @ icToken conn) \<in> set (rqHeader rq)"
      show ?thesis
        by (rule disjI2, rule exI [of _ rq], rule exI [of _ origin],
            rule exI [of _ "values_Encode (map (\<lambda>(k, v). (k, [v])) (discovery_params d))"])
          (intro conjI one(1) o P ok)
    qed
  qed
qed

subsection \<open>What discovery marks as importable\<close>

lemma missingReason_Nil [simp]: "missingReason v f = [] \<longleftrightarrow> v \<noteq> []"
  by (simp add: missingReason_def)

text \<open>
  A listed table is marked importable exactly when Databricks returned its three names and it
  is no metric view; the flag \<^verbatim>\<open>unsupported\<close> is its negation, and an entry carries a reason exactly when
  it is not importable. No entry is added or left out.
\<close>

theorem ListTables_supported:
  assumes "ListTables env conn catalog schema token log = (Inr page, log')"
  shows "\<exists>rq resp raw. log' = log @ [rq] \<and> transport (imBackend env) log rq = Inr resp \<and>
    imTables env (rsBody resp) = Inr raw \<and> length (pgItems page) = length (pgItems raw) \<and>
    pgNextPageToken page = pgNextPageToken raw \<and>
    list_all2 (\<lambda>item entry. itName entry = dtName item \<and> supUnsupported entry = (\<not> supSupported entry) \<and>
      (supReason entry = [] \<longleftrightarrow> supSupported entry) \<and>
      (supSupported entry \<longleftrightarrow> dtName item \<noteq> [] \<and> dtCatalogName item \<noteq> [] \<and> dtSchemaName item \<noteq> [] \<and>
         \<not> EqualFold (TrimSpace (dtTableType item)) ''METRIC_VIEW'')) (pgItems raw) (pgItems page)"
proof -
  obtain raw where g: "import_get (imBackend env) conn ''/api/2.1/unity-catalog/tables''
      (table_query catalog schema token) (imTables env) log = (Inr raw, log')"
    and p: "page = \<lparr>pgItems = map table_entry (pgItems raw), pgNextPageToken = pgNextPageToken raw\<rparr>"
    using assms by (auto simp: ListTables_def listing_def split: prod.split_asm sum.split_asm)
  have e: "itName (table_entry i) = dtName i \<and> supUnsupported (table_entry i) = (\<not> supSupported (table_entry i)) \<and>
      (supReason (table_entry i) = [] \<longleftrightarrow> supSupported (table_entry i)) \<and>
      (supSupported (table_entry i) \<longleftrightarrow> dtName i \<noteq> [] \<and> dtCatalogName i \<noteq> [] \<and> dtSchemaName i \<noteq> [] \<and>
         \<not> EqualFold (TrimSpace (dtTableType i)) ''METRIC_VIEW'')" for i
    by (simp add: table_entry_def Let_def metricViewUnsupportedReason_def)
  from g show ?thesis
  proof (cases rule: import_get_cases)
    case (sent u rq)
    then obtain resp where "transport (imBackend env) log rq = Inr resp"
      "import_response resp (imTables env) = Inr raw" by blast
    with import_response_ok [OF this(2)] sent(5) p e show ?thesis
      by (auto simp: list_all2_map2 list_all2_same)
  qed simp
qed

subsection \<open>Registration items\<close>

text \<open>A name as the client sees it: trimmed, without line breaks, at most \<open>n\<close> bytes.\<close>

definition clean_name :: "nat \<Rightarrow> string \<Rightarrow> bool" where
  "clean_name n s \<longleftrightarrow>
     s \<noteq> [] \<and> TrimSpace s = s \<and> length s \<le> n \<and> set s \<inter> set line_breakers = {}"

lemma ContainsAny_iff: "ContainsAny s cs \<longleftrightarrow> set s \<inter> set cs \<noteq> {}"
  by (auto simp: ContainsAny_def list_ex_iff)

lemma warehouse_spec_iff:
  "warehouse_spec request item = Inr spec \<longleftrightarrow>
     clean_name 2048 (TrimSpace (riWarehouseID item)) \<and> riCatalog item = [] \<and> riSchema item = [] \<and>
     riTable item = [] \<and>
     spec = [(''connectionRef'', JStr (TrimSpace (rgConnectionRef request))),
             (''warehouseID'', JStr (TrimSpace (riWarehouseID item)))]"
  by (auto simp: warehouse_spec_def clean_name_def ContainsAny_iff MaxFieldBytes_def Let_def)

lemma table_spec_iff:
  "table_spec request item = Inr spec \<longleftrightarrow>
     clean_name 255 (TrimSpace (riCatalog item)) \<and> clean_name 255 (TrimSpace (riSchema item)) \<and>
     clean_name 255 (TrimSpace (riTable item)) \<and> riWarehouseID item = [] \<and>
     spec = [(''connectionRef'', JStr (TrimSpace (rgConnectionRef request))),
             (''warehouseRef'', JStr (TrimSpace (rgWarehouseRef request))),
             (''catalog'', JStr (TrimSpace (riCatalog item))), (''schema'', JStr (TrimSpace (riSchema item))),
             (''table'', JStr (TrimSpace (riTable item)))]"
  by (auto simp: table_spec_def clean_name_def ContainsAny_iff bad_identifier_def Let_def)

text \<open>
  The accepted items of a valid registration request, and what they register: an item is
  accepted exactly when its trimmed name is a resource name and it carries either only a clean
  warehouse ID of at most 2048 bytes (kind warehouse) or only a clean catalog, schema and table
  name of at most 255 bytes each (kind table); the specification then holds those trimmed values
  with the trimmed references of the request and nothing else.
\<close>

theorem Normalize_iff:
  assumes "Validate dns request = Inr ()"
  shows "Normalize dns request i = Inr item \<longleftrightarrow>
    0 \<le> i \<and> i < int (length (rgItems request)) \<and> niIndex item = i \<and>
    (let it = rgItems request ! nat i in
       niName item = TrimSpace (riName it) \<and> dns (niName item) = [] \<and>
       (if ToLower (TrimSpace (rgKind request)) = ''warehouse'' then
          clean_name 2048 (TrimSpace (riWarehouseID it)) \<and>
          riCatalog it = [] \<and> riSchema it = [] \<and> riTable it = [] \<and>
          niSpec item = [(''connectionRef'', JStr (TrimSpace (rgConnectionRef request))),
                         (''warehouseID'', JStr (TrimSpace (riWarehouseID it)))]
        else
          ToLower (TrimSpace (rgKind request)) = ''table'' \<and> TrimSpace (rgWarehouseRef request) \<noteq> [] \<and>
          list_all (clean_name 255) [TrimSpace (riCatalog it), TrimSpace (riSchema it), TrimSpace (riTable it)] \<and>
          riWarehouseID it = [] \<and>
          niSpec item = [(''connectionRef'', JStr (TrimSpace (rgConnectionRef request))),
                         (''warehouseRef'', JStr (TrimSpace (rgWarehouseRef request))),
                         (''catalog'', JStr (TrimSpace (riCatalog it))), (''schema'', JStr (TrimSpace (riSchema it))),
                         (''table'', JStr (TrimSpace (riTable it)))]))"
proof -
  let ?it = "rgItems request ! nat i"
  let ?spec = "if NormalizedKind request = KindWarehouse then warehouse_spec request ?it
    else table_spec request ?it"
  have kind: "NormalizedKind request = ''warehouse'' \<or>
      NormalizedKind request = ''table'' \<and> TrimSpace (rgWarehouseRef request) \<noteq> []"
    using assms by (auto simp: Validate_def Let_def KindWarehouse_def KindTable_def split: if_split_asm)
  have "Normalize dns request i = Inr item \<longleftrightarrow>
      0 \<le> i \<and> i < int (length (rgItems request)) \<and> niIndex item = i \<and> niName item = TrimSpace (riName ?it) \<and>
      dns (niName item) = [] \<and> ?spec = Inr (niSpec item)"
    by (cases item) (auto simp: Normalize_def Let_def split: sum.split)
  with kind show ?thesis
    by (auto simp: Let_def warehouse_spec_iff table_spec_iff NormalizedKind_def KindWarehouse_def)
qed

subsection \<open>Example\<close>

definition example_page_item :: "string \<Rightarrow> table_item" where
  "example_page_item kind =
     \<lparr>dtName = ''order_history'', dtCatalogName = ''sales'', dtSchemaName = ''gold'', dtTableType = kind,
      dtDataSourceFormat = ''DELTA'', dtComment = []\<rparr>"

definition example_import_env :: import_env where
  "example_import_env =
     \<lparr>imBackend = example_env\<lparr>url_Parse := (\<lambda>_. reference_parse example_host)\<rparr>,
      imWarehouses = (\<lambda>_. Inl (ErrorString ''unused'')), imCatalogs = (\<lambda>_. Inl (ErrorString ''unused'')),
      imSchemas = (\<lambda>_. Inl (ErrorString ''unused'')),
      imTables = (\<lambda>_. Inr \<lparr>pgItems = [example_page_item ''MANAGED'', example_page_item ''metric_view''],
                          pgNextPageToken = []\<rparr>)\<rparr>"

definition example_import_connection :: ImportConnection where
  "example_import_connection = \<lparr>icHost = example_host, icAuthType = ''pat'', icToken = ''dapi1''\<rparr>"

lemma example_import_parser: "url_parser_ok (imBackend example_import_env)"
  using example_parser_ok(1) by (simp add: url_parser_ok_def example_import_env_def)

lemma example_WorkspaceURL:
  "\<exists>u. WorkspaceURL (imBackend example_import_env) example_host = Inr u"
  by (simp add: WorkspaceURL_def example_import_env_def example_host_def example_parse_host import_host_def
      Hostname_def Port_def splitHostPort_def cut_last_def ToLower_def ascii_lower_def TrimSuffix_def
      example_host_allowed HasSuffix_def)

lemma example_ListTables:
  "\<exists>page rq. ListTables example_import_env example_import_connection ''sales'' ''gold'' [] [] = (Inr page, [rq]) \<and>
     pgItems page = map table_entry [example_page_item ''MANAGED'', example_page_item ''metric_view'']"
proof -
  obtain u where u: "WorkspaceURL (imBackend example_import_env) example_host = Inr u"
    using example_WorkspaceURL by blast
  have t: "TrimSpace ''dapi1'' = ''dapi1''" by (simp add: TrimSpace_graphic graphic_def)
  have "url_Parse (imBackend example_import_env) s = reference_parse example_host" for s
    by (simp add: example_import_env_def)
  moreover obtain v where "reference_parse example_host = Inr v"
    using example_parse_host unfolding example_host_def by blast
  ultimately show ?thesis
    by (simp add: ListTables_def listing_def import_get_def example_import_connection_def u t new_request_def
        send_def)
      (simp add: example_import_env_def import_response_def read_limited_def maxResponseSize_def status_ok_def)
qed

theorem discovery_requests_witness:
  "\<exists>page rq. discover example_import_env example_import_connection (Tables ''sales'' ''gold'' []) [] = (Inr page, [rq]) \<and>
     rqVerb rq = ''GET'' \<and> (''Authorization'', ''Bearer dapi1'') \<in> set (rqHeader rq)"
proof -
  obtain page rq where l: "ListTables example_import_env example_import_connection ''sales'' ''gold'' [] [] = (Inr page, [rq])"
    using example_ListTables by blast
  then have d: "discover example_import_env example_import_connection (Tables ''sales'' ''gold'' []) [] =
      (Inr (TablePage page), [rq])" by (simp add: discover_def)
  from discovery_requests [OF example_import_parser d] d show ?thesis
    by (auto simp: example_import_connection_def)
qed

theorem ListTables_supported_witness:
  "\<exists>page log. ListTables example_import_env example_import_connection ''sales'' ''gold'' [] [] = (Inr page, log) \<and>
     length (pgItems page) = 2 \<and> map supSupported (pgItems page) = [True, False]"
proof -
  obtain page rq where l: "ListTables example_import_env example_import_connection ''sales'' ''gold'' [] [] = (Inr page, [rq])"
    and p: "pgItems page = map table_entry [example_page_item ''MANAGED'', example_page_item ''metric_view'']"
    using example_ListTables by blast
  from ListTables_supported [OF l] obtain resp :: http_response and raw where
    "imTables example_import_env (rsBody resp) = Inr raw"
    and all: "list_all2 (\<lambda>item entry. itName entry = dtName item \<and> supUnsupported entry = (\<not> supSupported entry) \<and>
      (supReason entry = [] \<longleftrightarrow> supSupported entry) \<and>
      (supSupported entry \<longleftrightarrow> dtName item \<noteq> [] \<and> dtCatalogName item \<noteq> [] \<and> dtSchemaName item \<noteq> [] \<and>
         \<not> EqualFold (TrimSpace (dtTableType item)) ''METRIC_VIEW'')) (pgItems raw) (pgItems page)"
    by blast
  then have "pgItems raw = [example_page_item ''MANAGED'', example_page_item ''metric_view'']"
    by (auto simp: example_import_env_def)
  moreover have "\<not> EqualFold (TrimSpace ''MANAGED'') ''METRIC_VIEW''" "EqualFold (TrimSpace ''metric_view'') ''METRIC_VIEW''"
    by (simp_all add: EqualFold_def ascii_lower_def TrimSpace_graphic graphic_def char_of_eval)
  ultimately have "map supSupported (pgItems page) = [True, False]"
    using all p by (simp add: example_page_item_def)
  with l p show ?thesis by auto
qed

definition example_registration :: Request where
  "example_registration =
     \<lparr>rgKind = ''Table'', rgConnectionRef = ''prod'', rgWarehouseRef = ''main'',
      rgItems = [\<lparr>riName = ''orders'', riWarehouseID = [], riCatalog = ''sales'', riSchema = ''gold'',
                  riTable = ''order_history''\<rparr>]\<rparr>"

definition no_problem :: "string \<Rightarrow> string list" where
  "no_problem _ = []"

theorem Normalize_iff_witness:
  "Validate no_problem example_registration = Inr () \<and>
   Normalize no_problem example_registration 0 =
     Inr \<lparr>niIndex = 0, niName = ''orders'',
          niSpec = [(''connectionRef'', JStr ''prod''), (''warehouseRef'', JStr ''main''), (''catalog'', JStr ''sales''),
            (''schema'', JStr ''gold''), (''table'', JStr ''order_history'')]\<rparr>"
proof -
  have t: "TrimSpace ''prod'' = ''prod''" "TrimSpace ''orders'' = ''orders''" "TrimSpace ''main'' = ''main''"
    "TrimSpace ''sales'' = ''sales''" "TrimSpace ''gold'' = ''gold''" "TrimSpace ''Table'' = ''Table''"
    "TrimSpace ''order_history'' = ''order_history''"
    by (simp_all add: TrimSpace_graphic graphic_def)
  have k: "ToLower ''Table'' = ''table''" by (simp add: ToLower_def ascii_lower_def char_of_eval)
  have v: "Validate no_problem example_registration = Inr ()"
    by (simp add: Validate_def example_registration_def NormalizedKind_def t k no_problem_def KindTable_def
        KindWarehouse_def MaxItems_def)
  show ?thesis
    unfolding Normalize_iff [OF v]
    by (simp add: v) (simp add: example_registration_def t k no_problem_def clean_name_def line_breakers_def)
qed

end
