(* ===== verification/Tenant_Import.thy ===== *)
theory Tenant_Import
  imports Tenant_Action Importapi
begin

text \<open>
  Package \<^verbatim>\<open>tenant\<close>, \<^verbatim>\<open>import.go\<close>: the HTTP endpoint for metadata discovery and resource registration.
  Every operation passes the state \<open>'w\<close> of the world on; the interfaces \<^verbatim>\<open>ImportFactory\<close>, \<^verbatim>\<open>DiscoveryClient\<close>
  and \<^verbatim>\<open>dynamic.Interface\<close> are records of functions over it. The media type parser, the JSON
  decoder, the name validation and the accessors of unstructured objects are arguments.
\<close>

subsection \<open>Interfaces\<close>

definition MaxRequestBytes :: nat where "MaxRequestBytes = 64 * 1024"
definition maxQueryValue :: nat where "maxQueryValue = 2048"

record 'w DiscoveryClient =
  dlWarehouses :: "ImportConnection \<Rightarrow> string \<Rightarrow> 'w \<Rightarrow> ImportWarehouse Page go_result \<times> 'w"
  dlCatalogs :: "ImportConnection \<Rightarrow> string \<Rightarrow> 'w \<Rightarrow> ImportCatalog Page go_result \<times> 'w"
  dlSchemas :: "ImportConnection \<Rightarrow> string \<Rightarrow> string \<Rightarrow> 'w \<Rightarrow> ImportSchema Page go_result \<times> 'w"
  dlTables :: "ImportConnection \<Rightarrow> string \<Rightarrow> string \<Rightarrow> string \<Rightarrow> 'w \<Rightarrow> ImportTable Page go_result \<times> 'w"

record ('d, 'w) ImportFactory =
  ifResolveConnection :: "string \<Rightarrow> string \<Rightarrow> 'w \<Rightarrow> ImportConnection go_result \<times> 'w"
  ifAuthorizeResource :: "string \<Rightarrow> string \<Rightarrow> string \<Rightarrow> string \<Rightarrow> string \<Rightarrow> 'w \<Rightarrow> unit go_result \<times> 'w"
  ifFor :: "string \<Rightarrow> string \<Rightarrow> 'w \<Rightarrow> 'd go_result \<times> 'w"

record ('d, 'w) ImportHandler =
  ihFactory :: "('d, 'w) ImportFactory option"
  ihRemote :: "'w DiscoveryClient option"

text \<open>
  The dynamic client for the caller: reading and creating an object of a resource of the
  provider's API group. Before every call other clients may have acted; \<open>dyOthers\<close> is what they did.
  \<open>dyNestedMap\<close> and \<open>dyNestedString\<close> are the accessors of apimachinery, with the flag for a value found.
\<close>

record ('d, 'w) dynamic_api =
  dyGet :: "'d \<Rightarrow> string \<Rightarrow> string \<Rightarrow> 'w \<Rightarrow> go_map go_result"
  dyCreate :: "'d \<Rightarrow> string \<Rightarrow> go_map \<Rightarrow> 'w \<Rightarrow> unit go_result \<times> 'w"
  dyOthers :: "'w \<Rightarrow> 'w"
  dyNestedMap :: "go_map \<Rightarrow> (go_map \<times> bool) go_result"
  dyNestedString :: "go_map \<Rightarrow> string list \<Rightarrow> (string \<times> bool) go_result"

text \<open>\<open>nil_pointer\<close>: the interface value holds a \<^verbatim>\<open>*ClientFactory\<close> that is nil.\<close>

definition NewImportHandler ::
  "('d, 'w) ImportFactory option \<Rightarrow> bool \<Rightarrow> 'w DiscoveryClient option \<Rightarrow> ('d, 'w) ImportHandler" where
  "NewImportHandler factory nil_pointer remote =
     \<lparr>ihFactory = (if nil_pointer then None else factory), ihRemote = remote\<rparr>"

subsection \<open>Requests and replies\<close>

record import_http =
  hrMethod :: string
  hrPath :: string
  hrCluster :: string
  hrTenant :: string
  hrAuthorization :: string
  hrContentType :: string
  hrQuery :: url_values
  hrBody :: string
  hrReadError :: "go_error option"

record RegistrationResult =
  rtIndex :: int
  rtName :: string
  rtState :: string
  rtMessage :: string

datatype import_body =
    ImportErrorBody (ib_reason: string) (ib_message: string)
  | DiscoveredBody discovered
  | ResultsBody "RegistrationResult list"

record import_reply =
  irStatus :: int
  irBody :: import_body

text \<open>\<open>ipDecode\<close> is the strict decoding of the first JSON value and whether the input ends there.\<close>

record import_parsers =
  ipDns :: "string \<Rightarrow> string list"
  ipMediaType :: "string \<Rightarrow> string go_result"
  ipDecode :: "string \<Rightarrow> (Request \<times> bool) go_result"

definition writeImportJSON :: "int \<Rightarrow> import_body \<Rightarrow> import_reply" where
  "writeImportJSON status val = \<lparr>irStatus = status, irBody = val\<rparr>"

definition writeImportError :: "int \<Rightarrow> string \<Rightarrow> string \<Rightarrow> import_reply" where
  "writeImportError status reason message = writeImportJSON status (ImportErrorBody reason message)"

fun is_import_error :: "go_error \<Rightarrow> bool" where
  "is_import_error (ImportError status reason message) = True"
| "is_import_error _ = False"

definition writeImportOperationError :: "go_error \<Rightarrow> string \<Rightarrow> import_reply" where
  "writeImportOperationError err fallback =
     (case errors_As is_import_error err of
        Some (ImportError status reason message) \<Rightarrow> writeImportError status reason message
      | _ \<Rightarrow>
          if IsForbidden err \<or> IsUnauthorized err then writeImportError 403 ''Forbidden'' fallback
          else if IsNotFound err then writeImportError 404 ''NotFound'' fallback
          else writeImportError 502 ''OperationFailed'' fallback)"

record importIdentity =
  idClusterID :: string
  idTenant :: string
  idToken :: string

definition importRequestIdentity :: "import_http option \<Rightarrow> importIdentity go_result" where
  "importRequestIdentity request =
     (case request of
        None \<Rightarrow> Inl (ErrorString ''request is required'')
      | Some r \<Rightarrow>
          (let identity = \<lparr>idClusterID = TrimSpace (hrCluster r), idTenant = TrimSpace (hrTenant r),
                           idToken = bearerToken (hrAuthorization r)\<rparr> in
           if idTenant identity = [] \<or> idClusterID identity = []
           then Inl (ErrorString ''tenant identity is required'')
           else if ContainsAny (idTenant identity) [CHR 0x0D, CHR 0x0A] \<or>
                   ContainsAny (idClusterID identity) [CHR ''/'', backslash, CHR 0x0D, CHR 0x0A]
           then Inl (ErrorString ''tenant identity is invalid'')
           else if idToken identity = [] then Inl (ErrorString ''bearer token is required'')
           else Inr identity))"

record discoveryQuery =
  dqConnectionRef :: string
  dqCatalog :: string
  dqSchema :: string
  dqPageToken :: string

definition values_Get :: "url_values \<Rightarrow> string \<Rightarrow> string" where
  "values_Get values key = (case map_of values key of Some (v # _) \<Rightarrow> v | _ \<Rightarrow> [])"

definition allowed_parameters :: "string \<Rightarrow> string list" where
  "allowed_parameters resource =
     [''connectionRef'', ''pageToken''] @
     (if resource = ''schemas'' \<or> resource = ''tables'' then [''catalog''] else []) @
     (if resource = ''tables'' then [''schema''] else [])"

fun check_parameters :: "string list \<Rightarrow> url_values \<Rightarrow> unit go_result" where
  "check_parameters allowed [] = Inr ()"
| "check_parameters allowed ((key, vals) # rest) =
     (if key \<notin> set allowed then Inl (ErrorString (''unsupported query parameter '' @ quoted key))
      else if length vals \<noteq> 1
      then Inl (ErrorString (''query parameter '' @ quoted key @ '' must occur once''))
      else check_parameters allowed rest)"

definition parseDiscoveryQuery :: "url_values \<Rightarrow> string \<Rightarrow> discoveryQuery go_result" where
  "parseDiscoveryQuery values resource =
     (case check_parameters (allowed_parameters resource) values of
        Inl e \<Rightarrow> Inl e
      | Inr _ \<Rightarrow>
     (let result = \<lparr>dqConnectionRef = TrimSpace (values_Get values ''connectionRef''),
                    dqCatalog = TrimSpace (values_Get values ''catalog''),
                    dqSchema = TrimSpace (values_Get values ''schema''),
                    dqPageToken = values_Get values ''pageToken''\<rparr> in
      if dqConnectionRef result = [] \<or> 253 < length (dqConnectionRef result)
      then Inl (ErrorString ''connectionRef is required and must be at most 253 bytes'')
      else if maxQueryValue < length (dqPageToken result) then Inl (ErrorString ''pageToken is too long'')
      else if (resource = ''schemas'' \<or> resource = ''tables'') \<and> dqCatalog result = []
      then Inl (ErrorString ''catalog is required'')
      else if resource = ''tables'' \<and> dqSchema result = [] then Inl (ErrorString ''schema is required'')
      else if 255 < length (dqCatalog result) \<or> 255 < length (dqSchema result)
      then Inl (ErrorString ''catalog or schema is too long'')
      else Inr result))"

subsection \<open>Discovery\<close>

definition discovered_reply :: "('p \<Rightarrow> discovered) \<Rightarrow> 'p go_result \<times> 'w \<Rightarrow> import_reply \<times> 'w" where
  "discovered_reply page r =
     (case r of
        (Inl _, w) \<Rightarrow> (writeImportError 502 ''DiscoveryFailed'' ''Databricks discovery failed'', w)
      | (Inr result, w) \<Rightarrow> (writeImportJSON 200 (DiscoveredBody (page result)), w))"

definition list_resource ::
  "'w DiscoveryClient \<Rightarrow> string \<Rightarrow> discoveryQuery \<Rightarrow> ImportConnection \<Rightarrow> 'w \<Rightarrow> import_reply \<times> 'w" where
  "list_resource remote resource query connection w =
     (if resource = ''warehouses''
      then discovered_reply WarehousePage (dlWarehouses remote connection (dqPageToken query) w)
      else if resource = ''catalogs''
      then discovered_reply CatalogPage (dlCatalogs remote connection (dqPageToken query) w)
      else if resource = ''schemas''
      then discovered_reply SchemaPage (dlSchemas remote connection (dqCatalog query) (dqPageToken query) w)
      else if resource = ''tables''
      then discovered_reply TablePage
             (dlTables remote connection (dqCatalog query) (dqSchema query) (dqPageToken query) w)
      else (writeImportError 404 ''NotFound'' ''discovery resource not found'', w))"

definition serveDiscovery ::
  "('d, 'w) ImportHandler option \<Rightarrow> import_http \<Rightarrow> 'w \<Rightarrow> import_reply \<times> 'w" where
  "serveDiscovery handler r w =
     (case importRequestIdentity (Some r) of
        Inl e \<Rightarrow> (writeImportError 401 ''Unauthorized'' (Error e), w)
      | Inr identity \<Rightarrow>
     (let resource = TrimPrefix (hrPath r) ''/api/v1/discovery/'' in
      case parseDiscoveryQuery (hrQuery r) resource of
        Inl e \<Rightarrow> (writeImportError 400 ''ValidationError'' (Error e), w)
      | Inr query \<Rightarrow>
     (case (Option.bind handler ihFactory, Option.bind handler ihRemote) of
        (Some factory, Some remote) \<Rightarrow>
     (case ifAuthorizeResource factory (idClusterID identity) (idToken identity) ''connections''
             (dqConnectionRef query) ''get'' w of
        (Inl e, w) \<Rightarrow> (writeImportOperationError e ''caller is not allowed to read this connection'', w)
      | (Inr _, w) \<Rightarrow>
     (case ifResolveConnection factory (idClusterID identity) (dqConnectionRef query) w of
        (Inl e, w) \<Rightarrow> (writeImportOperationError e ''Databricks connection is unavailable'', w)
      | (Inr connection, w) \<Rightarrow> list_resource remote resource query connection w))
      | _ \<Rightarrow> (writeImportError 503 ''Unavailable'' ''Databricks discovery is unavailable'', w))))"

subsection \<open>Registration\<close>

definition ensureJSONEOF :: "bool \<Rightarrow> unit go_result" where
  "ensureJSONEOF at_eof =
     (if \<not> at_eof then Inl (ErrorString ''registration request must contain one JSON object'') else Inr ())"

definition resourceForRequest :: "Request \<Rightarrow> string" where
  "resourceForRequest request = (if rgKind request = KindTable then ''tables'' else ''warehouses'')"

definition objectForItem :: "Request \<Rightarrow> NormalizedItem \<Rightarrow> go_map" where
  "objectForItem request item =
     [(''apiVersion'', JStr (GroupName @ ''/'' @ Version)),
      (''kind'', JStr (if rgKind request = KindTable then ''Table'' else ''Warehouse'')),
      (''metadata'', JObj [(''name'', JStr (niName item))]), (''spec'', JObj (niSpec item))]"

definition registerOne ::
  "('d, 'w) dynamic_api \<Rightarrow> 'd \<Rightarrow> Request \<Rightarrow> NormalizedItem \<Rightarrow> 'w \<Rightarrow> RegistrationResult \<times> 'w" where
  "registerOne api dyn request item w =
     (let result = (\<lambda>state message. \<lparr>rtIndex = niIndex item, rtName = niName item, rtState = state,
                      rtMessage = message\<rparr>);
          resource = resourceForRequest request;
          conflict = result ''conflict'' ''a resource with this name has a different specification'';
          w = dyOthers api w in
      case dyGet api dyn resource (niName item) w of
        Inr existing \<Rightarrow>
          (if SpecEqual (dyNestedMap api) (Some existing) (niSpec item) then result ''existing'' [] else conflict, w)
      | Inl e \<Rightarrow>
          if \<not> IsNotFound e then (result ''failed'' ''could not inspect the existing resource'', w)
          else
         (case dyCreate api dyn resource (objectForItem request item) (dyOthers api w) of
            (Inr _, w) \<Rightarrow> (result ''created'' [], w)
          | (Inl e, w) \<Rightarrow>
              if \<not> IsAlreadyExists e then (result ''failed'' ''could not create the resource'', w)
              else
             (let w = dyOthers api w in
              case dyGet api dyn resource (niName item) w of
                Inr existing \<Rightarrow>
                  (if SpecEqual (dyNestedMap api) (Some existing) (niSpec item) then result ''existing'' []
                   else conflict, w)
              | Inl _ \<Rightarrow>
                  (result ''failed'' ''could not verify the concurrently created resource'', w))))"

fun register_all ::
  "('d, 'w) dynamic_api \<Rightarrow> 'd \<Rightarrow> Request \<Rightarrow> NormalizedItem list \<Rightarrow> 'w \<Rightarrow> RegistrationResult list \<times> 'w" where
  "register_all api dyn request [] w = ([], w)"
| "register_all api dyn request (item # items) w =
     (case registerOne api dyn request item w of (result, w) \<Rightarrow>
     (case register_all api dyn request items w of (results, w) \<Rightarrow> (result # results, w)))"

definition preflightTables ::
  "('d, 'w) dynamic_api \<Rightarrow> 'd \<Rightarrow> Request \<Rightarrow> 'w \<Rightarrow> unit go_result \<times> 'w" where
  "preflightTables api dyn request w =
     (let w = dyOthers api w in
      case dyGet api dyn ''warehouses'' (TrimSpace (rgWarehouseRef request)) w of
        Inl e \<Rightarrow>
          (Inl (if IsNotFound e then ImportError 404 ''NotFound'' ''warehouseRef is not visible to the caller''
                else if IsForbidden e \<or> IsUnauthorized e
                then ImportError 403 ''Forbidden'' ''caller is not allowed to read warehouseRef''
                else ImportError 502 ''PreflightFailed'' ''could not verify warehouseRef''), w)
      | Inr warehouse \<Rightarrow>
          (if dyNestedString api warehouse [''spec'', ''connectionRef''] \<noteq> Inr (rgConnectionRef request, True)
           then Inl (ImportError 409 ''ConnectionMismatch'' ''warehouseRef belongs to a different connection'')
           else Inr (), w))"

fun normalize_items ::
  "(string \<Rightarrow> string list) \<Rightarrow> Request \<Rightarrow> string list \<Rightarrow> nat list \<Rightarrow> string + NormalizedItem list" where
  "normalize_items dns request seen [] = Inr []"
| "normalize_items dns request seen (i # indices) =
     (case Normalize dns request (int i) of
        Inl e \<Rightarrow> Inl (''item '' @ show_nat i @ '': '' @ Error e)
      | Inr item \<Rightarrow>
          if niName item \<in> set seen then Inl (''item '' @ show_nat i @ '': resource name is duplicated'')
          else (case normalize_items dns request (niName item # seen) indices of
                  Inl m \<Rightarrow> Inl m
                | Inr items \<Rightarrow> Inr (item # items)))"

fun authorize_verbs ::
  "('d, 'w) ImportFactory \<Rightarrow> importIdentity \<Rightarrow> string \<Rightarrow> string list \<Rightarrow> 'w \<Rightarrow> unit go_result \<times> 'w" where
  "authorize_verbs factory identity resource [] w = (Inr (), w)"
| "authorize_verbs factory identity resource (verb # verbs) w =
     (case ifAuthorizeResource factory (idClusterID identity) (idToken identity) resource [] verb w of
        (Inl e, w) \<Rightarrow> (Inl e, w)
      | (Inr _, w) \<Rightarrow> authorize_verbs factory identity resource verbs w)"

text \<open>Reading and checking the body: the request with its trimmed references and its items.\<close>

definition registration_input ::
  "import_parsers \<Rightarrow> import_http \<Rightarrow> import_reply + Request \<times> NormalizedItem list" where
  "registration_input p r =
     (if ipMediaType p (hrContentType r) \<noteq> Inr ''application/json''
      then Inl (writeImportError 415 ''UnsupportedMediaType'' ''Content-Type must be application/json'')
      else if MaxRequestBytes < length (hrBody r) \<or> hrReadError r \<noteq> None
      then Inl (writeImportError 413 ''RequestTooLarge'' ''registration request is too large'')
      else
     (case ipDecode p (hrBody r) of
        Inl _ \<Rightarrow> Inl (writeImportError 400 ''ValidationError'' ''registration request is invalid JSON'')
      | Inr (request, at_eof) \<Rightarrow>
     (case ensureJSONEOF at_eof of
        Inl e \<Rightarrow> Inl (writeImportError 400 ''ValidationError'' (Error e))
      | Inr _ \<Rightarrow>
     (let request = request\<lparr>rgKind := NormalizedKind request\<rparr> in
      case Validate (ipDns p) request of
        Inl e \<Rightarrow> Inl (writeImportError 400 ''ValidationError'' (Error e))
      | Inr _ \<Rightarrow>
     (let request = request\<lparr>rgConnectionRef := TrimSpace (rgConnectionRef request),
                            rgWarehouseRef := TrimSpace (rgWarehouseRef request)\<rparr> in
      case normalize_items (ipDns p) request [] [0..<length (rgItems request)] of
        Inl m \<Rightarrow> Inl (writeImportError 400 ''ValidationError'' m)
      | Inr normalized \<Rightarrow> Inr (request, normalized))))))"

text \<open>The part of the handler after its checks on the caller's rights.\<close>

definition register_items ::
  "('d, 'w) dynamic_api \<Rightarrow> 'd \<Rightarrow> Request \<Rightarrow> NormalizedItem list \<Rightarrow> 'w \<Rightarrow> import_reply \<times> 'w" where
  "register_items api dyn request normalized w =
     (case (if rgKind request = KindTable then preflightTables api dyn request w else (Inr (), w)) of
        (Inl e, w) \<Rightarrow> (writeImportOperationError e ''table registration preflight failed'', w)
      | (Inr _, w) \<Rightarrow>
          (case register_all api dyn request normalized w of
             (results, w) \<Rightarrow> (writeImportJSON 200 (ResultsBody results), w)))"

definition serveRegistration ::
  "import_parsers \<Rightarrow> ('d, 'w) dynamic_api \<Rightarrow> ('d, 'w) ImportHandler option \<Rightarrow> import_http \<Rightarrow> 'w \<Rightarrow>
   import_reply \<times> 'w" where
  "serveRegistration p api handler r w =
     (case importRequestIdentity (Some r) of
        Inl e \<Rightarrow> (writeImportError 401 ''Unauthorized'' (Error e), w)
      | Inr identity \<Rightarrow>
     (case registration_input p r of
        Inl reply \<Rightarrow> (reply, w)
      | Inr (request, normalized) \<Rightarrow>
     (case Option.bind handler ihFactory of
        None \<Rightarrow> (writeImportError 503 ''Unavailable'' ''registration is unavailable'', w)
      | Some factory \<Rightarrow>
     (case ifAuthorizeResource factory (idClusterID identity) (idToken identity) ''connections''
             (rgConnectionRef request) ''get'' w of
        (Inl e, w) \<Rightarrow> (writeImportOperationError e ''caller is not allowed to read this connection'', w)
      | (Inr _, w) \<Rightarrow>
     (case ifResolveConnection factory (idClusterID identity) (rgConnectionRef request) w of
        (Inl e, w) \<Rightarrow> (writeImportOperationError e ''Databricks connection is unavailable'', w)
      | (Inr _, w) \<Rightarrow>
     (case authorize_verbs factory identity (ResourceForKind (rgKind request)) [''get'', ''create''] w of
        (Inl e, w) \<Rightarrow> (writeImportOperationError e ''caller is not allowed to register this resource'', w)
      | (Inr _, w) \<Rightarrow>
     (case ifFor factory (idClusterID identity) (idToken identity) w of
        (Inl _, w) \<Rightarrow> (writeImportError 502 ''Unavailable'' ''tenant resource client is unavailable'', w)
      | (Inr dyn, w) \<Rightarrow> register_items api dyn request normalized w)))))))"

definition ServeHTTP ::
  "import_parsers \<Rightarrow> ('d, 'w) dynamic_api \<Rightarrow> ('d, 'w) ImportHandler option \<Rightarrow> import_http \<Rightarrow> 'w \<Rightarrow>
   import_reply \<times> 'w" where
  "ServeHTTP p api handler r w =
     (if hrMethod r = ''GET'' \<and> HasPrefix (hrPath r) ''/api/v1/discovery/'' then serveDiscovery handler r w
      else if hrPath r = ''/api/v1/registrations'' then
        (if hrMethod r \<noteq> ''POST''
         then (writeImportError 405 ''MethodNotAllowed'' ''method not allowed'', w)
         else serveRegistration p api handler r w)
      else (writeImportError 404 ''NotFound'' ''route not found'', w))"

subsection \<open>The client factory as import factory\<close>

text \<open>
  What the two methods of \<^verbatim>\<open>ClientFactory\<close> take from outside: the review environment of the action
  executor, the creation of a review (which may answer without one), the texts of the API errors,
  the constructor of dynamic clients, and the state \<open>idApi i\<close> of the API at the \<open>i\<close>th read with the
  provider's client.
\<close>

record ('d, 'a, 'k) import_deps =
  idReviews :: "'a review_env"
  idReview :: "'a \<Rightarrow> ResourceAttributes \<Rightarrow> access_review option go_result"
  idForbiddenText :: "string \<Rightarrow> string \<Rightarrow> string \<Rightarrow> string"
  idNotFoundText :: "string \<Rightarrow> string \<Rightarrow> string"
  idNewDynamic :: "rest_config \<Rightarrow> 'd go_result"
  idApi :: "nat \<Rightarrow> 'k"

definition resource_attributes :: "string \<Rightarrow> string \<Rightarrow> string \<Rightarrow> ResourceAttributes" where
  "resource_attributes resource name verb =
     \<lparr>raGroup = GroupName, raVersion = Version, raResource = resource, raSubresource = [],
      raName = name, raVerb = verb\<rparr>"

definition group_resource :: "string \<Rightarrow> string" where
  "group_resource resource = resource @ ''.'' @ GroupName"

definition AuthorizeResource ::
  "('d, 'a, 'k) import_deps \<Rightarrow> string \<Rightarrow> string \<Rightarrow> string \<Rightarrow> string \<Rightarrow> string \<Rightarrow>
   ('d, 'a, 'c, 's) ClientFactory option \<Rightarrow> unit go_result \<times> ('d, 'a, 'c, 's) ClientFactory option" where
  "AuthorizeResource deps clusterID token resource name verb factory =
     (if factory = None then (Inl (ErrorString ''tenant authorization unavailable''), factory)
      else
     (case AuthorizationFor (reNewForConfig (idReviews deps)) (reNow (idReviews deps)) clusterID token factory of
        (Inl e, factory) \<Rightarrow> (Inl e, factory)
      | (Inr authorizer, factory) \<Rightarrow>
     (case idReview deps authorizer (resource_attributes resource name verb) of
        Inl _ \<Rightarrow> (Inl (ErrorString ''tenant authorization request failed''), factory)
      | Inr review \<Rightarrow>
          (if (case review of None \<Rightarrow> True | Some v \<Rightarrow> \<not> rvAllowed v)
           then Inl (StatusError ReasonForbidden
                  (idForbiddenText deps (group_resource resource) name ''caller is not authorized''))
           else Inr (), factory))))"

definition FactoryResolveConnection ::
  "('d, 'a, 'k) import_deps \<Rightarrow> string \<Rightarrow> string \<Rightarrow> ('d, 'a, 'k kube_client, 's) ClientFactory option \<Rightarrow>
   's \<Rightarrow> ImportConnection go_result \<times> 's" where
  "FactoryResolveConnection deps clusterID name factory s =
     (if factory = None then (Inl (ErrorString ''provider authority client unavailable''), s)
      else
     (case AuthorityClient factory clusterID s of
        (Inl e, s) \<Rightarrow> (Inl e, s)
      | (Inr c, s) \<Rightarrow>
     (case ResolveConnection c (idApi deps 0) (TrimSpace name) of
        Inl _ \<Rightarrow> (Inl (StatusError ReasonNotFound (idNotFoundText deps (group_resource ''connections'') name)), s)
      | Inr connection \<Rightarrow>
     if csAuthType (cnSpec connection) \<noteq> ConnectionAuthPAT
     then (Inl (ImportError 400 ''UnsupportedAuthType'' ''connection authType is unsupported''), s)
     else
     (case ResolveBearerToken c (idApi deps 1) connection of
        Inl _ \<Rightarrow> (Inl (ErrorString ''connection credential is unavailable''), s)
      | Inr token \<Rightarrow>
          (Inr \<lparr>icHost = csHost (cnSpec connection), icAuthType = csAuthType (cnSpec connection),
                icToken = token\<rparr>, s)))))"

record ('d, 'a, 'k, 's, 'u) import_world =
  imwFactory :: "('d, 'a, 'k kube_client, 's) ClientFactory option"
  imwAuthority :: 's
  imwLog :: "http_request list"
  imwTenant :: 'u

definition factory_import ::
  "('d, 'a, 'k) import_deps \<Rightarrow> ('d, ('d, 'a, 'k, 's, 'u) import_world) ImportFactory" where
  "factory_import deps =
     \<lparr>ifResolveConnection = (\<lambda>cluster name w.
        case FactoryResolveConnection deps cluster name (imwFactory w) (imwAuthority w) of
          (r, s) \<Rightarrow> (r, w\<lparr>imwAuthority := s\<rparr>)),
      ifAuthorizeResource = (\<lambda>cluster token resource name verb w.
        case AuthorizeResource deps cluster token resource name verb (imwFactory w) of
          (r, f) \<Rightarrow> (r, w\<lparr>imwFactory := f\<rparr>)),
      ifFor = (\<lambda>cluster token w.
        case For (idNewDynamic deps) (reNow (idReviews deps)) cluster token (imwFactory w) of
          (r, f) \<Rightarrow> (r, w\<lparr>imwFactory := f\<rparr>))\<rparr>"

definition log_op ::
  "(http_request list \<Rightarrow> 'r \<times> http_request list) \<Rightarrow> ('d, 'a, 'k, 's, 'u) import_world \<Rightarrow>
   'r \<times> ('d, 'a, 'k, 's, 'u) import_world" where
  "log_op f w = (case f (imwLog w) of (r, log) \<Rightarrow> (r, w\<lparr>imwLog := log\<rparr>))"

definition import_remote :: "import_env \<Rightarrow> ('d, 'a, 'k, 's, 'u) import_world DiscoveryClient" where
  "import_remote env =
     \<lparr>dlWarehouses = (\<lambda>conn token. log_op (ListWarehouses env conn token)),
      dlCatalogs = (\<lambda>conn token. log_op (ListCatalogs env conn token)),
      dlSchemas = (\<lambda>conn catalog token. log_op (ListSchemas env conn catalog token)),
      dlTables = (\<lambda>conn catalog schema token. log_op (ListTables env conn catalog schema token))\<rparr>"

text \<open>The tenant's API acts on its own part of the world.\<close>

definition tenant_api ::
  "('d, 'u) dynamic_api \<Rightarrow> ('d, ('d, 'a, 'k, 's, 'u) import_world) dynamic_api" where
  "tenant_api api =
     \<lparr>dyGet = (\<lambda>d resource name w. dyGet api d resource name (imwTenant w)),
      dyCreate = (\<lambda>d resource obj w. case dyCreate api d resource obj (imwTenant w) of
        (r, u) \<Rightarrow> (r, w\<lparr>imwTenant := u\<rparr>)),
      dyOthers = (\<lambda>w. w\<lparr>imwTenant := dyOthers api (imwTenant w)\<rparr>),
      dyNestedMap = dyNestedMap api, dyNestedString = dyNestedString api\<rparr>"

subsection \<open>Error replies\<close>

lemma import_error_bodies [simp]:
  "is_ImportErrorBody (irBody (writeImportError status reason message))"
  "is_ImportErrorBody (irBody (writeImportOperationError e fallback))"
  by (auto simp: writeImportError_def writeImportJSON_def writeImportOperationError_def
      split: option.split go_error.split)

lemma registration_input_Inl: "registration_input p r = Inl reply \<Longrightarrow> is_ImportErrorBody (irBody reply)"
  by (auto simp: registration_input_def Let_def split: if_split_asm sum.split_asm prod.split_asm)

subsection \<open>What an import factory promises\<close>

locale import_factory =
  fixes factory :: "('d, 'w) ImportFactory"
    and inv :: "'w \<Rightarrow> bool" and rest :: "'w \<Rightarrow> 'q" and provider :: "'w \<Rightarrow> 'p"
    and allowed :: "string \<Rightarrow> string \<Rightarrow> string \<Rightarrow> string \<Rightarrow> string \<Rightarrow> bool"
    and resolved :: "string \<Rightarrow> string \<Rightarrow> ImportConnection \<Rightarrow> bool"
    and scoped :: "string \<Rightarrow> string \<Rightarrow> 'd \<Rightarrow> bool"
  assumes authorize_law: "inv w1 \<Longrightarrow> ifAuthorizeResource factory cl tok res name verb w1 = (r1, v1) \<Longrightarrow>
      inv v1 \<and> rest v1 = rest w1 \<and> provider v1 = provider w1 \<and> (\<forall>u. r1 = Inr u \<longrightarrow> allowed cl tok res name verb)"
    and resolve_law: "inv w2 \<Longrightarrow> ifResolveConnection factory cl name w2 = (r2, v2) \<Longrightarrow>
      inv v2 \<and> rest v2 = rest w2 \<and> (\<forall>conn. r2 = Inr conn \<longrightarrow> resolved cl name conn)"
    and for_law: "inv w3 \<Longrightarrow> ifFor factory cl tok w3 = (r3, v3) \<Longrightarrow>
      inv v3 \<and> rest v3 = rest w3 \<and> provider v3 = provider w3 \<and> (\<forall>d. r3 = Inr d \<longrightarrow> scoped cl tok d)"
begin

lemma verbs_law:
  "inv w \<Longrightarrow> authorize_verbs factory identity resource verbs w = (r, w') \<Longrightarrow>
     inv w' \<and> rest w' = rest w \<and> provider w' = provider w \<and>
     (\<forall>u. r = Inr u \<longrightarrow>
        list_all (\<lambda>verb. allowed (idClusterID identity) (idToken identity) resource [] verb) verbs)"
proof (induction verbs arbitrary: w)
  case (Cons verb verbs)
  obtain r1 v where a: "ifAuthorizeResource factory (idClusterID identity) (idToken identity) resource [] verb w = (r1, v)"
    by fastforce
  note A = authorize_law [OF Cons.prems(1) a]
  show ?case
  proof (cases r1)
    case (Inl e)
    with a Cons.prems A show ?thesis by auto
  next
    case (Inr x)
    with a Cons.prems A Cons.IH [of v] show ?thesis by auto
  qed
qed simp

text \<open>
  The discovery handler leaves the world alone, but for the factory's own state, until the caller
  is allowed to read the connection; what it lists, it lists with the resolved connection.
\<close>

lemma serveDiscovery_law:
  assumes "inv w" "serveDiscovery (Some \<lparr>ihFactory = Some factory, ihRemote = Some remote\<rparr>) r w = (reply, w')"
  shows "(rest w' = rest w \<and> provider w' = provider w \<and> is_ImportErrorBody (irBody reply)) \<or>
    (\<exists>identity query. importRequestIdentity (Some r) = Inr identity \<and>
       parseDiscoveryQuery (hrQuery r) (TrimPrefix (hrPath r) ''/api/v1/discovery/'') = Inr query \<and>
       allowed (idClusterID identity) (idToken identity) ''connections'' (dqConnectionRef query) ''get'' \<and>
       ((rest w' = rest w \<and> is_ImportErrorBody (irBody reply)) \<or>
        (\<exists>connection v. resolved (idClusterID identity) (dqConnectionRef query) connection \<and> rest v = rest w \<and>
           list_resource remote (TrimPrefix (hrPath r) ''/api/v1/discovery/'') query connection v = (reply, w'))))"
proof (cases "importRequestIdentity (Some r)")
  case (Inl e)
  with assms(2) show ?thesis by (auto simp: serveDiscovery_def import_error_bodies)
next
  case identity: (Inr identity)
  let ?res = "TrimPrefix (hrPath r) ''/api/v1/discovery/''"
  show ?thesis
  proof (cases "parseDiscoveryQuery (hrQuery r) ?res")
    case (Inl e)
    with assms(2) identity show ?thesis by (auto simp: serveDiscovery_def import_error_bodies)
  next
    case query: (Inr query)
    obtain r1 v1 where a: "ifAuthorizeResource factory (idClusterID identity) (idToken identity) ''connections''
        (dqConnectionRef query) ''get'' w = (r1, v1)" by fastforce
    note A = authorize_law [OF assms(1) a]
    obtain r2 v2 where s: "ifResolveConnection factory (idClusterID identity) (dqConnectionRef query) v1 = (r2, v2)"
      by fastforce
    note S = resolve_law [OF A [THEN conjunct1] s]
    from assms(2) identity query a s have d: "(reply, w') =
        (case r1 of Inl e \<Rightarrow> (writeImportOperationError e ''caller is not allowed to read this connection'', v1)
         | Inr _ \<Rightarrow> (case r2 of
             Inl e \<Rightarrow> (writeImportOperationError e ''Databricks connection is unavailable'', v2)
           | Inr connection \<Rightarrow> list_resource remote ?res query connection v2))"
      by (cases r1; cases r2) (simp_all add: serveDiscovery_def Let_def)
    show ?thesis
    proof (cases r1)
      case (Inl e)
      with d A show ?thesis by (simp add: import_error_bodies)
    next
      case (Inr u)
      with A have ok: "allowed (idClusterID identity) (idToken identity) ''connections'' (dqConnectionRef query) ''get''"
        by blast
      have "(rest w' = rest w \<and> is_ImportErrorBody (irBody reply)) \<or>
        (\<exists>connection v. resolved (idClusterID identity) (dqConnectionRef query) connection \<and> rest v = rest w \<and>
           list_resource remote ?res query connection v = (reply, w'))"
        using d Inr A S by (cases r2) (auto simp: import_error_bodies)
      with ok identity query show ?thesis by blast
    qed
  qed
qed

text \<open>
  The registration handler touches the tenant's resources only for a caller who may read the
  connection, when that connection resolves, and who may read and create the kind of resource;
  and only with a client for that caller.
\<close>

lemma serveRegistration_law:
  assumes "inv w" "serveRegistration p api (Some \<lparr>ihFactory = Some factory, ihRemote = remote\<rparr>) r w = (reply, w')"
  shows "(rest w' = rest w \<and> is_ImportErrorBody (irBody reply) \<and>
      (provider w' = provider w \<or> (\<exists>identity request normalized. importRequestIdentity (Some r) = Inr identity \<and>
         registration_input p r = Inr (request, normalized) \<and>
         allowed (idClusterID identity) (idToken identity) ''connections'' (rgConnectionRef request) ''get''))) \<or>
    (\<exists>identity request normalized connection dyn v. importRequestIdentity (Some r) = Inr identity \<and>
       registration_input p r = Inr (request, normalized) \<and>
       allowed (idClusterID identity) (idToken identity) ''connections'' (rgConnectionRef request) ''get'' \<and>
       resolved (idClusterID identity) (rgConnectionRef request) connection \<and>
       allowed (idClusterID identity) (idToken identity) (ResourceForKind (rgKind request)) [] ''get'' \<and>
       allowed (idClusterID identity) (idToken identity) (ResourceForKind (rgKind request)) [] ''create'' \<and>
       scoped (idClusterID identity) (idToken identity) dyn \<and> rest v = rest w \<and>
       register_items api dyn request normalized v = (reply, w'))"
proof (cases "importRequestIdentity (Some r)")
  case (Inl e)
  with assms(2) show ?thesis by (auto simp: serveRegistration_def import_error_bodies)
next
  case identity: (Inr identity)
  show ?thesis
  proof (cases "registration_input p r")
    case (Inl e)
    with assms(2) identity registration_input_Inl [OF Inl] show ?thesis by (auto simp: serveRegistration_def)
  next
    case (Inr input)
    then obtain request normalized where input: "registration_input p r = Inr (request, normalized)"
      by (cases input) auto
    obtain r1 v1 where a: "ifAuthorizeResource factory (idClusterID identity) (idToken identity) ''connections''
        (rgConnectionRef request) ''get'' w = (r1, v1)" by fastforce
    note A = authorize_law [OF assms(1) a]
    obtain r2 v2 where s: "ifResolveConnection factory (idClusterID identity) (rgConnectionRef request) v1 = (r2, v2)"
      by fastforce
    note S = resolve_law [OF A [THEN conjunct1] s]
    obtain r3 v3 where v: "authorize_verbs factory identity (ResourceForKind (rgKind request)) [''get'', ''create''] v2 = (r3, v3)"
      by fastforce
    note V = verbs_law [OF S [THEN conjunct1] v]
    obtain r4 v4 where f: "ifFor factory (idClusterID identity) (idToken identity) v3 = (r4, v4)" by fastforce
    note F = for_law [OF V [THEN conjunct1] f]
    from assms(2) identity input a s v f have d: "(reply, w') =
        (case r1 of Inl e \<Rightarrow> (writeImportOperationError e ''caller is not allowed to read this connection'', v1)
         | Inr _ \<Rightarrow> (case r2 of
             Inl e \<Rightarrow> (writeImportOperationError e ''Databricks connection is unavailable'', v2)
           | Inr _ \<Rightarrow> (case r3 of
             Inl e \<Rightarrow> (writeImportOperationError e ''caller is not allowed to register this resource'', v3)
           | Inr _ \<Rightarrow> (case r4 of
             Inl e \<Rightarrow> (writeImportError 502 ''Unavailable'' ''tenant resource client is unavailable'', v4)
           | Inr dyn \<Rightarrow> register_items api dyn request normalized v4))))"
      by (cases r1; cases r2; cases r3; cases r4) (simp_all add: serveRegistration_def del: authorize_verbs.simps)
    note facts = A S V F import_error_bodies
    consider (e1) e where "r1 = Inl e" | (e2) u e where "r1 = Inr u" "r2 = Inl e"
      | (e3) u c e where "r1 = Inr u" "r2 = Inr c" "r3 = Inl e"
      | (e4) u c t e where "r1 = Inr u" "r2 = Inr c" "r3 = Inr t" "r4 = Inl e"
      | (ok) u c t dyn where "r1 = Inr u" "r2 = Inr c" "r3 = Inr t" "r4 = Inr dyn"
      by (metis sum.exhaust)
    then show ?thesis
    proof cases
      case ok
      with d have "register_items api dyn request normalized v4 = (reply, w')" by simp
      with ok facts identity input show ?thesis
        by (intro disjI2 exI [of _ identity] exI [of _ request] exI [of _ normalized] exI [of _ c]
            exI [of _ dyn] exI [of _ v4]) simp
    qed (use d facts identity input in auto)
  qed
qed

end

subsection \<open>The client factory keeps the promise\<close>

definition granted_resource ::
  "('d, 'a, 'k) import_deps \<Rightarrow> string \<Rightarrow> string \<Rightarrow> string \<Rightarrow> string \<Rightarrow> string \<Rightarrow> string \<Rightarrow> bool" where
  "granted_resource deps baseHost clusterID token resource name verb \<longleftrightarrow>
     (\<exists>cl review token' tls. hashToken token' = hashToken token \<and> TrimSpace token' \<noteq> [] \<and>
        no_client_certificate tls \<and>
        reNewForConfig (idReviews deps) \<lparr>rcHost = baseHost @ ''/clusters/'' @ TrimSpace clusterID,
          rcBearerToken = token', rcTLS = tls\<rparr> = Inr cl \<and>
        idReview deps cl (resource_attributes resource name verb) = Inr (Some review) \<and> rvAllowed review)"

definition caller_client ::
  "('d, 'a, 'k) import_deps \<Rightarrow> string \<Rightarrow> string \<Rightarrow> string \<Rightarrow> 'd \<Rightarrow> bool" where
  "caller_client deps baseHost clusterID token dyn \<longleftrightarrow>
     (\<exists>token' tls. hashToken token' = hashToken token \<and> TrimSpace token' \<noteq> [] \<and> no_client_certificate tls \<and>
        idNewDynamic deps \<lparr>rcHost = baseHost @ ''/clusters/'' @ TrimSpace clusterID,
          rcBearerToken = token', rcTLS = tls\<rparr> = Inr dyn)"

definition resolved_connection ::
  "('d, 'a, 'k) import_deps \<Rightarrow> ('k kube_client, 's) ClusterAuthority option \<Rightarrow> string \<Rightarrow> string \<Rightarrow>
   ImportConnection \<Rightarrow> bool" where
  "resolved_connection deps authority clusterID name conn \<longleftrightarrow>
     (\<exists>ask s s' c k. authority = Some ask \<and> ask (TrimSpace clusterID) s = (Inr (Some c), s') \<and>
        ResolveConnection c (idApi deps 0) (TrimSpace name) = Inr k \<and> csAuthType (cnSpec k) = ''pat'' \<and>
        ResolveBearerToken c (idApi deps 1) k = Inr (icToken conn) \<and>
        icHost conn = csHost (cnSpec k) \<and> icAuthType conn = ''pat'')"

definition import_inv ::
  "('d, 'a, 'k) import_deps \<Rightarrow> string \<Rightarrow> ('k kube_client, 's) ClusterAuthority option \<Rightarrow>
   ('d, 'a, 'k, 's, 'u) import_world \<Rightarrow> bool" where
  "import_inv deps baseHost authority w \<longleftrightarrow>
     (\<exists>f. imwFactory w = Some f \<and> factory_ok (idNewDynamic deps) (reNewForConfig (idReviews deps)) f \<and>
        cfBaseHost f = baseHost \<and> cfAuthority f = authority)"

lemma scoped_config:
  assumes "factory_ok newD newA f" "scoped_client new f (client_key clusterID token) v"
  obtains token' tls where "hashToken token' = hashToken token" "TrimSpace token' \<noteq> []"
    "no_client_certificate tls"
    "new \<lparr>rcHost = cfBaseHost f @ ''/clusters/'' @ clusterID, rcBearerToken = token', rcTLS = tls\<rparr> = Inr v"
  using scoped_clientD [OF assms(2)] assms(1) unfolding tenant_config_def factory_ok_def by blast

lemma AuthorizeResource_law:
  assumes "factory_ok (idNewDynamic deps) (reNewForConfig (idReviews deps)) f"
    "AuthorizeResource deps clusterID token resource name verb (Some f) = (r, f')"
  shows "\<exists>g. f' = Some g \<and> factory_ok (idNewDynamic deps) (reNewForConfig (idReviews deps)) g \<and>
    cfBaseHost g = cfBaseHost f \<and> cfAuthority g = cfAuthority f \<and>
    (\<forall>u. r = Inr u \<longrightarrow> granted_resource deps (cfBaseHost f) clusterID token resource name verb)"
proof -
  let ?new = "reNewForConfig (idReviews deps)"
  obtain ra fa where a: "AuthorizationFor ?new (reNow (idReviews deps)) clusterID token (Some f) = (ra, fa)"
    by fastforce
  from AuthorizationFor_ok [OF assms(1) a] obtain g where
    g: "fa = Some g" "factory_ok (idNewDynamic deps) ?new g" "cfBaseHost g = cfBaseHost f"
    and s: "\<And>v. ra = Inr v \<Longrightarrow> scoped_client ?new f (client_key (TrimSpace clusterID) token) v" by blast
  have "f' = Some g"
    using assms(2) a g(1) by (auto simp: AuthorizeResource_def split: sum.split_asm)
  moreover have "granted_resource deps (cfBaseHost f) clusterID token resource name verb" if u: "r = Inr u" for u
  proof -
    obtain cl review where cl: "ra = Inr cl"
      "idReview deps cl (resource_attributes resource name verb) = Inr (Some review)" "rvAllowed review"
      using assms(2) a u by (auto simp: AuthorizeResource_def split: sum.split_asm option.split_asm if_split_asm)
    from scoped_config [OF assms(1) s [OF cl(1)]] cl(2,3) show ?thesis
      unfolding granted_resource_def by metis
  qed
  ultimately show ?thesis using g client_authority(1) [OF a [unfolded g(1)]] by blast
qed

lemma For_law:
  assumes "factory_ok (idNewDynamic deps) (reNewForConfig (idReviews deps)) f"
    "For (idNewDynamic deps) now clusterID token (Some f) = (r, f')"
  shows "\<exists>g. f' = Some g \<and> factory_ok (idNewDynamic deps) (reNewForConfig (idReviews deps)) g \<and>
    cfBaseHost g = cfBaseHost f \<and> cfAuthority g = cfAuthority f \<and>
    (\<forall>dyn. r = Inr dyn \<longrightarrow> caller_client deps (cfBaseHost f) clusterID token dyn)"
proof -
  from For_ok [OF assms] obtain g where
    g: "f' = Some g" "factory_ok (idNewDynamic deps) (reNewForConfig (idReviews deps)) g"
      "cfBaseHost g = cfBaseHost f"
    and s: "\<And>v. r = Inr v \<Longrightarrow> scoped_client (idNewDynamic deps) f (client_key (TrimSpace clusterID) token) v"
    by blast
  have "caller_client deps (cfBaseHost f) clusterID token dyn" if "r = Inr dyn" for dyn
    using scoped_config [OF assms(1) s [OF that]] unfolding caller_client_def by metis
  then show ?thesis using g client_authority(2) [OF assms(2) [unfolded g(1)]] by blast
qed

lemma FactoryResolveConnection_law:
  assumes "FactoryResolveConnection deps clusterID name (Some f) s = (Inr conn, s')"
  shows "resolved_connection deps (cfAuthority f) clusterID name conn"
  using assms
  by (auto simp: FactoryResolveConnection_def AuthorityClient_def resolved_connection_def Let_def
      ConnectionAuthPAT_def split: option.split_asm sum.split_asm prod.split_asm if_split_asm) blast+

interpretation importer: import_factory "factory_import deps" "import_inv deps baseHost authority"
  "\<lambda>w. (imwLog w, imwTenant w)" imwAuthority "granted_resource deps baseHost"
  "resolved_connection deps authority" "caller_client deps baseHost"
proof
  fix w v cl tok res name verb r
  assume w: "import_inv deps baseHost authority w"
    and a: "ifAuthorizeResource (factory_import deps) cl tok res name verb w = (r, v)"
  from w obtain f where f: "imwFactory w = Some f"
    "factory_ok (idNewDynamic deps) (reNewForConfig (idReviews deps)) f" "cfBaseHost f = baseHost"
    "cfAuthority f = authority" by (auto simp: import_inv_def)
  obtain f' where "AuthorizeResource deps cl tok res name verb (Some f) = (r, f')" "v = w\<lparr>imwFactory := f'\<rparr>"
    using a f(1) by (auto simp: factory_import_def split: prod.split_asm)
  with AuthorizeResource_law [OF f(2) this(1)] f(3,4)
  show "import_inv deps baseHost authority v \<and> (imwLog v, imwTenant v) = (imwLog w, imwTenant w) \<and>
      imwAuthority v = imwAuthority w \<and> (\<forall>u. r = Inr u \<longrightarrow> granted_resource deps baseHost cl tok res name verb)"
    by (auto simp: import_inv_def)
next
  fix w v cl name r
  assume w: "import_inv deps baseHost authority w"
    and a: "ifResolveConnection (factory_import deps) cl name w = (r, v)"
  from w obtain f where f: "imwFactory w = Some f" "cfAuthority f = authority" by (auto simp: import_inv_def)
  obtain s where s: "FactoryResolveConnection deps cl name (Some f) (imwAuthority w) = (r, s)"
    "v = w\<lparr>imwAuthority := s\<rparr>"
    using a f(1) by (auto simp: factory_import_def split: prod.split_asm)
  then show "import_inv deps baseHost authority v \<and> (imwLog v, imwTenant v) = (imwLog w, imwTenant w) \<and>
      (\<forall>conn. r = Inr conn \<longrightarrow> resolved_connection deps authority cl name conn)"
    using w f(2) FactoryResolveConnection_law [of deps cl name f] by (auto simp: import_inv_def)
next
  fix w v cl tok r
  assume w: "import_inv deps baseHost authority w" and a: "ifFor (factory_import deps) cl tok w = (r, v)"
  from w obtain f where f: "imwFactory w = Some f"
    "factory_ok (idNewDynamic deps) (reNewForConfig (idReviews deps)) f" "cfBaseHost f = baseHost"
    "cfAuthority f = authority" by (auto simp: import_inv_def)
  obtain f' where "For (idNewDynamic deps) (reNow (idReviews deps)) cl tok (Some f) = (r, f')"
    "v = w\<lparr>imwFactory := f'\<rparr>"
    using a f(1) by (auto simp: factory_import_def split: prod.split_asm)
  with For_law [OF f(2) this(1)] f(3,4)
  show "import_inv deps baseHost authority v \<and> (imwLog v, imwTenant v) = (imwLog w, imwTenant w) \<and>
      imwAuthority v = imwAuthority w \<and> (\<forall>d. r = Inr d \<longrightarrow> caller_client deps baseHost cl tok d)"
    by (auto simp: import_inv_def)
qed

subsection \<open>Discovery on behalf of a caller\<close>

definition discovery_of :: "string \<Rightarrow> discoveryQuery \<Rightarrow> discovery option" where
  "discovery_of resource query =
     (if resource = ''warehouses'' then Some (Warehouses (dqPageToken query))
      else if resource = ''catalogs'' then Some (Catalogs (dqPageToken query))
      else if resource = ''schemas'' then Some (Schemas (dqCatalog query) (dqPageToken query))
      else if resource = ''tables'' then Some (Tables (dqCatalog query) (dqSchema query) (dqPageToken query))
      else None)"

lemma discovered_reply_log_op:
  "discovered_reply page (log_op f w) =
     (case apfst (map_sum id page) (f (imwLog w)) of
        (Inl _, log) \<Rightarrow> (writeImportError 502 ''DiscoveryFailed'' ''Databricks discovery failed'', w\<lparr>imwLog := log\<rparr>)
      | (Inr d, log) \<Rightarrow> (writeImportJSON 200 (DiscoveredBody d), w\<lparr>imwLog := log\<rparr>))"
  by (cases "f (imwLog w)"; cases "fst (f (imwLog w))") (auto simp: discovered_reply_def log_op_def)

lemma list_resource_discover:
  "list_resource (import_remote env) resource query connection w =
     (case discovery_of resource query of
        None \<Rightarrow> (writeImportError 404 ''NotFound'' ''discovery resource not found'', w)
      | Some d \<Rightarrow>
          (case discover env connection d (imwLog w) of
             (Inl _, log) \<Rightarrow> (writeImportError 502 ''DiscoveryFailed'' ''Databricks discovery failed'', w\<lparr>imwLog := log\<rparr>)
           | (Inr page, log) \<Rightarrow> (writeImportJSON 200 (DiscoveredBody page), w\<lparr>imwLog := log\<rparr>)))"
  by (simp add: list_resource_def discovery_of_def import_remote_def discovered_reply_log_op discover_def)

definition discovery_listed ::
  "import_env \<Rightarrow> ImportConnection \<Rightarrow> http_request list \<Rightarrow> import_reply \<Rightarrow> http_request list \<Rightarrow> bool" where
  "discovery_listed env conn log reply log' \<longleftrightarrow>
     (log' = log \<and> is_ImportErrorBody (irBody reply)) \<or>
     (\<exists>rq origin target. log' = log @ [rq] \<and> allowlisted_origin (imBackend env) origin \<and>
        rqVerb rq = ''GET'' \<and> rqURL rq = origin @ target \<and> hd target = CHR ''/'' \<and>
        (''Authorization'', ''Bearer '' @ icToken conn) \<in> set (rqHeader rq) \<and>
        (is_DiscoveredBody (irBody reply) \<or> is_ImportErrorBody (irBody reply)))"

lemma list_resource_law:
  assumes "url_parser_ok (imBackend env)"
    "list_resource (import_remote env) resource query conn v = (reply, w')"
  shows "imwTenant w' = imwTenant v \<and> discovery_listed env conn (imwLog v) reply (imwLog w')"
proof (cases "discovery_of resource query")
  case None
  with assms(2) show ?thesis by (auto simp: list_resource_discover discovery_listed_def)
next
  case (Some d)
  obtain r log where d: "discover env conn d (imwLog v) = (r, log)" by fastforce
  from assms(2) Some d have w: "w' = v\<lparr>imwLog := log\<rparr>" and reply: "reply = (case r of
      Inl _ \<Rightarrow> writeImportError 502 ''DiscoveryFailed'' ''Databricks discovery failed''
    | Inr page \<Rightarrow> writeImportJSON 200 (DiscoveredBody page))"
    by (auto simp: list_resource_discover split: sum.split_asm)
  have body: "is_DiscoveredBody (irBody reply) \<or> is_ImportErrorBody (irBody reply)"
    by (cases r) (simp_all add: reply writeImportJSON_def)
  from discover_sent [OF assms(1) d] have "discovery_listed env conn (imwLog v) reply log"
  proof (cases rule: discovery_sent_cases)
    case none
    then show ?thesis by (cases r) (auto simp: discovery_listed_def reply)
  next
    case (one rq)
    from one(2) show ?thesis
    proof (rule metadata_requestE)
      fix origin
      assume o: "allowlisted_origin (imBackend env) origin" "rqURL rq = origin @ discovery_path d @ ''?'' @
          values_Encode (map (\<lambda>(k, v). (k, [v])) (discovery_params d))"
        "rqVerb rq = ''GET''" "(''Authorization'', ''Bearer '' @ icToken conn) \<in> set (rqHeader rq)"
      have h: "hd (discovery_path d @ ''?'' @ values_Encode (map (\<lambda>(k, v). (k, [v])) (discovery_params d))) = CHR ''/''"
        by (cases d) simp_all
      show ?thesis
        unfolding discovery_listed_def using o one(1) body h by blast
    qed
  qed
  then show ?thesis using w by simp
qed

abbreviation provider_import where
  "provider_import deps env \<equiv>
     NewImportHandler (Some (factory_import deps)) False (Some (import_remote env))"

lemma reachable_import_inv:
  assumes "factory_reachable parse (idNewDynamic deps) (reNewForConfig (idReviews deps)) f" "imwFactory w = Some f"
  shows "import_inv deps (cfBaseHost f) (cfAuthority f) w"
  using factory_reachable_ok [OF assms(1)] assms(2) by (simp add: import_inv_def)

text \<open>
  C18. Discovery acts for the caller alone: unless a review made with the caller's own token allows
  it to get the named Connection, the answer is an error, the provider authority is not consulted
  and no request is sent. With the grant at most one request is sent: a GET to an allowlisted
  workspace with the Secret token of the Connection of that name in the caller's cluster. The
  tenant's resources are never touched.
\<close>

theorem discovery_guarded:
  assumes "factory_reachable parse (idNewDynamic deps) (reNewForConfig (idReviews deps)) f" "imwFactory w = Some f"
    "url_parser_ok (imBackend env)" "hrMethod r = ''GET''" "HasPrefix (hrPath r) ''/api/v1/discovery/''"
    "ServeHTTP p (tenant_api api) (Some (provider_import deps env)) r w = (reply, w')"
  shows "imwTenant w' = imwTenant w \<and>
    ((imwLog w' = imwLog w \<and> imwAuthority w' = imwAuthority w \<and> is_ImportErrorBody (irBody reply)) \<or>
     (\<exists>identity query. importRequestIdentity (Some r) = Inr identity \<and>
        parseDiscoveryQuery (hrQuery r) (TrimPrefix (hrPath r) ''/api/v1/discovery/'') = Inr query \<and>
        granted_resource deps (cfBaseHost f) (idClusterID identity) (idToken identity)
          ''connections'' (dqConnectionRef query) ''get'' \<and>
        ((imwLog w' = imwLog w \<and> is_ImportErrorBody (irBody reply)) \<or>
         (\<exists>conn. resolved_connection deps (cfAuthority f) (idClusterID identity) (dqConnectionRef query) conn \<and>
            discovery_listed env conn (imwLog w) reply (imwLog w')))))"
proof -
  note inv = reachable_import_inv [OF assms(1,2)]
  have s: "serveDiscovery (Some \<lparr>ihFactory = Some (factory_import deps), ihRemote = Some (import_remote env)\<rparr>) r w =
      (reply, w')"
    using assms(4-6) by (simp add: ServeHTTP_def NewImportHandler_def)
  from importer.serveDiscovery_law [OF inv s] list_resource_law [OF assms(3)] show ?thesis
    by (elim disjE exE conjE) (fastforce+)
qed

subsection \<open>Registration on behalf of a caller\<close>

lemma tenant_api_frame:
  "imwLog (dyOthers (tenant_api api) w) = imwLog w" "imwAuthority (dyOthers (tenant_api api) w) = imwAuthority w"
  "imwFactory (dyOthers (tenant_api api) w) = imwFactory w"
  "dyCreate (tenant_api api) d res obj w = (r, w') \<Longrightarrow>
     imwLog w' = imwLog w \<and> imwAuthority w' = imwAuthority w \<and> imwFactory w' = imwFactory w"
  by (auto simp: tenant_api_def split: prod.split_asm)

lemma registerOne_frame:
  "registerOne (tenant_api api) dyn request item w = (result, w') \<Longrightarrow>
     imwLog w' = imwLog w \<and> imwAuthority w' = imwAuthority w \<and> imwFactory w' = imwFactory w"
  by (auto simp: registerOne_def Let_def tenant_api_frame dest: tenant_api_frame(4)
      split: sum.split_asm prod.split_asm if_split_asm)

lemma register_all_frame:
  "register_all (tenant_api api) dyn request items w = (results, w') \<Longrightarrow>
     imwLog w' = imwLog w \<and> imwAuthority w' = imwAuthority w \<and> imwFactory w' = imwFactory w"
proof (induction items arbitrary: w results)
  case (Cons item items)
  then show ?case by (auto split: prod.split_asm dest!: registerOne_frame Cons.IH)
qed simp

lemma register_items_frame:
  "register_items (tenant_api api) dyn request items w = (reply, w') \<Longrightarrow>
     imwLog w' = imwLog w \<and> imwAuthority w' = imwAuthority w \<and> imwFactory w' = imwFactory w"
  by (auto simp: register_items_def preflightTables_def Let_def tenant_api_frame dest!: register_all_frame
      split: sum.split_asm prod.split_asm if_split_asm)

text \<open>
  C17. Registration acts for the caller alone: the tenant's resources are only touched, and results
  only reported, after reviews made with the caller's own token allowed it to get the Connection
  and to get and create the kind of resource, and the Connection resolved in the caller's cluster;
  all reads and writes of the tenant's resources are those of \<open>register_items\<close> on the client built for
  that cluster with the caller's token. It never sends anything to Databricks, and the provider
  authority is not consulted without the first review.
\<close>

theorem registration_guarded:
  assumes "factory_reachable parse (idNewDynamic deps) (reNewForConfig (idReviews deps)) f" "imwFactory w = Some f"
    "hrPath r = ''/api/v1/registrations''"
    "ServeHTTP p (tenant_api api) (Some (provider_import deps env)) r w = (reply, w')"
  shows "imwLog w' = imwLog w \<and>
    (imwTenant w' = imwTenant w \<and> imwAuthority w' = imwAuthority w \<and> is_ImportErrorBody (irBody reply) \<or>
     (\<exists>identity request normalized. importRequestIdentity (Some r) = Inr identity \<and>
        registration_input p r = Inr (request, normalized) \<and>
        granted_resource deps (cfBaseHost f) (idClusterID identity) (idToken identity)
          ''connections'' (rgConnectionRef request) ''get'' \<and>
        (imwTenant w' = imwTenant w \<and> is_ImportErrorBody (irBody reply) \<or>
         (\<exists>conn dyn v. resolved_connection deps (cfAuthority f) (idClusterID identity) (rgConnectionRef request) conn \<and>
            granted_resource deps (cfBaseHost f) (idClusterID identity) (idToken identity)
              (ResourceForKind (rgKind request)) [] ''get'' \<and>
            granted_resource deps (cfBaseHost f) (idClusterID identity) (idToken identity)
              (ResourceForKind (rgKind request)) [] ''create'' \<and>
            caller_client deps (cfBaseHost f) (idClusterID identity) (idToken identity) dyn \<and>
            imwTenant v = imwTenant w \<and>
            register_items (tenant_api api) dyn request normalized v = (reply, w')))))"
proof (cases "hrMethod r = ''POST''")
  case False
  with assms(3,4) show ?thesis
    by (auto simp: ServeHTTP_def HasPrefix_def)
next
  case True
  note inv = reachable_import_inv [OF assms(1,2)]
  have s: "serveRegistration p (tenant_api api)
      (Some \<lparr>ihFactory = Some (factory_import deps), ihRemote = Some (import_remote env)\<rparr>) r w = (reply, w')"
    using True assms(3,4) by (simp add: ServeHTTP_def NewImportHandler_def)
  from importer.serveRegistration_law [OF inv s] show ?thesis
  proof (elim disjE exE conjE)
    fix identity request normalized conn dyn v
    assume v: "(imwLog v, imwTenant v) = (imwLog w, imwTenant w)"
      "register_items (tenant_api api) dyn request normalized v = (reply, w')"
    then have "imwLog w' = imwLog w" using register_items_frame by fastforce
    moreover have "imwTenant v = imwTenant w" using v(1) by simp
    ultimately have l: "imwLog w' = imwLog w" "imwTenant v = imwTenant w" by blast+
    show ?thesis if "importRequestIdentity (Some r) = Inr identity"
        "registration_input p r = Inr (request, normalized)"
        "granted_resource deps (cfBaseHost f) (idClusterID identity) (idToken identity) ''connections''
          (rgConnectionRef request) ''get''"
        "resolved_connection deps (cfAuthority f) (idClusterID identity) (rgConnectionRef request) conn"
        "granted_resource deps (cfBaseHost f) (idClusterID identity) (idToken identity)
          (ResourceForKind (rgKind request)) [] ''get''"
        "granted_resource deps (cfBaseHost f) (idClusterID identity) (idToken identity)
          (ResourceForKind (rgKind request)) [] ''create''"
        "caller_client deps (cfBaseHost f) (idClusterID identity) (idToken identity) dyn"
      using that l v(2) by blast
  qed auto
qed

end
