(* ===== verification/Registration.thy ===== *)
theory Registration
  imports Tenant_Import
begin

text \<open>
  What registration achieves at the tenant's API (\<^verbatim>\<open>registerOne\<close> of \<^verbatim>\<open>tenant/import.go\<close>): the promises of the
  API server as named hypotheses, the truth of the reported outcomes under concurrent writers, and
  the refinement of an abstract operation that ensures named specifications. The examples run the
  import endpoint on a small world.
\<close>

subsection \<open>What the tenant API promises\<close>

text \<open>
  \<open>contents w resource name\<close> is the object the API server holds. A successful get returns it and a
  NotFound means there is none; a successful create adds an object with the given specification
  under a free name; AlreadyExists means the name was taken and nothing was written; after any
  other error the object may or may not have been added. The accessor for the specification finds
  it where there is one.
\<close>

definition object_name :: "go_map \<Rightarrow> string" where
  "object_name obj =
     (case map_of obj ''metadata'' of
        Some (JObj m) \<Rightarrow> (case map_of m ''name'' of Some (JStr n) \<Rightarrow> n | _ \<Rightarrow> [])
      | _ \<Rightarrow> [])"

definition specOf :: "('d, 'w) dynamic_api \<Rightarrow> go_map \<Rightarrow> (string \<rightharpoonup> json) option" where
  "specOf api obj = (case dyNestedMap api obj of Inr (m, True) \<Rightarrow> Some (map_of m) | _ \<Rightarrow> None)"

type_synonym store_contents = "string \<Rightarrow> string \<Rightarrow> go_map option"

definition added :: "('d, 'w) dynamic_api \<Rightarrow> string \<Rightarrow> go_map \<Rightarrow> store_contents \<Rightarrow> store_contents \<Rightarrow> bool" where
  "added api resource obj before after \<longleftrightarrow>
     before resource (object_name obj) = None \<and>
     (\<exists>stored. specOf api stored = specOf api obj \<and>
        after = before(resource := (before resource)(object_name obj \<mapsto> stored)))"

definition store_ok :: "('d, 'w) dynamic_api \<Rightarrow> ('w \<Rightarrow> store_contents) \<Rightarrow> bool" where
  "store_ok api contents \<longleftrightarrow>
     (\<forall>d resource name w obj. dyGet api d resource name w = Inr obj \<longrightarrow> contents w resource name = Some obj) \<and>
     (\<forall>d resource name w e. dyGet api d resource name w = Inl e \<and> IsNotFound e \<longrightarrow> contents w resource name = None) \<and>
     (\<forall>d resource obj w u w'. dyCreate api d resource obj w = (Inr u, w') \<longrightarrow>
        added api resource obj (contents w) (contents w')) \<and>
     (\<forall>d resource obj w e w'. dyCreate api d resource obj w = (Inl e, w') \<longrightarrow>
        (if IsAlreadyExists e then contents w resource (object_name obj) \<noteq> None \<and> contents w' = contents w
         else contents w' = contents w \<or> added api resource obj (contents w) (contents w'))) \<and>
     (\<forall>obj m. map_of obj ''spec'' = Some (JObj m) \<longrightarrow> dyNestedMap api obj = Inr (m, True))"

lemma store_okD:
  assumes "store_ok api contents"
  shows "dyGet api d resource name w = Inr obj \<Longrightarrow> contents w resource name = Some obj"
    "dyGet api d resource name w = Inl e \<Longrightarrow> IsNotFound e \<Longrightarrow> contents w resource name = None"
    "dyCreate api d resource obj w = (Inr u, w') \<Longrightarrow> added api resource obj (contents w) (contents w')"
    "dyCreate api d resource obj w = (Inl e, w') \<Longrightarrow> IsAlreadyExists e \<Longrightarrow>
       contents w resource (object_name obj) \<noteq> None \<and> contents w' = contents w"
    "map_of obj ''spec'' = Some (JObj m) \<Longrightarrow> dyNestedMap api obj = Inr (m, True)"
proof -
  show "dyGet api d resource name w = Inl e \<Longrightarrow> IsNotFound e \<Longrightarrow> contents w resource name = None"
    using assms unfolding store_ok_def by meson
  show "dyCreate api d resource obj w = (Inl e, w') \<Longrightarrow> IsAlreadyExists e \<Longrightarrow>
       contents w resource (object_name obj) \<noteq> None \<and> contents w' = contents w"
    using assms unfolding store_ok_def by meson
qed (use assms in \<open>simp_all add: store_ok_def\<close>)

lemma objectForItem_simps [simp]:
  "object_name (objectForItem request item) = niName item"
  "map_of (objectForItem request item) ''spec'' = Some (JObj (niSpec item))"
  by (simp_all add: object_name_def objectForItem_def)

lemma same_map_iff: "same_map actual expected \<longleftrightarrow> map_of actual = map_of expected"
proof
  assume s: "same_map actual expected"
  show "map_of actual = map_of expected"
  proof
    fix k
    from s show "map_of actual k = map_of expected k"
      by (cases "k \<in> fst ` set expected")
        (auto simp: same_map_def list_all_iff map_of_eq_None_iff [THEN iffD2])
  qed
next
  assume e: "map_of actual = map_of expected"
  from arg_cong [OF this, of dom] have "set (map fst actual) = set (map fst expected)"
    by (simp add: dom_map_of_conv_image_fst)
  with e show "same_map actual expected" by (simp add: same_map_def list_all_iff)
qed

lemma SpecEqual_iff: "SpecEqual (dyNestedMap api) (Some obj) spec \<longleftrightarrow> specOf api obj = Some (map_of spec)"
  by (auto simp: SpecEqual_def specOf_def same_map_iff split: sum.split prod.split bool.split)

lemma specOf_objectForItem: "store_ok api contents \<Longrightarrow> specOf api (objectForItem request item) = Some (map_of (niSpec item))"
  using store_okD(5) [of api contents "objectForItem request item" "niSpec item"]
  by (simp add: specOf_def)

subsection \<open>Outcomes under concurrent writers\<close>

lemma registerOne_cases:
  assumes "registerOne api dyn request item w = (result, w')"
  obtains (created) u v where
      "dyCreate api dyn (resourceForRequest request) (objectForItem request item) v = (Inr u, w')"
      "result = \<lparr>rtIndex = niIndex item, rtName = niName item, rtState = ''created'', rtMessage = []\<rparr>"
  | (found) obj m where "dyGet api dyn (resourceForRequest request) (niName item) w' = Inr obj"
      "result = \<lparr>rtIndex = niIndex item, rtName = niName item,
         rtState = (if specOf api obj = Some (map_of (niSpec item)) then ''existing'' else ''conflict''),
         rtMessage = m\<rparr>"
  | (failed) m where
      "result = \<lparr>rtIndex = niIndex item, rtName = niName item, rtState = ''failed'', rtMessage = m\<rparr>"
proof -
  let ?res = "resourceForRequest request" and ?obj = "objectForItem request item"
  let ?found = "\<lambda>obj. \<lparr>rtIndex = niIndex item, rtName = niName item,
         rtState = (if specOf api obj = Some (map_of (niSpec item)) then ''existing'' else ''conflict''),
         rtMessage = (if specOf api obj = Some (map_of (niSpec item)) then []
           else ''a resource with this name has a different specification'')\<rparr>"
  obtain r v where c: "dyCreate api dyn ?res ?obj (dyOthers api (dyOthers api w)) = (r, v)" by fastforce
  show thesis
  proof (cases "dyGet api dyn ?res (niName item) (dyOthers api w)")
    case (Inr obj)
    with assms have "w' = dyOthers api w" "result = ?found obj"
      by (auto simp: registerOne_def Let_def SpecEqual_iff)
    with Inr found show thesis by blast
  next
    case (Inl e)
    show thesis
    proof (cases r)
      case (Inr u)
      with assms Inl c show thesis
        by (cases "IsNotFound e") (auto simp: registerOne_def Let_def intro: created failed)
    next
      case create: (Inl e2)
      show thesis
      proof (cases "dyGet api dyn ?res (niName item) (dyOthers api v)")
        case get: (Inr obj)
        with assms Inl c create have "w' = dyOthers api v \<and> result = ?found obj \<or>
            (\<exists>m. result = \<lparr>rtIndex = niIndex item, rtName = niName item, rtState = ''failed'', rtMessage = m\<rparr>)"
          by (auto simp: registerOne_def Let_def SpecEqual_iff split: if_split_asm)
        with get found failed show thesis by blast
      next
        case get: (Inl e3)
        with assms Inl c create show thesis
          by (auto simp: registerOne_def Let_def intro: failed split: if_split_asm)
      qed
    qed
  qed
qed

text \<open>
  C36. Whatever other clients do between its calls, a registration reports truthfully: created
  means the object was added, with the requested specification, under a name that was free at that
  moment; existing and conflict mean that at its end an object of that name exists whose
  specification is, or is not, the requested one; nothing else is reported but failed. The result
  carries the index and the name of its item.
\<close>

theorem registerOne_outcome:
  assumes "store_ok api contents" "registerOne api dyn request item w = (result, w')"
  shows "rtIndex result = niIndex item \<and> rtName result = niName item \<and>
    (rtState result = ''created'' \<and>
       (\<exists>before stored. contents before (resourceForRequest request) (niName item) = None \<and>
          specOf api stored = Some (map_of (niSpec item)) \<and>
          contents w' = (contents before)(resourceForRequest request :=
            (contents before (resourceForRequest request))(niName item \<mapsto> stored))) \<or>
     rtState result = ''existing'' \<and>
       (\<exists>obj. contents w' (resourceForRequest request) (niName item) = Some obj \<and>
          specOf api obj = Some (map_of (niSpec item))) \<or>
     rtState result = ''conflict'' \<and>
       (\<exists>obj. contents w' (resourceForRequest request) (niName item) = Some obj \<and>
          specOf api obj \<noteq> Some (map_of (niSpec item))) \<or>
     rtState result = ''failed'')"
proof -
  note S = store_okD [OF assms(1)]
  from assms(2) show ?thesis
  proof (cases rule: registerOne_cases)
    case (created u v)
    from S(3) [OF created(1)] specOf_objectForItem [OF assms(1)] obtain stored where
      "contents v (resourceForRequest request) (niName item) = None"
      "specOf api stored = Some (map_of (niSpec item))"
      "contents w' = (contents v)(resourceForRequest request :=
         (contents v (resourceForRequest request))(niName item \<mapsto> stored))"
      by (auto simp: added_def)
    with created(2) show ?thesis by auto
  next
    case (found obj m)
    with S(1) [OF found(1)] show ?thesis by auto
  next
    case (failed m)
    then show ?thesis by simp
  qed
qed

subsection \<open>Registration refines ensuring\<close>

text \<open>
  The abstract operation: a partial map from names to specifications (None for an object whose
  specification cannot be read), to which a missing entry is added and nothing else is changed.
\<close>

type_synonym spec_store = "string \<rightharpoonup> (string \<rightharpoonup> json) option"

definition ensure :: "string \<times> (string \<rightharpoonup> json) \<Rightarrow> spec_store \<Rightarrow> string \<times> spec_store" where
  "ensure = (\<lambda>(name, want) st.
     (case st name of
        None \<Rightarrow> (''created'', st(name \<mapsto> Some want))
      | Some have \<Rightarrow> (if have = Some want then ''existing'' else ''conflict'', st)))"

fun ensure_all :: "(string \<times> (string \<rightharpoonup> json)) list \<Rightarrow> spec_store \<Rightarrow> string list \<times> spec_store" where
  "ensure_all [] st = ([], st)"
| "ensure_all (x # xs) st =
     (case ensure x st of (s, st) \<Rightarrow> (case ensure_all xs st of (ss, st) \<Rightarrow> (s # ss, st)))"

text \<open>
  An API without other writers and without failures but the two the handler reacts to.
\<close>

definition store_reliable :: "('d, 'w) dynamic_api \<Rightarrow> 'd \<Rightarrow> ('w \<Rightarrow> store_contents) \<Rightarrow> bool" where
  "store_reliable api dyn contents \<longleftrightarrow>
     store_ok api contents \<and> (\<forall>w. contents (dyOthers api w) = contents w) \<and>
     (\<forall>resource name w e. dyGet api dyn resource name w = Inl e \<longrightarrow> IsNotFound e) \<and>
     (\<forall>resource obj w e w'. dyCreate api dyn resource obj w = (Inl e, w') \<longrightarrow> IsAlreadyExists e)"

definition abs_store :: "('d, 'w) dynamic_api \<Rightarrow> ('w \<Rightarrow> store_contents) \<Rightarrow> string \<Rightarrow> 'w \<Rightarrow> spec_store" where
  "abs_store api contents resource w = (\<lambda>name. map_option (specOf api) (contents w resource name))"

abbreviation wanted :: "NormalizedItem \<Rightarrow> string \<times> (string \<rightharpoonup> json)" where
  "wanted item \<equiv> (niName item, map_of (niSpec item))"

lemma registerOne_refines:
  assumes "store_reliable api dyn contents" "registerOne api dyn request item w = (result, w')"
  shows "ensure (wanted item) (abs_store api contents (resourceForRequest request) w) =
      (rtState result, abs_store api contents (resourceForRequest request) w') \<and>
    rtName result = niName item \<and>
    (\<forall>other. other \<noteq> resourceForRequest request \<longrightarrow> contents w' other = contents w other)"
proof -
  let ?res = "resourceForRequest request" and ?obj = "objectForItem request item"
  have ok: "store_ok api contents" and others: "\<And>w. contents (dyOthers api w) = contents w"
    and get: "\<And>n w e. dyGet api dyn ?res n w = Inl e \<Longrightarrow> IsNotFound e"
    and create: "\<And>obj w e w'. dyCreate api dyn ?res obj w = (Inl e, w') \<Longrightarrow> IsAlreadyExists e"
    using assms(1) unfolding store_reliable_def by meson+
  note S = store_okD [OF ok]
  show ?thesis
  proof (cases "dyGet api dyn ?res (niName item) (dyOthers api w)")
    case (Inr obj)
    have "contents w ?res (niName item) = Some obj" using S(1) [OF Inr] others by simp
    with assms(2) Inr others show ?thesis
      by (auto simp: registerOne_def Let_def ensure_def abs_store_def SpecEqual_iff)
  next
    case (Inl e)
    have none: "contents w ?res (niName item) = None" using S(2) [OF Inl get [OF Inl]] others by simp
    obtain r v where c: "dyCreate api dyn ?res ?obj (dyOthers api (dyOthers api w)) = (r, v)" by fastforce
    obtain u where r: "r = Inr u"
    proof (cases r)
      case (Inl e')
      with S(4) [OF c [unfolded Inl] create [OF c [unfolded Inl]]] none others show thesis by simp
    qed
    with assms(2) Inl get [OF Inl] c have "w' = v" "rtState result = ''created''" "rtName result = niName item"
      by (auto simp: registerOne_def Let_def)
    moreover from S(3) [OF c [unfolded r]] others specOf_objectForItem [OF ok] obtain stored where
      "specOf api stored = Some (map_of (niSpec item))"
      "contents v = (contents w)(?res := (contents w ?res)(niName item \<mapsto> stored))"
      by (auto simp: added_def)
    ultimately show ?thesis using none by (auto simp: ensure_def abs_store_def)
  qed
qed

lemma register_all_refines:
  assumes "store_reliable api dyn contents" "register_all api dyn request items w = (results, w')"
  shows "ensure_all (map wanted items) (abs_store api contents (resourceForRequest request) w) =
      (map rtState results, abs_store api contents (resourceForRequest request) w') \<and>
    map rtName results = map niName items \<and>
    (\<forall>other. other \<noteq> resourceForRequest request \<longrightarrow> contents w' other = contents w other)"
  using assms(2)
proof (induction items arbitrary: w results)
  case (Cons item items)
  obtain result v where 1: "registerOne api dyn request item w = (result, v)" by fastforce
  obtain rest where 2: "register_all api dyn request items v = (rest, w')" "results = result # rest"
    using Cons.prems 1 by (auto split: prod.split_asm)
  from registerOne_refines [OF assms(1) 1] Cons.IH [OF 2(1)] 2(2) show ?case by simp
qed simp

lemma ensure_known: "st name \<noteq> None \<Longrightarrow> snd (ensure (name, want) st) = st"
  by (auto simp: ensure_def)

lemma ensure_all_other: "ensure_all xs st = (ss, st') \<Longrightarrow> name \<notin> fst ` set xs \<Longrightarrow> st' name = st name"
proof (induction xs arbitrary: st ss)
  case (Cons x xs)
  then show ?case
    by (cases x) (fastforce simp: ensure_def split: prod.split_asm option.split_asm if_split_asm)
qed simp

lemma ensure_again:
  assumes "ensure x st = (s, st1)" "st2 (fst x) = st1 (fst x)"
  shows "ensure x st2 = (if s = ''created'' then ''existing'' else s, st2)"
  using assms by (cases x) (auto simp: ensure_def split: option.split_asm if_split_asm)

lemma ensure_all_again:
  assumes "ensure_all xs st = (ss, st')" "distinct (map fst xs)"
  shows "ensure_all xs st' = (map (\<lambda>s. if s = ''created'' then ''existing'' else s) ss, st')"
  using assms
proof (induction xs arbitrary: st ss)
  case (Cons x xs)
  obtain s st1 where e: "ensure x st = (s, st1)" by fastforce
  obtain ss1 where r: "ensure_all xs st1 = (ss1, st')" "ss = s # ss1"
    using Cons.prems(1) e by (auto split: prod.split_asm)
  have "st' (fst x) = st1 (fst x)" using ensure_all_other [OF r(1)] Cons.prems(2) by auto
  from ensure_again [OF e, of st', OF this] Cons.IH [OF r(1)] Cons.prems(2) r(2) show ?case by simp
qed simp

lemma normalize_items_names:
  "normalize_items dns request seen is = Inr items \<Longrightarrow>
     distinct (map niName items) \<and> set (map niName items) \<inter> set seen = {}"
proof (induction "is" arbitrary: seen items)
  case (Cons i "is")
  from Cons.prems obtain item rest where
    n: "niName item \<notin> set seen" "normalize_items dns request (niName item # seen) is = Inr rest"
    and i: "items = item # rest"
    by (auto split: sum.split_asm if_split_asm)
  from Cons.IH [OF n(2)] n(1) i show ?case by auto
qed simp

lemma registration_input_names:
  "registration_input p r = Inr (request, items) \<Longrightarrow> distinct (map niName items)"
  by (auto simp: registration_input_def Let_def dest!: normalize_items_names
      split: if_split_asm sum.split_asm prod.split_asm)

text \<open>
  C5. Registering the items of an accepted request refines ensuring them: on an API without other
  writers, every item in order is created when its name is free, and otherwise only compared;
  objects of other names and of the other resource stay as they were. Registering the same request
  again changes nothing and reports every created item as existing.
\<close>

theorem registration_refines:
  assumes "store_reliable api dyn contents" "registration_input p r = Inr (request, items)"
    "register_all api dyn request items w = (results, w')" "register_all api dyn request items w' = (again, w'')"
  shows "ensure_all (map wanted items) (abs_store api contents (resourceForRequest request) w) =
      (map rtState results, abs_store api contents (resourceForRequest request) w') \<and>
    map rtName results = map niName items \<and>
    (\<forall>other. other \<noteq> resourceForRequest request \<longrightarrow> contents w' other = contents w other) \<and>
    map rtState again = map (\<lambda>s. if s = ''created'' then ''existing'' else s) (map rtState results) \<and>
    abs_store api contents (resourceForRequest request) w'' = abs_store api contents (resourceForRequest request) w'"
proof -
  note 1 = register_all_refines [OF assms(1,3)] and 2 = register_all_refines [OF assms(1,4)]
  have "distinct (map fst (map wanted items))"
    using registration_input_names [OF assms(2)] by (simp add: comp_def)
  from ensure_all_again [OF 1 [THEN conjunct1] this] 1 2 show ?thesis by simp
qed

subsection \<open>Example\<close>

definition sample_deps :: "(unit, rest_config, unit) import_deps" where
  "sample_deps =
     \<lparr>idReviews = sample_reviews True, idReview = (\<lambda>_ _. Inr (Some \<lparr>rvAllowed = True, rvReason = []\<rparr>)),
      idForbiddenText = (\<lambda>_ _ _. ''forbidden''), idNotFoundText = (\<lambda>_ _. ''not found''),
      idNewDynamic = (\<lambda>_. Inr ()), idApi = (\<lambda>_. ())\<rparr>"

text \<open>An API server that holds its objects in a map, without other clients.\<close>

definition sample_api :: "(unit, store_contents) dynamic_api" where
  "sample_api =
     \<lparr>dyGet = (\<lambda>_ resource name s. case s resource name of
        Some obj \<Rightarrow> Inr obj | None \<Rightarrow> Inl (StatusError ReasonNotFound ''not found'')),
      dyCreate = (\<lambda>_ resource obj s. case s resource (object_name obj) of
        Some _ \<Rightarrow> (Inl (StatusError ReasonAlreadyExists ''exists''), s)
      | None \<Rightarrow> (Inr (), s(resource := (s resource)(object_name obj \<mapsto> obj)))),
      dyOthers = (\<lambda>s. s),
      dyNestedMap = (\<lambda>obj. case map_of obj ''spec'' of Some (JObj m) \<Rightarrow> Inr (m, True) | _ \<Rightarrow> Inr ([], False)),
      dyNestedString = (\<lambda>_ _. Inr ([], False))\<rparr>"

lemma sample_api_reliable: "store_reliable sample_api () (\<lambda>s. s)"
  by (auto simp: store_reliable_def store_ok_def sample_api_def added_def api_reason_defs
      split: option.split_asm)

definition sample_import_world ::
  "(unit, rest_config, unit, nat, store_contents) import_world" where
  "sample_import_world =
     \<lparr>imwFactory = Some sample_factory, imwAuthority = 0, imwLog = [], imwTenant = (\<lambda>_ _. None)\<rparr>"

definition sample_registration :: Request where
  "sample_registration =
     \<lparr>rgKind = ''warehouse'', rgConnectionRef = ''demo'', rgWarehouseRef = [],
      rgItems = [\<lparr>riName = ''main'', riWarehouseID = ''abc123'', riCatalog = [], riSchema = [], riTable = []\<rparr>]\<rparr>"

definition sample_parsers :: import_parsers where
  "sample_parsers =
     \<lparr>ipDns = no_problem, ipMediaType = (\<lambda>_. Inr ''application/json''),
      ipDecode = (\<lambda>_. Inr (sample_registration, True))\<rparr>"

definition sample_http :: "string \<Rightarrow> string \<Rightarrow> url_values \<Rightarrow> import_http" where
  "sample_http method path query =
     \<lparr>hrMethod = method, hrPath = path, hrCluster = ''c1'', hrTenant = ''t1'', hrAuthorization = ''Bearer tok'',
      hrContentType = ''application/json'', hrQuery = query, hrBody = ''{}'', hrReadError = None\<rparr>"

definition sample_item :: NormalizedItem where
  "sample_item = \<lparr>niIndex = 0, niName = ''main'',
     niSpec = [(''connectionRef'', JStr ''demo''), (''warehouseID'', JStr ''abc123'')]\<rparr>"

lemma sample_trims:
  "TrimSpace ''c1'' = ''c1''" "TrimSpace ''t1'' = ''t1''" "TrimSpace ''demo'' = ''demo''" "TrimSpace ''main'' = ''main''"
  "TrimSpace ''abc123'' = ''abc123''" "TrimSpace ''warehouse'' = ''warehouse''" "TrimSpace ''sales'' = ''sales''"
  "TrimSpace ''gold'' = ''gold''"
  by (simp_all add: TrimSpace_graphic graphic_def)

lemma sample_identity:
  "importRequestIdentity (Some (sample_http m path q)) =
     Inr \<lparr>idClusterID = ''c1'', idTenant = ''t1'', idToken = ''tok''\<rparr>"
  by (simp add: importRequestIdentity_def sample_http_def sample_trims ContainsAny_def backslash_def)

lemma sample_input_ok:
  "registration_input sample_parsers (sample_http m path q) = Inr (sample_registration, [sample_item])"
proof -
  have "ToLower ''warehouse'' = ''warehouse''" by (simp add: ToLower_def ascii_lower_def)
  then show ?thesis
    by (simp add: registration_input_def sample_parsers_def sample_http_def MaxRequestBytes_def ensureJSONEOF_def
        sample_registration_def NormalizedKind_def sample_trims Validate_def KindWarehouse_def KindTable_def no_problem_def
        MaxItems_def Normalize_def warehouse_spec_def MaxFieldBytes_def ContainsAny_def line_breakers_def
        sample_item_def Let_def)
qed

theorem registerOne_outcome_witness:
  "\<exists>result w'. registerOne sample_api () sample_registration sample_item (\<lambda>_ _. None) = (result, w') \<and>
     rtState result = ''created'' \<and> rtName result = ''main''"
proof -
  obtain result w' where r: "registerOne sample_api () sample_registration sample_item (\<lambda>_ _. None) = (result, w')"
    by fastforce
  then have "rtState result = ''created''"
    by (auto simp: registerOne_def sample_api_def api_reason_defs Let_def)
  moreover from registerOne_outcome [OF _ r, of "\<lambda>s. s"] sample_api_reliable have "rtName result = ''main''"
    by (simp add: store_reliable_def sample_item_def)
  ultimately show ?thesis using r by blast
qed

theorem registration_refines_witness:
  "\<exists>results again w' w''.
     register_all sample_api () sample_registration [sample_item] (\<lambda>_ _. None) = (results, w') \<and>
     register_all sample_api () sample_registration [sample_item] w' = (again, w'') \<and>
     map rtState results = [''created''] \<and> map rtState again = [''existing'']"
proof -
  obtain results w' where 1: "register_all sample_api () sample_registration [sample_item] (\<lambda>_ _. None) = (results, w')"
    by fastforce
  obtain again w'' where 2: "register_all sample_api () sample_registration [sample_item] w' = (again, w'')" by fastforce
  from registration_refines [OF sample_api_reliable sample_input_ok 1 2] 1 2 show ?thesis
    by (simp add: ensure_def abs_store_def) auto
qed

lemma sample_calls:
  "\<exists>f1 f2 f3 f4 a1 a2 a3.
     AuthorizationFor (\<lambda>cfg. Inr cfg) 5 ''c1'' ''tok'' (Some sample_factory) = (Inr a1, Some f1) \<and>
     AuthorizationFor (\<lambda>cfg. Inr cfg) 5 ''c1'' ''tok'' (Some f1) = (Inr a2, Some f2) \<and>
     AuthorizationFor (\<lambda>cfg. Inr cfg) 5 ''c1'' ''tok'' (Some f2) = (Inr a3, Some f3) \<and>
     For (\<lambda>_. Inr ()) 5 ''c1'' ''tok'' (Some f3) = (Inr (), Some f4) \<and>
     cfAuthority f1 = cfAuthority sample_factory"
  by (simp add: AuthorizationFor_def For_def Let_def configFor_def sample_factory_def newClientFactory_def
      authFromCache_def fromCache_def storeAuth_def storeClient_def empty_cache_def touch_client_def
      evictLocked.simps cacheCapacityValue_def defaultClientCacheCapacity_def cacheTTLValue_def
      defaultClientCacheTTL_def meta_record_def created_by_def dynamicFromCache_def storeDynamic_def)

lemma sample_resolved:
  assumes "cfAuthority f = cfAuthority sample_factory"
  shows "FactoryResolveConnection sample_deps ''c1'' ''demo'' (Some f) n = (Inr example_import_connection, Suc n)"
proof -
  have "ResolveConnection sample_client () ''demo'' = Inr sample_connection"
    "ResolveBearerToken sample_client () sample_connection = Inr ''dapi1''"
    by (simp_all add: ResolveConnection_def ResolveBearerToken_def resolve_named_def sample_client_def
        sample_connection_def shared_consts demo_client_def Let_def sample_trims)
  with assms show ?thesis
    by (simp add: FactoryResolveConnection_def AuthorityClient_def sample_factory_def sample_deps_def sample_trims
        Let_def example_import_connection_def)
      (simp add: sample_connection_def ConnectionAuthPAT_def)
qed

lemma sample_authorized:
  assumes "AuthorizationFor (\<lambda>cfg. Inr cfg) 5 ''c1'' ''tok'' (Some f) = (Inr a, Some g)"
  shows "AuthorizeResource sample_deps ''c1'' ''tok'' res name verb (Some f) = (Inr (), Some g)"
  using assms by (simp add: AuthorizeResource_def sample_deps_def sample_reviews_def)

abbreviation sample_handler where
  "sample_handler \<equiv> provider_import sample_deps example_import_env"

lemma sample_discovery_query:
  "parseDiscoveryQuery [(''connectionRef'', [''demo'']), (''catalog'', [''sales'']), (''schema'', [''gold''])] ''tables'' =
     Inr \<lparr>dqConnectionRef = ''demo'', dqCatalog = ''sales'', dqSchema = ''gold'', dqPageToken = []\<rparr>"
  by (simp add: parseDiscoveryQuery_def allowed_parameters_def values_Get_def sample_trims maxQueryValue_def Let_def)

abbreviation sample_discovery where
  "sample_discovery \<equiv> sample_http ''GET'' ''/api/v1/discovery/tables''
     [(''connectionRef'', [''demo'']), (''catalog'', [''sales'']), (''schema'', [''gold''])]"

lemma sample_discovery_run:
  "\<exists>page rq w'. ServeHTTP sample_parsers (tenant_api sample_api) (Some sample_handler) sample_discovery
      sample_import_world = (writeImportJSON 200 (DiscoveredBody page), w') \<and> imwLog w' = [rq]"
proof -
  obtain f1 a1 where a: "AuthorizationFor (\<lambda>cfg. Inr cfg) 5 ''c1'' ''tok'' (Some sample_factory) = (Inr a1, Some f1)"
    "cfAuthority f1 = cfAuthority sample_factory"
    using sample_calls by blast
  obtain page rq where l: "ListTables example_import_env example_import_connection ''sales'' ''gold'' [] [] = (Inr page, [rq])"
    using example_ListTables by blast
  have p: "hrPath sample_discovery = ''/api/v1/discovery/tables''" "hrMethod sample_discovery = ''GET''"
    "hrQuery sample_discovery = [(''connectionRef'', [''demo'']), (''catalog'', [''sales'']), (''schema'', [''gold''])]"
    by (simp_all add: sample_http_def)
  have t: "TrimPrefix ''/api/v1/discovery/tables'' ''/api/v1/discovery/'' = ''tables''"
    "HasPrefix ''/api/v1/discovery/tables'' ''/api/v1/discovery/''"
    by (simp_all add: TrimPrefix_def HasPrefix_def)
  show ?thesis
    by (simp add: ServeHTTP_def p t serveDiscovery_def sample_identity sample_discovery_query NewImportHandler_def)
      (simp add: factory_import_def sample_import_world_def sample_authorized [OF a(1)] sample_resolved [OF a(2)]
        list_resource_def import_remote_def log_op_def l discovered_reply_def, blast)
qed

theorem discovery_guarded_witness:
  "\<exists>reply w' rq. ServeHTTP sample_parsers (tenant_api sample_api) (Some sample_handler) sample_discovery
      sample_import_world = (reply, w') \<and> imwLog w' = [rq] \<and> rqVerb rq = ''GET'' \<and>
     granted_resource sample_deps (cfBaseHost sample_factory) ''c1'' ''tok'' ''connections'' ''demo'' ''get''"
proof -
  obtain page rq w' where run: "ServeHTTP sample_parsers (tenant_api sample_api) (Some sample_handler) sample_discovery
      sample_import_world = (writeImportJSON 200 (DiscoveredBody page), w')" "imwLog w' = [rq]"
    using sample_discovery_run by blast
  have f: "factory_reachable no_parse (idNewDynamic sample_deps) (reNewForConfig (idReviews sample_deps)) sample_factory"
    using sample_factory_reachable [of True] by (simp add: sample_deps_def)
  have w: "imwFactory sample_import_world = Some sample_factory" "imwLog sample_import_world = []"
    by (simp_all add: sample_import_world_def)
  have t: "TrimPrefix ''/api/v1/discovery/tables'' ''/api/v1/discovery/'' = ''tables''"
    "HasPrefix ''/api/v1/discovery/tables'' ''/api/v1/discovery/''"
    by (simp_all add: TrimPrefix_def HasPrefix_def)
  have p: "hrPath sample_discovery = ''/api/v1/discovery/tables''" "hrMethod sample_discovery = ''GET''"
    "hrQuery sample_discovery = [(''connectionRef'', [''demo'']), (''catalog'', [''sales'']), (''schema'', [''gold''])]"
    by (simp_all add: sample_http_def)
  from discovery_guarded [OF f w(1) example_import_parser p(2) _ run(1)] run w
  show ?thesis
    by (auto simp: p t sample_identity sample_discovery_query discovery_listed_def)
qed

abbreviation sample_post where
  "sample_post \<equiv> sample_http ''POST'' ''/api/v1/registrations'' []"

lemma sample_registration_fields:
  "ResourceForKind ''warehouse'' = ''warehouses''" "rgKind sample_registration = ''warehouse''"
  "rgConnectionRef sample_registration = ''demo''"
  "hrPath sample_post = ''/api/v1/registrations''" "hrMethod sample_post = ''POST''"
  by (simp_all add: ResourceForKind_def KindTable_def EqualFold_def sample_trims ascii_lower_def
      sample_registration_def sample_http_def)

lemma sample_registration_run:
  "\<exists>results w'. ServeHTTP sample_parsers (tenant_api sample_api) (Some sample_handler) sample_post
      sample_import_world = (writeImportJSON 200 (ResultsBody results), w') \<and> map rtState results = [''created'']"
proof -
  obtain f1 f2 f3 f4 a1 a2 a3 where a:
    "AuthorizationFor (\<lambda>cfg. Inr cfg) 5 ''c1'' ''tok'' (Some sample_factory) = (Inr a1, Some f1)"
    "AuthorizationFor (\<lambda>cfg. Inr cfg) 5 ''c1'' ''tok'' (Some f1) = (Inr a2, Some f2)"
    "AuthorizationFor (\<lambda>cfg. Inr cfg) 5 ''c1'' ''tok'' (Some f2) = (Inr a3, Some f3)"
    "For (\<lambda>_. Inr ()) 5 ''c1'' ''tok'' (Some f3) = (Inr (), Some f4)"
    "cfAuthority f1 = cfAuthority sample_factory"
    using sample_calls by blast
  note s = sample_authorized [OF a(1)] sample_authorized [OF a(2)] sample_authorized [OF a(3)]
  have d: "idNewDynamic sample_deps = (\<lambda>_. Inr ())" "reNow (idReviews sample_deps) = 5"
    by (simp_all add: sample_deps_def sample_reviews_def)
  let ?results = "[\<lparr>rtIndex = niIndex sample_item, rtName = niName sample_item, rtState = ''created'', rtMessage = []\<rparr>]"
  have "\<exists>w'. ServeHTTP sample_parsers (tenant_api sample_api) (Some sample_handler) sample_post
      sample_import_world = (writeImportJSON 200 (ResultsBody ?results), w')"
    by (simp add: ServeHTTP_def sample_registration_fields HasPrefix_def serveRegistration_def sample_identity
        sample_input_ok NewImportHandler_def)
      (simp add: factory_import_def sample_import_world_def s sample_resolved [OF a(5)] d a(4) register_items_def
        sample_registration_fields KindTable_def registerOne_def tenant_api_def sample_api_def api_reason_defs Let_def)
  then show ?thesis by fastforce
qed

theorem registration_guarded_witness:
  "\<exists>results w' dyn v.
     ServeHTTP sample_parsers (tenant_api sample_api) (Some sample_handler) sample_post sample_import_world =
        (writeImportJSON 200 (ResultsBody results), w') \<and>
     map rtState results = [''created''] \<and> imwLog w' = [] \<and>
     granted_resource sample_deps (cfBaseHost sample_factory) ''c1'' ''tok'' ''warehouses'' [] ''create'' \<and>
     caller_client sample_deps (cfBaseHost sample_factory) ''c1'' ''tok'' dyn \<and>
     register_items (tenant_api sample_api) dyn sample_registration [sample_item] v =
        (writeImportJSON 200 (ResultsBody results), w')"
proof -
  obtain results w' where run: "ServeHTTP sample_parsers (tenant_api sample_api) (Some sample_handler) sample_post
      sample_import_world = (writeImportJSON 200 (ResultsBody results), w')" "map rtState results = [''created'']"
    using sample_registration_run by metis
  have f: "factory_reachable no_parse (idNewDynamic sample_deps) (reNewForConfig (idReviews sample_deps)) sample_factory"
    using sample_factory_reachable [of True] by (simp add: sample_deps_def)
  have w: "imwFactory sample_import_world = Some sample_factory" "imwLog sample_import_world = []"
    by (simp_all add: sample_import_world_def)
  have e: "\<not> is_ImportErrorBody (irBody (writeImportJSON 200 (ResultsBody results)))"
    by (simp add: writeImportJSON_def)
  from registration_guarded [OF f w(1) sample_registration_fields(4) run(1)] w e obtain dyn v where
    "imwLog w' = []" "granted_resource sample_deps (cfBaseHost sample_factory) ''c1'' ''tok'' ''warehouses'' [] ''create''"
    "caller_client sample_deps (cfBaseHost sample_factory) ''c1'' ''tok'' dyn"
    "register_items (tenant_api sample_api) dyn sample_registration [sample_item] v =
       (writeImportJSON 200 (ResultsBody results), w')"
    by (auto simp: sample_identity sample_input_ok sample_registration_fields)
  with run show ?thesis
    by - (rule exI [of _ results], rule exI [of _ w'], rule exI [of _ dyn], rule exI [of _ v], simp)
qed

end
