(* ===== verification/Tenant_Authority.thy ===== *)
theory Tenant_Authority
  imports Tenant_Client Go_Json Workspace_URL
begin

text \<open>
  Package \<^verbatim>\<open>tenant\<close>, \<^verbatim>\<open>authority.go\<close>: the provider's own access to tenant clusters over the virtual
  workspace endpoints of an \<^verbatim>\<open>APIExportEndpointSlice\<close>. The state is the endpoint list, the known shard
  of each cluster and the client cache; a nil authority is \<open>None\<close>. Reading the slice, probing a shard
  and building a client are arguments; each call runs without another in between.
\<close>

subsection \<open>State\<close>

definition sliceRefreshInterval :: int where "sliceRefreshInterval = 10000000000"
definition authorityClientCacheCap :: int where "authorityClientCacheCap = 256"

definition errNoEndpoints :: go_error where
  "errNoEndpoints = ErrorString ''APIExportEndpointSlice has no endpoint with a url yet''"

record 'c SliceAuthority =
  saBase :: rest_config
  saSliceName :: string
  saShardURLs :: "string list"
  saClusterShard :: "(string \<times> string) list"
  saClients :: "(string \<times> 'c) list"
  saLastRefresh :: int

text \<open>
  The injected functions of the authority and the clock. \<open>seGetSlice\<close> is the \<^verbatim>\<open>status.endpoints\<close> of the
  slice as it is read now.
\<close>

record 'c slice_env =
  seGetSlice :: "json list go_result"
  seProbe :: "string \<Rightarrow> string \<Rightarrow> bool"
  seNewClient :: "rest_config \<Rightarrow> 'c go_result"
  seNow :: int

text \<open>\<open>dyn\<close> is the answer of \<^verbatim>\<open>dynamic.NewForConfig\<close> for the provider's configuration.\<close>

definition NewSliceAuthority ::
  "rest_config option \<Rightarrow> unit go_result \<Rightarrow> string \<Rightarrow> 'c SliceAuthority go_result" where
  "NewSliceAuthority base dyn sliceName =
     (case base of
        None \<Rightarrow> Inl (ErrorString ''provider kubeconfig is required'')
      | Some base \<Rightarrow>
          (case dyn of
             Inl e \<Rightarrow> Inl (WrapError ''slice client: '' e)
           | Inr _ \<Rightarrow>
               Inr \<lparr>saBase = base, saSliceName = sliceName, saShardURLs = [], saClusterShard = [],
                    saClients = [], saLastRefresh = 0\<rparr>))"

subsection \<open>Endpoints\<close>

definition endpoint_url :: "json \<Rightarrow> string" where
  "endpoint_url e =
     (case e of
        JObj m \<Rightarrow> (case map_of m ''url'' of Some (JStr raw) \<Rightarrow> TrimRight (TrimSpace raw) ''/'' | _ \<Rightarrow> [])
      | _ \<Rightarrow> [])"

fun endpoint_loop :: "string list \<Rightarrow> json list \<Rightarrow> string list" where
  "endpoint_loop seen [] = []"
| "endpoint_loop seen (e # es) =
     (let trimmed = endpoint_url e in
      if trimmed = [] \<or> trimmed \<in> set seen then endpoint_loop seen es
      else trimmed # endpoint_loop (trimmed # seen) es)"

definition SliceEndpointURLs :: "json list \<Rightarrow> string list" where
  "SliceEndpointURLs endpoints = endpoint_loop [] endpoints"

text \<open>The part of a client key before the first bar, if there is one.\<close>

definition key_shard :: "string \<Rightarrow> string option" where
  "key_shard key = (if CHR ''|'' \<in> set key then Some (takeWhile (\<lambda>c. c \<noteq> CHR ''|'') key) else None)"

definition refreshShards ::
  "'c slice_env \<Rightarrow> bool \<Rightarrow> 'c SliceAuthority \<Rightarrow> unit go_result \<times> 'c SliceAuthority" where
  "refreshShards env force a =
     (if \<not> force \<and> seNow env - saLastRefresh a < sliceRefreshInterval then (Inr (), a)
      else
     (case seGetSlice env of
        Inl e \<Rightarrow>
          (Inl (WrapError (''reading APIExportEndpointSlice '' @ quoted (saSliceName a) @ '': '') e), a)
      | Inr endpoints \<Rightarrow>
          (let urls = SliceEndpointURLs endpoints in
           if urls = [] then (Inl errNoEndpoints, a)
           else
             (Inr (),
              a\<lparr>saShardURLs := urls, saLastRefresh := seNow env,
                saClusterShard := filter (\<lambda>(cluster, shardURL). shardURL \<in> set urls) (saClusterShard a),
                saClients := filter (\<lambda>(key, _). case key_shard key of None \<Rightarrow> True
                  | Some shardURL \<Rightarrow> shardURL \<in> set urls) (saClients a)\<rparr>))))"

definition Authority_Ready ::
  "'c slice_env \<Rightarrow> 'c SliceAuthority option \<Rightarrow> bool \<times> 'c SliceAuthority option" where
  "Authority_Ready env authority =
     (case authority of
        None \<Rightarrow> (False, None)
      | Some a \<Rightarrow>
          if saShardURLs a \<noteq> [] then (True, Some a)
          else (case refreshShards env True a of
                  (Inl _, a) \<Rightarrow> (False, Some a)
                | (Inr _, a) \<Rightarrow> (True, Some a)))"

subsection \<open>Clusters\<close>

definition probe_shards ::
  "'c slice_env \<Rightarrow> string \<Rightarrow> string list \<Rightarrow> 'c SliceAuthority \<Rightarrow> string go_result \<times> 'c SliceAuthority" where
  "probe_shards env clusterID shards a =
     (case find (\<lambda>shardURL. seProbe env shardURL clusterID) shards of
        Some shardURL \<Rightarrow>
          (Inr shardURL, a\<lparr>saClusterShard := AList.update clusterID shardURL (saClusterShard a)\<rparr>)
      | None \<Rightarrow>
          (Inl (ErrorString (''tenant workspace '' @ quoted clusterID @ '' is not served by any of the '' @
             show_nat (length shards) @ '' APIExport virtual workspace endpoints'')), a))"

definition shardFor ::
  "'c slice_env \<Rightarrow> string \<Rightarrow> 'c SliceAuthority \<Rightarrow> string go_result \<times> 'c SliceAuthority" where
  "shardFor env clusterID a =
     (case map_of (saClusterShard a) clusterID of
        Some url \<Rightarrow> (Inr url, a)
      | None \<Rightarrow>
     (case (if saShardURLs a = [] then refreshShards env True a else (Inr (), a)) of
        (Inl e, a) \<Rightarrow> (Inl e, a)
      | (Inr _, a) \<Rightarrow>
     (case saShardURLs a of
        [] \<Rightarrow> (Inl errNoEndpoints, a)
      | [shard] \<Rightarrow> (Inr shard, a)
      | shards \<Rightarrow> probe_shards env clusterID shards a)))"

definition cluster_config :: "'c SliceAuthority \<Rightarrow> string \<Rightarrow> string \<Rightarrow> rest_config" where
  "cluster_config a shardURL clusterID = (saBase a)\<lparr>rcHost := shardURL @ ''/clusters/'' @ clusterID\<rparr>"

definition probeShard ::
  "(rest_config \<Rightarrow> 'd go_result) \<Rightarrow> ('d \<Rightarrow> unit go_result) \<Rightarrow> 'c SliceAuthority \<Rightarrow> string \<Rightarrow> string \<Rightarrow> bool" where
  "probeShard newDynamic list_one a shardURL clusterID =
     (case newDynamic (cluster_config a shardURL clusterID) of
        Inl _ \<Rightarrow> False
      | Inr dyn \<Rightarrow> (case list_one dyn of Inl _ \<Rightarrow> False | Inr _ \<Rightarrow> True))"

definition ClusterClient_slice ::
  "'c slice_env \<Rightarrow> string \<Rightarrow> 'c SliceAuthority option \<Rightarrow> 'c option go_result \<times> 'c SliceAuthority option" where
  "ClusterClient_slice env clusterID authority =
     (case authority of
        None \<Rightarrow> (Inl (ErrorString ''provider authority client unavailable''), None)
      | Some a \<Rightarrow>
     (case shardFor env clusterID a of
        (Inl e, a) \<Rightarrow> (Inl e, Some a)
      | (Inr shardURL, a) \<Rightarrow>
     (let key = shardURL @ ''|'' @ clusterID in
      case map_of (saClients a) key of
        Some cl \<Rightarrow> (Inr (Some cl), Some a)
      | None \<Rightarrow>
     (case seNewClient env (cluster_config a shardURL clusterID) of
        Inl e \<Rightarrow>
          (Inl (WrapError (''provider authority client for cluster '' @ quoted clusterID @ '': '') e), Some a)
      | Inr cl \<Rightarrow>
          (let clients = (if authorityClientCacheCap \<le> int (length (saClients a)) then [] else saClients a) in
           (Inr (Some cl), Some (a\<lparr>saClients := AList.update key cl clients\<rparr>)))))))"

subsection \<open>Endpoint lists\<close>

lemma endpoint_loop_spec:
  "set (endpoint_loop seen es) = set (map endpoint_url es) - {[]} - set seen \<and>
   distinct (endpoint_loop seen es)"
  by (induction seen es rule: endpoint_loop.induct) (auto simp: Let_def)

subsection \<open>What an authority promises\<close>

locale cluster_authority =
  fixes client_for :: "string \<Rightarrow> 's \<Rightarrow> 'c option go_result \<times> 's"
    and inv :: "'s \<Rightarrow> bool" and serves :: "string \<Rightarrow> 'c \<Rightarrow> bool"
  assumes client_for_ok: "inv s \<Longrightarrow> cluster_id_ok clusterID \<Longrightarrow> client_for clusterID s = (r, s') \<Longrightarrow>
      inv s' \<and> (\<forall>c. r = Inr (Some c) \<longrightarrow> serves clusterID c)"
begin

lemma AuthorityClient_ok:
  assumes "cfAuthority f = Some client_for" "inv s" "AuthorityClient (Some f) clusterID s = (r, s')"
  shows "inv s' \<and> (\<forall>c. r = Inr c \<longrightarrow> cluster_id_ok (TrimSpace clusterID) \<and> serves (TrimSpace clusterID) c)"
proof (cases "cluster_id_ok (TrimSpace clusterID)")
  case True
  obtain a t where a: "client_for (TrimSpace clusterID) s = (a, t)" by fastforce
  from client_for_ok [OF assms(2) True a] assms(1,3) True a show ?thesis
    by (auto simp: AuthorityClient_def Let_def split: sum.split_asm option.split_asm)
next
  case False
  with assms show ?thesis by (auto simp: AuthorityClient_def Let_def)
qed

end

subsection \<open>The slice authority keeps the promise\<close>

text \<open>
  \<open>slices\<close> is the set of contents the endpoint slice had while the authority ran; a URL is published
  if one of them lists it.
\<close>

definition published_url :: "json list set \<Rightarrow> string \<Rightarrow> bool" where
  "published_url slices url \<longleftrightarrow> (\<exists>endpoints \<in> slices. url \<in> set (SliceEndpointURLs endpoints))"

definition reads_from :: "json list set \<Rightarrow> 'c slice_env \<Rightarrow> bool" where
  "reads_from slices env \<longleftrightarrow> (\<forall>endpoints. seGetSlice env = Inr endpoints \<longrightarrow> endpoints \<in> slices)"

definition slice_serves ::
  "(rest_config \<Rightarrow> 'c go_result) \<Rightarrow> rest_config \<Rightarrow> json list set \<Rightarrow> string \<Rightarrow> 'c \<Rightarrow> bool" where
  "slice_serves newClient base slices clusterID c \<longleftrightarrow>
     (\<exists>shardURL. published_url slices shardURL \<and>
        newClient (base\<lparr>rcHost := shardURL @ ''/clusters/'' @ clusterID\<rparr>) = Inr c)"

definition shard_entry ::
  "(rest_config \<Rightarrow> 'c go_result) \<Rightarrow> rest_config \<Rightarrow> json list set \<Rightarrow> string \<Rightarrow> 'c \<Rightarrow> bool" where
  "shard_entry newClient base slices key c \<longleftrightarrow>
     (\<exists>shardURL clusterID. key = shardURL @ ''|'' @ clusterID \<and> CHR ''|'' \<notin> set clusterID \<and>
        published_url slices shardURL \<and>
        newClient (base\<lparr>rcHost := shardURL @ ''/clusters/'' @ clusterID\<rparr>) = Inr c)"

definition authority_ok ::
  "(rest_config \<Rightarrow> 'c go_result) \<Rightarrow> rest_config \<Rightarrow> json list set \<Rightarrow> 'c SliceAuthority \<Rightarrow> bool" where
  "authority_ok newClient base slices a \<longleftrightarrow>
     saBase a = base \<and> list_all (published_url slices) (saShardURLs a) \<and>
     (\<forall>url \<in> snd ` set (saClusterShard a). published_url slices url) \<and>
     length (saClients a) \<le> 256 \<and> list_all (\<lambda>(key, c). shard_entry newClient base slices key c) (saClients a)"

lemma published_nonempty: "published_url slices url \<Longrightarrow> url \<noteq> []"
  using endpoint_loop_spec [of "[]"] by (auto simp: published_url_def SliceEndpointURLs_def)

lemma refreshShards_ok:
  assumes "authority_ok newClient base slices a" "reads_from slices env" "refreshShards env force a = (r, b)"
  shows "authority_ok newClient base slices b"
proof -
  have u: "list_all (published_url slices) (SliceEndpointURLs es)" if "seGetSlice env = Inr es" for es
    using assms(2) that by (auto simp: reads_from_def published_url_def list_all_iff)
  have f: "length (filter P xs) \<le> 256" if "length xs \<le> 256" for P and xs :: "(string \<times> 'a) list"
    using that length_filter_le [of P xs] by linarith
  show ?thesis
    using assms(1,3) u f
    by (auto simp: refreshShards_def authority_ok_def Let_def list_all_iff split: if_split_asm sum.split_asm)
qed

lemma update_subset: "set (AList.update k v al) \<subseteq> insert (k, v) (set al)"
  by (induction al) auto

lemma snd_update: "snd ` set (AList.update k v al) \<subseteq> insert v (snd ` set al)"
  using update_subset by fastforce

lemma length_update_le: "length (AList.update k v al) \<le> Suc (length al)"
  by (induction al) auto

lemma probe_shards_ok:
  assumes "authority_ok newClient base slices a" "list_all (published_url slices) shards"
    "probe_shards env clusterID shards a = (r, b)"
  shows "authority_ok newClient base slices b \<and> (\<forall>u. r = Inr u \<longrightarrow> published_url slices u)"
proof (cases "find (\<lambda>shardURL. seProbe env shardURL clusterID) shards")
  case None
  with assms show ?thesis by (auto simp: probe_shards_def)
next
  case (Some u)
  then have "u \<in> set shards" by (auto simp: find_Some_iff)
  with assms(2) have u: "published_url slices u" by (simp add: list_all_iff)
  then have "\<forall>url \<in> snd ` set (AList.update clusterID u (saClusterShard a)). published_url slices url"
    using assms(1) snd_update [of clusterID u "saClusterShard a"] unfolding authority_ok_def by blast
  with Some assms u show ?thesis by (auto simp: probe_shards_def authority_ok_def)
qed

lemma shardFor_ok:
  assumes "authority_ok newClient base slices a" "reads_from slices env" "shardFor env clusterID a = (r, b)"
  shows "authority_ok newClient base slices b \<and> (\<forall>u. r = Inr u \<longrightarrow> published_url slices u)"
proof (cases "map_of (saClusterShard a) clusterID")
  case (Some url)
  have "published_url slices url"
    using assms(1) map_of_SomeD [OF Some] by (force simp: authority_ok_def)
  with Some assms show ?thesis by (auto simp: shardFor_def)
next
  case None
  obtain r0 a0 where
    a0: "(if saShardURLs a = [] then refreshShards env True a else (Inr (), a)) = (r0, a0)" by fastforce
  then have ok: "authority_ok newClient base slices a0"
    using assms(1) refreshShards_ok [OF assms(1,2)] by (auto split: if_split_asm)
  then have ne: "list_all (published_url slices) (saShardURLs a0)" by (simp add: authority_ok_def)
  have "(r, b) = (case r0 of Inl e \<Rightarrow> (Inl e, a0)
      | Inr _ \<Rightarrow> (case saShardURLs a0 of
          [] \<Rightarrow> (Inl errNoEndpoints, a0)
        | [shard] \<Rightarrow> (Inr shard, a0)
        | shards \<Rightarrow> probe_shards env clusterID shards a0))"
    using assms(3) None unfolding shardFor_def a0 by (simp split: sum.split)
  with ok ne probe_shards_ok [OF ok ne, of env clusterID r b] show ?thesis
    by (cases r0; cases "saShardURLs a0" rule: remdups_adj.cases) simp_all
qed

lemma cluster_id_no_bar: "cluster_id_ok clusterID \<Longrightarrow> CHR ''|'' \<notin> set clusterID"
  using escape_segment_id_iff [of clusterID]
  by (auto simp: cluster_id_ok_def PathEscape_def list_all_iff shouldEscape_def alnum_def)

lemma shard_entry_serves:
  assumes "shard_entry newClient base slices (shardURL @ ''|'' @ clusterID) c" "CHR ''|'' \<notin> set clusterID"
  shows "slice_serves newClient base slices clusterID c"
proof -
  from assms(1) obtain s i where k: "shardURL @ ''|'' @ clusterID = s @ ''|'' @ i" "CHR ''|'' \<notin> set i"
    "published_url slices s" "newClient (base\<lparr>rcHost := s @ ''/clusters/'' @ i\<rparr>) = Inr c"
    by (auto simp: shard_entry_def)
  have "clusterID = rev (takeWhile (\<lambda>x. x \<noteq> CHR ''|'') (rev (shardURL @ ''|'' @ clusterID)))"
    using assms(2) by (simp add: takeWhile_append)
  moreover have "i = rev (takeWhile (\<lambda>x. x \<noteq> CHR ''|'') (rev (s @ ''|'' @ i)))"
    using k(2) by (simp add: takeWhile_append)
  ultimately have "i = clusterID" by (metis k(1))
  with k show ?thesis unfolding slice_serves_def by blast
qed

lemma ClusterClient_ok:
  assumes "authority_ok (seNewClient env) base slices a" "reads_from slices env" "cluster_id_ok clusterID"
    "ClusterClient_slice env clusterID (Some a) = (r, s)"
  shows "\<exists>b. s = Some b \<and> authority_ok (seNewClient env) base slices b \<and>
    (\<forall>c. r = Inr (Some c) \<longrightarrow> slice_serves (seNewClient env) base slices clusterID c)"
proof -
  obtain r0 b where sh: "shardFor env clusterID a = (r0, b)" by fastforce
  note ok = shardFor_ok [OF assms(1,2) sh]
  show ?thesis
  proof (cases r0)
    case (Inl e)
    with sh ok assms(4) show ?thesis by (auto simp: ClusterClient_slice_def)
  next
    case (Inr u)
    let ?key = "u @ ''|'' @ clusterID"
    have u: "published_url slices u" using ok Inr by blast
    have base: "saBase b = base" using ok by (simp add: authority_ok_def)
    show ?thesis
    proof (cases "map_of (saClients b) ?key")
      case (Some cl)
      then have "shard_entry (seNewClient env) base slices ?key cl"
        using ok map_of_SomeD [OF Some] by (auto simp: authority_ok_def list_all_iff)
      from shard_entry_serves [OF this cluster_id_no_bar [OF assms(3)]] Some Inr sh ok assms(4)
      show ?thesis by (auto simp: ClusterClient_slice_def Let_def)
    next
      case None
      show ?thesis
      proof (cases "seNewClient env (cluster_config b u clusterID)")
        case (Inl e)
        with None Inr sh ok assms(4) show ?thesis by (auto simp: ClusterClient_slice_def Let_def)
      next
        case (Inr cl)
        define clients where "clients = (if authorityClientCacheCap \<le> int (length (saClients b)) then []
          else saClients b)"
        have e: "shard_entry (seNewClient env) base slices ?key cl" "slice_serves (seNewClient env) base slices clusterID cl"
          using Inr u base cluster_id_no_bar [OF assms(3)]
          by (auto simp: shard_entry_def slice_serves_def cluster_config_def)
        have "length (AList.update ?key cl clients) \<le> 256"
          using length_update_le [of ?key cl clients]
          by (auto simp: clients_def authorityClientCacheCap_def split: if_split_asm)
        moreover have "list_all (\<lambda>(key, c). shard_entry (seNewClient env) base slices key c)
            (AList.update ?key cl clients)"
          using ok e(1) update_subset [of ?key cl clients]
          by (fastforce simp: authority_ok_def list_all_iff clients_def split: if_split_asm)
        ultimately have "authority_ok (seNewClient env) base slices (b\<lparr>saClients := AList.update ?key cl clients\<rparr>)"
          using ok by (simp add: authority_ok_def)
        moreover have "(r, s) = (Inr (Some cl), Some (b\<lparr>saClients := AList.update ?key cl clients\<rparr>))"
          using assms(4) sh None Inr \<open>r0 = Inr u\<close>
          by (simp add: ClusterClient_slice_def Let_def clients_def)
        ultimately show ?thesis using e(2) by simp
      qed
    qed
  qed
qed

definition slice_ok ::
  "(rest_config \<Rightarrow> 'c go_result) \<Rightarrow> rest_config \<Rightarrow> json list set \<Rightarrow> 'c SliceAuthority option \<Rightarrow> bool" where
  "slice_ok newClient base slices s \<longleftrightarrow> (\<forall>a. s = Some a \<longrightarrow> authority_ok newClient base slices a)"

interpretation slices: cluster_authority "ClusterClient_slice env"
  "\<lambda>s. reads_from slices env \<and> slice_ok (seNewClient env) base slices s"
  "slice_serves (seNewClient env) base slices"
proof unfold_locales
  fix s s' and clusterID :: string and r
  assume a: "reads_from slices env \<and> slice_ok (seNewClient env) base slices s" "cluster_id_ok clusterID"
    "ClusterClient_slice env clusterID s = (r, s')"
  show "(reads_from slices env \<and> slice_ok (seNewClient env) base slices s') \<and>
    (\<forall>c. r = Inr (Some c) \<longrightarrow> slice_serves (seNewClient env) base slices clusterID c)"
  proof (cases s)
    case None
    with a show ?thesis by (auto simp: ClusterClient_slice_def slice_ok_def)
  next
    case (Some b)
    with a ClusterClient_ok [of env base slices b clusterID r s'] show ?thesis by (auto simp: slice_ok_def)
  qed
qed

subsection \<open>Reachable authorities\<close>

text \<open>
  A serving process asks its authority through the client factory, which checks the cluster ID
  first; every call may find another endpoint slice, another probe answer and another time. The
  constructor of clients stays, and the slice only ever has the contents \<open>slices\<close>.
\<close>

inductive authority_step ::
  "(rest_config \<Rightarrow> 'c go_result) \<Rightarrow> json list set \<Rightarrow> 'c SliceAuthority \<Rightarrow> 'c SliceAuthority \<Rightarrow> bool"
  for newClient slices where
  asked: "seNewClient env = newClient \<Longrightarrow> reads_from slices env \<Longrightarrow> cluster_id_ok clusterID \<Longrightarrow>
    ClusterClient_slice env clusterID (Some a) = (r, Some b) \<Longrightarrow> authority_step newClient slices a b"
| probed: "reads_from slices env \<Longrightarrow> Authority_Ready env (Some a) = (ready, Some b) \<Longrightarrow>
    authority_step newClient slices a b"

lemma authority_step_ok:
  "authority_step newClient slices a b \<Longrightarrow> authority_ok newClient base slices a \<Longrightarrow>
     authority_ok newClient base slices b"
proof (induction rule: authority_step.induct)
  case (asked env clusterID a r b)
  then show ?case using ClusterClient_ok [of env base slices a clusterID r "Some b"] by auto
next
  case (probed env a ready b)
  then show ?case using refreshShards_ok
    by (fastforce simp: Authority_Ready_def split: if_split_asm prod.split_asm sum.split_asm)
qed

lemma authority_steps_ok:
  "(authority_step newClient slices)\<^sup>*\<^sup>* a b \<Longrightarrow> authority_ok newClient base slices a \<Longrightarrow>
     authority_ok newClient base slices b"
  by (induction rule: rtranclp_induct) (auto intro: authority_step_ok)

lemma NewSliceAuthority_ok:
  "NewSliceAuthority (Some base) dyn name = Inr a \<Longrightarrow> authority_ok newClient base slices a"
  by (auto simp: NewSliceAuthority_def authority_ok_def split: sum.split_asm)

text \<open>
  C35. Whatever the serving path has asked before, a provider client for a tenant cluster was built
  from the provider's own configuration for exactly that cluster, under a URL that the endpoint
  slice published at some time of the run; and the authority holds at most 256 clients.
\<close>

theorem authority_client_scoped:
  assumes "NewSliceAuthority (Some base) dyn name = Inr a0"
    "(authority_step (seNewClient env) slices)\<^sup>*\<^sup>* a0 a" "reads_from slices env"
    "cfAuthority f = Some (ClusterClient_slice env)"
    "AuthorityClient (Some f) clusterID (Some a) = (Inr c, Some b)"
  shows "cluster_id_ok (TrimSpace clusterID) \<and> length (saClients b) \<le> 256 \<and>
    (\<exists>endpoints \<in> slices. \<exists>shardURL \<in> set (SliceEndpointURLs endpoints). shardURL \<noteq> [] \<and>
       seNewClient env (base\<lparr>rcHost := shardURL @ ''/clusters/'' @ TrimSpace clusterID\<rparr>) = Inr c)"
proof -
  have "slice_ok (seNewClient env) base slices (Some a)"
    using authority_steps_ok [OF assms(2) NewSliceAuthority_ok [OF assms(1)]] by (simp add: slice_ok_def)
  with assms(3) have "reads_from slices env \<and> slice_ok (seNewClient env) base slices (Some a)" by simp
  from slices.AuthorityClient_ok [OF assms(4) this assms(5)]
  have l: "cluster_id_ok (TrimSpace clusterID) \<and> length (saClients b) \<le> 256"
    and "slice_serves (seNewClient env) base slices (TrimSpace clusterID) c"
    by (auto simp: slice_ok_def authority_ok_def)
  then obtain u where u: "published_url slices u"
    "seNewClient env (base\<lparr>rcHost := u @ ''/clusters/'' @ TrimSpace clusterID\<rparr>) = Inr c"
    by (auto simp: slice_serves_def)
  with l published_nonempty [OF u(1)] show ?thesis by (auto simp: published_url_def)
qed

subsection \<open>The endpoint list is read once\<close>

lemma shardFor_frozen:
  "shardFor env clusterID a = (r, b) \<Longrightarrow> saShardURLs a \<noteq> [] \<Longrightarrow> saShardURLs b = saShardURLs a"
  by (auto simp: shardFor_def probe_shards_def split: option.split_asm list.split_asm)

lemma ClusterClient_total: "\<exists>r b. ClusterClient_slice env clusterID (Some a) = (r, Some b)"
  by (auto simp: ClusterClient_slice_def Let_def split: prod.split sum.split option.split)

lemma ClusterClient_frozen:
  assumes "ClusterClient_slice env clusterID (Some a) = (r, Some b)" "saShardURLs a \<noteq> []"
  shows "saShardURLs b = saShardURLs a"
  using assms
  by (auto simp: ClusterClient_slice_def Let_def dest: shardFor_frozen
      split: prod.split_asm sum.split_asm option.split_asm)

lemma authority_step_frozen:
  "authority_step newClient slices a b \<Longrightarrow> saShardURLs a \<noteq> [] \<Longrightarrow> saShardURLs b = saShardURLs a"
proof (induction rule: authority_step.induct)
  case (asked env clusterID a r b)
  then show ?case using ClusterClient_frozen by blast
next
  case (probed env a ready b)
  then show ?case by (auto simp: Authority_Ready_def)
qed

text \<open>
  Once an authority knows an endpoint it never reads the slice again: whatever calls follow
  and whatever the slice then says, the list of endpoints stays the one first read.
\<close>

theorem authority_shards_frozen:
  assumes "(authority_step newClient slices)\<^sup>*\<^sup>* a b" "saShardURLs a \<noteq> []"
  shows "saShardURLs b = saShardURLs a"
  using assms by (induction rule: rtranclp_induct) (auto dest: authority_step_frozen)

subsection \<open>Example\<close>

definition demo_endpoint :: "string \<Rightarrow> json" where
  "demo_endpoint url = JObj [(''url'', JStr url)]"

definition demo_slice_env :: "string \<Rightarrow> rest_config slice_env" where
  "demo_slice_env url =
     \<lparr>seGetSlice = Inr [demo_endpoint url], seProbe = (\<lambda>_ _. True), seNewClient = (\<lambda>cfg. Inr cfg), seNow = 1\<rparr>"

definition demo_authority :: "rest_config SliceAuthority" where
  "demo_authority = \<lparr>saBase = demo_base ''https://hub'', saSliceName = ''db'', saShardURLs = [],
     saClusterShard = [], saClients = [], saLastRefresh = 0\<rparr>"

definition demo_serving_factory ::
  "string \<Rightarrow> (unit, unit, rest_config, rest_config SliceAuthority option) ClientFactory" where
  "demo_serving_factory url = newClientFactory\<lparr>cfAuthority := Some (ClusterClient_slice (demo_slice_env url))\<rparr>"

lemma demo_endpoints:
  "endpoint_url (demo_endpoint ''https://s1'') = ''https://s1''"
  "endpoint_url (demo_endpoint ''https://s2'') = ''https://s2''"
  by (simp_all add: endpoint_url_def demo_endpoint_def TrimRight_def TrimSpace_graphic graphic_def)

lemma demo_AuthorityClient:
  "\<exists>c b. AuthorityClient (Some (demo_serving_factory ''https://s1'')) ''c1'' (Some demo_authority) =
     (Inr c, Some b) \<and> saShardURLs b = [''https://s1'']"
  by (simp add: AuthorityClient_def demo_serving_factory_def ClusterClient_slice_def shardFor_def
      refreshShards_def demo_slice_env_def demo_authority_def SliceEndpointURLs_def demo_endpoints
      cluster_config_def Let_def)

theorem authority_client_scoped_witness:
  "\<exists>c b. AuthorityClient (Some (demo_serving_factory ''https://s1'')) ''c1'' (Some demo_authority) = (Inr c, Some b) \<and>
     c = (demo_base ''https://hub'')\<lparr>rcHost := ''https://s1/clusters/c1''\<rparr>"
proof -
  obtain c b where r: "AuthorityClient (Some (demo_serving_factory ''https://s1'')) ''c1'' (Some demo_authority) =
      (Inr c, Some b)" using demo_AuthorityClient by blast
  have n: "NewSliceAuthority (Some (demo_base ''https://hub'')) (Inr ()) ''db'' = Inr demo_authority"
    by (simp add: NewSliceAuthority_def demo_authority_def)
  have e: "reads_from {[demo_endpoint ''https://s1'']} (demo_slice_env ''https://s1'')"
    by (simp add: reads_from_def demo_slice_env_def)
  have u: "set (SliceEndpointURLs [demo_endpoint ''https://s1'']) = {''https://s1''}"
    by (simp add: SliceEndpointURLs_def demo_endpoints Let_def)
  from authority_client_scoped [OF n rtranclp.rtrancl_refl e _ r] u r
  show ?thesis by (auto simp: demo_serving_factory_def demo_slice_env_def)
qed

theorem authority_shards_frozen_witness:
  "\<exists>a b r r'. ClusterClient_slice (demo_slice_env ''https://s1'') ''c1'' (Some demo_authority) = (r, Some a) \<and>
     ClusterClient_slice (demo_slice_env ''https://s2'') ''c1'' (Some a) = (r', Some b) \<and>
     saShardURLs b = [''https://s1'']"
proof -
  obtain a r where a: "ClusterClient_slice (demo_slice_env ''https://s1'') ''c1'' (Some demo_authority) = (r, Some a)"
    and s: "saShardURLs a = [''https://s1'']"
    by (simp add: ClusterClient_slice_def shardFor_def refreshShards_def demo_slice_env_def demo_authority_def
        SliceEndpointURLs_def demo_endpoints cluster_config_def Let_def)
  obtain b r' where b: "ClusterClient_slice (demo_slice_env ''https://s2'') ''c1'' (Some a) = (r', Some b)"
    using ClusterClient_total by blast
  have "(authority_step (\<lambda>cfg. Inr cfg) UNIV)\<^sup>*\<^sup>* a b"
    by (rule r_into_rtranclp, rule authority_step.asked [OF _ _ _ b]) (simp_all add: demo_slice_env_def reads_from_def)
  from authority_shards_frozen [OF this] s a b show ?thesis by auto
qed

end
