(* ===== verification/Table_Resolver.thy ===== *)
theory Table_Resolver
  imports Tenant_Action Tenant_Authority
begin

text \<open>
  Table resolvers: the interfaces and the static and unavailable resolvers of
  \<^verbatim>\<open>queryapi/resolver.go\<close>, and the resolver over the caller's tenant client of \<^verbatim>\<open>tenant/client.go\<close>. A
  resolver is a record of operations over the state \<open>'w\<close>; what a Go type assertion asks for beside
  \<^verbatim>\<open>TableResolver\<close> is an optional operation. A Go map is an association list with distinct keys whose
  order stands for the order of iteration.
\<close>

subsection \<open>Interfaces\<close>

definition MaxTableListItems :: int where "MaxTableListItems = 256"

type_synonym table_map = "(string \<times> TableRef) list"

record 'w TableResolver =
  rvListTables :: "'w \<Rightarrow> table_map go_result \<times> 'w"
  rvGetTable :: "string \<Rightarrow> 'w \<Rightarrow> (TableRef \<times> bool) go_result \<times> 'w"
  rvListTablesBounded :: "(int \<Rightarrow> 'w \<Rightarrow> (table_map \<times> bool) go_result \<times> 'w) option"
  rvGetTableSchema :: "(string \<Rightarrow> 'w \<Rightarrow> (QueryColumn list \<times> string) go_result \<times> 'w) option"

definition no_table :: TableRef where
  "no_table = \<lparr>trCatalog = [], trSchema = [], trTable = []\<rparr>"

definition static_GetTable :: "table_map \<Rightarrow> string \<Rightarrow> TableRef \<times> bool" where
  "static_GetTable tables name =
     (case map_of tables name of Some ref \<Rightarrow> (ref, True) | None \<Rightarrow> (no_table, False))"

definition StaticTableResolver :: "table_map \<Rightarrow> 'w TableResolver" where
  "StaticTableResolver tables =
     \<lparr>rvListTables = (\<lambda>w. (Inr tables, w)),
      rvGetTable = (\<lambda>name w. (Inr (static_GetTable tables name), w)),
      rvListTablesBounded = None, rvGetTableSchema = None\<rparr>"

definition unavailable_err :: "string \<Rightarrow> go_error" where
  "unavailable_err message =
     (if TrimSpace message = [] then ErrorString ''table resolver unavailable'' else ErrorString message)"

definition UnavailableResolver :: "string \<Rightarrow> 'w TableResolver" where
  "UnavailableResolver message =
     \<lparr>rvListTables = (\<lambda>w. (Inl (unavailable_err message), w)),
      rvGetTable = (\<lambda>name w. (Inl (unavailable_err message), w)),
      rvListTablesBounded = None, rvGetTableSchema = None\<rparr>"

subsection \<open>The tenant resolver\<close>

text \<open>
  What it takes from client-go and apimachinery: one page of the tenant's Table objects with the
  continuation token, one object, the name of an object, and the accessors for nested strings and
  slices, whose error and found results the code ignores.
\<close>

record ('d, 'u) table_api =
  tpNewForConfig :: "rest_config \<Rightarrow> 'd go_result"
  tpNow :: int
  tpList :: "'d \<Rightarrow> int \<Rightarrow> 'u \<Rightarrow> (go_map list \<times> string) go_result"
  tpGet :: "'d \<Rightarrow> string \<Rightarrow> 'u \<Rightarrow> go_map go_result"
  tpName :: "go_map \<Rightarrow> string"
  tpNestedString :: "go_map \<Rightarrow> string list \<Rightarrow> string"
  tpNestedSlice :: "go_map \<Rightarrow> string list \<Rightarrow> json list"

record ('d, 'a, 'c, 's, 'u) resolver_world =
  rwFactory :: "('d, 'a, 'c, 's) ClientFactory option"
  rwTenant :: 'u

record identity =
  iyTenant :: string
  iyClusterID :: string
  iyToken :: string

definition identityFromRequest :: "string \<Rightarrow> string \<Rightarrow> string \<Rightarrow> identity" where
  "identityFromRequest tenant cluster authorization =
     \<lparr>iyTenant = tenant, iyClusterID = cluster, iyToken = bearerToken authorization\<rparr>"

definition dynamicClient ::
  "('d, 'u) table_api \<Rightarrow> identity \<Rightarrow> ('d, 'a, 'c, 's, 'u) resolver_world \<Rightarrow>
   'd go_result \<times> ('d, 'a, 'c, 's, 'u) resolver_world" where
  "dynamicClient api who w =
     (if iyTenant who = []
      then (Inl (ErrorString ''no tenant identity on this request; bearer token did not resolve to a workspace''), w)
      else if iyClusterID who = []
      then (Inl (ErrorString ''no workspace cluster on this request (X-Faros-Cluster missing)''), w)
      else if rwFactory w = None
      then (Inl (ErrorString ''tenant client unavailable (provider kubeconfig not set)''), w)
      else (case For (tpNewForConfig api) (tpNow api) (iyClusterID who) (iyToken who) (rwFactory w) of
              (r, f) \<Rightarrow> (r, w\<lparr>rwFactory := f\<rparr>)))"

definition tableRefFromObject :: "('d, 'u) table_api \<Rightarrow> go_map \<Rightarrow> TableRef \<times> bool" where
  "tableRefFromObject api item =
     (let catalog = tpNestedString api item [''spec'', ''catalog''];
          schemaName = tpNestedString api item [''spec'', ''schema''];
          table = tpNestedString api item [''spec'', ''table''] in
      if TrimSpace catalog = [] \<or> TrimSpace schemaName = [] \<or> TrimSpace table = [] then (no_table, False)
      else (\<lparr>trCatalog = catalog, trSchema = schemaName, trTable = table\<rparr>, True))"

text \<open>The map filled in a loop over the items: a later item of the same name replaces an earlier one.\<close>

definition add_table :: "('d, 'u) table_api \<Rightarrow> go_map \<Rightarrow> table_map \<Rightarrow> table_map" where
  "add_table api item out =
     (case tableRefFromObject api item of
        (ref, True) \<Rightarrow> AList.update (tpName api item) ref out
      | _ \<Rightarrow> out)"

definition ListTablesBounded ::
  "('d, 'u) table_api \<Rightarrow> identity \<Rightarrow> int \<Rightarrow> ('d, 'a, 'c, 's, 'u) resolver_world \<Rightarrow>
   (table_map \<times> bool) go_result \<times> ('d, 'a, 'c, 's, 'u) resolver_world" where
  "ListTablesBounded api who limit w =
     (let limit = (if limit < 1 then MaxTableListItems else limit) in
      case dynamicClient api who w of
        (Inl e, w) \<Rightarrow> (Inl e, w)
      | (Inr dyn, w) \<Rightarrow>
     (case tpList api dyn (limit + 1) (rwTenant w) of
        Inl e \<Rightarrow> (Inl e, w)
      | Inr (items, continue) \<Rightarrow>
          (let truncated = (limit < int (length items) \<or> continue \<noteq> []);
               items = (if limit < int (length items) then take (nat limit) items else items) in
           (Inr (fold (add_table api) items [], truncated), w))))"

definition tenant_ListTables ::
  "('d, 'u) table_api \<Rightarrow> identity \<Rightarrow> ('d, 'a, 'c, 's, 'u) resolver_world \<Rightarrow>
   table_map go_result \<times> ('d, 'a, 'c, 's, 'u) resolver_world" where
  "tenant_ListTables api who w =
     (case ListTablesBounded api who MaxTableListItems w of
        (Inl e, w) \<Rightarrow> (Inl e, w)
      | (Inr (tables, _), w) \<Rightarrow> (Inr tables, w))"

definition GetTable ::
  "('d, 'u) table_api \<Rightarrow> identity \<Rightarrow> string \<Rightarrow> ('d, 'a, 'c, 's, 'u) resolver_world \<Rightarrow>
   (TableRef \<times> bool) go_result \<times> ('d, 'a, 'c, 's, 'u) resolver_world" where
  "GetTable api who name w =
     (case dynamicClient api who w of
        (Inl e, w) \<Rightarrow> (Inl e, w)
      | (Inr dyn, w) \<Rightarrow>
     (case tpGet api dyn name (rwTenant w) of
        Inl e \<Rightarrow> (if IsNotFound e then Inr (no_table, False) else Inl e, w)
      | Inr item \<Rightarrow> (Inr (tableRefFromObject api item), w)))"

definition schema_column :: "json \<Rightarrow> QueryColumn list" where
  "schema_column raw =
     (case raw of
        JObj entry \<Rightarrow>
          (let columnName = (case map_of entry ''name'' of Some (JStr s) \<Rightarrow> s | _ \<Rightarrow> []);
               columnType = (case map_of entry ''type'' of Some (JStr s) \<Rightarrow> s | _ \<Rightarrow> []) in
           if TrimSpace columnName = [] then [] else [\<lparr>qcName = columnName, qcType = columnType\<rparr>])
      | _ \<Rightarrow> [])"

definition GetTableSchema ::
  "('d, 'u) table_api \<Rightarrow> identity \<Rightarrow> string \<Rightarrow> ('d, 'a, 'c, 's, 'u) resolver_world \<Rightarrow>
   (QueryColumn list \<times> string) go_result \<times> ('d, 'a, 'c, 's, 'u) resolver_world" where
  "GetTableSchema api who name w =
     (case dynamicClient api who w of
        (Inl e, w) \<Rightarrow> (Inl e, w)
      | (Inr dyn, w) \<Rightarrow>
     (case tpGet api dyn name (rwTenant w) of
        Inl e \<Rightarrow> (if IsNotFound e then Inr ([], []) else Inl e, w)
      | Inr item \<Rightarrow>
          (Inr (concat (map schema_column (tpNestedSlice api item [''status'', ''columns''])),
                tpNestedString api item [''status'', ''refreshedAt'']), w)))"

definition tableResolver ::
  "('d, 'u) table_api \<Rightarrow> identity \<Rightarrow> ('d, 'a, 'c, 's, 'u) resolver_world TableResolver" where
  "tableResolver api who =
     \<lparr>rvListTables = tenant_ListTables api who, rvGetTable = GetTable api who,
      rvListTablesBounded = Some (ListTablesBounded api who), rvGetTableSchema = Some (GetTableSchema api who)\<rparr>"

definition TableResolverForRequest ::
  "('d, 'u) table_api \<Rightarrow> ('d, 'a, 'c, 's) ClientFactory option \<Rightarrow> string \<Rightarrow> string \<Rightarrow> string \<Rightarrow>
   ('d, 'a, 'c, 's, 'u) resolver_world TableResolver" where
  "TableResolverForRequest api factory tenant cluster authorization =
     (if factory = None
      then UnavailableResolver ''tenant client unavailable (provider kubeconfig not set)''
      else tableResolver api (identityFromRequest tenant cluster authorization))"

subsection \<open>What a resolver promises its clients\<close>

text \<open>
  A resolver names distinct tables, lists at most \<open>bound\<close> of them where it lists a bounded page, and
  returns only references it vouches for.
\<close>

locale table_resolver =
  fixes resolver :: "'w TableResolver" and vouched :: "TableRef \<Rightarrow> bool"
  assumes list_law: "rvListTables resolver w1 = (Inr tables1, v1) \<Longrightarrow>
      distinct (map fst tables1) \<and> list_all (\<lambda>(_, ref). vouched ref) tables1"
    and bounded_law: "rvListTablesBounded resolver = Some page \<Longrightarrow> page limit w2 = (Inr (tables2, trunc), v2) \<Longrightarrow>
      distinct (map fst tables2) \<and> list_all (\<lambda>(_, ref). vouched ref) tables2 \<and>
      (1 \<le> limit \<longrightarrow> int (length tables2) \<le> limit)"
    and get_law: "rvGetTable resolver name w3 = (Inr (ref, True), v3) \<Longrightarrow> vouched ref"

definition complete_ref :: "TableRef \<Rightarrow> bool" where
  "complete_ref ref \<longleftrightarrow>
     TrimSpace (trCatalog ref) \<noteq> [] \<and> TrimSpace (trSchema ref) \<noteq> [] \<and> TrimSpace (trTable ref) \<noteq> []"

lemma tableRefFromObject_complete: "tableRefFromObject api item = (ref, True) \<Longrightarrow> complete_ref ref"
  by (auto simp: tableRefFromObject_def Let_def complete_ref_def split: if_split_asm)

lemma add_table_ok:
  assumes "distinct (map fst out)" "list_all (\<lambda>(_, ref). complete_ref ref) out"
  shows "distinct (map fst (add_table api item out)) \<and>
    list_all (\<lambda>(_, ref). complete_ref ref) (add_table api item out) \<and>
    length (add_table api item out) \<le> Suc (length out)"
proof (cases "snd (tableRefFromObject api item)")
  case True
  then obtain ref where r: "tableRefFromObject api item = (ref, True)" by (cases "tableRefFromObject api item") auto
  have "list_all (\<lambda>(_, ref). complete_ref ref) (AList.update (tpName api item) ref out)"
    using update_subset [of "tpName api item" ref out] assms(2) tableRefFromObject_complete [OF r]
    by (auto simp: list_all_iff)
  with r assms(1) length_update_le [of "tpName api item" ref out] show ?thesis
    by (simp add: add_table_def distinct_update)
next
  case False
  with assms show ?thesis by (auto simp: add_table_def split: prod.split)
qed

lemma add_tables_ok:
  assumes "distinct (map fst out)" "list_all (\<lambda>(_, ref). complete_ref ref) out"
  shows "distinct (map fst (fold (add_table api) items out)) \<and>
    list_all (\<lambda>(_, ref). complete_ref ref) (fold (add_table api) items out) \<and>
    length (fold (add_table api) items out) \<le> length out + length items"
  using assms
proof (induction items arbitrary: out)
  case (Cons item items)
  let ?out = "add_table api item out"
  have "distinct (map fst ?out) \<and> list_all (\<lambda>(_, ref). complete_ref ref) ?out \<and> length ?out \<le> Suc (length out)"
    by (rule add_table_ok [OF Cons.prems])
  with Cons.IH [of ?out] show ?case by auto
qed simp

lemma add_table_items:
  "(name, ref) \<in> set (fold (add_table api) items out) \<Longrightarrow>
     (name, ref) \<in> set out \<or> (\<exists>item\<in>set items. tpName api item = name \<and> tableRefFromObject api item = (ref, True))"
proof (induction items arbitrary: out)
  case (Cons item items)
  obtain r ok where r: "tableRefFromObject api item = (r, ok)" by fastforce
  have "set (add_table api item out) \<subseteq> set out \<union> (if ok then {(tpName api item, r)} else {})"
    using update_subset [of "tpName api item" r out] r by (auto simp: add_table_def)
  with Cons.IH [of "add_table api item out"] Cons.prems r show ?case by (cases ok) auto
qed simp

lemma add_table_names:
  "fst ` set (fold (add_table api) items out) =
     fst ` set out \<union> tpName api ` {item \<in> set items. snd (tableRefFromObject api item)}"
proof (induction items arbitrary: out)
  case (Cons item items)
  have "fst ` set (add_table api item out) =
      fst ` set out \<union> (if snd (tableRefFromObject api item) then {tpName api item} else {})"
    by (cases "tableRefFromObject api item") (auto simp: add_table_def dom_update image_iff)
  with Cons.IH [of "add_table api item out"] show ?case by auto
qed simp

text \<open>A page as it was read: the request for one item more than the limit, and what is kept of it.\<close>

lemma ListTablesBounded_page:
  assumes "ListTablesBounded api who limit w = (Inr (tables, trunc), w')"
  obtains dyn items continue where "dynamicClient api who w = (Inr dyn, w')"
    "tpList api dyn ((if limit < 1 then 256 else limit) + 1) (rwTenant w') = Inr (items, continue)"
    "tables = fold (add_table api) (take (nat (if limit < 1 then 256 else limit)) items) []"
    "trunc \<longleftrightarrow> (if limit < 1 then 256 else limit) < int (length items) \<or> continue \<noteq> []"
proof -
  define n where "n = (if limit < 1 then 256 else limit)"
  have u: "ListTablesBounded api who limit w =
      (case dynamicClient api who w of
         (Inl e, w) \<Rightarrow> (Inl e, w)
       | (Inr dyn, w) \<Rightarrow>
           (case tpList api dyn (n + 1) (rwTenant w) of
              Inl e \<Rightarrow> (Inl e, w)
            | Inr (items, continue) \<Rightarrow>
                (Inr (fold (add_table api) (take (nat n) items) [], n < int (length items) \<or> continue \<noteq> []), w)))"
    unfolding ListTablesBounded_def MaxTableListItems_def n_def [symmetric] Let_def
    by (simp split: prod.split sum.split)
  obtain r v where d: "dynamicClient api who w = (r, v)" by fastforce
  with u assms obtain dyn where dyn: "r = Inr dyn" by (cases r) auto
  obtain items continue where l: "tpList api dyn (n + 1) (rwTenant v) = Inr (items, continue)"
    using u assms d dyn by (cases "tpList api dyn (n + 1) (rwTenant v)") auto
  show thesis
    using that [of dyn items continue] u assms d dyn l unfolding n_def [symmetric] by simp
qed

lemma ListTablesBounded_ok:
  assumes "ListTablesBounded api who limit w = (Inr (tables, trunc), w')"
  shows "distinct (map fst tables) \<and> list_all (\<lambda>(_, ref). complete_ref ref) tables \<and>
    int (length tables) \<le> (if limit < 1 then 256 else limit)"
proof -
  obtain items :: "go_map list" where
    t: "tables = fold (add_table api) (take (nat (if limit < 1 then 256 else limit)) items) []"
    using ListTablesBounded_page [OF assms] by metis
  show ?thesis
    using add_tables_ok [of "[]" api "take (nat (if limit < 1 then 256 else limit)) items"] t
    by (cases "limit < 1") auto
qed

interpretation tenant_tables: table_resolver "tableResolver api who" complete_ref
proof
  show "distinct (map fst tables) \<and> list_all (\<lambda>(_, ref). complete_ref ref) tables"
    if "rvListTables (tableResolver api who) w = (Inr tables, v)" for w tables v
    using that ListTablesBounded_ok [of api who MaxTableListItems w]
    by (auto simp: tableResolver_def tenant_ListTables_def split: prod.split_asm sum.split_asm)
  show "distinct (map fst tables) \<and> list_all (\<lambda>(_, ref). complete_ref ref) tables \<and>
      (1 \<le> limit \<longrightarrow> int (length tables) \<le> limit)"
    if "rvListTablesBounded (tableResolver api who) = Some page" "page limit w = (Inr (tables, trunc), v)"
    for page limit w tables trunc v
    using that ListTablesBounded_ok [of api who limit w tables trunc v] by (auto simp: tableResolver_def)
  show "complete_ref ref" if "rvGetTable (tableResolver api who) name w = (Inr (ref, True), v)" for name w ref v
    using that tableRefFromObject_complete [of api]
    by (auto simp: tableResolver_def GetTable_def split: prod.split_asm sum.split_asm if_split_asm)
qed

end
