(* ===== verification/Mcpserver.thy ===== *)
theory Mcpserver
  imports Table_Resolver
begin

text \<open>
  Package \<^verbatim>\<open>mcpserver\<close>: the tools \<^verbatim>\<open>list_tables\<close>, \<^verbatim>\<open>describe_table\<close> and \<^verbatim>\<open>query_table\<close> with the bounds on their
  wire size, and the size check in front of the protocol handler. The MCP library itself
  (sessions, framing, schema inference) is not modelled; a tool call is its handler.
\<close>

subsection \<open>Data\<close>

definition maxMCPRequestBytes :: nat where "maxMCPRequestBytes = 8 * 1024"
definition mcpResponseFramingReserveBytes :: nat where "mcpResponseFramingReserveBytes = 4 * 1024"
definition mcpEnvelopeReserveBytes :: nat where
  "mcpEnvelopeReserveBytes = maxMCPRequestBytes + mcpResponseFramingReserveBytes"

record tableSummary_mcp =
  msName :: string
  msCatalog :: string
  msSchema :: string
  msTable :: string
  msColumns :: "QueryColumn list"
  msSchemaRefreshedAt :: string

text \<open>The slice of a list output is nil (\<open>None\<close>) when nothing was appended to the nil slice.\<close>

record listTablesOutput =
  loTables :: "tableSummary_mcp list option"
  loTruncated :: bool

record queryTableInput =
  qnActionVersion :: string
  qnTableRef :: string
  qnColumns :: "string list"
  qnLimit :: int

record queryTableOutput =
  qoActionVersion :: string
  qoTableRef :: string
  qoColumns :: "QueryColumn list"
  qoRows :: "go_map list"
  qoTruncated :: bool

subsection \<open>Wire size\<close>

definition summary_json :: "tableSummary_mcp \<Rightarrow> string" where
  "summary_json t =
     json_struct ([(''name'', json_string (msName t)), (''catalog'', json_string (msCatalog t)),
        (''schema'', json_string (msSchema t)), (''table'', json_string (msTable t))] @
       (if msColumns t = [] then [] else [(''columns'', json_array (map column_json (msColumns t)))]) @
       (if msSchemaRefreshedAt t = [] then []
        else [(''schemaRefreshedAt'', json_string (msSchemaRefreshedAt t))]))"

definition marshal_list :: "listTablesOutput \<Rightarrow> string option" where
  "marshal_list out =
     Some (json_struct ((''tables'', case loTables out of None \<Rightarrow> ''null'' | Some ts \<Rightarrow> json_array (map summary_json ts)) #
       (if loTruncated out then [(''truncated'', ''true'')] else [])))"

definition marshal_query :: "queryTableOutput \<Rightarrow> string option" where
  "marshal_query out =
     marshal_result \<lparr>resActionVersion = qoActionVersion out, resTableRef = qoTableRef out,
       resColumns = qoColumns out, resRows = qoRows out, resTruncated = qoTruncated out\<rparr>"

text \<open>
  The measured tool result: the output once as a JSON string inside a text block and once as
  structured content, which the encoder copies. The argument is the encoded output, if it encodes.
\<close>

definition tool_result_json :: "string \<Rightarrow> string" where
  "tool_result_json outputJSON =
     json_struct [(''content'', json_array [json_struct [(''type'', json_string ''text''),
        (''text'', json_string outputJSON)]]), (''structuredContent'', outputJSON)]"

definition mcpToolEnvelopeBytes :: "string option \<Rightarrow> nat option" where
  "mcpToolEnvelopeBytes encoded =
     map_option (\<lambda>outputJSON. length (tool_result_json outputJSON) + mcpEnvelopeReserveBytes) encoded"

definition mcpQueryEnvelopeBytes :: "queryTableOutput \<Rightarrow> nat option" where
  "mcpQueryEnvelopeBytes out = mcpToolEnvelopeBytes (marshal_query out)"

definition mcpListEnvelopeBytes :: "listTablesOutput \<Rightarrow> nat option" where
  "mcpListEnvelopeBytes out = mcpToolEnvelopeBytes (marshal_list out)"

definition fits_envelope :: "nat option \<Rightarrow> bool" where
  "fits_envelope n = (case n of None \<Rightarrow> False | Some k \<Rightarrow> k \<le> MaxQueryBytes)"

subsection \<open>Bounding query results\<close>

definition query_output :: "string \<Rightarrow> QueryTableResult \<Rightarrow> queryTableOutput" where
  "query_output tableRef result =
     \<lparr>qoActionVersion = ActionVersionV1, qoTableRef = tableRef, qoColumns = resColumns result,
      qoRows = resRows result, qoTruncated = resTruncated result\<rparr>"

definition empty_output :: "string \<Rightarrow> queryTableOutput" where
  "empty_output tableRef =
     \<lparr>qoActionVersion = ActionVersionV1, qoTableRef = tableRef, qoColumns = [], qoRows = [],
      qoTruncated = True\<rparr>"

text \<open>The loop has no bound in the code; a run that does not return is \<open>None\<close>.\<close>

partial_function (option) query_output_loop :: "string \<Rightarrow> QueryTableResult \<Rightarrow> queryTableOutput option" where
  "query_output_loop tableRef result =
     (if fits_envelope (mcpQueryEnvelopeBytes (query_output tableRef result))
      then Some (query_output tableRef result)
      else if resRows result \<noteq> [] then
        query_output_loop tableRef (result\<lparr>resRows := butlast (resRows result), resTruncated := True\<rparr>)
      else if resColumns result \<noteq> [] then
        query_output_loop tableRef
          ((BoundQueryResult (result\<lparr>resColumns := butlast (resColumns result)\<rparr>))\<lparr>resTruncated := True\<rparr>)
      else Some (empty_output tableRef))"

definition boundMCPQueryOutput :: "string \<Rightarrow> QueryTableResult \<Rightarrow> queryTableOutput option" where
  "boundMCPQueryOutput tableRef result = query_output_loop tableRef (BoundQueryResult result)"

subsection \<open>Bounding table lists\<close>

fun list_output_loop :: "nat \<Rightarrow> listTablesOutput \<Rightarrow> listTablesOutput option" where
  "list_output_loop 0 result = None"
| "list_output_loop (Suc fuel) result =
     (if fits_envelope (mcpListEnvelopeBytes result) then Some result
      else (case loTables result of
              None \<Rightarrow> Some \<lparr>loTables = Some [], loTruncated = True\<rparr>
            | Some [] \<Rightarrow> Some \<lparr>loTables = Some [], loTruncated = True\<rparr>
            | Some ts \<Rightarrow> list_output_loop fuel (result\<lparr>loTables := Some (butlast ts), loTruncated := True\<rparr>)))"

definition appended_nil :: "'a list \<Rightarrow> 'a list option" where
  "appended_nil xs = (if xs = [] then None else Some xs)"

text \<open>
  \<^verbatim>\<open>sort.Slice\<close> by name; the names are distinct, so every sorting algorithm gives the same list. The
  loop runs at most once per table and once more.
\<close>

definition boundMCPListOutput :: "tableSummary_mcp list \<Rightarrow> bool list \<Rightarrow> listTablesOutput option" where
  "boundMCPListOutput tables initialTruncated =
     (let tables = sort_key msName tables;
          truncated = (initialTruncated \<noteq> [] \<and> hd initialTruncated) in
      list_output_loop (Suc (length tables)) \<lparr>loTables = appended_nil tables, loTruncated = truncated\<rparr>)"

definition boundedTableMap :: "table_map \<Rightarrow> int \<Rightarrow> table_map \<times> bool" where
  "boundedTableMap tables limit =
     (let limit = (if limit < 1 then MaxTableListItems else limit) in
      if int (length tables) \<le> limit then (tables, False)
      else (map (\<lambda>name. (name, case map_of tables name of Some ref \<Rightarrow> ref | None \<Rightarrow> no_table))
              (take (nat limit) (sort (map fst tables))), True))"

subsection \<open>The tools\<close>

definition plain_summary :: "string \<times> TableRef \<Rightarrow> tableSummary_mcp" where
  "plain_summary = (\<lambda>(name, ref).
     \<lparr>msName = name, msCatalog = trCatalog ref, msSchema = trSchema ref, msTable = trTable ref,
      msColumns = [], msSchemaRefreshedAt = []\<rparr>)"

definition table_page :: "'w TableResolver \<Rightarrow> 'w \<Rightarrow> (table_map \<times> bool) go_result \<times> 'w" where
  "table_page resolver w =
     (case rvListTablesBounded resolver of
        Some page \<Rightarrow> page MaxTableListItems w
      | None \<Rightarrow> (case rvListTables resolver w of
                  (Inl e, w) \<Rightarrow> (Inl e, w)
                | (Inr tables, w) \<Rightarrow> (Inr (tables, False), w)))"

definition list_page ::
  "('w \<Rightarrow> (table_map \<times> bool) go_result \<times> 'w) \<Rightarrow> 'w \<Rightarrow> listTablesOutput option go_result \<times> 'w" where
  "list_page page w =
     (case page w of
        (Inl e, w) \<Rightarrow> (Inl e, w)
      | (Inr (tables, truncated), w) \<Rightarrow>
          (case boundedTableMap tables MaxTableListItems of
             (bounded, itemTruncated) \<Rightarrow>
               (Inr (boundMCPListOutput (map plain_summary bounded) [truncated \<or> itemTruncated]), w)))"

definition list_tables ::
  "'w TableResolver \<Rightarrow> 'w \<Rightarrow> listTablesOutput option go_result \<times> 'w" where
  "list_tables resolver = list_page (table_page resolver)"

definition describe_table ::
  "'w TableResolver \<Rightarrow> string \<Rightarrow> 'w \<Rightarrow> tableSummary_mcp go_result \<times> 'w" where
  "describe_table resolver tableRef w =
     (case rvGetTable resolver tableRef w of
        (Inl e, w) \<Rightarrow> (Inl e, w)
      | (Inr (ref, ok), w) \<Rightarrow>
          if \<not> ok then (Inl (ErrorString (''tableRef '' @ quoted tableRef @ '' not found'')), w)
          else
         (let summary = plain_summary (tableRef, ref) in
          case rvGetTableSchema resolver of
            None \<Rightarrow> (Inr summary, w)
          | Some schemaReader \<Rightarrow>
              (case schemaReader tableRef w of
                 (Inl _, w) \<Rightarrow> (Inr summary, w)
               | (Inr (columns, refreshedAt), w) \<Rightarrow>
                   (Inr (summary\<lparr>msColumns := columns, msSchemaRefreshedAt := refreshedAt\<rparr>), w))))"

text \<open>The executor behind the tool; a nil executor is \<open>None\<close>.\<close>

type_synonym 'w tool_executor = "ResourceRef \<Rightarrow> QueryInput \<Rightarrow> 'w \<Rightarrow> QueryTableResult go_result \<times> 'w"

definition query_table ::
  "'w tool_executor option \<Rightarrow> queryTableInput \<Rightarrow> 'w \<Rightarrow> queryTableOutput option go_result \<times> 'w" where
  "query_table executor input w =
     (case NormalizeQueryRequest
             \<lparr>qrActionVersion = qnActionVersion input, qrTableRef = qnTableRef input,
              qrColumns = qnColumns input, qrLimit = qnLimit input\<rparr> of
        Inl e \<Rightarrow> (Inl e, w)
      | Inr request \<Rightarrow>
     (case executor of
        None \<Rightarrow> (Inl (ErrorString ''databricks table query is unavailable''), w)
      | Some execute \<Rightarrow>
     (case execute \<lparr>rrAPIVersion = ''databricks.faros.sh/v1alpha1'', rrKind = ''Table'', rrResource = ''tables'',
                    rrName = qrTableRef request\<rparr>
             \<lparr>qiColumns = qrColumns request, qiLimit = qrLimit request\<rparr> w of
        (Inl e, w) \<Rightarrow> (Inl e, w)
      | (Inr result, w) \<Rightarrow> (Inr (boundMCPQueryOutput (qrTableRef request) result), w))))"

subsection \<open>The HTTP handler\<close>

record ('r, 'w) Deps =
  dpTables :: table_map
  dpTableResolver :: "'w TableResolver option"
  dpResolverFromRequest :: "('r \<Rightarrow> 'w TableResolver option) option"
  dpActionExecutor :: "'w tool_executor option"
  dpActionExecutorFromRequest :: "('r \<Rightarrow> 'w tool_executor option) option"

definition resolverForRequest :: "('r, 'w) Deps \<Rightarrow> 'r \<Rightarrow> 'w TableResolver" where
  "resolverForRequest deps r =
     (case Option.bind (dpResolverFromRequest deps) (\<lambda>f. f r) of
        Some resolver \<Rightarrow> resolver
      | None \<Rightarrow>
          (case dpTableResolver deps of
             Some resolver \<Rightarrow> resolver
           | None \<Rightarrow> StaticTableResolver (dpTables deps)))"

definition actionExecutorForRequest :: "('r, 'w) Deps \<Rightarrow> 'r \<Rightarrow> 'w tool_executor option" where
  "actionExecutorForRequest deps r =
     (case Option.bind (dpActionExecutorFromRequest deps) (\<lambda>f. f r) of
        Some executor \<Rightarrow> Some executor
      | None \<Rightarrow> dpActionExecutor deps)"

text \<open>The tools registered for one request.\<close>

record 'w tool_set =
  tlListTables :: "'w \<Rightarrow> listTablesOutput option go_result \<times> 'w"
  tlDescribeTable :: "string \<Rightarrow> 'w \<Rightarrow> tableSummary_mcp go_result \<times> 'w"
  tlQueryTable :: "queryTableInput \<Rightarrow> 'w \<Rightarrow> queryTableOutput option go_result \<times> 'w"

definition registerTools :: "'w TableResolver \<Rightarrow> 'w tool_executor option \<Rightarrow> 'w tool_set" where
  "registerTools resolver executor =
     \<lparr>tlListTables = list_tables resolver, tlDescribeTable = describe_table resolver,
      tlQueryTable = query_table executor\<rparr>"

definition newPerRequestServer :: "('r, 'w) Deps \<Rightarrow> 'r \<Rightarrow> 'w tool_set" where
  "newPerRequestServer deps r = registerTools (resolverForRequest deps r) (actionExecutorForRequest deps r)"

text \<open>
  The body of a request: the declared length and, unless the body is nil, its bytes with the error
  the reader ends with. \<open>sdk\<close> is the protocol handler of the MCP library, given the body it may read;
  an answer of the wrapper itself is a status with a text.
\<close>

record mcp_http =
  mhMethod :: string
  mhContentLength :: int
  mhBody :: "(string \<times> go_error option) option"

datatype 'x mcp_answer = PlainError (pe_status: int) (pe_text: string) | FromSDK 'x

definition mcp_handler ::
  "(mcp_http \<Rightarrow> 'w \<Rightarrow> 'x \<times> 'w) \<Rightarrow> mcp_http \<Rightarrow> 'w \<Rightarrow> 'x mcp_answer \<times> 'w" where
  "mcp_handler sdk r w =
     (let serve = (\<lambda>r. case sdk r w of (x, w) \<Rightarrow> (FromSDK x, w)) in
      if mhMethod r \<noteq> ''POST'' then serve r
      else if int maxMCPRequestBytes < mhContentLength r
      then (PlainError 413 ''MCP request body exceeds the configured limit'', w)
      else
     (case mhBody r of
        None \<Rightarrow> serve r
      | Some (content, failure) \<Rightarrow>
          if maxMCPRequestBytes < length content
          then (PlainError 413 ''MCP request body exceeds the configured limit'', w)
          else if failure \<noteq> None then (PlainError 400 ''failed to read MCP request body'', w)
          else serve (r\<lparr>mhBody := Some (content, None)\<rparr>)))"

subsection \<open>Sizes\<close>

lemma length_tool_result_json: "length (tool_result_json s) \<le> 7 * length s + 64"
  using length_json_string [of s]
  by (simp add: tool_result_json_def json_struct_def json_array_def json_string_def [of "''text''"]
      json_string_def [of "''type''"] json_string_def [of "''content''"] json_string_def [of "''structuredContent''"]
      decode_ascii json_escape_rune_def)

lemma length_empty_output:
  "\<exists>t. marshal_query (empty_output tableRef) = Some t \<and> length t \<le> 6 * length tableRef + 90"
  using length_json_string [of tableRef]
  by (simp add: marshal_query_def empty_output_def marshal_result_def result_fields_def json_struct_def json_array_def
      query_consts json_string_def [of "''v1''"] json_string_def [of "''actionVersion''"]
      json_string_def [of "''tableRef''"] json_string_def [of "''columns''"] json_string_def [of "''rows''"]
      json_string_def [of "''truncated''"] decode_ascii json_escape_rune_def)

lemma fits_envelope_iff: "fits_envelope n \<longleftrightarrow> (\<exists>k. n = Some k \<and> k \<le> 65536)"
  by (auto simp: fits_envelope_def query_consts split: option.split)

lemmas mcp_consts = mcpEnvelopeReserveBytes_def maxMCPRequestBytes_def mcpResponseFramingReserveBytes_def

lemma empty_output_fits:
  assumes "length tableRef \<le> 253"
  shows "fits_envelope (mcpQueryEnvelopeBytes (empty_output tableRef))"
proof -
  obtain t where t: "marshal_query (empty_output tableRef) = Some t" "length t \<le> 6 * length tableRef + 90"
    using length_empty_output by blast
  have "length (tool_result_json t) + mcpEnvelopeReserveBytes \<le> 65536"
    using length_tool_result_json [of t] t(2) assms by (simp add: mcp_consts)
  with t(1) show ?thesis
    by (simp add: fits_envelope_iff mcpQueryEnvelopeBytes_def mcpToolEnvelopeBytes_def)
qed

subsection \<open>The query loop returns\<close>

text \<open>What the loop returns for a shaped result.\<close>

definition output_of :: "string \<Rightarrow> QueryTableResult \<Rightarrow> queryTableOutput \<Rightarrow> bool" where
  "output_of tableRef r out \<longleftrightarrow>
     qoActionVersion out = ActionVersionV1 \<and> qoTableRef out = tableRef \<and>
     prefix (qoColumns out) (resColumns r) \<and> prefix (qoRows out) (resRows r) \<and>
     (qoColumns out \<noteq> resColumns r \<longrightarrow> qoRows out = []) \<and>
     (out = query_output tableRef r \<or> qoTruncated out) \<and>
     (fits_envelope (mcpQueryEnvelopeBytes out) \<or> out = empty_output tableRef)"

lemma output_of_shrunk:
  assumes o: "output_of tableRef r' out"
    and p: "prefix (resColumns r') (resColumns r)" "prefix (resRows r') (resRows r)"
    and e: "resColumns r' \<noteq> resColumns r \<Longrightarrow> resRows r' = []" and t: "resTruncated r'"
  shows "output_of tableRef r out"
proof -
  from t have "qoTruncated (query_output tableRef r')" by (simp add: query_output_def)
  with o have "qoTruncated out" unfolding output_of_def by metis
  moreover have "qoRows out = []" if "qoColumns out \<noteq> resColumns r"
    using that o e by (cases "qoColumns out = resColumns r'") (auto simp: output_of_def)
  ultimately show ?thesis
    using o p prefix_order.trans [of "qoColumns out" "resColumns r'" "resColumns r"]
      prefix_order.trans [of "qoRows out" "resRows r'" "resRows r"]
    by (simp add: output_of_def)
qed

lemma bound_fewer_columns:
  assumes "well_shaped r" "resRows r = []"
  shows "well_shaped ((BoundQueryResult (r\<lparr>resColumns := butlast (resColumns r)\<rparr>))\<lparr>resTruncated := True\<rparr>) \<and>
    prefix (resColumns (BoundQueryResult (r\<lparr>resColumns := butlast (resColumns r)\<rparr>))) (butlast (resColumns r)) \<and>
    resRows (BoundQueryResult (r\<lparr>resColumns := butlast (resColumns r)\<rparr>)) = []"
proof -
  let ?b = "r\<lparr>resColumns := butlast (resColumns r)\<rparr>"
  have "well_shaped ?b"
    using well_shaped_butlast_columns [OF assms, of "resTruncated r"] assms(2) by (simp add: well_shaped_def)
  then have n: "normalizeResultShape ?b = ?b" by (rule normalize_shaped_id)
  from bq.keeps_prefix [of ?b] n assms(2) bq.shaped [of ?b] show ?thesis
    by (auto simp: result_prefix_def well_shaped_def)
qed

lemma query_output_loop_returns:
  "well_shaped r \<Longrightarrow> \<exists>out. query_output_loop tableRef r = Some out \<and> output_of tableRef r out"
proof (induction "length (resRows r) + length (resColumns r)" arbitrary: r rule: less_induct)
  case less
  consider (fits) "fits_envelope (mcpQueryEnvelopeBytes (query_output tableRef r))"
    | (rows) "\<not> fits_envelope (mcpQueryEnvelopeBytes (query_output tableRef r))" "resRows r \<noteq> []"
    | (columns) "\<not> fits_envelope (mcpQueryEnvelopeBytes (query_output tableRef r))" "resRows r = []" "resColumns r \<noteq> []"
    | (none) "\<not> fits_envelope (mcpQueryEnvelopeBytes (query_output tableRef r))" "resRows r = []" "resColumns r = []"
    by blast
  then show ?case
  proof cases
    case fits
    then show ?thesis
      by (simp add: query_output_loop.simps [of tableRef r]) (simp add: output_of_def query_output_def)
  next
    case rows
    let ?r = "r\<lparr>resRows := butlast (resRows r), resTruncated := True\<rparr>"
    obtain out where o: "query_output_loop tableRef ?r = Some out" "output_of tableRef ?r out"
      using less.hyps [of ?r] rows(2) well_shaped_butlast_rows [OF less.prems] by (auto simp: neq_Nil_conv)
    from output_of_shrunk [OF o(2), of r] o(1) rows show ?thesis
      by (simp add: query_output_loop.simps [of tableRef r] prefixeq_butlast)
  next
    case columns
    let ?b = "BoundQueryResult (r\<lparr>resColumns := butlast (resColumns r)\<rparr>)"
    note b = bound_fewer_columns [OF less.prems columns(2)]
    have "length (resColumns ?b) < length (resColumns r)"
      using b prefix_length_le [of "resColumns ?b" "butlast (resColumns r)"] butlast_measure [OF columns(3)] by linarith
    then obtain out where o: "query_output_loop tableRef (?b\<lparr>resTruncated := True\<rparr>) = Some out"
      "output_of tableRef (?b\<lparr>resTruncated := True\<rparr>) out"
      using less.hyps [of "?b\<lparr>resTruncated := True\<rparr>"] b columns(2) by auto
    have "prefix (resColumns ?b) (resColumns r)"
      using b prefixeq_butlast prefix_order.trans by blast
    with output_of_shrunk [OF o(2), of r] o(1) columns b show ?thesis
      by (simp add: query_output_loop.simps [of tableRef r])
  next
    case none
    then show ?thesis
      by (simp add: query_output_loop.simps [of tableRef r] output_of_def empty_output_def)
  qed
qed

lemma boundMCPQueryOutput_returns:
  "\<exists>out. boundMCPQueryOutput tableRef result = Some out \<and> output_of tableRef (BoundQueryResult result) out"
  unfolding boundMCPQueryOutput_def by (rule query_output_loop_returns [OF bq.shaped])

lemma normalized_ref_length:
  "NormalizeQueryRequest q = Inr request \<Longrightarrow> length (qrTableRef request) \<le> 253"
  by (auto simp: NormalizeQueryRequest_def ValidateTableRef_def Let_def split: sum.split_asm if_split_asm)

text \<open>
  C10. Every call of the query tool returns, and what it returns fits the wire: the loop that
  removes rows and columns always ends; the output with its second copy as text and the reserve
  for framing is at most 64 KiB; its columns and rows are the first ones of the bounded result of
  the executor, rows only of all its columns, and anything left out is marked as truncated.
\<close>

theorem query_table_returns:
  assumes "query_table executor input w = (Inr answer, w')"
  shows "\<exists>request result execute out v. NormalizeQueryRequest
      \<lparr>qrActionVersion = qnActionVersion input, qrTableRef = qnTableRef input, qrColumns = qnColumns input,
       qrLimit = qnLimit input\<rparr> = Inr request \<and> executor = Some execute \<and>
    execute (table_ref (qrTableRef request)) \<lparr>qiColumns = qrColumns request, qiLimit = qrLimit request\<rparr> w = (Inr result, w') \<and>
    answer = Some out \<and> mcpQueryEnvelopeBytes out = Some v \<and> v \<le> 65536 \<and> qoTableRef out = qrTableRef request \<and>
    prefix (qoColumns out) (resColumns (BoundQueryResult result)) \<and>
    prefix (qoRows out) (resRows (BoundQueryResult result)) \<and>
    (qoColumns out \<noteq> resColumns (BoundQueryResult result) \<longrightarrow> qoRows out = []) \<and>
    (out = query_output (qrTableRef request) (BoundQueryResult result) \<or> qoTruncated out)"
proof -
  from assms obtain request execute result where
    n: "NormalizeQueryRequest \<lparr>qrActionVersion = qnActionVersion input, qrTableRef = qnTableRef input,
        qrColumns = qnColumns input, qrLimit = qnLimit input\<rparr> = Inr request" and e: "executor = Some execute"
    and x: "execute (table_ref (qrTableRef request)) \<lparr>qiColumns = qrColumns request, qiLimit = qrLimit request\<rparr> w =
        (Inr result, w')"
    and a: "answer = boundMCPQueryOutput (qrTableRef request) result"
    by (auto simp: query_table_def table_ref_def resourceAPIVersion_def resourceKind_def resourceName_def split: sum.split_asm option.split_asm prod.split_asm)
  obtain out where o: "answer = Some out" "output_of (qrTableRef request) (BoundQueryResult result) out"
    using boundMCPQueryOutput_returns a by metis
  then have "fits_envelope (mcpQueryEnvelopeBytes out)"
    using empty_output_fits [OF normalized_ref_length [OF n]] by (auto simp: output_of_def)
  then obtain v where "mcpQueryEnvelopeBytes out = Some v" "v \<le> 65536" by (auto simp: fits_envelope_iff)
  with n e x o show ?thesis unfolding output_of_def by blast
qed

subsection \<open>The list loop returns\<close>

definition listed :: "listTablesOutput \<Rightarrow> tableSummary_mcp list" where
  "listed out = (case loTables out of None \<Rightarrow> [] | Some ts \<Rightarrow> ts)"

lemma empty_list_fits: "fits_envelope (mcpListEnvelopeBytes \<lparr>loTables = Some [], loTruncated = True\<rparr>)"
  by (simp add: fits_envelope_iff mcpListEnvelopeBytes_def mcpToolEnvelopeBytes_def marshal_list_def mcp_consts
      tool_result_json_def json_struct_def json_array_def json_string_def decode_ascii json_escape_rune_def)

lemma list_output_loop_returns:
  "length (listed r) < fuel \<Longrightarrow> \<exists>out. list_output_loop fuel r = Some out \<and>
     fits_envelope (mcpListEnvelopeBytes out) \<and> prefix (listed out) (listed r) \<and> (out = r \<or> loTruncated out)"
proof (induction fuel arbitrary: r)
  case (Suc fuel)
  show ?case
  proof (cases "fits_envelope (mcpListEnvelopeBytes r) \<or> listed r = []")
    case True
    then show ?thesis
      using empty_list_fits by (auto simp: listed_def split: option.split list.split)
  next
    case False
    then obtain ts where ts: "loTables r = Some ts" "ts \<noteq> []" by (auto simp: listed_def split: option.split_asm)
    let ?r = "r\<lparr>loTables := Some (butlast ts), loTruncated := True\<rparr>"
    have b: "listed ?r = butlast ts" by (simp add: listed_def)
    with Suc.prems ts have "length (listed ?r) < fuel"
      by (cases ts) (simp_all add: listed_def)
    from Suc.IH [OF this] b obtain out where
      o: "list_output_loop fuel ?r = Some out" "fits_envelope (mcpListEnvelopeBytes out)"
        "prefix (listed out) (butlast ts)" "out = ?r \<or> loTruncated out"
      by auto
    moreover have "loTruncated out" using o(4) by auto
    moreover have "prefix (listed out) ts" using o(3) prefixeq_butlast prefix_order.trans by blast
    ultimately show ?thesis using False ts by (auto simp: listed_def neq_Nil_conv split: list.split)
  qed
qed simp

lemma TableRef_eta [simp]:
  "\<lparr>trCatalog = trCatalog ref, trSchema = trSchema ref, trTable = trTable ref\<rparr> = (ref :: TableRef)"
  by simp

definition list_answer :: "table_map \<Rightarrow> bool \<Rightarrow> listTablesOutput \<Rightarrow> bool" where
  "list_answer tables truncated out \<longleftrightarrow>
     fits_envelope (mcpListEnvelopeBytes out) \<and> length (listed out) \<le> 256 \<and>
     sorted (map msName (listed out)) \<and> distinct (map msName (listed out)) \<and>
     set (listed out) \<subseteq> plain_summary ` set tables \<and>
     (loTruncated out \<or> \<not> truncated \<and> set (listed out) = plain_summary ` set tables)"

lemma msName_plain: "map msName (map plain_summary tables) = map fst tables"
  by (simp add: plain_summary_def case_prod_beta)

lemma boundMCPListOutput_returns:
  assumes "distinct (map fst tables)" "length tables \<le> 256"
  shows "\<exists>out. boundMCPListOutput (map plain_summary tables) [truncated] = Some out \<and> list_answer tables truncated out"
proof -
  let ?ts = "sort_key msName (map plain_summary tables)"
  let ?r = "\<lparr>loTables = appended_nil ?ts, loTruncated = truncated\<rparr>"
  have l: "listed ?r = ?ts" by (simp add: listed_def appended_nil_def)
  obtain out where o: "boundMCPListOutput (map plain_summary tables) [truncated] = Some out"
    "fits_envelope (mcpListEnvelopeBytes out)" "prefix (listed out) ?ts" "out = ?r \<or> loTruncated out"
    using list_output_loop_returns [of ?r "Suc (length ?ts)"] l
    by (auto simp: boundMCPListOutput_def Let_def simp del: list_output_loop.simps)
  obtain zs where z: "?ts = listed out @ zs" using o(3) by (auto simp: prefix_def)
  have "sorted (map msName (listed out @ zs))" by (metis sorted_sort_key z)
  moreover have "distinct (map msName (listed out @ zs))"
    by (metis assms(1) distinct_map distinct_sort msName_plain set_sort z)
  moreover have "length (listed out @ zs) = length tables" by (metis length_map length_sort z)
  moreover have "set (listed out @ zs) = plain_summary ` set tables" by (metis list.set_map set_sort z)
  moreover have "loTruncated out \<or> listed out = ?ts \<and> \<not> truncated" using o(4) l by auto
  ultimately show ?thesis
    using o(1,2) assms(2) z by (auto simp: list_answer_def sorted_append)
qed

lemma boundedTableMap_ok:
  assumes "distinct (map fst tables)" "boundedTableMap tables MaxTableListItems = (bounded, cut_off)"
  shows "distinct (map fst bounded)" "length bounded \<le> 256" "set bounded \<subseteq> set tables"
    "cut_off \<or> bounded = tables"
proof -
  let ?names = "take 256 (sort (map fst tables))"
  let ?f = "\<lambda>name. (name, case map_of tables name of Some ref \<Rightarrow> ref | None \<Rightarrow> no_table)"
  have f: "?f name \<in> set tables" if "name \<in> fst ` set tables" for name
    using that assms(1) by (auto simp: map_of_is_SomeI split: option.split)
  have n: "set ?names \<subseteq> fst ` set tables" using set_take_subset [of 256 "sort (map fst tables)"] by simp
  consider "bounded = tables" "length tables \<le> 256" | "bounded = map ?f ?names" "cut_off"
    using assms(2) by (auto simp: boundedTableMap_def MaxTableListItems_def Let_def split: if_split_asm)
  then show "distinct (map fst bounded)" "length bounded \<le> 256" "set bounded \<subseteq> set tables" "cut_off \<or> bounded = tables"
    using assms(1) f n by (cases; auto simp: comp_def distinct_take subset_iff)+
qed

text \<open>The list tool asks its source for one page of distinct, vouched names and nothing else.\<close>

locale table_pages =
  fixes page :: "'w \<Rightarrow> (table_map \<times> bool) go_result \<times> 'w" and vouched :: "TableRef \<Rightarrow> bool"
  assumes page_law: "page w = (Inr (tables, truncated), w') \<Longrightarrow>
      distinct (map fst tables) \<and> list_all (\<lambda>(_, ref). vouched ref) tables"
begin

lemma list_page_answers:
  assumes "list_page page w = (Inr answer, w')"
  shows "\<exists>tables truncated out. page w = (Inr (tables, truncated), w') \<and> answer = Some out \<and>
    list_answer tables truncated out \<and>
    (\<forall>t\<in>set (listed out). vouched \<lparr>trCatalog = msCatalog t, trSchema = msSchema t, trTable = msTable t\<rparr>)"
proof -
  obtain tables truncated where p: "page w = (Inr (tables, truncated), w')"
    using assms by (auto simp: list_page_def split: prod.split_asm sum.split_asm)
  note law = page_law [OF p]
  obtain bounded cut_off where b: "boundedTableMap tables MaxTableListItems = (bounded, cut_off)" by fastforce
  note ok = boundedTableMap_ok [OF conjunct1 [OF law] b]
  obtain out where o: "boundMCPListOutput (map plain_summary bounded) [truncated \<or> cut_off] = Some out"
    "list_answer bounded (truncated \<or> cut_off) out"
    using boundMCPListOutput_returns [OF ok(1,2)] by blast
  have a: "answer = Some out" using assms p b o(1) by (simp add: list_page_def)
  have "set (listed out) \<subseteq> plain_summary ` set tables"
    using o(2) image_mono [OF ok(3), of plain_summary] unfolding list_answer_def by blast
  then have l: "list_answer tables truncated out"
    using o(2) ok(4) by (auto simp: list_answer_def)
  have "vouched \<lparr>trCatalog = msCatalog t, trSchema = msSchema t, trTable = msTable t\<rparr>" if "t \<in> set (listed out)" for t
  proof -
    from that l have "t \<in> plain_summary ` set tables" unfolding list_answer_def by blast
    then obtain name ref where "t = plain_summary (name, ref)" "(name, ref) \<in> set tables" by auto
    with law show ?thesis by (auto simp: plain_summary_def list_all_iff)
  qed
  with p a l show ?thesis by blast
qed

end

text \<open>Every table resolver is a source of pages, whether it lists bounded pages or everything.\<close>

sublocale table_resolver \<subseteq> pages: table_pages "table_page resolver" vouched
proof
  show "distinct (map fst tables) \<and> list_all (\<lambda>(_, ref). vouched ref) tables"
    if "table_page resolver w = (Inr (tables, truncated), w')" for w tables truncated w'
    using that list_law [of w tables w'] bounded_law [of _ MaxTableListItems w tables truncated w']
    by (auto simp: table_page_def split: option.split_asm prod.split_asm sum.split_asm)
qed

context table_resolver
begin

lemma describe_table_vouched:
  assumes "describe_table resolver tableRef w = (Inr summary, w')"
  shows "msName summary = tableRef \<and>
    vouched \<lparr>trCatalog = msCatalog summary, trSchema = msSchema summary, trTable = msTable summary\<rparr>"
  using assms get_law [of tableRef w]
  by (auto simp: describe_table_def plain_summary_def Let_def
      split: prod.split_asm sum.split_asm if_split_asm option.split_asm)

end

subsection \<open>What the tools answer\<close>

text \<open>
  C23. The list tool shows the caller's tables and says when it does not show all of them: from one
  page of at most 257 objects read with the caller's own client it returns, within 64 KiB on the
  wire, at most 256 entries in the order of their names, each the reference of an object of that
  page with a catalog, a schema and a table; unless the answer is marked as truncated the page was
  the whole list and every such object is shown.
\<close>

theorem list_tables_faithful:
  assumes "list_tables (tableResolver api who) w = (Inr answer, w')"
  shows "\<exists>out dyn items continue v. answer = Some out \<and> dynamicClient api who w = (Inr dyn, w') \<and>
    tpList api dyn 257 (rwTenant w') = Inr (items, continue) \<and>
    mcpListEnvelopeBytes out = Some v \<and> v \<le> 65536 \<and> length (listed out) \<le> 256 \<and>
    sorted (map msName (listed out)) \<and> distinct (map msName (listed out)) \<and>
    (\<forall>t\<in>set (listed out). \<exists>item\<in>set items. tpName api item = msName t \<and> tableRefFromObject api item =
       (\<lparr>trCatalog = msCatalog t, trSchema = msSchema t, trTable = msTable t\<rparr>, True)) \<and>
    (loTruncated out \<or> length items \<le> 256 \<and> continue = [] \<and>
       msName ` set (listed out) = tpName api ` {item \<in> set items. snd (tableRefFromObject api item)})"
proof -
  obtain tables truncated out where p: "table_page (tableResolver api who) w = (Inr (tables, truncated), w')"
    and a: "answer = Some out" and l: "list_answer tables truncated out"
    using tenant_tables.pages.list_page_answers [OF assms [unfolded list_tables_def]] by blast
  from p have "ListTablesBounded api who MaxTableListItems w = (Inr (tables, truncated), w')"
    by (simp add: table_page_def tableResolver_def)
  from ListTablesBounded_page [OF this] obtain dyn items continue where
    d: "dynamicClient api who w = (Inr dyn, w')" "tpList api dyn 257 (rwTenant w') = Inr (items, continue)"
    and t: "tables = fold (add_table api) (take 256 items) []"
    and tr: "truncated \<longleftrightarrow> 256 < int (length items) \<or> continue \<noteq> []"
    by (auto simp: MaxTableListItems_def)
  have "\<exists>item\<in>set items. tpName api item = msName s \<and> tableRefFromObject api item =
      (\<lparr>trCatalog = msCatalog s, trSchema = msSchema s, trTable = msTable s\<rparr>, True)" if "s \<in> set (listed out)" for s
  proof -
    from that l obtain name ref where "s = plain_summary (name, ref)" "(name, ref) \<in> set tables"
      unfolding list_answer_def by auto
    with add_table_items [of name ref api "take 256 items" "[]"] t show ?thesis
      by (auto simp: plain_summary_def dest: in_set_takeD)
  qed
  moreover have "msName ` set (listed out) = tpName api ` {item \<in> set items. snd (tableRefFromObject api item)}"
    if "\<not> loTruncated out"
  proof -
    from that l tr have "set (listed out) = plain_summary ` set tables" "length items \<le> 256"
      by (auto simp: list_answer_def)
    then have "msName ` set (listed out) = fst ` set tables" "take 256 items = items"
      by (auto simp: plain_summary_def image_image case_prod_beta)
    with t add_table_names [of api items "[]"] show ?thesis by simp
  qed
  ultimately show ?thesis
    using a d l tr unfolding list_answer_def fits_envelope_iff by auto
qed

text \<open>
  No POST request with more than 8 KiB reaches the protocol handler: it runs only on a body
  that was read completely, without an error, and is the one that was sent; every other request is
  answered with 413 when it is too large or with 400 when reading fails, and changes nothing.
\<close>

theorem mcp_request_bounded:
  assumes "mcp_handler sdk r w = (answer, w')" "mhMethod r = ''POST''"
  shows "case answer of
      FromSDK x \<Rightarrow> sdk r w = (x, w') \<and> mhContentLength r \<le> 8192 \<and>
        (\<forall>content failure. mhBody r = Some (content, failure) \<longrightarrow> length content \<le> 8192 \<and> failure = None)
    | PlainError status _ \<Rightarrow> w' = w \<and>
        (status = 413 \<and> (8192 < mhContentLength r \<or> (\<exists>content failure. mhBody r = Some (content, failure) \<and> 8192 < length content)) \<or>
         status = 400 \<and> (\<exists>content e. mhBody r = Some (content, Some e) \<and> length content \<le> 8192))"
proof -
  have u: "r\<lparr>mhBody := b\<rparr> = r" if "mhBody r = b" for b using that by (cases r) simp
  from assms show ?thesis
    by (auto simp: u mcp_handler_def mcp_consts Let_def split: option.split_asm prod.split_asm if_split_asm)
qed

subsection \<open>Examples\<close>

definition demo_object :: "string \<Rightarrow> string \<Rightarrow> go_map" where
  "demo_object name table =
     [(''name'', JStr name), (''catalog'', JStr ''sales''), (''schema'', JStr ''gold''), (''table'', JStr table)]"

definition demo_field :: "go_map \<Rightarrow> string \<Rightarrow> string" where
  "demo_field item key = (case map_of item key of Some (JStr s) \<Rightarrow> s | _ \<Rightarrow> [])"

definition demo_table_api :: "(unit, unit) table_api" where
  "demo_table_api =
     \<lparr>tpNewForConfig = (\<lambda>_. Inr ()), tpNow = 5,
      tpList = (\<lambda>_ _ _. Inr ([demo_object ''zeta'' ''t1'', demo_object ''alpha'' ''t2'', demo_object ''blank'' []], [])),
      tpGet = (\<lambda>_ _ _. Inl (ErrorString ''no such table'')),
      tpName = (\<lambda>item. demo_field item ''name''), tpNestedString = (\<lambda>item path. demo_field item (last path)),
      tpNestedSlice = (\<lambda>_ _. [])\<rparr>"

definition demo_identity :: identity where
  "demo_identity = \<lparr>iyTenant = ''acme'', iyClusterID = ''c1'', iyToken = ''tok''\<rparr>"

definition demo_tables_world :: "(unit, rest_config, unit kube_client, nat, unit) resolver_world" where
  "demo_tables_world = \<lparr>rwFactory = Some sample_factory, rwTenant = ()\<rparr>"

lemma demo_client_made:
  "\<exists>w'. dynamicClient demo_table_api demo_identity demo_tables_world = (Inr (), w')"
  by (simp add: dynamicClient_def demo_table_api_def demo_identity_def demo_tables_world_def
      For_def Let_def configFor_def sample_factory_def newClientFactory_def
      fromCache_def storeClient_def empty_cache_def touch_client_def
      evictLocked.simps cacheCapacityValue_def defaultClientCacheCapacity_def cacheTTLValue_def
      defaultClientCacheTTL_def meta_record_def created_by_def dynamicFromCache_def storeDynamic_def
      split: option.split prod.split)

lemma list_tables_listed:
  assumes "dynamicClient api who w = (Inr dyn, w')" "tpList api dyn 257 (rwTenant w') = Inr (items, continue)"
  shows "\<exists>answer. list_tables (tableResolver api who) w = (Inr answer, w')"
  using assms by (auto simp: list_tables_def list_page_def table_page_def tableResolver_def ListTablesBounded_def Let_def
      MaxTableListItems_def split: prod.split)

theorem list_tables_faithful_witness:
  "\<exists>out v w'. list_tables (tableResolver demo_table_api demo_identity) demo_tables_world = (Inr (Some out), w') \<and>
     mcpListEnvelopeBytes out = Some v \<and> v \<le> 65536 \<and> msName ` set (listed out) \<subseteq> {''zeta'', ''alpha'', ''blank''}"
proof -
  obtain w' where d: "dynamicClient demo_table_api demo_identity demo_tables_world = (Inr (), w')"
    using demo_client_made by blast
  then obtain answer where
    l: "list_tables (tableResolver demo_table_api demo_identity) demo_tables_world = (Inr answer, w')"
    using list_tables_listed [OF d] by (auto simp: demo_table_api_def)
  show ?thesis
    using list_tables_faithful [OF l] l d by (fastforce simp: demo_table_api_def demo_object_def demo_field_def)
qed

theorem query_table_returns_witness:
  "\<exists>out v. query_table (Some (\<lambda>_ _ w. (Inr example_result, w)))
       \<lparr>qnActionVersion = ''v1'', qnTableRef = ''table'', qnColumns = [''order_id''], qnLimit = 5\<rparr> () = (Inr (Some out), ()) \<and>
     mcpQueryEnvelopeBytes out = Some v \<and> v \<le> 65536 \<and> prefix (qoColumns out) (resColumns example_result)"
proof -
  have n: "NormalizeQueryRequest \<lparr>qrActionVersion = ''v1'', qrTableRef = ''table'', qrColumns = [''order_id''], qrLimit = 5\<rparr> =
      Inr \<lparr>qrActionVersion = ''v1'', qrTableRef = ''table'', qrColumns = [''order_id''], qrLimit = 5\<rparr>"
    using example_normalized by (simp add: query_consts)
  then obtain answer where q: "query_table (Some (\<lambda>_ _ w. (Inr example_result, w)))
       \<lparr>qnActionVersion = ''v1'', qnTableRef = ''table'', qnColumns = [''order_id''], qnLimit = 5\<rparr> () = (Inr answer, ())"
    by (simp add: query_table_def)
  show ?thesis using query_table_returns [OF q] q by (auto simp: example_result_bound)
qed

theorem mcp_request_bounded_witness:
  "mcp_handler (\<lambda>r n. (mhBody r, Suc n)) \<lparr>mhMethod = ''POST'', mhContentLength = 9000, mhBody = None\<rparr> 0 =
     (PlainError 413 ''MCP request body exceeds the configured limit'', 0) \<and>
   mcp_handler (\<lambda>r n. (mhBody r, Suc n)) \<lparr>mhMethod = ''POST'', mhContentLength = 2, mhBody = Some (''{}'', None)\<rparr> 0 =
     (FromSDK (Some (''{}'', None)), 1)"
proof -
  let ?r = "\<lparr>mhMethod = ''POST'', mhContentLength = 2, mhBody = Some (''{}'', None)\<rparr>"
  have "mcp_handler (\<lambda>r n. (mhBody r, Suc n)) ?r 0 = (FromSDK (Some (''{}'', None)), 1)"
    by (simp add: mcp_handler_def mcp_consts)
  with mcp_request_bounded [OF this] show ?thesis by (simp add: mcp_handler_def mcp_consts)
qed

end
