(* ===== verification/Go_Time.thy ===== *)
theory Go_Time
  imports Go_Strings
begin

text \<open>
  Durations of package \<^verbatim>\<open>time\<close> in nanoseconds and the booleans of \<^verbatim>\<open>strconv\<close>, as far as the
  settings of the provider use them. A refused text is \<open>None\<close>; the settings do not read the error.
\<close>

subsection \<open>Floating point\<close>

text \<open>
  The positive quotient \<open>a / b\<close> rounded to the nearest value with 53 bits, ties to even, as a fraction.
  The exponents of the values that occur here are far from the ends of the range.
\<close>

fun bit_length :: "nat \<Rightarrow> nat" where
  "bit_length n = (if n = 0 then 0 else Suc (bit_length (n div 2)))"

declare bit_length.simps [simp del]

definition round_even :: "nat \<Rightarrow> nat \<Rightarrow> nat" where
  "round_even a b =
     (if b < 2 * (a mod b) \<or> 2 * (a mod b) = b \<and> odd (a div b) then a div b + 1 else a div b)"

definition scaled :: "nat \<Rightarrow> nat \<Rightarrow> int \<Rightarrow> nat \<times> nat" where
  "scaled a b s = (if 0 \<le> s then (a * 2 ^ nat s, b) else (a, b * 2 ^ nat (- s)))"

definition float64 :: "nat \<Rightarrow> nat \<Rightarrow> nat \<times> nat" where
  "float64 a b =
     (if a = 0 then (0, 1)
      else
        let s = 53 + int (bit_length b) - int (bit_length a);
            s = (case scaled a b s of (n, d) \<Rightarrow> if 2 ^ 53 \<le> n div d then s - 1 else s);
            m = (case scaled a b s of (n, d) \<Rightarrow> round_even n d) in
        if 0 \<le> s then (m, 2 ^ nat s) else (m * 2 ^ nat (- s), 1))"

subsection \<open>ParseDuration\<close>

definition duration_digit :: "char \<Rightarrow> bool" where
  "duration_digit c \<longleftrightarrow> 48 \<le> byte c \<and> byte c \<le> 57"

fun leadingInt :: "nat \<Rightarrow> string \<Rightarrow> (nat \<times> string) option" where
  "leadingInt x [] = Some (x, [])"
| "leadingInt x (c # s) =
     (if \<not> duration_digit c then Some (x, c # s)
      else if 2 ^ 63 div 10 < x then None
      else
        let x = x * 10 + (byte c - 48) in
        if 2 ^ 63 < x then None else leadingInt x s)"

fun leadingFraction :: "bool \<Rightarrow> nat \<Rightarrow> nat \<Rightarrow> string \<Rightarrow> nat \<times> nat \<times> string" where
  "leadingFraction overflow x scale [] = (x, scale, [])"
| "leadingFraction overflow x scale (c # s) =
     (if \<not> duration_digit c then (x, scale, c # s)
      else if overflow \<or> (2 ^ 63 - 1) div 10 < x then leadingFraction True x scale s
      else
        let y = x * 10 + (byte c - 48) in
        if 2 ^ 63 < y then leadingFraction True x scale s
        else leadingFraction False y (scale * 10) s)"

definition duration_unit :: "string \<Rightarrow> nat option" where
  "duration_unit u =
     map_of [(''ns'', 1), (''us'', 1000), (bytes [194, 181] @ ''s'', 1000), (bytes [206, 188] @ ''s'', 1000),
             (''ms'', 1000000), (''s'', 1000000000), (''m'', 60000000000), (''h'', 3600000000000)] u"

text \<open>\<open>f * (unit / scale)\<close> in floating point, cut to an integer.\<close>

definition duration_fraction :: "nat \<Rightarrow> nat \<Rightarrow> nat \<Rightarrow> nat" where
  "duration_fraction f unit scale =
     (case float64 f 1 of (fn, fd) \<Rightarrow>
     (case float64 unit scale of (un, ud) \<Rightarrow>
     (case float64 (fn * un) (fd * ud) of (pn, pd) \<Rightarrow> pn div pd)))"

definition duration_term :: "string \<Rightarrow> (nat \<times> string) option" where
  "duration_term s =
     (if s = [] \<or> \<not> (hd s = CHR ''.'' \<or> duration_digit (hd s)) then None
      else
     (case leadingInt 0 s of
        None \<Rightarrow> None
      | Some (v, rest) \<Rightarrow>
          (let pre = (length rest \<noteq> length s);
               (post, f, scale, rest) =
                 (if rest \<noteq> [] \<and> hd rest = CHR ''.''
                  then (case leadingFraction False 0 1 (tl rest) of
                          (f, scale, rest') \<Rightarrow> (length rest' \<noteq> length (tl rest), f, scale, rest'))
                  else (False, 0, 1, rest));
               u = takeWhile (\<lambda>c. \<not> (c = CHR ''.'' \<or> duration_digit c)) rest;
               rest = drop (length u) rest in
           if \<not> pre \<and> \<not> post \<or> u = [] then None
           else
          (case duration_unit u of
             None \<Rightarrow> None
           | Some unit \<Rightarrow>
               if 2 ^ 63 div unit < v then None
               else
                 let v = v * unit + (if 0 < f then duration_fraction f unit scale else 0) in
                 if 0 < f \<and> 2 ^ 63 < v then None else Some (v, rest)))))"

lemma leadingInt_shrinks: "leadingInt x s = Some (v, rest) \<Longrightarrow> length rest \<le> length s"
  by (induction x s rule: leadingInt.induct) (auto simp: Let_def split: if_split_asm)

lemma leadingFraction_shrinks: "leadingFraction b x k s = (f, scale, rest) \<Longrightarrow> length rest \<le> length s"
  by (induction s arbitrary: b x k) (fastforce simp: Let_def split: if_split_asm)+

lemma drop_unit_shrinks: "takeWhile P rest \<noteq> [] \<Longrightarrow> length (drop (length (takeWhile P rest)) rest) < length rest"
  by (cases rest) auto

lemma duration_term_shrinks:
  assumes "duration_term s = Some (v, rest)"
  shows "length rest < length s"
proof -
  obtain v0 r0 where i: "leadingInt 0 s = Some (v0, r0)"
    using assms by (auto simp: duration_term_def split: if_split_asm option.split_asm)
  obtain f k r1 where fr: "leadingFraction False 0 1 (tl r0) = (f, k, r1)" using prod_cases3 by blast
  let ?r = "if r0 \<noteq> [] \<and> hd r0 = CHR ''.'' then r1 else r0"
  have "length ?r \<le> length s"
    using leadingInt_shrinks [OF i] leadingFraction_shrinks [OF fr] by auto
  moreover have "length rest < length ?r"
    using assms i fr drop_unit_shrinks [of _ ?r]
    by (auto simp: duration_term_def Let_def split: if_split_asm option.split_asm)
  ultimately show ?thesis by simp
qed

text \<open>The sum is an unsigned 64-bit integer.\<close>

function duration_sum :: "nat \<Rightarrow> string \<Rightarrow> nat option" where
  "duration_sum d s =
     (if s = [] then Some d
      else
     (case duration_term s of
        None \<Rightarrow> None
      | Some (v, rest) \<Rightarrow>
          let d = (d + v) mod 2 ^ 64 in
          if 2 ^ 63 < d then None else duration_sum d rest))"
  by pat_completeness auto
termination by (relation "measure (length \<circ> snd)") (auto dest: duration_term_shrinks)

declare duration_sum.simps [simp del]

definition ParseDuration :: "string \<Rightarrow> int option" where
  "ParseDuration orig =
     (let signed = (orig \<noteq> [] \<and> hd orig \<in> {CHR ''-'', CHR ''+''});
          neg = (signed \<and> hd orig = CHR ''-'');
          s = (if signed then tl orig else orig) in
      if s = ''0'' then Some 0
      else if s = [] then None
      else
     (case duration_sum 0 s of
        None \<Rightarrow> None
      | Some d \<Rightarrow>
          if neg then Some (- int d)
          else if 2 ^ 63 - 1 < d then None
          else Some (int d)))"

subsection \<open>Printing durations and reading booleans\<close>

text \<open>\<^verbatim>\<open>Duration.String\<close> for durations of at least a second.\<close>

definition duration_frac :: "nat \<Rightarrow> string" where
  "duration_frac ns =
     (let digits = map (\<lambda>i. char_of (48 + ns div 10 ^ i mod 10)) (rev [0..<9]);
          kept = rev (dropWhile (\<lambda>c. c = CHR ''0'') (rev digits)) in
      if kept = [] then [] else CHR ''.'' # kept)"

definition duration_string :: "int \<Rightarrow> string" where
  "duration_string d =
     (let u = nat d; secs = u div 1000000000; minutes = secs div 60; hours = minutes div 60 in
      (if 0 < hours then show_nat hours @ ''h'' else []) @
      (if 0 < minutes then show_nat (minutes mod 60) @ ''m'' else []) @
      show_nat (secs mod 60) @ duration_frac (u mod 1000000000) @ ''s'')"

definition ParseBool :: "string \<Rightarrow> bool option" where
  "ParseBool s =
     (if s \<in> set [''1'', ''t'', ''T'', ''true'', ''TRUE'', ''True''] then Some True
      else if s \<in> set [''0'', ''f'', ''F'', ''false'', ''FALSE'', ''False''] then Some False
      else None)"

lemma parse_90s: "ParseDuration ''90s'' = Some 90000000000"
proof -
  have t: "duration_term ''90s'' = Some (90000000000, [])"
    by (simp add: duration_term_def duration_digit_def byte_def duration_unit_def bytes_def)
  then show ?thesis by (simp add: ParseDuration_def duration_sum.simps [of _ "''90s''"] duration_sum.simps [of _ "[]"])
qed

end
