(* ===== verification/Controller_Manager.thy ===== *)
theory Controller_Manager
  imports Tenant_Authority Go_Time
begin

text \<open>
  \<^verbatim>\<open>controller_manager.go\<close>: the health record of the controllers, the wait for a usable endpoint slice, the
  watchdog, one leadership term and the leader-elected loop, with the settings they read. A nil
  health is \<open>None\<close>; \<open>'w\<close> is the state the readiness check of the provider reads. Times are
  nanoseconds. \<^verbatim>\<open>os.Getenv\<close>, client-go, the provider SDK, controller-runtime and the clock are arguments.
\<close>

subsection \<open>Settings\<close>

definition second :: int where "second = 1000000000"
definition controllerRetryInterval :: int where "controllerRetryInterval = 15 * second"
definition controllerRetryIntervalMin :: int where "controllerRetryIntervalMin = 1 * second"
definition controllerRetryIntervalMax :: int where "controllerRetryIntervalMax = 5 * 60 * second"
definition controllerStartupTimeout :: int where "controllerStartupTimeout = 60 * second"
definition controllerStartupTimeoutMin :: int where "controllerStartupTimeoutMin = 1 * second"
definition controllerStartupTimeoutMax :: int where "controllerStartupTimeoutMax = 5 * 60 * second"
definition controllerLeaseName :: string where "controllerLeaseName = ''databricks-controllers''"
definition slicePollInterval :: int where "slicePollInterval = 5 * second"
definition apiExportName :: string where "apiExportName = ''databricks.providers.faros.sh''"

datatype controllerMode = controllerModeRESTOnly | controllerModeRequired

definition controllerModeFromEnv :: "(string \<Rightarrow> string) \<Rightarrow> controllerMode" where
  "controllerModeFromEnv getenv =
     (let mode = ToLower (TrimSpace (getenv ''DATABRICKS_CONTROLLER_MODE'')) in
      if mode \<in> set [''rest-only'', ''rest_only'', ''rest''] then controllerModeRESTOnly
      else if mode \<in> set [''required'', ''controller''] then controllerModeRequired
      else if mode = [] then
        (if EqualFold (TrimSpace (getenv ''DATABRICKS_REST_ONLY'')) ''true'' then controllerModeRESTOnly
         else if TrimSpace (getenv ''FAROS_PROVIDER_KUBECONFIG'') \<noteq> [] \<or>
                 TrimSpace (getenv ''DATABRICKS_KUBECONFIG'') \<noteq> [] \<or> TrimSpace (getenv ''KUBECONFIG'') \<noteq> []
         then controllerModeRequired
         else controllerModeRESTOnly)
      else controllerModeRequired)"

definition controllerDurationFromEnv ::
  "(string \<Rightarrow> string) \<Rightarrow> string \<Rightarrow> int \<Rightarrow> int \<Rightarrow> int \<Rightarrow> int" where
  "controllerDurationFromEnv getenv key defaultValue minValue maxValue =
     (let raw = TrimSpace (getenv key) in
      if raw = [] then defaultValue
      else
     (case ParseDuration raw of
        None \<Rightarrow> defaultValue
      | Some val \<Rightarrow>
          if val \<le> 0 then defaultValue
          else if val < minValue then minValue
          else if maxValue < val then maxValue
          else val))"

definition controllerRetryIntervalFromEnv :: "(string \<Rightarrow> string) \<Rightarrow> int" where
  "controllerRetryIntervalFromEnv getenv =
     controllerDurationFromEnv getenv ''DATABRICKS_CONTROLLER_RETRY_INTERVAL'' controllerRetryInterval
       controllerRetryIntervalMin controllerRetryIntervalMax"

definition controllerStartupTimeoutFromEnv :: "(string \<Rightarrow> string) \<Rightarrow> int" where
  "controllerStartupTimeoutFromEnv getenv =
     controllerDurationFromEnv getenv ''DATABRICKS_CONTROLLER_STARTUP_TIMEOUT'' controllerStartupTimeout
       controllerStartupTimeoutMin controllerStartupTimeoutMax"

definition clampControllerDuration :: "int \<Rightarrow> int \<Rightarrow> int \<Rightarrow> int \<Rightarrow> int" where
  "clampControllerDuration val defaultValue minValue maxValue =
     (if val \<le> 0 then defaultValue
      else if val < minValue then minValue
      else if maxValue < val then maxValue
      else val)"

definition parseBoolEnv :: "(string \<Rightarrow> string) \<Rightarrow> string \<Rightarrow> bool \<Rightarrow> bool" where
  "parseBoolEnv getenv key defaultValue =
     (let raw = TrimSpace (getenv key) in
      if raw = [] then defaultValue else ParseBool raw = Some True)"

definition envOr :: "(string \<Rightarrow> string) \<Rightarrow> string \<Rightarrow> string \<Rightarrow> string" where
  "envOr getenv key default_value = (let v = getenv key in if v \<noteq> [] then v else default_value)"

subsection \<open>Health\<close>

datatype controllerState =
    controllerStateRESTOnly
  | controllerStateStarting
  | controllerStateReady
  | controllerStateFailed
  | controllerStateStopped
  | controllerStateStandby

fun controllerState_text :: "controllerState \<Rightarrow> string" where
  "controllerState_text controllerStateRESTOnly = ''rest-only''"
| "controllerState_text controllerStateStarting = ''starting''"
| "controllerState_text controllerStateReady = ''ready''"
| "controllerState_text controllerStateFailed = ''failed''"
| "controllerState_text controllerStateStopped = ''stopped''"
| "controllerState_text controllerStateStandby = ''standby''"

record controllerHealthSnapshot =
  hsRequired :: bool
  hsState :: controllerState
  hsError :: string

record 'w controllerHealth =
  hlRequired :: bool
  hlState :: controllerState
  hlLastErr :: string
  hlDependencyReady :: "('w \<Rightarrow> bool \<times> 'w) option"

definition newControllerHealth :: "bool \<Rightarrow> 'w controllerHealth option" where
  "newControllerHealth required =
     Some \<lparr>hlRequired = required,
           hlState = (if required then controllerStateStarting else controllerStateRESTOnly),
           hlLastErr = [], hlDependencyReady = None\<rparr>"

definition snapshot :: "'w controllerHealth option \<Rightarrow> controllerHealthSnapshot" where
  "snapshot health =
     (case health of
        None \<Rightarrow> \<lparr>hsRequired = False, hsState = controllerStateRESTOnly, hsError = []\<rparr>
      | Some h \<Rightarrow> \<lparr>hsRequired = hlRequired h, hsState = hlState h, hsError = hlLastErr h\<rparr>)"

definition setState ::
  "controllerState \<Rightarrow> go_error option \<Rightarrow> 'w controllerHealth option \<Rightarrow> 'w controllerHealth option" where
  "setState state err health =
     (case health of
        None \<Rightarrow> None
      | Some h \<Rightarrow>
          Some (h\<lparr>hlState := state, hlLastErr := (case err of None \<Rightarrow> [] | Some e \<Rightarrow> Error e)\<rparr>))"

definition markStarting :: "'w controllerHealth option \<Rightarrow> 'w controllerHealth option" where
  "markStarting = setState controllerStateStarting None"
definition markReady :: "'w controllerHealth option \<Rightarrow> 'w controllerHealth option" where
  "markReady = setState controllerStateReady None"
definition markStandby :: "'w controllerHealth option \<Rightarrow> 'w controllerHealth option" where
  "markStandby = setState controllerStateStandby None"
definition markFailed :: "go_error \<Rightarrow> 'w controllerHealth option \<Rightarrow> 'w controllerHealth option" where
  "markFailed e = setState controllerStateFailed (Some e)"
definition markStopped :: "go_error option \<Rightarrow> 'w controllerHealth option \<Rightarrow> 'w controllerHealth option" where
  "markStopped err = setState controllerStateStopped err"

definition health_ready :: "'w controllerHealth option \<Rightarrow> 'w \<Rightarrow> bool \<times> 'w" where
  "health_ready health w =
     (case health of
        None \<Rightarrow> (True, w)
      | Some h \<Rightarrow> (case hlDependencyReady h of None \<Rightarrow> (True, w) | Some check \<Rightarrow> check w))"

definition setDependencyReady ::
  "('w \<Rightarrow> bool \<times> 'w) \<Rightarrow> 'w controllerHealth option \<Rightarrow> 'w controllerHealth option" where
  "setDependencyReady check health = map_option (hlDependencyReady_update (\<lambda>_. Some check)) health"

definition heartbeatStatus :: "'w controllerHealth option \<Rightarrow> 'w \<Rightarrow> string \<times> 'w" where
  "heartbeatStatus health w =
     (case health_ready health w of
        (True, w) \<Rightarrow> (''healthy'', w)
      | (False, w) \<Rightarrow>
          (if hsState (snapshot health) = controllerStateStarting then ''starting'' else ''unhealthy'', w))"

subsection \<open>The endpoint slice\<close>

text \<open>\<open>got\<close> is the answer of the read: the \<^verbatim>\<open>status.endpoints\<close> of the slice.\<close>

definition sliceEndpointDiscovered :: "json list go_result \<Rightarrow> string \<Rightarrow> bool go_result" where
  "sliceEndpointDiscovered got name =
     (case got of
        Inl e \<Rightarrow>
          (if IsNotFound e then Inr False
           else Inl (WrapError (''reading APIExportEndpointSlice '' @ quoted name @ '': '') e))
      | Inr endpoints \<Rightarrow> Inr (0 < length (SliceEndpointURLs endpoints)))"

definition no_usable_endpoint :: "string \<Rightarrow> string" where
  "no_usable_endpoint name = ''APIExportEndpointSlice '' @ quoted name @ '' has no usable endpoint''"

text \<open>
  Waiting: a read that starts at a time answers at another; the caller's context ends at some time
  with an error or not at all; where the poll timer and the end of the wait fall together either
  branch of the select may run.
\<close>

record wait_env =
  weGet :: "int \<Rightarrow> json list go_result \<times> int"
  weStart :: int
  weCtx :: "(int \<times> go_error) option"
  weTie :: "int \<Rightarrow> bool"

definition ctx_err :: "wait_env \<Rightarrow> int \<Rightarrow> go_error option" where
  "ctx_err env t = (case weCtx env of Some (c, e) \<Rightarrow> if c \<le> t then Some e else None | None \<Rightarrow> None)"

definition wait_end :: "wait_env \<Rightarrow> int \<Rightarrow> int" where
  "wait_end env timeout =
     (case weCtx env of Some (c, _) \<Rightarrow> min (weStart env + timeout) c | None \<Rightarrow> weStart env + timeout)"

definition wait_over :: "wait_env \<Rightarrow> string \<Rightarrow> int \<Rightarrow> int \<Rightarrow> go_error" where
  "wait_over env name timeout t =
     (case ctx_err env t of
        Some e \<Rightarrow> e
      | None \<Rightarrow> ErrorString (''multicluster provider discovery timed out after '' @ duration_string timeout @ '': '' @
                  no_usable_endpoint name))"

text \<open>The result with the time of the return and the answers of the reads.\<close>

type_synonym wait_result = "go_error option \<times> int \<times> json list go_result list"

partial_function (option) wait_loop ::
  "wait_env \<Rightarrow> string \<Rightarrow> int \<Rightarrow> int \<Rightarrow> json list go_result list \<Rightarrow> wait_result option" where
  "wait_loop env name timeout t reads =
     (case weGet env t of (got, t1) \<Rightarrow>
        (let limit = wait_end env timeout; reads = reads @ [got]; found = sliceEndpointDiscovered got name in
         if isl found \<and> t1 < limit then Some (Some (projl found), t1, reads)
         else if found = Inr True then Some (None, t1, reads)
         else if limit < t1 + slicePollInterval \<or> limit = t1 + slicePollInterval \<and> weTie env t1
         then Some (Some (wait_over env name timeout (max t1 limit)), max t1 limit, reads)
         else wait_loop env name timeout (t1 + slicePollInterval) reads))"

definition waitForSliceEndpoint :: "wait_env \<Rightarrow> string \<Rightarrow> int \<Rightarrow> wait_result option" where
  "waitForSliceEndpoint env name timeout =
     (let timeout = clampControllerDuration timeout controllerStartupTimeout controllerStartupTimeoutMin
                      controllerStartupTimeoutMax in
      wait_loop env name timeout (weStart env) [])"

text \<open>The watchdog of a term, on the answers of its reads, one per tick.\<close>

fun watchdog :: "string \<Rightarrow> int \<Rightarrow> json list go_result list \<Rightarrow> go_error option" where
  "watchdog name misses [] = None"
| "watchdog name misses (got # ticks) =
     (let found = sliceEndpointDiscovered got name in
      if isl found \<or> found = Inr False then
        (let misses = misses + 1 in
         if misses < 3 then watchdog name misses ticks
         else Some (if isl found then projl found else ErrorString (no_usable_endpoint name)))
      else watchdog name 0 ticks)"

subsection \<open>One leadership term\<close>

text \<open>
  What a term takes from its surroundings: the answers of the constructors, the wait for the slice,
  the answers the watchdog reads while the manager runs, and the error the manager ends with.
  \<open>teSetup\<close> registers the controller of a kind.
\<close>

record term_env =
  teGetenv :: "string \<Rightarrow> string"
  teNewDynamic :: "rest_config \<Rightarrow> unit go_result"
  teEnsureSlice :: "string \<Rightarrow> string \<Rightarrow> string \<Rightarrow> unit go_result"
  teWait :: wait_env
  teNewProvider :: "rest_config \<Rightarrow> string \<Rightarrow> unit go_result"
  teNewManager :: "rest_config \<Rightarrow> unit go_result"
  teSetup :: "string \<Rightarrow> unit go_result"
  teTicks :: "json list go_result list"
  teStart :: "go_error option"

text \<open>The steps of the set-up after the wait, each with the prefix of its error.\<close>

definition setup_steps :: "term_env \<Rightarrow> rest_config \<Rightarrow> (string \<times> unit go_result) list" where
  "setup_steps env config =
     [(''creating apiexport multicluster provider: '', teNewProvider env config apiExportName),
      (''creating multicluster manager: '', teNewManager env config),
      (''connection controller: '', teSetup env ''Connection''),
      (''warehouse controller: '', teSetup env ''Warehouse''),
      (''table controller: '', teSetup env ''Table'')]"

fun first_failure :: "(string \<times> unit go_result) list \<Rightarrow> go_error option" where
  "first_failure [] = None"
| "first_failure ((pre, r) # steps) =
     (case r of Inl e \<Rightarrow> Some (WrapError pre e) | Inr _ \<Rightarrow> first_failure steps)"

definition run_manager ::
  "term_env \<Rightarrow> 'w controllerHealth option \<Rightarrow> go_error option \<times> 'w controllerHealth option" where
  "run_manager env health =
     (let health = markReady health in
      case watchdog apiExportName 0 (teTicks env) of
        Some e \<Rightarrow> (Some (WrapError ''multicluster provider lost readiness: '' e), health)
      | None \<Rightarrow> (teStart env, health))"

definition runControllerManagerTerm ::
  "term_env \<Rightarrow> rest_config \<Rightarrow> 'w controllerHealth option \<Rightarrow> (go_error option \<times> 'w controllerHealth option) option" where
  "runControllerManagerTerm env config health =
     (case first_failure
        [(''dynamic client: '', teNewDynamic env config),
         (''ensuring APIExportEndpointSlice: '',
          teEnsureSlice env apiExportName apiExportName (envOr (teGetenv env) ''DATABRICKS_WORKSPACE_PATH'' []))] of
        Some e \<Rightarrow> Some (Some e, health)
      | None \<Rightarrow>
     (case waitForSliceEndpoint (teWait env) apiExportName (controllerStartupTimeoutFromEnv (teGetenv env)) of
        None \<Rightarrow> None
      | Some (Some e, _) \<Rightarrow> Some (Some e, health)
      | Some (None, _) \<Rightarrow>
     (case first_failure (setup_steps env config) of
        Some e \<Rightarrow> Some (Some e, health)
      | None \<Rightarrow> Some (run_manager env health))))"

subsection \<open>The leader-elected loop\<close>

text \<open>
  \<open>leLoadConfig\<close> and \<open>leDone\<close> answer for each attempt: the configuration, and the error of the context
  when it ends before the retry timer. The election is a library call that runs the callback once
  per term won, and then returns; \<open>leCtxErr\<close> is the error of the context at that time. A term that
  does not return is \<open>None\<close>.
\<close>

record leader_term =
  ltEnv :: term_env
  ltCtxErr :: "go_error option"

record 'w leader_env =
  leLoadConfig :: "nat \<Rightarrow> rest_config go_result"
  leDone :: "nat \<Rightarrow> go_error option"
  leOnConfig :: "(rest_config \<Rightarrow> 'w \<Rightarrow> unit go_result \<times> 'w) option"
  leTerms :: "leader_term list"
  leElection :: "go_error option"
  leCtxErr :: "go_error option"

partial_function (option) await_config ::
  "'w leader_env \<Rightarrow> nat \<Rightarrow> 'w controllerHealth option \<Rightarrow> (rest_config option \<times> 'w controllerHealth option) option" where
  "await_config env attempt health =
     (case leLoadConfig env attempt of
        Inr c \<Rightarrow> Some (Some c, health)
      | Inl e \<Rightarrow>
          (let health = markFailed e health in
           case leDone env attempt of
             Some err \<Rightarrow> Some (None, markStopped (Some err) health)
           | None \<Rightarrow> await_config env (attempt + 1) health))"

definition lead_term ::
  "rest_config \<Rightarrow> leader_term \<Rightarrow> 'w controllerHealth option \<Rightarrow> 'w controllerHealth option option" where
  "lead_term config lead health =
     (case runControllerManagerTerm (ltEnv lead) config (markStarting health) of
        None \<Rightarrow> None
      | Some (err, health) \<Rightarrow>
          (let health = (case err of None \<Rightarrow> health | Some e \<Rightarrow> markFailed e health) in
           Some (if ltCtxErr lead = None then markStandby health else health)))"

fun lead_terms ::
  "rest_config \<Rightarrow> leader_term list \<Rightarrow> 'w controllerHealth option \<Rightarrow> 'w controllerHealth option option" where
  "lead_terms config [] health = Some health"
| "lead_terms config (lead # leads) health =
     (case lead_term config lead health of None \<Rightarrow> None | Some health \<Rightarrow> lead_terms config leads health)"

definition runLeaderElectedControllers ::
  "'w leader_env \<Rightarrow> 'w controllerHealth option \<Rightarrow> 'w \<Rightarrow> ('w controllerHealth option \<times> 'w) option" where
  "runLeaderElectedControllers env health w =
     (case await_config env 0 health of
        None \<Rightarrow> None
      | Some (None, health) \<Rightarrow> Some (health, w)
      | Some (Some config, health) \<Rightarrow>
          (let w = (case leOnConfig env of None \<Rightarrow> w | Some onConfig \<Rightarrow> snd (onConfig config w)) in
           case lead_terms config (leTerms env) (markStandby health) of
             None \<Rightarrow> None
           | Some health \<Rightarrow>
               (case leElection env of
                  Some e \<Rightarrow> Some (markFailed e health, w)
                | None \<Rightarrow> Some (markStopped (leCtxErr env) health, w))))"

subsection \<open>Settings stay in their bounds\<close>

lemmas controller_consts = second_def controllerRetryInterval_def controllerRetryIntervalMin_def
  controllerRetryIntervalMax_def controllerStartupTimeout_def controllerStartupTimeoutMin_def
  controllerStartupTimeoutMax_def slicePollInterval_def

lemma controllerDurationFromEnv_bounds:
  assumes "lo \<le> dflt" "dflt \<le> hi"
  shows "lo \<le> controllerDurationFromEnv getenv key dflt lo hi" "controllerDurationFromEnv getenv key dflt lo hi \<le> hi"
  using assms by (auto simp: controllerDurationFromEnv_def Let_def split: option.split)

lemma clamp_startup:
  "controllerStartupTimeoutMin \<le> clampControllerDuration d controllerStartupTimeout controllerStartupTimeoutMin
      controllerStartupTimeoutMax \<and>
   clampControllerDuration d controllerStartupTimeout controllerStartupTimeoutMin controllerStartupTimeoutMax \<le>
     controllerStartupTimeoutMax"
  by (simp add: clampControllerDuration_def controller_consts)

subsection \<open>The wait returns\<close>

definition discovered :: "string \<Rightarrow> json list go_result \<Rightarrow> bool" where
  "discovered name got \<longleftrightarrow> sliceEndpointDiscovered got name = Inr True"

definition wait_post :: "wait_env \<Rightarrow> string \<Rightarrow> int \<Rightarrow> json list go_result list \<Rightarrow> wait_result \<Rightarrow> bool" where
  "wait_post env name timeout earlier = (\<lambda>(r, t, reads).
     \<exists>more got. reads = earlier @ more @ [got] \<and> list_all (\<lambda>g. \<not> discovered name g) more \<and>
       (case r of
          None \<Rightarrow> discovered name got
        | Some e \<Rightarrow> \<not> discovered name got \<and>
            (sliceEndpointDiscovered got name = Inl e \<and> t < wait_end env timeout \<or>
             e = wait_over env name timeout t \<and> wait_end env timeout \<le> t)))"

lemma wait_post_earlier:
  assumes "wait_post env name timeout (earlier @ [got]) out" "\<not> discovered name got"
  shows "wait_post env name timeout earlier out"
proof -
  obtain r t reads where out: "out = (r, t, reads)" using prod_cases3 by blast
  obtain more last_got where "reads = earlier @ (got # more) @ [last_got]"
    "list_all (\<lambda>g. \<not> discovered name g) (got # more)"
    "case r of None \<Rightarrow> discovered name last_got
     | Some e \<Rightarrow> \<not> discovered name last_got \<and>
        (sliceEndpointDiscovered last_got name = Inl e \<and> t < wait_end env timeout \<or>
         e = wait_over env name timeout t \<and> wait_end env timeout \<le> t)"
    using assms unfolding out wait_post_def by auto
  then show ?thesis unfolding out wait_post_def prod.case by blast
qed

lemma wait_loop_returns:
  assumes clock: "\<And>t. t \<le> snd (weGet env t)"
  shows "wait_end env timeout - t < int n * slicePollInterval \<Longrightarrow> \<exists>out. wait_loop env name timeout t reads = Some out \<and>
    wait_post env name timeout reads out \<and> length (snd (snd out)) \<le> length reads + max 1 n"
proof (induction n arbitrary: t reads)
  case (0 t reads)
  obtain got t1 where g: "weGet env t = (got, t1)" by fastforce
  with clock [of t] have t: "t \<le> t1" by simp
  let ?found = "sliceEndpointDiscovered got name"
  have u: "wait_loop env name timeout t reads =
      (if ?found = Inr True then Some (None, t1, reads @ [got])
       else Some (Some (wait_over env name timeout (max t1 (wait_end env timeout))), max t1 (wait_end env timeout), reads @ [got]))"
    using 0 t by (simp add: wait_loop.simps [of env name timeout t] g Let_def controller_consts)
  show ?case unfolding u by (auto simp: wait_post_def discovered_def)
next
  case (Suc n t reads)
  obtain got t1 where g: "weGet env t = (got, t1)" by fastforce
  with clock [of t] have t: "t \<le> t1" by simp
  let ?found = "sliceEndpointDiscovered got name" and ?stop = "wait_end env timeout"
  have u: "wait_loop env name timeout t reads =
      (if isl ?found \<and> t1 < ?stop then Some (Some (projl ?found), t1, reads @ [got])
       else if ?found = Inr True then Some (None, t1, reads @ [got])
       else if ?stop < t1 + slicePollInterval \<or> ?stop = t1 + slicePollInterval \<and> weTie env t1
       then Some (Some (wait_over env name timeout (max t1 ?stop)), max t1 ?stop, reads @ [got])
       else wait_loop env name timeout (t1 + slicePollInterval) (reads @ [got]))"
    by (simp add: wait_loop.simps [of env name timeout t] g Let_def)
  consider (error) e where "?found = Inl e" "t1 < ?stop" | (found) "?found = Inr True"
    | (over) "\<not> (isl ?found \<and> t1 < ?stop)" "?found \<noteq> Inr True"
        "?stop < t1 + slicePollInterval \<or> ?stop = t1 + slicePollInterval \<and> weTie env t1"
    | (poll) "\<not> (isl ?found \<and> t1 < ?stop)" "?found \<noteq> Inr True"
        "\<not> (?stop < t1 + slicePollInterval \<or> ?stop = t1 + slicePollInterval \<and> weTie env t1)"
    by (cases ?found) auto
  then show ?case
  proof cases
    case poll
    have "?stop - (t1 + slicePollInterval) < int n * slicePollInterval"
      using Suc.prems t by (simp add: algebra_simps)
    from Suc.IH [OF this, of "reads @ [got]"] obtain out where
      o: "wait_loop env name timeout (t1 + slicePollInterval) (reads @ [got]) = Some out"
        "wait_post env name timeout (reads @ [got]) out" "length (snd (snd out)) \<le> length reads + 1 + max 1 n"
      by auto
    have "1 \<le> n" using poll(3) Suc.prems t by (cases n) (auto simp: controller_consts)
    moreover have "wait_loop env name timeout t reads = Some out" using poll o(1) unfolding u by auto
    ultimately show ?thesis using o(3) poll(2) wait_post_earlier [OF o(2)] by (simp add: discovered_def)
  qed (use u in \<open>auto simp: wait_post_def discovered_def\<close>)
qed

text \<open>The timeout in force: the setting, or its default, within its bounds.\<close>

abbreviation startup_timeout :: "int \<Rightarrow> int" where
  "startup_timeout d \<equiv>
     clampControllerDuration d controllerStartupTimeout controllerStartupTimeoutMin controllerStartupTimeoutMax"

lemma wait_returns:
  assumes "\<And>t. t \<le> snd (weGet env t)"
  shows "\<exists>out. waitForSliceEndpoint env name timeout = Some out \<and>
    wait_post env name (startup_timeout timeout) [] out \<and> length (snd (snd out)) \<le> 61"
proof -
  have "wait_end env (startup_timeout timeout) - weStart env < int 61 * slicePollInterval"
    using clamp_startup [of timeout]
    by (auto simp: wait_end_def controller_consts min_def split: option.split)
  from wait_loop_returns [OF assms this, of name "[]"] show ?thesis
    by (auto simp: waitForSliceEndpoint_def Let_def)
qed

text \<open>
  C19. The wait for the endpoint slice always returns, after at most 61 reads, whatever the reads
  answer and however long they take: with success exactly when the last read shows an endpoint,
  and no earlier one did; with an error otherwise, which is the failure of the last read before
  the end of the wait or, once the timeout of at most five minutes or the caller's context has
  ended, the report of that.
\<close>

theorem waitForSliceEndpoint_returns:
  assumes "\<And>t. t \<le> snd (weGet env t)"
  shows "\<exists>r t reads. waitForSliceEndpoint env name timeout = Some (r, t, reads) \<and>
    reads \<noteq> [] \<and> length reads \<le> 61 \<and>
    list_all (\<lambda>got. sliceEndpointDiscovered got name \<noteq> Inr True) (butlast reads) \<and>
    (case r of
       None \<Rightarrow> sliceEndpointDiscovered (last reads) name = Inr True
     | Some e \<Rightarrow> sliceEndpointDiscovered (last reads) name \<noteq> Inr True \<and>
         (sliceEndpointDiscovered (last reads) name = Inl e \<and> t < wait_end env (startup_timeout timeout) \<or>
          e = wait_over env name (startup_timeout timeout) t \<and> wait_end env (startup_timeout timeout) \<le> t))"
proof -
  obtain r t reads where o: "waitForSliceEndpoint env name timeout = Some (r, t, reads)"
    "wait_post env name (startup_timeout timeout) [] (r, t, reads)" "length reads \<le> 61"
    using wait_returns [OF assms, of name timeout] by auto
  then obtain more got where "reads = more @ [got]" by (auto simp: wait_post_def)
  with o show ?thesis
    by (intro exI [of _ r] exI [of _ t] exI [of _ reads]) (cases r; auto simp: wait_post_def discovered_def)
qed

subsection \<open>The watchdog\<close>

abbreviation missed :: "string \<Rightarrow> json list go_result \<Rightarrow> bool" where
  "missed name got \<equiv> sliceEndpointDiscovered got name \<noteq> Inr True"

lemma ex_nat_split: "(\<exists>i. P i) \<longleftrightarrow> P 0 \<or> (\<exists>i. P (Suc i))" for P :: "nat \<Rightarrow> bool"
  by (metis not0_implies_Suc)

lemma missed_alt: "(isl found \<or> found = Inr False) \<longleftrightarrow> found \<noteq> Inr True" for found :: "bool go_result"
  by (cases found) auto

lemma watchdog_Cons:
  "watchdog name m (got # ticks) =
     (if missed name got then
        if m < 2 then watchdog name (m + 1) ticks
        else Some (case sliceEndpointDiscovered got name of Inl e \<Rightarrow> e | Inr _ \<Rightarrow> ErrorString (no_usable_endpoint name))
      else watchdog name 0 ticks)"
  by (auto simp: Let_def split: sum.split)

definition three_missed :: "string \<Rightarrow> json list go_result list \<Rightarrow> bool" where
  "three_missed name ticks \<longleftrightarrow> (\<exists>i. i + 2 < length ticks \<and> missed name (ticks ! i) \<and> missed name (ticks ! (i + 1)) \<and> missed name (ticks ! (i + 2)))"

lemma three_missed_Cons:
  "three_missed name (got # ticks) \<longleftrightarrow>
     missed name got \<and> 2 \<le> length (takeWhile (missed name) ticks) \<or> three_missed name ticks"
proof -
  have "(2 \<le> length (takeWhile (missed name) ticks)) \<longleftrightarrow>
      1 < length ticks \<and> missed name (ticks ! 0) \<and> missed name (ticks ! 1)"
    by (cases ticks; cases "tl ticks") auto
  then show ?thesis
    unfolding three_missed_def by (subst ex_nat_split) auto
qed

lemma takeWhile_three_missed: "3 \<le> length (takeWhile (missed name) ticks) \<Longrightarrow> three_missed name ticks"
  by (cases ticks) (auto simp: three_missed_Cons split: if_split_asm)

lemma watchdog_fires:
  "k \<le> 2 \<Longrightarrow> watchdog name (int k) ticks \<noteq> None \<longleftrightarrow>
     3 \<le> k + length (takeWhile (missed name) ticks) \<or> three_missed name ticks"
proof (induction ticks arbitrary: k)
  case (Cons got ticks)
  show ?case
  proof (cases "missed name got")
    case True
    then show ?thesis
      using Cons.IH [of "Suc k"] Cons.prems three_missed_Cons [of name got ticks]
      by (cases "k < 2") (auto simp: watchdog_Cons add.commute simp del: watchdog.simps)
  next
    case False
    with Cons.IH [of 0] Cons.prems three_missed_Cons [of name got ticks] takeWhile_three_missed [of name ticks] show ?thesis
      by (auto simp: watchdog_Cons simp del: watchdog.simps)
  qed
qed (simp add: three_missed_def)

text \<open>
  C24. The watchdog of a running manager stops it exactly when three reads of the slice in a row show
  no usable endpoint or fail; fewer misses, with a good read in between, never do.
\<close>

theorem watchdog_stops_iff:
  "watchdog name 0 ticks \<noteq> None \<longleftrightarrow>
     (\<exists>i. i + 2 < length ticks \<and> sliceEndpointDiscovered (ticks ! i) name \<noteq> Inr True \<and>
        sliceEndpointDiscovered (ticks ! (i + 1)) name \<noteq> Inr True \<and>
        sliceEndpointDiscovered (ticks ! (i + 2)) name \<noteq> Inr True)"
  using watchdog_fires [of 0 name ticks] takeWhile_three_missed [of name ticks] by (auto simp: three_missed_def)


subsection \<open>Terms and elections\<close>

lemma first_failure_None: "first_failure steps = None \<longleftrightarrow> list_all (\<lambda>(_, r). r = Inr ()) steps"
  by (induction steps rule: first_failure.induct) (auto split: sum.split)

text \<open>
  A leadership term always returns. It reports the controllers as ready only after the slice
  showed a usable endpoint, the provider and the manager were built and the three controllers were
  registered; every other term ends with an error and leaves the report unchanged. A manager that
  ran ends with the loss of readiness exactly when its watchdog saw three misses in a row.
\<close>

theorem runControllerManagerTerm_ready:
  assumes "\<And>t. t \<le> snd (weGet (teWait env) t)"
  shows "\<exists>err h'. runControllerManagerTerm env config h = Some (err, h') \<and>
    (err \<noteq> None \<and> h' = h \<or>
     h' = markReady h \<and> teNewDynamic env config = Inr () \<and>
     (\<exists>t reads. waitForSliceEndpoint (teWait env) apiExportName (controllerStartupTimeoutFromEnv (teGetenv env)) =
        Some (None, t, reads) \<and> sliceEndpointDiscovered (last reads) apiExportName = Inr True) \<and>
     teNewProvider env config apiExportName = Inr () \<and> teNewManager env config = Inr () \<and>
     list_all (\<lambda>kind. teSetup env kind = Inr ()) [''Connection'', ''Warehouse'', ''Table''] \<and>
     err = (case watchdog apiExportName 0 (teTicks env) of
              Some e \<Rightarrow> Some (WrapError ''multicluster provider lost readiness: '' e)
            | None \<Rightarrow> teStart env))"
proof -
  let ?timeout = "controllerStartupTimeoutFromEnv (teGetenv env)"
  let ?first = "first_failure [(''dynamic client: '', teNewDynamic env config),
     (''ensuring APIExportEndpointSlice: '',
      teEnsureSlice env apiExportName apiExportName (envOr (teGetenv env) ''DATABRICKS_WORKSPACE_PATH'' []))]"
  obtain r t reads where w: "waitForSliceEndpoint (teWait env) apiExportName ?timeout = Some (r, t, reads)"
    "wait_post (teWait env) apiExportName (startup_timeout ?timeout) [] (r, t, reads)"
    using wait_returns [OF assms, of apiExportName ?timeout] by auto
  consider (early) e where "?first = Some e" | (wait) e where "?first = None" "r = Some e"
    | (prepare) e where "?first = None" "r = None" "first_failure (setup_steps env config) = Some e"
    | (run) "?first = None" "r = None" "first_failure (setup_steps env config) = None"
    by (cases ?first; cases r; cases "first_failure (setup_steps env config)") auto
  then show ?thesis
  proof cases
    case run
    have "sliceEndpointDiscovered (last reads) apiExportName = Inr True"
      using w(2) run(2) by (auto simp: wait_post_def discovered_def)
    moreover have "teNewDynamic env config = Inr ()" using run(1) by (simp add: first_failure_None del: first_failure.simps)
    moreover have "list_all (\<lambda>(_, r). r = Inr ()) (setup_steps env config)"
      using run(3) by (simp add: first_failure_None del: first_failure.simps)
    ultimately show ?thesis
      using run w(1) by (simp add: runControllerManagerTerm_def run_manager_def setup_steps_def Let_def split: option.split)
  qed (use w(1) in \<open>simp_all add: runControllerManagerTerm_def\<close>)
qed

lemma term_returns:
  assumes "\<And>t. t \<le> snd (weGet (teWait env) t)"
  shows "\<exists>err h'. runControllerManagerTerm env config h = Some (err, h') \<and> (h' = h \<or> h' = markReady h)"
proof -
  obtain r t reads where "waitForSliceEndpoint (teWait env) apiExportName
      (controllerStartupTimeoutFromEnv (teGetenv env)) = Some (r, t, reads)"
    using wait_returns [OF assms] by (metis surj_pair)
  then show ?thesis
    by (auto simp: runControllerManagerTerm_def run_manager_def Let_def simp del: first_failure.simps split: option.split)
qed

lemma setState_keeps:
  "setState st err (Some h) =
     Some (h\<lparr>hlState := st, hlLastErr := (case err of None \<Rightarrow> [] | Some e \<Rightarrow> Error e)\<rparr>)"
  by (simp add: setState_def)

lemmas mark_defs = markStarting_def markReady_def markStandby_def markFailed_def markStopped_def

text \<open>What no report changes.\<close>

definition same_gate :: "'w controllerHealth option \<Rightarrow> 'w controllerHealth option \<Rightarrow> bool" where
  "same_gate a b \<longleftrightarrow> map_option (\<lambda>h. (hlRequired h, hlDependencyReady h)) a =
     map_option (\<lambda>h. (hlRequired h, hlDependencyReady h)) b"

lemma same_gate_setState [simp]: "same_gate (setState st err a) b \<longleftrightarrow> same_gate a b"
  by (cases a) (auto simp: same_gate_def setState_def)

lemma lead_term_returns:
  assumes "\<And>t. t \<le> snd (weGet (teWait (ltEnv lead)) t)"
  shows "\<exists>h'. lead_term config lead h = Some h' \<and> same_gate h' h"
proof -
  obtain err h' where r: "runControllerManagerTerm (ltEnv lead) config (markStarting h) = Some (err, h')"
    "h' = markStarting h \<or> h' = markReady (markStarting h)"
    using term_returns [OF assms, of config "markStarting h"] by blast
  then show ?thesis
    by (auto simp: lead_term_def mark_defs same_gate_def [of h h] Let_def split: option.split)
qed


lemma lead_terms_returns:
  assumes "\<And>lead t. lead \<in> set leads \<Longrightarrow> t \<le> snd (weGet (teWait (ltEnv lead)) t)"
  shows "\<exists>h'. lead_terms config leads h = Some h' \<and> same_gate h' h"
  using assms
proof (induction leads arbitrary: h)
  case (Cons lead leads)
  obtain h1 where "lead_term config lead h = Some h1" "same_gate h1 h"
    using lead_term_returns [of lead config h] Cons.prems by auto
  with Cons.IH [of h1] Cons.prems show ?case by (auto simp: same_gate_def)
qed (simp add: same_gate_def)

lemma await_config_found:
  assumes "leLoadConfig env (a + n) = Inr config"
    and "\<And>m. m < n \<Longrightarrow> isl (leLoadConfig env (a + m)) \<and> leDone env (a + m) = None"
  shows "\<exists>h'. await_config env a h = Some (Some config, h') \<and> same_gate h' h"
  using assms
proof (induction n arbitrary: a h)
  case 0
  then show ?case by (simp add: await_config.simps [of env a] same_gate_def)
next
  case (Suc n)
  obtain e where e: "leLoadConfig env a = Inl e" "leDone env a = None"
    using Suc.prems(2) [of 0] by (cases "leLoadConfig env a") auto
  have "\<exists>h'. await_config env (a + 1) (markFailed e h) = Some (Some config, h') \<and> same_gate h' (markFailed e h)"
    using Suc.IH [of "a + 1" "markFailed e h"] Suc.prems(1) Suc.prems(2) [of "Suc _"] by simp
  with e show ?case by (auto simp: await_config.simps [of env a] Let_def markFailed_def same_gate_def setState_def split: option.split)
qed

text \<open>
  C37. A kubeconfig that becomes available at any attempt is installed: the controllers hand the first
  one they can load to the provider and campaign with it. When the election ends, the report says
  stopped or failed with the reason, never ready, and the readiness gate installed at startup is the
  same as before.
\<close>

theorem controllers_recover:
  assumes "leLoadConfig env n = Inr config"
    and "\<And>m. m < n \<Longrightarrow> isl (leLoadConfig env m) \<and> leDone env m = None"
    and "leOnConfig env = Some onConfig"
    and "\<And>lead t. lead \<in> set (leTerms env) \<Longrightarrow> t \<le> snd (weGet (teWait (ltEnv lead)) t)"
  shows "\<exists>h'. runLeaderElectedControllers env (Some h) w = Some (Some h', snd (onConfig config w)) \<and>
    hlRequired h' = hlRequired h \<and> hlDependencyReady h' = hlDependencyReady h \<and>
    (hlState h', hlLastErr h') =
      (case leElection env of
         Some e \<Rightarrow> (controllerStateFailed, Error e)
       | None \<Rightarrow> (controllerStateStopped, case leCtxErr env of None \<Rightarrow> [] | Some e \<Rightarrow> Error e))"
proof -
  obtain h1 where a: "await_config env 0 (Some h) = Some (Some config, h1)" "same_gate h1 (Some h)"
    using await_config_found [of env 0 n config "Some h"] assms(1,2) by auto
  obtain h2 where l: "lead_terms config (leTerms env) (markStandby h1) = Some h2" "same_gate h2 h1"
    using lead_terms_returns [of "leTerms env" config "markStandby h1"] assms(4)
    by (auto simp: markStandby_def same_gate_def setState_def split: option.split)
  from a(2) l(2) obtain h3 where h3: "h2 = Some h3" "hlRequired h3 = hlRequired h"
    "hlDependencyReady h3 = hlDependencyReady h"
    by (auto simp: same_gate_def)
  with a(1) l(1) assms(3) show ?thesis
    by (cases "leElection env") (simp_all add: runLeaderElectedControllers_def markFailed_def markStopped_def setState_keeps)
qed

subsection \<open>Examples\<close>

definition demo_wait :: wait_env where
  "demo_wait = \<lparr>weGet = (\<lambda>t. (Inr [demo_endpoint ''https://vw''], t + 1)), weStart = 0, weCtx = None, weTie = (\<lambda>_. False)\<rparr>"

lemma demo_slice_found: "sliceEndpointDiscovered (Inr [demo_endpoint ''https://vw'']) name = Inr True"
  by (simp add: sliceEndpointDiscovered_def SliceEndpointURLs_def endpoint_url_def demo_endpoint_def Let_def
      TrimSpace_graphic graphic_def TrimRight_def)

lemma demo_wait_result:
  "waitForSliceEndpoint demo_wait name d = Some (None, 1, [Inr [demo_endpoint ''https://vw'']])"
  by (simp add: waitForSliceEndpoint_def wait_loop.simps demo_wait_def demo_slice_found Let_def)

theorem waitForSliceEndpoint_returns_witness:
  "waitForSliceEndpoint demo_wait apiExportName 0 = Some (None, 1, [Inr [demo_endpoint ''https://vw'']]) \<and>
   sliceEndpointDiscovered (Inr [demo_endpoint ''https://vw'']) apiExportName = Inr True"
proof -
  have "t \<le> snd (weGet demo_wait t)" for t by (simp add: demo_wait_def)
  from waitForSliceEndpoint_returns [OF this, of apiExportName 0] show ?thesis
    by (auto simp: demo_wait_result)
qed

definition demo_term :: term_env where
  "demo_term =
     \<lparr>teGetenv = (\<lambda>_. []), teNewDynamic = (\<lambda>_. Inr ()), teEnsureSlice = (\<lambda>_ _ _. Inr ()), teWait = demo_wait,
      teNewProvider = (\<lambda>_ _. Inr ()), teNewManager = (\<lambda>_. Inr ()), teSetup = (\<lambda>_. Inr ()),
      teTicks = [Inr [], Inl ContextDeadlineExceeded, Inr []], teStart = None\<rparr>"

theorem runControllerManagerTerm_ready_witness:
  "runControllerManagerTerm demo_term (demo_base ''https://a'') (newControllerHealth True :: unit controllerHealth option) =
     Some (Some (WrapError ''multicluster provider lost readiness: '' (ErrorString (no_usable_endpoint apiExportName))),
           markReady (newControllerHealth True))"
proof -
  have "t \<le> snd (weGet (teWait demo_term) t)" for t by (simp add: demo_term_def demo_wait_def)
  from runControllerManagerTerm_ready [OF this, of "demo_base ''https://a''" "newControllerHealth True :: unit controllerHealth option"]
  obtain err and h' :: "unit controllerHealth option" where
    r: "runControllerManagerTerm demo_term (demo_base ''https://a'') (newControllerHealth True) = Some (err, h')"
    by blast
  then show ?thesis
    by (simp add: runControllerManagerTerm_def run_manager_def setup_steps_def demo_term_def demo_wait_result Let_def
        sliceEndpointDiscovered_def SliceEndpointURLs_def api_reason_defs)
qed

definition demo_leader :: "nat leader_env" where
  "demo_leader =
     \<lparr>leLoadConfig = (\<lambda>attempt. if attempt < 2 then Inl (ErrorString ''no kubeconfig'') else Inr (demo_base ''https://a'')),
      leDone = (\<lambda>_. None), leOnConfig = Some (\<lambda>_ w. (Inr (), Suc w)),
      leTerms = [\<lparr>ltEnv = demo_term, ltCtxErr = None\<rparr>], leElection = None, leCtxErr = Some ContextCanceled\<rparr>"

theorem controllers_recover_witness:
  "\<exists>h'. runLeaderElectedControllers demo_leader (newControllerHealth True) 0 = Some (Some h', 1) \<and>
     hlState h' = controllerStateStopped \<and> hlLastErr h' = ''context canceled''"
proof -
  let ?h = "\<lparr>hlRequired = True, hlState = controllerStateStarting, hlLastErr = [], hlDependencyReady = None\<rparr> :: nat controllerHealth"
  have "leLoadConfig demo_leader 2 = Inr (demo_base ''https://a'')" by (simp add: demo_leader_def)
  moreover have "isl (leLoadConfig demo_leader m) \<and> leDone demo_leader m = None" if "m < 2" for m
    using that by (simp add: demo_leader_def)
  moreover have "leOnConfig demo_leader = Some (\<lambda>_ w. (Inr (), Suc w))" by (simp add: demo_leader_def)
  moreover have "t \<le> snd (weGet (teWait (ltEnv lead)) t)" if "lead \<in> set (leTerms demo_leader)" for lead t
    using that by (simp add: demo_leader_def demo_term_def demo_wait_def)
  ultimately have "\<exists>h'. runLeaderElectedControllers demo_leader (Some ?h) 0 = Some (Some h', snd (Inr () :: unit go_result, Suc 0)) \<and>
    hlRequired h' = hlRequired ?h \<and> hlDependencyReady h' = hlDependencyReady ?h \<and>
    (hlState h', hlLastErr h') =
      (case leElection demo_leader of
         Some e \<Rightarrow> (controllerStateFailed, Error e)
       | None \<Rightarrow> (controllerStateStopped, case leCtxErr demo_leader of None \<Rightarrow> [] | Some e \<Rightarrow> Error e))"
    by (rule controllers_recover [of demo_leader 2])
  then show ?thesis by (auto simp: newControllerHealth_def demo_leader_def)
qed

lemma demo_retry_setting:
  "controllerRetryIntervalFromEnv (\<lambda>key. if key = ''DATABRICKS_CONTROLLER_RETRY_INTERVAL'' then ''90s'' else []) = 90 * second"
  by (simp add: controllerRetryIntervalFromEnv_def controllerDurationFromEnv_def Let_def TrimSpace_graphic graphic_def
      parse_90s controller_consts)

end
