(* ===== verification/Main_Server.thy ===== *)
theory Main_Server
  imports Registration Mcpserver Controller_Manager
begin

text \<open>
  \<^verbatim>\<open>main.go\<close>, \<^verbatim>\<open>init_cmd.go\<close> and \<^verbatim>\<open>assets.go\<close>: the settings of the process, what it builds at startup, the
  routes of its server with the probes, and how a request gets its table resolver and its query
  executor. \<open>getenv\<close> is \<^verbatim>\<open>os.Getenv\<close>; reading a kubeconfig, the embedded files and the SDK bootstrap are arguments.
\<close>

subsection \<open>Settings\<close>

definition seedTablesFromEnv :: "(string \<Rightarrow> string) \<Rightarrow> table_map" where
  "seedTablesFromEnv getenv =
     [(envOr getenv ''DATABRICKS_DEV_TABLE_REF'' ''order-history'',
       \<lparr>trCatalog = envOr getenv ''DATABRICKS_DEV_TABLE_CATALOG'' ''sales'',
        trSchema = envOr getenv ''DATABRICKS_DEV_TABLE_SCHEMA'' ''gold'',
        trTable = envOr getenv ''DATABRICKS_DEV_TABLE_NAME'' ''order_history''\<rparr>)]"

definition errControllerDisabled :: go_error where
  "errControllerDisabled = ErrorString ''no kubeconfig available; tenant Table lookup disabled''"

text \<open>\<open>build\<close> reads a kubeconfig file, \<open>inCluster\<close> the configuration of the pod.\<close>

definition config_from :: "(string \<Rightarrow> rest_config go_result) \<Rightarrow> string \<Rightarrow> string \<Rightarrow> rest_config go_result" where
  "config_from build key p = (case build p of Inl e \<Rightarrow> Inl (WrapError (key @ '': '') e) | Inr c \<Rightarrow> Inr c)"

definition loadControllerConfig ::
  "(string \<Rightarrow> string) \<Rightarrow> (string \<Rightarrow> rest_config go_result) \<Rightarrow> rest_config go_result \<Rightarrow> rest_config go_result" where
  "loadControllerConfig getenv build inCluster =
     (if getenv ''FAROS_PROVIDER_KUBECONFIG'' \<noteq> []
      then config_from build ''FAROS_PROVIDER_KUBECONFIG'' (getenv ''FAROS_PROVIDER_KUBECONFIG'')
      else if getenv ''DATABRICKS_KUBECONFIG'' \<noteq> []
      then config_from build ''DATABRICKS_KUBECONFIG'' (getenv ''DATABRICKS_KUBECONFIG'')
      else if getenv ''KUBECONFIG'' \<noteq> []
      then config_from build ''KUBECONFIG'' (getenv ''KUBECONFIG'')
      else (case inCluster of Inl _ \<Rightarrow> Inl errControllerDisabled | Inr c \<Rightarrow> Inr c))"

definition loopbackE2EEnabled :: "(string \<Rightarrow> string) \<Rightarrow> bool" where
  "loopbackE2EEnabled getenv \<longleftrightarrow> getenv ''DATABRICKS_E2E_LOOPBACK'' = ''true''"

definition mcpEnabled :: "(string \<Rightarrow> string) \<Rightarrow> bool" where
  "mcpEnabled getenv =
     (let raw = TrimSpace (getenv ''DATABRICKS_MCP_ENABLED'') in
      if raw = [] then True else ParseBool raw = Some True)"

definition mcpDisableLocalhostProtection :: "(string \<Rightarrow> string) \<Rightarrow> bool" where
  "mcpDisableLocalhostProtection getenv = parseBoolEnv getenv ''DATABRICKS_MCP_DISABLE_LOCALHOST_PROTECTION'' False"

definition providerVersion :: "(string \<Rightarrow> string) \<Rightarrow> string \<Rightarrow> string" where
  "providerVersion getenv buildVersion =
     (let configured = TrimSpace (getenv ''FAROS_PROVIDER_VERSION'') in
      if configured \<noteq> [] then configured else buildVersion)"

definition heartbeatCanSend :: "'w controllerHealth option \<Rightarrow> 'w \<Rightarrow> bool \<times> 'w" where
  "heartbeatCanSend health w = (if health = None then (True, w) else health_ready health w)"

subsection \<open>The init command\<close>

record bootstrap_options =
  boConfig :: rest_config
  boExportName :: string
  boWorkspacePath :: string
  boSchemasDir :: string
  boClaims :: "(string \<times> string list) list"
  boCatalogEntryFile :: string

definition permissionClaims :: "(string \<times> string list) list" where
  "permissionClaims = [(''secrets'', [''get''])]"

definition loadInitConfig ::
  "(string \<Rightarrow> string) \<Rightarrow> (string \<Rightarrow> rest_config go_result) \<Rightarrow> rest_config go_result \<Rightarrow> rest_config go_result" where
  "loadInitConfig getenv build inCluster =
     (if getenv ''FAROS_PROVIDER_KUBECONFIG'' \<noteq> [] then build (getenv ''FAROS_PROVIDER_KUBECONFIG'')
      else if getenv ''KUBECONFIG'' \<noteq> [] then build (getenv ''KUBECONFIG'')
      else inCluster)"

definition runInitCmd ::
  "(string \<Rightarrow> string) \<Rightarrow> (string \<Rightarrow> rest_config go_result) \<Rightarrow> rest_config go_result \<Rightarrow>
   (bootstrap_options \<Rightarrow> unit go_result) \<Rightarrow> unit go_result" where
  "runInitCmd getenv build inCluster bootstrap =
     (case loadInitConfig getenv build inCluster of
        Inl e \<Rightarrow> Inl (WrapError ''init needs a kubeconfig (set FAROS_PROVIDER_KUBECONFIG): '' e)
      | Inr config \<Rightarrow>
          (case bootstrap
                  \<lparr>boConfig = config, boExportName = apiExportName,
                   boWorkspacePath = envOr getenv ''DATABRICKS_WORKSPACE_PATH'' [],
                   boSchemasDir = envOr getenv ''FAROS_SCHEMAS_DIR'' ''/etc/faros/schemas'',
                   boClaims = permissionClaims, boCatalogEntryFile = getenv ''FAROS_CATALOGENTRY_FILE''\<rparr> of
             Inl e \<Rightarrow> Inl (WrapError ''provider workspace bootstrap: '' e)
           | Inr _ \<Rightarrow> Inr ()))"

datatype process = Init "unit go_result" | Serve | UnknownSubcommand string

definition main_command :: "string list \<Rightarrow> unit go_result \<Rightarrow> process" where
  "main_command args init_result =
     (case args of
        _ # command # _ \<Rightarrow>
          (if command = ''init'' then Init init_result
           else if command = ''serve'' then Serve
           else UnknownSubcommand command)
      | _ \<Rightarrow> Serve)"

subsection \<open>The portal\<close>

text \<open>
  \<open>dist\<close> opens a name of the embedded tree and answers what reading it yields; \<open>mime\<close> is
  \<^verbatim>\<open>mime.TypeByExtension\<close>. The reply of an asset is its content type and what could be copied.
\<close>

definition path_Ext :: "string \<Rightarrow> string" where
  "path_Ext name =
     (let final = rev (takeWhile (\<lambda>c. c \<noteq> CHR ''/'') (rev name)) in
      if CHR ''.'' \<in> set final then CHR ''.'' # rev (takeWhile (\<lambda>c. c \<noteq> CHR ''.'') (rev final)) else [])"

definition servePortalAsset ::
  "(string \<Rightarrow> string go_result) \<Rightarrow> (string \<Rightarrow> string) \<Rightarrow> string \<Rightarrow> (string \<times> string) option" where
  "servePortalAsset dist mime name =
     (let name = TrimPrefix name ''/'' in
      if name = [] then None
      else
     (case dist name of
        Inl _ \<Rightarrow> None
      | Inr content \<Rightarrow>
          (let ct = mime (path_Ext name) in
           Some (if ct = [] then ''application/octet-stream'' else ct, content))))"

datatype portal_reply = MethodNotAllowed | Asset (asset_type: string) (asset_content: string) | IndexPage

definition portal ::
  "(string \<Rightarrow> string go_result) \<Rightarrow> (string \<Rightarrow> string) \<Rightarrow> string \<Rightarrow> string \<Rightarrow> portal_reply" where
  "portal dist mime verb urlPath =
     (if verb \<noteq> ''GET'' \<and> verb \<noteq> ''HEAD'' then MethodNotAllowed
      else
        let clean = TrimPrefix urlPath ''/'' in
        case (if clean \<noteq> [] then servePortalAsset dist mime clean else None) of
          Some (ct, content) \<Rightarrow> Asset ct content
        | None \<Rightarrow> IndexPage)"

subsection \<open>Probes\<close>

record probe_reply =
  prStatus :: int
  prFields :: "(string \<times> string) list"

definition healthz :: probe_reply where
  "healthz = \<lparr>prStatus = 200, prFields = [(''status'', ''ok'')]\<rparr>"

text \<open>The readiness gate that the server installs into the health record before it serves.\<close>

definition serving_ready :: "bool \<Rightarrow> ('d, 'a, 'c, 's) ClientFactory option \<Rightarrow> bool" where
  "serving_ready required factory \<longleftrightarrow> \<not> required \<or> factory \<noteq> None \<and> Configured factory \<and> Ready factory"

definition install_gate ::
  "bool \<Rightarrow> ('d, 'a, 'k, 's) tenant_world controllerHealth option \<Rightarrow>
   ('d, 'a, 'k, 's) tenant_world controllerHealth option" where
  "install_gate devStaticTables health =
     (if health \<noteq> None \<and> \<not> devStaticTables
      then setDependencyReady (\<lambda>w. (serving_ready (hsRequired (snapshot health)) (twFactory w), w)) health
      else health)"

definition readyz ::
  "bool \<Rightarrow> ('d, 'a, 'k, 's) tenant_world controllerHealth option \<Rightarrow> ('d, 'a, 'k, 's) tenant_world \<Rightarrow>
   probe_reply \<times> ('d, 'a, 'k, 's) tenant_world" where
  "readyz devStaticTables health w =
     (let shot = snapshot health;
          (ready, w) =
            (if health \<noteq> None then health_ready health w
             else if \<not> devStaticTables then (twFactory w \<noteq> None \<and> Configured (twFactory w), w)
             else (True, w)) in
      if \<not> ready then
        (let errorMessage =
               (if hsError shot = [] \<and> \<not> devStaticTables \<and> (twFactory w = None \<or> \<not> Configured (twFactory w))
                then ''tenant client unavailable (provider kubeconfig not set)'' else hsError shot) in
         (\<lparr>prStatus = 503, prFields = [(''status'', ''not_ready''),
            (''controller'', controllerState_text (hsState shot)), (''error'', errorMessage)]\<rparr>, w))
      else (\<lparr>prStatus = 200, prFields = [(''status'', ''ready''),
              (''controller'', controllerState_text (hsState shot))]\<rparr>, w))"

record statusResponse =
  srMessage :: string
  srProvider :: string
  srServedAt :: int
  srUserHeader :: string
  srTokenLength :: nat
  srTables :: nat

definition api_status :: "table_map \<Rightarrow> bool \<Rightarrow> int \<Rightarrow> string \<Rightarrow> string \<Rightarrow> statusResponse" where
  "api_status tables devStaticTables now user authorization =
     \<lparr>srMessage = ''databricks provider ready'', srProvider = ''databricks'', srServedAt = now, srUserHeader = user,
      srTokenLength = length authorization, srTables = (if devStaticTables then length tables else 0)\<rparr>"

subsection \<open>Resolvers and executors of a request\<close>

record server_request =
  sqTenant :: string
  sqCluster :: string
  sqAuthorization :: string

definition resolverFromRequest ::
  "table_map \<Rightarrow> bool \<Rightarrow> ('d, 'u) table_api \<Rightarrow> ('d, 'a, 'c, 's) ClientFactory option \<Rightarrow> server_request \<Rightarrow>
   ('d, 'a, 'c, 's, 'u) resolver_world TableResolver" where
  "resolverFromRequest tables devStaticTables api factory r =
     (if devStaticTables then StaticTableResolver tables
      else if factory = None then UnavailableResolver ''tenant client unavailable (provider kubeconfig not set)''
      else TableResolverForRequest api factory (sqTenant r) (sqCluster r) (sqAuthorization r))"

text \<open>
  The statement client of the process runs under the deadline of the request; \<open>api\<close> are the reads of
  the provider client.
\<close>

definition actionExecutorForRoute ::
  "bool \<Rightarrow> 'a review_env \<Rightarrow> (int \<Rightarrow> query_backend option) \<Rightarrow> (nat \<Rightarrow> 'k) \<Rightarrow>
   ('d, 'a, 'k kube_client, 's) ClientFactory option \<Rightarrow>
   action_request \<Rightarrow> Route \<Rightarrow> ('d, 'a, 'k, 's) tenant_world query_executor option" where
  "actionExecutorForRoute devStaticTables env backend api factory r route =
     (if devStaticTables \<or> factory = None then None
      else Some (\<lambda>ref input deadline.
        QueryTable (Some (ActionExecutorForRoute env (aqAuthorization r) (rtClusterID route) (backend deadline)))
          api ref input))"

definition actionExecutorFromRequest ::
  "bool \<Rightarrow> 'a review_env \<Rightarrow> query_backend option \<Rightarrow> (nat \<Rightarrow> 'k) \<Rightarrow>
   ('d, 'a, 'k kube_client, 's) ClientFactory option \<Rightarrow>
   server_request \<Rightarrow> ('d, 'a, 'k, 's) tenant_world tool_executor option" where
  "actionExecutorFromRequest devStaticTables env backend api factory r =
     (if devStaticTables \<or> factory = None then None
      else Some (\<lambda>ref input.
        QueryTable (Some (ActionExecutorForRoute env (sqAuthorization r) (sqCluster r) backend)) api ref input))"

text \<open>What the server hands to the tools, and the tools of one request.\<close>

definition mcp_query_deps ::
  "bool \<Rightarrow> 'a review_env \<Rightarrow> query_backend option \<Rightarrow> (nat \<Rightarrow> 'k) \<Rightarrow>
   ('d, 'a, 'k kube_client, 's) ClientFactory option \<Rightarrow> table_map \<Rightarrow>
   (server_request, ('d, 'a, 'k, 's) tenant_world) Deps" where
  "mcp_query_deps devStaticTables env backend api factory tables =
     \<lparr>dpTables = tables, dpTableResolver = None, dpResolverFromRequest = None, dpActionExecutor = None,
      dpActionExecutorFromRequest = Some (actionExecutorFromRequest devStaticTables env backend api factory)\<rparr>"

definition mcp_table_deps ::
  "bool \<Rightarrow> ('d, 'u) table_api \<Rightarrow> ('d, 'a, 'c, 's) ClientFactory option \<Rightarrow> table_map \<Rightarrow>
   (server_request, ('d, 'a, 'c, 's, 'u) resolver_world) Deps" where
  "mcp_table_deps devStaticTables api factory tables =
     \<lparr>dpTables = tables, dpTableResolver = None,
      dpResolverFromRequest = Some (\<lambda>r. Some (resolverFromRequest tables devStaticTables api factory r)),
      dpActionExecutor = None, dpActionExecutorFromRequest = None\<rparr>"

text \<open>With a tenant factory the table tools of a request are those of its caller.\<close>

lemma table_tools_of_caller:
  assumes "factory \<noteq> None"
  shows "newPerRequestServer (mcp_table_deps False api factory tables) r =
    registerTools (tableResolver api (identityFromRequest (sqTenant r) (sqCluster r) (sqAuthorization r))) None"
  using assms
  by (auto simp: newPerRequestServer_def mcp_table_deps_def resolverForRequest_def actionExecutorForRequest_def
      resolverFromRequest_def TableResolverForRequest_def)

subsection \<open>Routes\<close>

text \<open>
  \<^verbatim>\<open>http.ServeMux\<close> for the patterns of the server and a path without escapes: the path is cleaned,
  keeping a final slash; a pattern with a final slash matches the paths below it and a path that
  only lacks that slash is redirected; the most specific pattern wins; a path that is not clean is
  redirected to its clean form. CONNECT requests are left out.
\<close>

datatype mux_target =
    ToHealthz
  | ToReadyz
  | ToStatus
  | ToImport
  | ToMCP
  | ToActions
  | ToPortal
  | RedirectTo string

definition PathPrefix :: string where "PathPrefix = ''/actions/''"

definition cleanPath :: "string \<Rightarrow> string" where
  "cleanPath p =
     (if p = [] then ''/''
      else
        let p = (if hd p \<noteq> CHR ''/'' then CHR ''/'' # p else p); np = path_Clean_rooted p in
        if last p = CHR ''/'' \<and> np \<noteq> ''/'' then np @ ''/'' else np)"

definition mux_patterns :: "bool \<Rightarrow> (string \<times> mux_target) list" where
  "mux_patterns mcp =
     [(''/healthz'', ToHealthz), (''/readyz'', ToReadyz), (''/api/status'', ToStatus),
      (''/api/v1/discovery/'', ToImport), (''/api/v1/registrations'', ToImport)] @
     (if mcp then [(''/mcp'', ToMCP), (''/mcp/sse'', ToMCP)] else []) @
     [(PathPrefix, ToActions), (''/'', ToPortal)]"

definition pattern_matches :: "string \<Rightarrow> string \<Rightarrow> bool" where
  "pattern_matches pat p \<longleftrightarrow> (if last pat = CHR ''/'' then prefix pat p else pat = p)"

definition more_specific :: "string \<times> mux_target \<Rightarrow> string \<times> mux_target \<Rightarrow> string \<times> mux_target" where
  "more_specific a b = (if length (fst b) < length (fst a) then a else b)"

definition mux_match :: "(string \<times> mux_target) list \<Rightarrow> string \<Rightarrow> string \<times> mux_target" where
  "mux_match patterns p =
     foldr more_specific (filter (\<lambda>(pat, _). pattern_matches pat p) patterns) ([], ToPortal)"

definition exact_match :: "string \<Rightarrow> string \<Rightarrow> bool" where
  "exact_match pat p \<longleftrightarrow> pat \<noteq> [] \<and> (last pat \<noteq> CHR ''/'' \<or> pat = p)"

definition mux_target_of :: "bool \<Rightarrow> string \<Rightarrow> mux_target" where
  "mux_target_of mcp urlPath =
     (let p = cleanPath urlPath; (pat, target) = mux_match (mux_patterns mcp) p in
      if \<not> exact_match pat p \<and> last p \<noteq> CHR ''/'' \<and>
         exact_match (fst (mux_match (mux_patterns mcp) (p @ ''/''))) (p @ ''/'')
      then RedirectTo (p @ ''/'')
      else if p \<noteq> urlPath then RedirectTo p
      else target)"

subsection \<open>Startup\<close>

record 'k startup_env =
  suGetenv :: "string \<Rightarrow> string"
  suBuild :: "string \<Rightarrow> rest_config go_result"
  suInCluster :: "rest_config go_result"
  suParse :: "string \<Rightarrow> URL go_result"
  suSliceClient :: "unit go_result"
  suSlice :: "'k kube_client slice_env"

type_synonym ('d, 'a, 'k) serving_world = "('d, 'a, 'k, 'k kube_client SliceAuthority option) tenant_world"

record ('d, 'a, 'k) served =
  svPort :: string
  svTables :: table_map
  svDevStaticTables :: bool
  svStatementClient :: StatementClient
  svStubValidator :: bool
  svWorld :: "('d, 'a, 'k) serving_world"
  svHealth :: "('d, 'a, 'k) serving_world controllerHealth option"
  svMCP :: bool
  svRunControllers :: bool

definition startup_factory ::
  "'k startup_env \<Rightarrow> rest_config option \<Rightarrow> ('d, 'a, 'k) serving_world" where
  "startup_factory env kcpConfig =
     (let factory = NewClientFactory (suParse env) kcpConfig;
          factory = (if factory = None then NewDeferredClientFactory else factory) in
      case (if kcpConfig \<noteq> None then NewSliceAuthority kcpConfig (suSliceClient env) apiExportName
            else Inl errControllerDisabled) of
        Inl _ \<Rightarrow> \<lparr>twFactory = factory, twAuthority = None, twLog = []\<rparr>
      | Inr authority \<Rightarrow>
          \<lparr>twFactory = SetAuthority (Some (ClusterClient_slice (suSlice env))) factory,
           twAuthority = Some authority, twLog = []\<rparr>)"

definition kcp_config :: "'k startup_env \<Rightarrow> rest_config option" where
  "kcp_config env =
     (case loadControllerConfig (suGetenv env) (suBuild env) (suInCluster env) of
        Inl _ \<Rightarrow> None | Inr c \<Rightarrow> Some c)"

definition runServe :: "'k startup_env \<Rightarrow> ('d, 'a, 'k) served" where
  "runServe env =
     (let getenv = suGetenv env;
          devStaticTables = (getenv ''DATABRICKS_DEV_STATIC_TABLES'' = ''true'');
          statementClient = (if loopbackE2EEnabled getenv then NewDevelopmentLoopbackStatementClient
                             else NewStatementClient);
          w = startup_factory env (kcp_config env);
          health = install_gate devStaticTables
                     (newControllerHealth (controllerModeFromEnv getenv = controllerModeRequired)) in
      \<lparr>svPort = envOr getenv ''PORT'' ''8081'', svTables = seedTablesFromEnv getenv,
       svDevStaticTables = devStaticTables, svStatementClient = statementClient,
       svStubValidator = devStaticTables, svWorld = w, svHealth = health, svMCP = mcpEnabled getenv,
       svRunControllers = hsRequired (snapshot health)\<rparr>)"

text \<open>The callback that installs a configuration the controllers could load.\<close>

definition install_config ::
  "(string \<Rightarrow> URL go_result) \<Rightarrow> rest_config \<Rightarrow> ('d, 'a, 'k, 's) tenant_world \<Rightarrow>
   unit go_result \<times> ('d, 'a, 'k, 's) tenant_world" where
  "install_config parse config w =
     (case SetBaseConfig parse (Some config) (twFactory w) of
        (Inl e, f) \<Rightarrow> (Inl (WrapError ''tenant client configuration: '' e), w\<lparr>twFactory := f\<rparr>)
      | (Inr _, f) \<Rightarrow> (Inr (), w\<lparr>twFactory := f\<rparr>))"

text \<open>
  A running server: the controllers install a configuration or report a state, and requests obtain
  clients of the caller, consult the authority or send requests.
\<close>

inductive server_step ::
  "(string \<Rightarrow> URL go_result) \<Rightarrow> (rest_config \<Rightarrow> 'd go_result) \<Rightarrow> (rest_config \<Rightarrow> 'a go_result) \<Rightarrow>
   ('d, 'a, 'k, 's) tenant_world \<times> ('d, 'a, 'k, 's) tenant_world controllerHealth option \<Rightarrow>
   ('d, 'a, 'k, 's) tenant_world \<times> ('d, 'a, 'k, 's) tenant_world controllerHealth option \<Rightarrow> bool"
  for parse newD newA where
  recovered: "server_step parse newD newA (w, h) (snd (install_config parse config w), h)"
| reported: "server_step parse newD newA (w, h) (w, setState state err h)"
| client_made: "For newD now clusterID token (twFactory w) = (rd, f) \<Longrightarrow>
    server_step parse newD newA (w, h) (w\<lparr>twFactory := f\<rparr>, h)"
| review_made: "AuthorizationFor newA now clusterID token (twFactory w) = (ra, f) \<Longrightarrow>
    server_step parse newD newA (w, h) (w\<lparr>twFactory := f\<rparr>, h)"
| provider_used: "server_step parse newD newA (w, h) (w\<lparr>twAuthority := s, twLog := log\<rparr>, h)"

inductive_cases server_stepE: "server_step parse newD newA (w, h) (w', h')"

subsection \<open>Readiness\<close>

lemma factory_present:
  "For newD now clusterID token (Some f) = (rd, f') \<Longrightarrow> \<exists>g. f' = Some g \<and> cfAuthority g = cfAuthority f"
  "AuthorizationFor newA now clusterID token (Some f) = (ra, f') \<Longrightarrow> \<exists>g. f' = Some g \<and> cfAuthority g = cfAuthority f"
proof -
  show "\<exists>g. f' = Some g \<and> cfAuthority g = cfAuthority f" if a: "For newD now clusterID token (Some f) = (rd, f')" for rd
  proof -
    have "f' \<noteq> None" using a by (auto simp: For_def Let_def split: sum.split_asm prod.split_asm option.split_asm)
    with a client_authority(2) [of newD now clusterID token f rd] show ?thesis by auto
  qed
  show "\<exists>g. f' = Some g \<and> cfAuthority g = cfAuthority f" if a: "AuthorizationFor newA now clusterID token (Some f) = (ra, f')" for ra
  proof -
    have "f' \<noteq> None" using a by (auto simp: AuthorizationFor_def Let_def split: sum.split_asm prod.split_asm option.split_asm)
    with a client_authority(1) [of newA now clusterID token f ra] show ?thesis by auto
  qed
qed

lemma install_config_authority:
  assumes "twFactory w = Some f"
  shows "\<exists>g. twFactory (snd (install_config parse config w)) = Some g \<and> cfAuthority g = cfAuthority f"
  using assms by (auto simp: install_config_def SetBaseConfig_def Let_def split: prod.split sum.split)

lemma server_step_authority:
  assumes "server_step parse newD newA (w, h) (w', h')" "twFactory w = Some f"
  shows "(\<exists>g. twFactory w' = Some g \<and> cfAuthority g = cfAuthority f) \<and> same_gate h' h"
  using assms(2) install_config_authority [OF assms(2)]
  by (rule_tac server_stepE [OF assms(1)])
    (auto simp: same_gate_def setState_def dest: factory_present split: option.split)

lemma server_steps_authority:
  assumes "(server_step parse newD newA)\<^sup>*\<^sup>* (w, h) (w', h')" "twFactory w = Some f"
  shows "\<exists>g. twFactory w' = Some g \<and> cfAuthority g = cfAuthority f" "same_gate h' h"
proof -
  have "(\<exists>g. twFactory w' = Some g \<and> cfAuthority g = cfAuthority f) \<and> same_gate h' h"
    using assms(1)
  proof (induction "(w', h')" arbitrary: w' h' rule: rtranclp_induct)
    case base
    then show ?case using assms(2) by (simp add: same_gate_def)
  next
    case (step y)
    obtain w1 h1 where y: "y = (w1, h1)" by fastforce
    with step obtain g where "twFactory w1 = Some g" "cfAuthority g = cfAuthority f" "same_gate h1 h" by auto
    with server_step_authority [of parse newD newA w1 h1 w' h' g] step.hyps(2) y show ?case
      by (auto simp: same_gate_def)
  qed
  then show "\<exists>g. twFactory w' = Some g \<and> cfAuthority g = cfAuthority f" "same_gate h' h" by auto
qed

lemma NewClientFactory_authority: "NewClientFactory parse kcp = Some f \<Longrightarrow> cfAuthority f = None"
  by (auto simp: NewClientFactory_def SetBaseConfig_def newClientFactory_def Let_def
      split: option.split_asm if_split_asm)

lemma startup_authority:
  "\<exists>f. twFactory (startup_factory env kcp :: ('d, 'a, 'k) serving_world) = Some f \<and>
     (cfAuthority f \<noteq> None \<longleftrightarrow> kcp \<noteq> None \<and> suSliceClient env = Inr ())"
  by (cases kcp; cases "suSliceClient env"; cases "NewClientFactory (suParse env) kcp ::
        ('d, 'a, 'k kube_client, 'k kube_client SliceAuthority option) ClientFactory option")
    (auto simp: startup_factory_def NewSliceAuthority_def NewDeferredClientFactory_def newClientFactory_def
      SetAuthority_def Let_def dest: NewClientFactory_authority)


subsection \<open>Routing\<close>

lemma mux_match_actions: "prefix ''/actions/'' p \<Longrightarrow> mux_match (mux_patterns mcp) p = (''/actions/'', ToActions)"
  by (auto simp: mux_match_def mux_patterns_def pattern_matches_def more_specific_def PathPrefix_def prefix_def)

lemma mux_match_pattern:
  assumes "mux_match patterns p = (pat, target)" "target \<noteq> ToPortal"
  shows "(pat, target) \<in> set patterns \<and> pattern_matches pat p"
proof -
  have "foldr more_specific xs ([], ToPortal) \<in> insert ([], ToPortal) (set xs)" for xs
    by (induction xs) (auto simp: more_specific_def)
  from this [of "filter (\<lambda>(pat, _). pattern_matches pat p) patterns"] assms show ?thesis
    by (auto simp: mux_match_def)
qed

lemma mux_match_other:
  "mux_match (mux_patterns mcp) p = (pat, ToActions) \<Longrightarrow> prefix ''/actions/'' p"
  "mux_match (mux_patterns mcp) p = (pat, ToMCP) \<Longrightarrow> mcp \<and> p \<in> {''/mcp'', ''/mcp/sse''}"
  by (drule mux_match_pattern; auto simp: mux_patterns_def pattern_matches_def PathPrefix_def split: if_split_asm)+

lemma cleanPath_route:
  assumes "route_safe route"
  shows "cleanPath (route_path route) = route_path route" "prefix ''/actions/'' (route_path route)"
    "last (route_path route) \<noteq> CHR ''/''"
proof -
  have ps: "list_all (\<lambda>p. p \<noteq> [] \<and> p \<noteq> ''.'' \<and> p \<noteq> ''..'' \<and> CHR ''/'' \<notin> set p) (route_parts route)"
    using assms path_safe_no_slash by (auto simp: route_parts_def route_safe_def path_safe_def)
  have p: "route_path route = ''/'' @ join ''/'' (route_parts route)" using route_path_join [OF assms] by simp
  have c: "path_Clean_rooted (route_path route) = route_path route"
    unfolding p by (rule split_clean_rooted(1) [OF ps]) (simp add: route_parts_def)
  show l: "last (route_path route) \<noteq> CHR ''/''"
    using assms last_path_safe [of "rtVersion route"] unfolding p by (auto simp: route_parts_def route_safe_def)
  show "prefix ''/actions/'' (route_path route)" unfolding p by (simp add: route_parts_def)
  have "hd (route_path route) = CHR ''/''" "route_path route \<noteq> []" unfolding p by simp_all
  with c l show "cleanPath (route_path route) = route_path route" by (simp add: cleanPath_def)
qed

text \<open>
  The routes of the server: the path of every action reaches the action handler, with the tool
  endpoint mounted or not, and nothing else does than clean paths below its prefix; the tools are
  reached on their two paths only, and not at all when they are disabled.
\<close>

theorem mux_routes:
  "(ParseActionPath p = Inr route \<longrightarrow> mux_target_of mcp (route_path route) = ToActions) \<and>
   (mux_target_of mcp p = ToActions \<longrightarrow> prefix ''/actions/'' p \<and> cleanPath p = p) \<and>
   (mux_target_of mcp p = ToMCP \<longrightarrow> mcp \<and> p \<in> {''/mcp'', ''/mcp/sse''})"
proof (intro conjI impI)
  assume "ParseActionPath p = Inr route"
  note c = cleanPath_route [OF ParseActionPath_InrD(1) [OF this]]
  have "prefix ''/actions/'' (route_path route @ ''/'')" using c(2) by (auto simp: prefix_def)
  from mux_match_actions [OF this] have "\<not> exact_match (fst (mux_match (mux_patterns mcp) (route_path route @ ''/''))) (route_path route @ ''/'')"
    using c(2) by (auto simp: exact_match_def prefix_def)
  then show "mux_target_of mcp (route_path route) = ToActions"
    using mux_match_actions [OF c(2)] by (simp add: mux_target_of_def c(1))
next
  assume t: "mux_target_of mcp p = ToActions"
  then show "cleanPath p = p" by (auto simp: mux_target_of_def Let_def split: prod.split_asm if_split_asm)
  then show "prefix ''/actions/'' p"
    using t mux_match_other(1) [of mcp p] by (auto simp: mux_target_of_def Let_def split: prod.split_asm if_split_asm)
next
  assume t: "mux_target_of mcp p = ToMCP"
  then have c: "cleanPath p = p" by (auto simp: mux_target_of_def Let_def split: prod.split_asm if_split_asm)
  show "mcp" "p \<in> {''/mcp'', ''/mcp/sse''}"
    using t c mux_match_other(2) [of mcp p] by (auto simp: mux_target_of_def Let_def split: prod.split_asm if_split_asm)
qed

subsection \<open>The seeded tables\<close>

text \<open>The development resolver names one table, with a catalog, a schema and a table that are not empty.\<close>

interpretation seeded_tables: table_resolver "StaticTableResolver (seedTablesFromEnv getenv)"
  "\<lambda>ref. trCatalog ref \<noteq> [] \<and> trSchema ref \<noteq> [] \<and> trTable ref \<noteq> []"
  by unfold_locales (auto simp: StaticTableResolver_def seedTablesFromEnv_def static_GetTable_def envOr_def
      no_table_def Let_def split: if_split_asm)

subsection \<open>Examples\<close>

definition demo_startup :: "unit startup_env" where
  "demo_startup =
     \<lparr>suGetenv = (\<lambda>key. if key = ''DATABRICKS_CONTROLLER_MODE'' then ''required'' else []),
      suBuild = (\<lambda>_. Inl (ErrorString ''no such file'')), suInCluster = Inl (ErrorString ''not in a cluster''),
      suParse = (\<lambda>s. no_parse s), suSliceClient = Inr (),
      suSlice = \<lparr>seGetSlice = Inr [], seProbe = (\<lambda>_ _. True), seNewClient = (\<lambda>_. Inr sample_client), seNow = 1\<rparr>\<rparr>"

lemma demo_startup_mode:
  "controllerModeFromEnv (suGetenv demo_startup) = controllerModeRequired"
  "suGetenv demo_startup ''DATABRICKS_DEV_STATIC_TABLES'' \<noteq> ''true''" "kcp_config demo_startup = None"
  by (simp_all add: controllerModeFromEnv_def demo_startup_def TrimSpace_graphic graphic_def ToLower_def ascii_lower_def
      char_of_eval kcp_config_def loadControllerConfig_def)

definition demo_served :: "(unit, rest_config, unit) served" where
  "demo_served = runServe demo_startup"

lemma demo_recovered:
  "Configured (twFactory (snd (install_config no_parse (demo_base ''https://a'') (svWorld demo_served))))"
  by (simp add: demo_served_def runServe_def Let_def startup_factory_def demo_startup_mode(3) NewClientFactory_def
      NewDeferredClientFactory_def install_config_def demo_SetBaseConfig Configured_def)


definition sample_route :: Route where
  "sample_route = example_route\<lparr>rtClusterID := ''c1'', Route.rtName := ''table''\<rparr>"

lemma sample_parsed: "ParseActionPath (route_path sample_route) = Inr sample_route"
  by (rule ParseActionPath_route_path)
    (simp add: route_safe_def path_safe_def sample_route_def example_route_def PathEscape_def shouldEscape_def alnum_def)

theorem mux_routes_witness:
  "mux_target_of False (route_path sample_route) = ToActions \<and> mux_target_of True (route_path sample_route) = ToActions"
  using mux_routes [of "route_path sample_route" sample_route False] mux_routes [of "route_path sample_route" sample_route True]
    sample_parsed by blast

end
