(* ===== verification/Serving.thy ===== *)
theory Serving
  imports Main_Server
begin

text \<open>
  The whole server: \<^verbatim>\<open>newServeMuxWithHealth\<close> in \<^verbatim>\<open>main.go\<close> puts the handlers of all components behind one route table
  and over one tenant factory. A request is dispatched as the route table says, every handler acting
  on its part of one state; runs of requests, recovered configurations and reported controller states
  are sequences of steps.
\<close>

subsection \<open>A request and the views of the handlers\<close>

record serve_http =
  shMethod :: string
  shPath :: string
  shHeader :: "string \<Rightarrow> string"
  shQuery :: url_values
  shBody :: string
  shReadError :: "go_error option"
  shContentLength :: int

definition action_view :: "serve_http \<Rightarrow> action_request" where
  "action_view r =
     \<lparr>aqVerb = shMethod r, aqPath = shPath r, aqRequestID = shHeader r ''X-Request-ID'',
      aqAuthorization = shHeader r ''Authorization'', aqDeadline = shHeader r ''X-Faros-Action-Deadline-Ms'',
      aqBody = shBody r, aqReadError = shReadError r\<rparr>"

definition import_view :: "serve_http \<Rightarrow> import_http" where
  "import_view r =
     \<lparr>hrMethod = shMethod r, hrPath = shPath r, hrCluster = shHeader r ''X-Faros-Cluster'',
      hrTenant = shHeader r ''X-Faros-Tenant'', hrAuthorization = shHeader r ''Authorization'',
      hrContentType = shHeader r ''Content-Type'', hrQuery = shQuery r, hrBody = shBody r, hrReadError = shReadError r\<rparr>"

definition tool_view :: "serve_http \<Rightarrow> server_request" where
  "tool_view r =
     \<lparr>sqTenant = shHeader r ''X-Faros-Tenant'', sqCluster = shHeader r ''X-Faros-Cluster'',
      sqAuthorization = shHeader r ''Authorization''\<rparr>"

definition mcp_view :: "serve_http \<Rightarrow> mcp_http" where
  "mcp_view r =
     \<lparr>mhMethod = shMethod r, mhContentLength = shContentLength r, mhBody = Some (shBody r, shReadError r)\<rparr>"

subsection \<open>One state for all handlers\<close>

text \<open>
  The action endpoint and the query tool act on the factory, the provider authority and the requests
  sent to Databricks; the table tools on the factory and the tenant's resources.
\<close>

definition on_tenant ::
  "(('d, 'a, 'k, 's) tenant_world \<Rightarrow> 'r \<times> ('d, 'a, 'k, 's) tenant_world) \<Rightarrow>
   ('d, 'a, 'k, 's, 'u) import_world \<Rightarrow> 'r \<times> ('d, 'a, 'k, 's, 'u) import_world" where
  "on_tenant f w =
     (case f \<lparr>twFactory = imwFactory w, twAuthority = imwAuthority w, twLog = imwLog w\<rparr> of
        (r, v) \<Rightarrow> (r, w\<lparr>imwFactory := twFactory v, imwAuthority := twAuthority v, imwLog := twLog v\<rparr>))"

definition on_resolver ::
  "(('d, 'a, 'k kube_client, 's, 'u) resolver_world \<Rightarrow> 'r \<times> ('d, 'a, 'k kube_client, 's, 'u) resolver_world) \<Rightarrow>
   ('d, 'a, 'k, 's, 'u) import_world \<Rightarrow> 'r \<times> ('d, 'a, 'k, 's, 'u) import_world" where
  "on_resolver f w =
     (case f \<lparr>rwFactory = imwFactory w, rwTenant = imwTenant w\<rparr> of
        (r, v) \<Rightarrow> (r, w\<lparr>imwFactory := rwFactory v, imwTenant := rwTenant v\<rparr>))"

text \<open>
  What the handlers get from outside the repository for one request. \<open>vlCalls\<close> are the tool calls the MCP
  library reads from a message; it runs them on the tools registered for the request.
\<close>

datatype tool_call = CallListTables | CallDescribeTable string | CallQueryTable queryTableInput

datatype tool_answer =
    ListAnswer "listTablesOutput option go_result"
  | DescribeAnswer "tableSummary_mcp go_result"
  | QueryAnswer "queryTableOutput option go_result"

record ('d, 'a, 'k, 'u) serve_lib =
  vlDecoders :: request_decoders
  vlRandom :: "nat list option"
  vlStatements :: "int \<Rightarrow> backend_env"
  vlToolStatements :: backend_env
  vlDeps :: "('d, 'a, 'k) import_deps"
  vlImports :: import_env
  vlParsers :: import_parsers
  vlTenantApi :: "('d, 'u) dynamic_api"
  vlTableApi :: "('d, 'u) table_api"
  vlCalls :: "mcp_http \<Rightarrow> tool_call list"
  vlDist :: "string \<Rightarrow> string go_result"
  vlMime :: "string \<Rightarrow> string"
  vlNow :: int

record serve_settings =
  ssTables :: table_map
  ssDevStaticTables :: bool
  ssClient :: StatementClient
  ssMCP :: bool

definition run_tool ::
  "serve_settings \<Rightarrow> ('d, 'a, 'k, 'u) serve_lib \<Rightarrow> serve_http \<Rightarrow> tool_call \<Rightarrow> ('d, 'a, 'k, 's, 'u) import_world \<Rightarrow>
   tool_answer \<times> ('d, 'a, 'k, 's, 'u) import_world" where
  "run_tool st lib r call w =
     (let dev = ssDevStaticTables st;
          tables = newPerRequestServer (mcp_table_deps dev (vlTableApi lib) (imwFactory w) (ssTables st)) (tool_view r);
          queries = newPerRequestServer
            (mcp_query_deps dev (idReviews (vlDeps lib)) (Some (ExecuteTableQuery (vlToolStatements lib) (ssClient st)))
              (idApi (vlDeps lib)) (imwFactory w) (ssTables st)) (tool_view r) in
      case call of
        CallListTables \<Rightarrow> map_prod ListAnswer id (on_resolver (tlListTables tables) w)
      | CallDescribeTable name \<Rightarrow> map_prod DescribeAnswer id (on_resolver (tlDescribeTable tables name) w)
      | CallQueryTable input \<Rightarrow> map_prod QueryAnswer id (on_tenant (tlQueryTable queries input) w))"

fun run_tools ::
  "serve_settings \<Rightarrow> ('d, 'a, 'k, 'u) serve_lib \<Rightarrow> serve_http \<Rightarrow> tool_call list \<Rightarrow> ('d, 'a, 'k, 's, 'u) import_world \<Rightarrow>
   tool_answer list \<times> ('d, 'a, 'k, 's, 'u) import_world" where
  "run_tools st lib r [] w = ([], w)"
| "run_tools st lib r (call # calls) w =
     (case run_tool st lib r call w of (x, w) \<Rightarrow>
     (case run_tools st lib r calls w of (xs, w) \<Rightarrow> (x # xs, w)))"

datatype server_reply =
    ProbeReply probe_reply
  | StatusReply statusResponse
  | ImportReply import_reply
  | ToolReply "tool_answer list mcp_answer"
  | ActionReply action_response
  | PortalReply portal_reply
  | Redirected string

text \<open>The readiness gate of the same function is \<open>install_gate\<close>, part of \<open>runServe\<close>: it is installed once, before serving.\<close>

definition newServeMuxWithHealth ::
  "serve_settings \<Rightarrow> ('d, 'a, 'k, 'u) serve_lib \<Rightarrow> ('d, 'a, 'k, 's) tenant_world controllerHealth option \<Rightarrow>
   serve_http \<Rightarrow> ('d, 'a, 'k, 's, 'u) import_world \<Rightarrow> server_reply \<times> ('d, 'a, 'k, 's, 'u) import_world" where
  "newServeMuxWithHealth st lib health r w =
     (case mux_target_of (ssMCP st) (shPath r) of
        ToHealthz \<Rightarrow> (ProbeReply healthz, w)
      | ToReadyz \<Rightarrow> map_prod ProbeReply id (on_tenant (readyz (ssDevStaticTables st) health) w)
      | ToStatus \<Rightarrow>
          (StatusReply (api_status (ssTables st) (ssDevStaticTables st) (vlNow lib) (shHeader r ''X-Faros-User'')
             (shHeader r ''Authorization'')), w)
      | ToImport \<Rightarrow>
          map_prod ImportReply id
            (ServeHTTP (vlParsers lib) (tenant_api (vlTenantApi lib)) (Some (provider_import (vlDeps lib) (vlImports lib)))
               (import_view r) w)
      | ToMCP \<Rightarrow>
          map_prod ToolReply id (mcp_handler (\<lambda>m. run_tools st lib r (vlCalls lib m)) (mcp_view r) w)
      | ToActions \<Rightarrow>
          map_prod ActionReply id
            (on_tenant
              (handleAction (vlDecoders lib) (vlRandom lib)
                (Some (actionExecutorForRoute (ssDevStaticTables st) (idReviews (vlDeps lib))
                  (\<lambda>deadline. Some (ExecuteTableQuery (vlStatements lib deadline) (ssClient st))) (idApi (vlDeps lib))
                  (imwFactory w)))
                (action_view r)) w)
      | ToPortal \<Rightarrow> (PortalReply (portal (vlDist lib) (vlMime lib) (shMethod r) (shPath r)), w)
      | RedirectTo p \<Rightarrow> (Redirected p, w))"

subsection \<open>Runs of the server\<close>

text \<open>
  The settings are those of startup. Each request runs as one step, with library behaviour of its own but the
  client constructors of the process.
\<close>

definition settings_of :: "('d, 'a, 'k) served \<Rightarrow> serve_settings" where
  "settings_of sv =
     \<lparr>ssTables = svTables sv, ssDevStaticTables = svDevStaticTables sv, ssClient = svStatementClient sv, ssMCP = svMCP sv\<rparr>"

definition lib_of ::
  "(rest_config \<Rightarrow> 'd go_result) \<Rightarrow> (rest_config \<Rightarrow> 'a go_result) \<Rightarrow> ('d, 'a, 'k, 'u) serve_lib \<Rightarrow> bool" where
  "lib_of newD newA lib \<longleftrightarrow>
     idNewDynamic (vlDeps lib) = newD \<and> reNewForConfig (idReviews (vlDeps lib)) = newA \<and> tpNewForConfig (vlTableApi lib) = newD"

definition served_world :: "('d, 'a, 'k) served \<Rightarrow> 'u \<Rightarrow>
   ('d, 'a, 'k, 'k kube_client SliceAuthority option, 'u) import_world" where
  "served_world sv u =
     \<lparr>imwFactory = twFactory (svWorld sv), imwAuthority = twAuthority (svWorld sv), imwLog = twLog (svWorld sv), imwTenant = u\<rparr>"

inductive serving_step ::
  "serve_settings \<Rightarrow> (string \<Rightarrow> URL go_result) \<Rightarrow> (rest_config \<Rightarrow> 'd go_result) \<Rightarrow> (rest_config \<Rightarrow> 'a go_result) \<Rightarrow>
   ('d, 'a, 'k, 's, 'u) import_world \<times> ('d, 'a, 'k, 's) tenant_world controllerHealth option \<Rightarrow>
   ('d, 'a, 'k, 's, 'u) import_world \<times> ('d, 'a, 'k, 's) tenant_world controllerHealth option \<Rightarrow> bool"
  for st parse newD newA where
  recovered: "serving_step st parse newD newA (w, h) (snd (on_tenant (install_config parse config) w), h)"
| reported: "serving_step st parse newD newA (w, h) (w, setState state err h)"
| tenant_acts: "serving_step st parse newD newA (w, h) (w\<lparr>imwTenant := u\<rparr>, h)"
| request: "lib_of newD newA lib \<Longrightarrow>
    serving_step st parse newD newA (w, h) (snd (newServeMuxWithHealth st lib h r w), h)"

inductive_cases serving_stepE: "serving_step st parse newD newA (w, h) (w', h')"

subsection \<open>Requests keep the factory of the process\<close>

context import_factory
begin

lemma serveDiscovery_keeps:
  assumes "inv w" "serveDiscovery (Some \<lparr>ihFactory = Some factory, ihRemote = Some remote\<rparr>) r w = (reply, w')"
    and "\<And>resource query connection v. inv v \<Longrightarrow> inv (snd (list_resource remote resource query connection v))"
  shows "inv w'"
proof (cases "\<exists>identity query. importRequestIdentity (Some r) = Inr identity \<and>
    parseDiscoveryQuery (hrQuery r) (TrimPrefix (hrPath r) ''/api/v1/discovery/'') = Inr query")
  case False
  with assms(1,2) show ?thesis by (auto simp: serveDiscovery_def Let_def split: sum.split_asm)
next
  case True
  then obtain identity query where i: "importRequestIdentity (Some r) = Inr identity"
    and q: "parseDiscoveryQuery (hrQuery r) (TrimPrefix (hrPath r) ''/api/v1/discovery/'') = Inr query" by blast
  obtain r1 v1 where a: "ifAuthorizeResource factory (idClusterID identity) (idToken identity) ''connections''
      (dqConnectionRef query) ''get'' w = (r1, v1)" by fastforce
  obtain r2 v2 where s: "ifResolveConnection factory (idClusterID identity) (dqConnectionRef query) v1 = (r2, v2)"
    by fastforce
  note A = authorize_law [OF assms(1) a]
  note S = resolve_law [OF A [THEN conjunct1] s]
  from assms(2) i q a s A S assms(3) [OF S [THEN conjunct1]] show ?thesis
    by (auto simp: serveDiscovery_def Let_def split: sum.split_asm) (metis snd_conv)+
qed

lemma serveRegistration_keeps:
  assumes "inv w" "serveRegistration p api (Some \<lparr>ihFactory = Some factory, ihRemote = remote\<rparr>) r w = (reply, w')"
    and "\<And>dyn request normalized v. inv v \<Longrightarrow> inv (snd (register_items api dyn request normalized v))"
  shows "inv w'"
proof (cases "\<exists>identity request normalized. importRequestIdentity (Some r) = Inr identity \<and>
    registration_input p r = Inr (request, normalized)")
  case False
  with assms(1,2) show ?thesis by (auto simp: serveRegistration_def split: sum.split_asm)
next
  case True
  then obtain identity request normalized where i: "importRequestIdentity (Some r) = Inr identity"
    and q: "registration_input p r = Inr (request, normalized)" by blast
  obtain r1 v1 where a: "ifAuthorizeResource factory (idClusterID identity) (idToken identity) ''connections''
      (rgConnectionRef request) ''get'' w = (r1, v1)" by fastforce
  obtain r2 v2 where s: "ifResolveConnection factory (idClusterID identity) (rgConnectionRef request) v1 = (r2, v2)"
    by fastforce
  obtain r3 v3 where v: "authorize_verbs factory identity (ResourceForKind (rgKind request)) [''get'', ''create''] v2 = (r3, v3)"
    by fastforce
  obtain r4 v4 where f: "ifFor factory (idClusterID identity) (idToken identity) v3 = (r4, v4)" by fastforce
  note A = authorize_law [OF assms(1) a]
  note S = resolve_law [OF A [THEN conjunct1] s]
  note V = verbs_law [OF S [THEN conjunct1] v]
  note F = for_law [OF V [THEN conjunct1] f]
  have kept: "inv v1" "inv v2" "inv v3" "inv v4" using A S V F by simp_all
  from assms(2) i q a s v f kept assms(3) [OF kept(4)] show ?thesis
    by (auto simp: serveRegistration_def simp del: authorize_verbs.simps split: sum.split_asm) (metis snd_conv)+
qed

end

lemma list_resource_keeps:
  "imwFactory (snd (list_resource (import_remote env) resource query connection w)) = imwFactory w"
  by (simp add: list_resource_discover split: option.split prod.split sum.split)

text \<open>The factory is the process's: its clients are scoped, its base host and its authority are known.\<close>

definition factory_of ::
  "(rest_config \<Rightarrow> 'd go_result) \<Rightarrow> (rest_config \<Rightarrow> 'a go_result) \<Rightarrow> string \<Rightarrow> ('c, 's) ClusterAuthority option \<Rightarrow>
   ('d, 'a, 'c, 's) ClientFactory option \<Rightarrow> bool" where
  "factory_of newD newA baseHost authority fo \<longleftrightarrow>
     (\<exists>f. fo = Some f \<and> factory_ok newD newA f \<and> cfBaseHost f = baseHost \<and> cfAuthority f = authority)"

lemma import_inv_factory:
  "import_inv deps baseHost authority w \<longleftrightarrow>
     factory_of (idNewDynamic deps) (reNewForConfig (idReviews deps)) baseHost authority (imwFactory w)"
  by (simp add: import_inv_def factory_of_def)

lemma For_keeps:
  assumes "factory_of newD newA baseHost authority fo" "For newD now clusterID token fo = (r, fo')"
  shows "factory_of newD newA baseHost authority fo'"
proof -
  from assms(1) obtain f where f: "fo = Some f" "factory_ok newD newA f" "cfBaseHost f = baseHost" "cfAuthority f = authority"
    by (auto simp: factory_of_def)
  from For_ok [OF f(2) assms(2) [unfolded f(1)]] obtain g where g: "fo' = Some g" "factory_ok newD newA g"
    "cfBaseHost g = baseHost" using f by blast
  with client_authority(2) [OF assms(2) [unfolded f(1) g(1)]] f show ?thesis by (simp add: factory_of_def)
qed

lemma AuthorizationFor_keeps:
  assumes "factory_of newD newA baseHost authority fo" "AuthorizationFor newA now clusterID token fo = (r, fo')"
  shows "factory_of newD newA baseHost authority fo'"
proof -
  from assms(1) obtain f where f: "fo = Some f" "factory_ok newD newA f" "cfBaseHost f = baseHost" "cfAuthority f = authority"
    by (auto simp: factory_of_def)
  from AuthorizationFor_ok [OF f(2) assms(2) [unfolded f(1)]] obtain g where g: "fo' = Some g" "factory_ok newD newA g"
    "cfBaseHost g = baseHost" using f by blast
  with client_authority(1) [OF assms(2) [unfolded f(1) g(1)]] f show ?thesis by (simp add: factory_of_def)
qed

lemma reviews_keep:
  assumes "factory_of newD (reNewForConfig env) baseHost authority fo"
  shows "factory_of newD (reNewForConfig env) baseHost authority (snd (AuthorizeTable env clusterID token name fo))"
    and "factory_of newD (reNewForConfig env) baseHost authority (snd (AuthorizeTableAction env clusterID token name action fo))"
  using assms AuthorizationFor_keeps [OF assms]
  by (auto simp: AuthorizeTable_def AuthorizeTableAction_def Let_def split: prod.split sum.split)

definition preserves :: "('w \<Rightarrow> bool) \<Rightarrow> ('w \<Rightarrow> 'r \<times> 'w) \<Rightarrow> bool" where
  "preserves I m \<longleftrightarrow> (\<forall>w. I w \<longrightarrow> I (snd (m w)))"

lemma preservesI: "(\<And>w r w'. I w \<Longrightarrow> m w = (r, w') \<Longrightarrow> I w') \<Longrightarrow> preserves I m"
  by (simp add: preserves_def split_paired_all) (metis prod.collapse)

lemma preservesD: "preserves I m \<Longrightarrow> m w = (r, w') \<Longrightarrow> I w \<Longrightarrow> I w'"
  by (auto simp: preserves_def dest: spec [of _ w])

abbreviation serves_from where
  "serves_from newD newA baseHost authority \<equiv> (\<lambda>w. factory_of newD newA baseHost authority (twFactory w))"

lemma authorize_query_preserves:
  "preserves (serves_from newD (reNewForConfig env) baseHost authority)
     (authorize_query (ActionExecutorForRoute env authorization clusterID ex) name)"
proof (rule preservesI)
  fix w :: "('a, 'b, 'c, 'd) tenant_world" and r w'
  let ?I = "factory_of newD (reNewForConfig env) baseHost authority" and ?cl = "TrimSpace clusterID"
    and ?tok = "bearerToken authorization"
  assume w: "?I (twFactory w)" and q: "authorize_query (ActionExecutorForRoute env authorization clusterID ex) name w = (r, w')"
  obtain r1 f1 where 1: "AuthorizeTable env ?cl ?tok name (twFactory w) = (r1, f1)" by fastforce
  obtain r2 f2 where 2: "AuthorizeTableAction env ?cl ?tok name ActionQueryName f1 = (r2, f2)" by fastforce
  have "?I f1" using reviews_keep(1) [OF w, of ?cl ?tok name] 1 by simp
  moreover have "?I f2" using reviews_keep(2) [OF \<open>?I f1\<close>, of ?cl ?tok name ActionQueryName] 2 by simp
  moreover have "twFactory w' = f1 \<or> twFactory w' = f2"
    using q 1 2 by (auto simp: authorize_query_def ActionExecutorForRoute_def factory_authorizer_def factory_op_def
        split: sum.split_asm)
  ultimately show "?I (twFactory w')" by auto
qed

lemma provider_client_factory: "provider_client e w = (r, w') \<Longrightarrow> twFactory w' = twFactory w"
  by (auto simp: provider_client_def split: option.split_asm prod.split_asm)

lemma QueryTable_preserves:
  "preserves (serves_from newD (reNewForConfig env) baseHost authority)
     (QueryTable (Some (ActionExecutorForRoute env authorization clusterID ex)) api ref input)"
  unfolding preserves_def
proof (intro allI impI)
  fix w :: "('a, 'b, 'c, 'd) tenant_world"
  let ?e = "ActionExecutorForRoute env authorization clusterID ex"
  assume w: "factory_of newD (reNewForConfig env) baseHost authority (twFactory w)"
  obtain r w' where run: "run_query (Some ?e) api ref input w = (r, w')" by fastforce
  note a = preservesD [OF authorize_query_preserves, OF _ w, of authorization clusterID ex]
  have "factory_of newD (reNewForConfig env) baseHost authority (twFactory w')"
    using run w by (auto simp: run_query_def dest!: a provider_client_factory
        split: if_split_asm sum.split_asm prod.split_asm)
  then show "factory_of newD (reNewForConfig env) baseHost authority (twFactory (snd (QueryTable (Some ?e) api ref input w)))"
    using run by (simp add: QueryTable_def split: sum.split)
qed

lemma handleAction_preserves:
  assumes "\<And>f route executor input deadline. ef = Some f \<Longrightarrow> f r route = Some executor \<Longrightarrow>
    preserves I (executor (table_ref (Route.rtName route)) input deadline)"
  shows "preserves I (handleAction rd rnd ef r)"
proof (cases "\<exists>route input deadline. admissible rd r route input deadline")
  case True
  then obtain route input deadline where a: "admissible rd r route input deadline" by blast
  show ?thesis
  proof (cases "Option.bind ef (\<lambda>f. f r route)")
    case None
    then show ?thesis by (simp add: preserves_def handleAction_admitted [OF a])
  next
    case (Some executor)
    then have e: "preserves I (executor (table_ref (Route.rtName route)) input deadline)"
      using assms by (auto simp: bind_eq_Some_conv)
    show ?thesis
    proof (rule preservesI)
      fix w resp w'
      assume w: "I w" and h: "handleAction rd rnd ef r w = (resp, w')"
      obtain res v where x: "executor (table_ref (Route.rtName route)) input deadline w = (res, v)" by fastforce
      have "I v" by (rule preservesD [OF e x w])
      moreover have "w' = v" using h Some x by (cases res) (auto simp: handleAction_admitted [OF a] split: if_split_asm)
      ultimately show "I w'" by simp
    qed
  qed
next
  case False
  then have "\<exists>resp. handleAction rd rnd ef r w = (resp, w)" for w
    using not_admitted_refused [of rd r rnd ef w] by blast
  then show ?thesis by (metis preserves_def snd_conv)
qed

lemma query_table_preserves:
  assumes "\<And>execute ref input. executor = Some execute \<Longrightarrow> preserves I (execute ref input)"
  shows "preserves I (query_table executor input)"
proof (rule preservesI)
  fix w r w'
  assume "I w" "query_table executor input w = (r, w')"
  then show "I w'"
    using preservesD [OF assms] by (auto simp: query_table_def split: option.split_asm sum.split_asm prod.split_asm)
qed

subsection \<open>The table tools leave the tenant's resources alone\<close>

abbreviation reads_from where
  "reads_from newD newA baseHost authority u \<equiv>
     (\<lambda>w. factory_of newD newA baseHost authority (rwFactory w) \<and> rwTenant w = u)"

lemma dynamicClient_preserves:
  "preserves (reads_from (tpNewForConfig api) newA baseHost authority u) (dynamicClient api who)"
  by (auto simp: preserves_def dynamicClient_def split: prod.split dest: For_keeps)

lemma tableResolver_preserves:
  assumes I_def: "I = reads_from (tpNewForConfig api) newA baseHost authority u"
  shows "preserves I (ListTablesBounded api who limit)" "preserves I (tenant_ListTables api who)"
    "preserves I (GetTable api who name)" "preserves I (GetTableSchema api who name)"
proof -
  note d = preservesD [OF dynamicClient_preserves]
  show l: "preserves I (ListTablesBounded api who limit)" for limit
    by (auto simp: preserves_def I_def ListTablesBounded_def Let_def split: prod.split sum.split dest: d)
  show "preserves I (tenant_ListTables api who)"
    using l [of MaxTableListItems] by (fastforce simp: preserves_def tenant_ListTables_def split: prod.split sum.split)
  show "preserves I (GetTable api who name)" "preserves I (GetTableSchema api who name)"
    by (auto simp: preserves_def I_def GetTable_def GetTableSchema_def split: prod.split sum.split dest: d)
qed

definition resolver_preserves :: "('w \<Rightarrow> bool) \<Rightarrow> 'w TableResolver \<Rightarrow> bool" where
  "resolver_preserves I rv \<longleftrightarrow>
     preserves I (rvListTables rv) \<and> (\<forall>name. preserves I (rvGetTable rv name)) \<and>
     (\<forall>page limit. rvListTablesBounded rv = Some page \<longrightarrow> preserves I (page limit)) \<and>
     (\<forall>reader name. rvGetTableSchema rv = Some reader \<longrightarrow> preserves I (reader name))"

lemma resolverFromRequest_preserves:
  "resolver_preserves (reads_from (tpNewForConfig api) newA baseHost authority u)
     (resolverFromRequest tables dev api factory r)"
  by (auto simp: resolver_preserves_def resolverFromRequest_def TableResolverForRequest_def tableResolver_def
      StaticTableResolver_def UnavailableResolver_def tableResolver_preserves [OF refl])
    (auto simp: preserves_def)

lemma table_tools_preserve:
  assumes "resolver_preserves I rv"
  shows "preserves I (list_tables rv)" "preserves I (describe_table rv name)"
proof -
  have rv: "preserves I (rvListTables rv)" "preserves I (rvGetTable rv name)"
    "\<And>page. rvListTablesBounded rv = Some page \<Longrightarrow> preserves I (page MaxTableListItems)"
    "\<And>reader. rvGetTableSchema rv = Some reader \<Longrightarrow> preserves I (reader name)"
    using assms by (auto simp: resolver_preserves_def)
  have page: "preserves I (table_page rv)"
  proof (rule preservesI)
    fix w r w'
    assume "I w" "table_page rv w = (r, w')"
    then show "I w'" using preservesD [OF rv(1)] preservesD [OF rv(3)]
      by (auto simp: table_page_def split: option.split_asm sum.split_asm prod.split_asm)
  qed
  show "preserves I (list_tables rv)"
  proof (rule preservesI)
    fix w r w'
    assume "I w" "list_tables rv w = (r, w')"
    then show "I w'" using preservesD [OF page]
      by (auto simp: list_tables_def list_page_def split: sum.split_asm prod.split_asm)
  qed
  show "preserves I (describe_table rv name)"
  proof (rule preservesI)
    fix w r w'
    assume w: "I w" and d: "describe_table rv name w = (r, w')"
    obtain g v where g: "rvGetTable rv name w = (g, v)" by fastforce
    have v: "I v" by (rule preservesD [OF rv(2) g w])
    from d g have "w' = v \<or> (\<exists>reader x. rvGetTableSchema rv = Some reader \<and> reader name v = (x, w'))"
      by (auto simp: describe_table_def Let_def split: option.split_asm sum.split_asm prod.split_asm if_split_asm)
    then show "I w'" using v preservesD [OF rv(4)] by auto
  qed
qed

subsection \<open>What a request may do\<close>

text \<open>A review that depends on the factory through its base host only.\<close>

definition granted_at :: "'a review_env \<Rightarrow> string \<Rightarrow> string \<Rightarrow> string \<Rightarrow> ResourceAttributes \<Rightarrow> bool" where
  "granted_at env baseHost clusterID token attributes \<longleftrightarrow>
     (\<exists>cl review token' tls. hashToken token' = hashToken token \<and> TrimSpace token' \<noteq> [] \<and> no_client_certificate tls \<and>
        reNewForConfig env \<lparr>rcHost = baseHost @ ''/clusters/'' @ TrimSpace clusterID,
          rcBearerToken = token', rcTLS = tls\<rparr> = Inr cl \<and>
        reCreate env cl attributes = Inr review \<and> rvAllowed review)"

lemma granted_review_at: "granted_review env f = granted_at env (cfBaseHost f)"
  by (intro ext) (simp add: granted_review_def granted_at_def)

lemma granted_at_trim [simp]: "granted_at env baseHost (TrimSpace clusterID) = granted_at env baseHost clusterID"
  by (intro ext) (simp add: granted_at_def)

text \<open>
  The cluster a request is for: the one in the path of an action, otherwise the one in the header.
\<close>

definition request_cluster :: "serve_settings \<Rightarrow> serve_http \<Rightarrow> string" where
  "request_cluster st r =
     (if mux_target_of (ssMCP st) (shPath r) = ToActions
      then (case ParseActionPath (shPath r) of Inr route \<Rightarrow> rtClusterID route | Inl _ \<Rightarrow> [])
      else TrimSpace (shHeader r ''X-Faros-Cluster''))"

abbreviation request_token :: "serve_http \<Rightarrow> string" where
  "request_token r \<equiv> bearerToken (shHeader r ''Authorization'')"

definition provider_granted :: "serve_settings \<Rightarrow> ('d, 'a, 'k, 'u) serve_lib \<Rightarrow> string \<Rightarrow> serve_http \<Rightarrow> bool" where
  "provider_granted st lib baseHost r \<longleftrightarrow>
     (\<exists>name. granted_at (idReviews (vlDeps lib)) baseHost (request_cluster st r) (request_token r) (get_attributes name) \<and>
        granted_at (idReviews (vlDeps lib)) baseHost (request_cluster st r) (request_token r)
          (action_attributes ''query_table'' name)) \<or>
     (\<exists>name. granted_resource (vlDeps lib) baseHost (request_cluster st r) (request_token r) ''connections'' name ''get'')"

definition write_granted :: "serve_settings \<Rightarrow> ('d, 'a, 'k, 'u) serve_lib \<Rightarrow> string \<Rightarrow> serve_http \<Rightarrow> bool" where
  "write_granted st lib baseHost r \<longleftrightarrow>
     (\<exists>name kind. granted_resource (vlDeps lib) baseHost (request_cluster st r) (request_token r) ''connections'' name ''get'' \<and>
        granted_resource (vlDeps lib) baseHost (request_cluster st r) (request_token r) (ResourceForKind kind) [] ''create'')"

definition gate_keeps :: "'w controllerHealth option \<Rightarrow> bool" where
  "gate_keeps h \<longleftrightarrow> (\<forall>w. snd (health_ready h w) = w)"

lemma readyz_keeps: "gate_keeps h \<Longrightarrow> snd (readyz dev h w) = w"
proof -
  assume "gate_keeps h"
  then obtain b where "health_ready h w = (b, w)" by (cases "health_ready h w") (auto simp: gate_keeps_def dest: spec [of _ w])
  then show ?thesis by (simp add: readyz_def Let_def)
qed

subsection \<open>The action endpoint and the query tool\<close>

lemma failure_status: "arStatus (writeFailure requestID route failure) \<noteq> 200"
  using writeFailure_good good_error_status by metis

lemma action_request_granted:
  assumes "factory_ok newD (reNewForConfig env) f" "twFactory w = Some f"
    and "handleAction rd rnd (Some (actionExecutorForRoute devStaticTables env backend api (twFactory w))) r w = (resp, w')"
    and "arStatus resp = 200 \<or> twAuthority w' \<noteq> twAuthority w \<or> twLog w' \<noteq> twLog w"
  shows "\<exists>route input deadline. admissible rd r route input deadline \<and> \<not> devStaticTables \<and>
    granted_review env f (rtClusterID route) (bearerToken (aqAuthorization r)) (get_attributes (Route.rtName route)) \<and>
    granted_review env f (rtClusterID route) (bearerToken (aqAuthorization r))
      (action_attributes ''query_table'' (Route.rtName route))"
proof -
  obtain route input deadline where a: "admissible rd r route input deadline"
    using assms(3,4) not_admitted_refused refused_shape(1) by (metis fst_conv snd_conv)
  have dev: "\<not> devStaticTables"
    using assms(3,4) by (auto simp: handleAction_admitted [OF a] actionExecutorForRoute_def writeEnvelopeError_simps)
  let ?q = "QueryTable (Some (ActionExecutorForRoute env (aqAuthorization r) (rtClusterID route) (backend deadline)))
    api (table_ref (Route.rtName route)) input w"
  obtain res v where q: "?q = (res, v)" by fastforce
  have h: "w' = v \<and> (arStatus resp = 200 \<longrightarrow> (\<exists>result. res = Inr result))"
    using assms(2,3) dev q failure_status [of _ "Some route"]
    by (auto simp: handleAction_admitted [OF a] actionExecutorForRoute_def writeEnvelopeError_simps
        split: sum.split_asm if_split_asm)
  obtain request where n: "normalized_query (table_ref (Route.rtName route)) input = Inr request"
    "granted_review env f (rtClusterID route) (bearerToken (aqAuthorization r)) (get_attributes (qrTableRef request))"
    "granted_review env f (rtClusterID route) (bearerToken (aqAuthorization r))
      (action_attributes ''query_table'' (qrTableRef request))"
    using QueryTable_authorized [OF assms(1,2) q] h assms(4) by metis
  have "qrTableRef request = Route.rtName route"
    using normalized_query_ref [OF n(1)] a by (simp add: table_ref_def admissible_def tableRefRE_TrimSpace)
  with a dev n show ?thesis by auto
qed

lemma query_executor_of_caller:
  assumes "factory = Some f"
  shows "actionExecutorForRequest (mcp_query_deps devStaticTables env backend api factory tables) r =
    (if devStaticTables then None else Some (\<lambda>ref input.
      QueryTable (Some (ActionExecutorForRoute env (sqAuthorization r) (sqCluster r) backend)) api ref input))"
  using assms by (simp add: actionExecutorForRequest_def mcp_query_deps_def actionExecutorFromRequest_def)

lemma tool_query_granted:
  assumes "factory_ok newD (reNewForConfig env) f" "twFactory w = Some f"
    and "tlQueryTable (newPerRequestServer (mcp_query_deps devStaticTables env backend api (twFactory w) tables) r) input w =
      (answer, w')"
    and "answer = Inr out \<or> twAuthority w' \<noteq> twAuthority w \<or> twLog w' \<noteq> twLog w"
  shows "\<not> devStaticTables \<and>
    granted_review env f (sqCluster r) (bearerToken (sqAuthorization r)) (get_attributes (TrimSpace (qnTableRef input))) \<and>
    granted_review env f (sqCluster r) (bearerToken (sqAuthorization r))
      (action_attributes ''query_table'' (TrimSpace (qnTableRef input)))"
proof -
  let ?x = "actionExecutorForRequest (mcp_query_deps devStaticTables env backend api (twFactory w) tables) r"
  note x = query_executor_of_caller [OF assms(2), of devStaticTables env backend api tables r]
  have run: "query_table ?x input w = (answer, w')"
    using assms(3) by (simp add: newPerRequestServer_def registerTools_def)
  have dev: "\<not> devStaticTables"
    using run assms(4) x by (auto simp: query_table_def split: sum.split_asm)
  obtain request where n: "NormalizeQueryRequest \<lparr>qrActionVersion = qnActionVersion input, qrTableRef = qnTableRef input,
      qrColumns = qnColumns input, qrLimit = qnLimit input\<rparr> = Inr request"
    using run assms(4) by (auto simp: query_table_def split: sum.split_asm)
  have t: "qrTableRef request = TrimSpace (qnTableRef input)" "TrimSpace (qrTableRef request) = qrTableRef request"
    using n by (auto simp: NormalizeQueryRequest_iff tableRefRE_TrimSpace)
  let ?ref = "table_ref (qrTableRef request)" and ?in = "\<lparr>qiColumns = qrColumns request, qiLimit = qrLimit request\<rparr>"
  obtain res v where q: "QueryTable (Some (ActionExecutorForRoute env (sqAuthorization r) (sqCluster r) backend)) api
      ?ref ?in w = (res, v)" by fastforce
  have h: "w' = v \<and> (\<forall>out. answer = Inr out \<longrightarrow> (\<exists>result. res = Inr result))"
    using run dev x q n by (auto simp: query_table_def table_ref_def action_consts split: sum.split_asm)
  obtain request' where n': "normalized_query ?ref ?in = Inr request'"
    "granted_review env f (sqCluster r) (bearerToken (sqAuthorization r)) (get_attributes (qrTableRef request'))"
    "granted_review env f (sqCluster r) (bearerToken (sqAuthorization r))
      (action_attributes ''query_table'' (qrTableRef request'))"
    using QueryTable_authorized [OF assms(1,2) q] h assms(4) by metis
  have "qrTableRef request' = TrimSpace (qnTableRef input)"
    using normalized_query_ref [OF n'(1)] t by (simp add: table_ref_def)
  with dev n'(2,3) show ?thesis by simp
qed

subsection \<open>Every handler\<close>

definition acts_within ::
  "serve_settings \<Rightarrow> (rest_config \<Rightarrow> 'd go_result) \<Rightarrow> (rest_config \<Rightarrow> 'a go_result) \<Rightarrow> string \<Rightarrow>
   ('k kube_client, 's) ClusterAuthority option \<Rightarrow> ('d, 'a, 'k, 'u) serve_lib \<Rightarrow> serve_http \<Rightarrow>
   ('d, 'a, 'k, 's, 'u) import_world \<Rightarrow> ('d, 'a, 'k, 's, 'u) import_world \<Rightarrow> bool" where
  "acts_within st newD newA baseHost authority lib r w w' \<longleftrightarrow>
     factory_of newD newA baseHost authority (imwFactory w') \<and>
     (imwLog w' \<noteq> imwLog w \<or> imwAuthority w' \<noteq> imwAuthority w \<longrightarrow> provider_granted st lib baseHost r) \<and>
     (imwTenant w' \<noteq> imwTenant w \<longrightarrow> write_granted st lib baseHost r)"

lemma acts_within_refl:
  "factory_of newD newA baseHost authority (imwFactory w) \<Longrightarrow> acts_within st newD newA baseHost authority lib r w w"
  by (simp add: acts_within_def)

lemma acts_within_trans:
  "acts_within st newD newA baseHost authority lib r w w1 \<Longrightarrow> acts_within st newD newA baseHost authority lib r w1 w2 \<Longrightarrow>
    acts_within st newD newA baseHost authority lib r w w2"
  unfolding acts_within_def by metis

lemma map_prod_idD: "map_prod g id p = (x, w') \<Longrightarrow> \<exists>y. p = (y, w')"
  by (cases p) simp

lemma resolver_tools_of_request:
  "tlListTables (newPerRequestServer (mcp_table_deps dev api factory tables) r) =
     list_tables (resolverFromRequest tables dev api factory r)"
  "tlDescribeTable (newPerRequestServer (mcp_table_deps dev api factory tables) r) name =
     describe_table (resolverFromRequest tables dev api factory r) name"
  by (simp_all add: newPerRequestServer_def registerTools_def mcp_table_deps_def resolverForRequest_def)

lemma on_resolver_acts:
  assumes "factory_of newD newA baseHost authority (imwFactory w)" "on_resolver m w = (x, w')"
    and "preserves (reads_from newD newA baseHost authority (imwTenant w)) m"
  shows "acts_within st newD newA baseHost authority lib r w w'"
proof -
  obtain v where v: "m \<lparr>rwFactory = imwFactory w, rwTenant = imwTenant w\<rparr> = (x, v)"
    "w' = w\<lparr>imwFactory := rwFactory v, imwTenant := rwTenant v\<rparr>"
    using assms(2) by (auto simp: on_resolver_def split: prod.split_asm)
  from preservesD [OF assms(3) v(1)] assms(1) show ?thesis by (simp add: acts_within_def v(2))
qed

lemma run_tool_acts:
  assumes "lib_of newD newA lib" "factory_of newD newA baseHost authority (imwFactory w)"
    and "mux_target_of (ssMCP st) (shPath r) = ToMCP" "run_tool st lib r call w = (x, w')"
  shows "acts_within st newD newA baseHost authority lib r w w'"
proof -
  have "tpNewForConfig (vlTableApi lib) = newD" using assms(1) by (simp add: lib_of_def)
  then have reads: "resolver_preserves (reads_from newD newA baseHost authority u)
      (resolverFromRequest tables dev (vlTableApi lib) factory q)" for u tables dev factory q
    using resolverFromRequest_preserves [of "vlTableApi lib"] by simp
  show ?thesis
  proof (cases call)
    case (CallQueryTable input)
    let ?v = "\<lparr>twFactory = imwFactory w, twAuthority = imwAuthority w, twLog = imwLog w\<rparr>"
    let ?tools = "newPerRequestServer (mcp_query_deps (ssDevStaticTables st) (idReviews (vlDeps lib))
        (Some (ExecuteTableQuery (vlToolStatements lib) (ssClient st))) (idApi (vlDeps lib)) (twFactory ?v) (ssTables st)) (tool_view r)"
    obtain answer v' where q: "tlQueryTable ?tools input ?v = (answer, v')" by fastforce
    have w': "w' = w\<lparr>imwFactory := twFactory v', imwAuthority := twAuthority v', imwLog := twLog v'\<rparr>"
      using assms(4) q by (simp add: run_tool_def CallQueryTable on_tenant_def Let_def)
    obtain f where f: "imwFactory w = Some f" "factory_ok newD newA f" "cfBaseHost f = baseHost"
      using assms(2) by (auto simp: factory_of_def)
    have env: "reNewForConfig (idReviews (vlDeps lib)) = newA" using assms(1) by (simp add: lib_of_def)
    note x = query_executor_of_caller [OF f(1), of "ssDevStaticTables st" "idReviews (vlDeps lib)"
        "Some (ExecuteTableQuery (vlToolStatements lib) (ssClient st))" "idApi (vlDeps lib)" "ssTables st" "tool_view r"]
    have "preserves (serves_from newD newA baseHost authority) (tlQueryTable ?tools input)"
      unfolding newPerRequestServer_def registerTools_def
      by (simp, rule query_table_preserves)
        (auto simp: x [unfolded f(1)] f(1) env [symmetric] split: if_split_asm intro: QueryTable_preserves)
    from preservesD [OF this q] assms(2) have "factory_of newD newA baseHost authority (imwFactory w')"
      by (simp add: w')
    moreover have "provider_granted st lib baseHost r" if e: "twLog v' \<noteq> imwLog w \<or> twAuthority v' \<noteq> imwAuthority w"
    proof -
      have a1: "factory_ok newD (reNewForConfig (idReviews (vlDeps lib))) f" and a2: "twFactory ?v = Some f" using f env by simp_all
      have a3: "answer = Inr undefined \<or> twAuthority v' \<noteq> twAuthority ?v \<or> twLog v' \<noteq> twLog ?v" using e by auto
      have "granted_at (idReviews (vlDeps lib)) baseHost (request_cluster st r) (request_token r)
           (get_attributes (TrimSpace (qnTableRef input)))"
        "granted_at (idReviews (vlDeps lib)) baseHost (request_cluster st r) (request_token r)
           (action_attributes ''query_table'' (TrimSpace (qnTableRef input)))"
        using tool_query_granted [OF a1 a2 q a3] assms(3) f(3)
        by (simp_all add: request_cluster_def granted_review_at tool_view_def)
      then show ?thesis unfolding provider_granted_def by blast
    qed
    ultimately show ?thesis by (auto simp: acts_within_def w')
  next
    case CallListTables
    with assms(4) obtain y where "on_resolver (list_tables (resolverFromRequest (ssTables st) (ssDevStaticTables st)
        (vlTableApi lib) (imwFactory w) (tool_view r))) w = (y, w')"
      by (auto simp: run_tool_def resolver_tools_of_request dest!: map_prod_idD)
    from on_resolver_acts [OF assms(2) this] table_tools_preserve [OF reads] show ?thesis by blast
  next
    case (CallDescribeTable name)
    with assms(4) obtain y where "on_resolver (describe_table (resolverFromRequest (ssTables st) (ssDevStaticTables st)
        (vlTableApi lib) (imwFactory w) (tool_view r)) name) w = (y, w')"
      by (auto simp: run_tool_def resolver_tools_of_request dest!: map_prod_idD)
    from on_resolver_acts [OF assms(2) this] table_tools_preserve [OF reads] show ?thesis by blast
  qed
qed

lemma run_tools_acts:
  assumes "lib_of newD newA lib" "mux_target_of (ssMCP st) (shPath r) = ToMCP"
  shows "factory_of newD newA baseHost authority (imwFactory w) \<Longrightarrow> run_tools st lib r calls w = (xs, w') \<Longrightarrow>
    acts_within st newD newA baseHost authority lib r w w'"
proof (induction calls arbitrary: w xs)
  case Nil
  then show ?case by (simp add: acts_within_refl)
next
  case (Cons call calls)
  obtain x v where x: "run_tool st lib r call w = (x, v)" by fastforce
  obtain ys where ys: "run_tools st lib r calls v = (ys, w')" using Cons.prems(2) x by (auto split: prod.split_asm)
  have 1: "acts_within st newD newA baseHost authority lib r w v"
    by (rule run_tool_acts [OF assms(1) Cons.prems(1) assms(2) x])
  then have "acts_within st newD newA baseHost authority lib r v w'"
    by (intro Cons.IH [OF _ ys]) (simp add: acts_within_def)
  with 1 show ?case by (rule acts_within_trans)
qed

lemma mcp_acts:
  assumes "lib_of newD newA lib" "mux_target_of (ssMCP st) (shPath r) = ToMCP"
    and "factory_of newD newA baseHost authority (imwFactory w)"
    and "mcp_handler (\<lambda>m. run_tools st lib r (vlCalls lib m)) m w = (x, w')"
  shows "acts_within st newD newA baseHost authority lib r w w'"
proof -
  have "w' = w \<or> (\<exists>calls xs. run_tools st lib r calls w = (xs, w'))"
    using assms(4) by (auto simp: mcp_handler_def Let_def split: if_split_asm option.split_asm prod.split_asm)
  then show ?thesis using run_tools_acts [OF assms(1-3)] acts_within_refl [OF assms(3)] by blast
qed

lemma action_acts:
  assumes "lib_of newD newA lib" "mux_target_of (ssMCP st) (shPath r) = ToActions"
    and "factory_of newD newA baseHost authority (imwFactory w)"
    and "on_tenant (handleAction rd rnd (Some (actionExecutorForRoute dev (idReviews (vlDeps lib)) backend api (imwFactory w)))
      (action_view r)) w = (x, w')"
  shows "acts_within st newD newA baseHost authority lib r w w'"
proof -
  let ?v = "\<lparr>twFactory = imwFactory w, twAuthority = imwAuthority w, twLog = imwLog w\<rparr>"
  let ?env = "idReviews (vlDeps lib)"
  let ?h = "handleAction rd rnd (Some (actionExecutorForRoute dev ?env backend api (twFactory ?v))) (action_view r)"
  obtain v' where h: "?h ?v = (x, v')" "w' = w\<lparr>imwFactory := twFactory v', imwAuthority := twAuthority v', imwLog := twLog v'\<rparr>"
    using assms(4) by (auto simp: on_tenant_def split: prod.split_asm)
  obtain f where f: "imwFactory w = Some f" "factory_ok newD newA f" "cfBaseHost f = baseHost"
    using assms(3) by (auto simp: factory_of_def)
  have env: "reNewForConfig ?env = newA" using assms(1) by (simp add: lib_of_def)
  have "preserves (serves_from newD newA baseHost authority) ?h"
    by (rule handleAction_preserves)
      (auto simp: actionExecutorForRoute_def env [symmetric] split: if_split_asm intro: QueryTable_preserves)
  from preservesD [OF this h(1)] assms(3) have "factory_of newD newA baseHost authority (imwFactory w')" by (simp add: h(2))
  moreover have "provider_granted st lib baseHost r" if e: "twLog v' \<noteq> imwLog w \<or> twAuthority v' \<noteq> imwAuthority w"
  proof -
    have a1: "factory_ok newD (reNewForConfig ?env) f" and a2: "twFactory ?v = Some f" using f env by simp_all
    have a3: "arStatus x = 200 \<or> twAuthority v' \<noteq> twAuthority ?v \<or> twLog v' \<noteq> twLog ?v" using e by auto
    from action_request_granted [OF a1 a2 h(1) a3]
    obtain route input deadline where a: "admissible rd (action_view r) route input deadline"
      and g: "granted_review ?env f (rtClusterID route) (request_token r) (get_attributes (Route.rtName route))"
        "granted_review ?env f (rtClusterID route) (request_token r) (action_attributes ''query_table'' (Route.rtName route))"
      by (auto simp: action_view_def)
    have "request_cluster st r = rtClusterID route"
      using a assms(2) by (simp add: request_cluster_def admissible_def action_view_def)
    with g f(3) show ?thesis unfolding provider_granted_def granted_review_at by auto
  qed
  ultimately show ?thesis by (auto simp: acts_within_def h(2))
qed

lemma list_resource_tenant:
  "list_resource (import_remote env) res query conn v = (y, v') \<Longrightarrow> imwTenant v' = imwTenant v"
  by (auto simp: list_resource_discover split: option.split_asm sum.split_asm prod.split_asm)

lemma import_acts:
  assumes "lib_of newD newA lib" "mux_target_of (ssMCP st) (shPath r) = ToImport"
    and "factory_of newD newA baseHost authority (imwFactory w)"
    and "ServeHTTP p (tenant_api api) (Some (provider_import (vlDeps lib) env)) (import_view r) w = (x, w')"
  shows "acts_within st newD newA baseHost authority lib r w w'"
proof -
  let ?deps = "vlDeps lib"
  have inv: "import_inv ?deps baseHost authority w" using assms(1,3) by (simp add: import_inv_factory lib_of_def)
  have kept: "import_inv ?deps baseHost authority v = factory_of newD newA baseHost authority (imwFactory v)" for v
    using assms(1) by (simp add: import_inv_factory lib_of_def)
  have cl: "idClusterID identity = request_cluster st r \<and> idToken identity = request_token r"
    if "importRequestIdentity (Some (import_view r)) = Inr identity" for identity
    using that assms(2) by (auto simp: importRequestIdentity_def Let_def request_cluster_def import_view_def split: if_split_asm)
  consider (no) "w' = w"
    | (discovery) "serveDiscovery (Some \<lparr>ihFactory = Some (factory_import ?deps), ihRemote = Some (import_remote env)\<rparr>)
        (import_view r) w = (x, w')"
    | (registration) "serveRegistration p (tenant_api api)
        (Some \<lparr>ihFactory = Some (factory_import ?deps), ihRemote = Some (import_remote env)\<rparr>) (import_view r) w = (x, w')"
    using assms(4) by (auto simp: ServeHTTP_def NewImportHandler_def split: if_split_asm)
  then show ?thesis
  proof cases
    case no
    with acts_within_refl [OF assms(3)] show ?thesis by simp
  next
    case discovery
    have "factory_of newD newA baseHost authority (imwFactory w')"
      using importer.serveDiscovery_keeps [OF inv discovery] by (simp add: kept list_resource_keeps)
    moreover have "imwTenant w' = imwTenant w \<and>
        (imwLog w' \<noteq> imwLog w \<or> imwAuthority w' \<noteq> imwAuthority w \<longrightarrow> provider_granted st lib baseHost r)"
      using importer.serveDiscovery_law [OF inv discovery]
    proof (elim disjE exE conjE)
      fix identity and query :: discoveryQuery
      assume i: "importRequestIdentity (Some (import_view r)) = Inr identity"
        "granted_resource ?deps baseHost (idClusterID identity) (idToken identity) ''connections'' (dqConnectionRef query) ''get''"
      then have g: "provider_granted st lib baseHost r" using cl unfolding provider_granted_def by metis
      show ?thesis if "(imwLog w', imwTenant w') = (imwLog w, imwTenant w)" using that g by simp
      show ?thesis if "(imwLog v, imwTenant v) = (imwLog w, imwTenant w)" "list_resource (import_remote env) res query conn v = (x, w')"
        for conn v res
        using that g list_resource_tenant [OF that(2)] by simp
    qed auto
    ultimately show ?thesis by (simp add: acts_within_def)
  next
    case registration
    have frame: "import_inv ?deps baseHost authority (snd (register_items (tenant_api api) dyn request normalized v))"
      if "import_inv ?deps baseHost authority v" for dyn request normalized v
      using that register_items_frame [of api dyn request normalized v] by (metis kept prod.collapse)
    have "factory_of newD newA baseHost authority (imwFactory w')"
      using importer.serveRegistration_keeps [OF inv registration frame] by (simp add: kept)
    moreover have "(imwLog w' \<noteq> imwLog w \<or> imwAuthority w' \<noteq> imwAuthority w \<longrightarrow> provider_granted st lib baseHost r) \<and>
        (imwTenant w' \<noteq> imwTenant w \<longrightarrow> write_granted st lib baseHost r)"
      using importer.serveRegistration_law [OF inv registration]
    proof (elim disjE exE conjE)
      fix identity request normalized
      assume "importRequestIdentity (Some (import_view r)) = Inr identity"
        "granted_resource ?deps baseHost (idClusterID identity) (idToken identity) ''connections'' (rgConnectionRef request) ''get''"
      then have "provider_granted st lib baseHost r" using cl unfolding provider_granted_def by metis
      then show ?thesis if "(imwLog w', imwTenant w') = (imwLog w, imwTenant w)" using that by simp
      show ?thesis
        if "granted_resource ?deps baseHost (idClusterID identity) (idToken identity) (ResourceForKind (rgKind request)) [] ''create''"
        using that \<open>provider_granted st lib baseHost r\<close>
          \<open>granted_resource ?deps baseHost (idClusterID identity) (idToken identity) ''connections'' (rgConnectionRef request) ''get''\<close>
          cl [OF \<open>importRequestIdentity (Some (import_view r)) = Inr identity\<close>] unfolding write_granted_def by metis
    qed auto
    ultimately show ?thesis by (simp add: acts_within_def)
  qed
qed

lemma request_acts:
  assumes "lib_of newD newA lib" "factory_of newD newA baseHost authority (imwFactory w)" "gate_keeps h"
    and "newServeMuxWithHealth st lib h r w = (reply, w')"
  shows "acts_within st newD newA baseHost authority lib r w w'"
proof (cases "mux_target_of (ssMCP st) (shPath r)")
  case ToReadyz
  with assms(4) readyz_keeps [OF assms(3)] have "w' = w"
    by (auto simp: newServeMuxWithHealth_def on_tenant_def split: prod.split_asm)
       (metis snd_conv tenant_world.select_convs import_world.surjective import_world.update_convs)
  with acts_within_refl [OF assms(2)] show ?thesis by simp
next
  case ToImport
  with assms(4) import_acts [OF assms(1) ToImport assms(2)] show ?thesis
    by (auto simp: newServeMuxWithHealth_def dest!: map_prod_idD)
next
  case ToMCP
  with assms(4) mcp_acts [OF assms(1) ToMCP assms(2)] show ?thesis
    by (auto simp: newServeMuxWithHealth_def dest!: map_prod_idD)
next
  case ToActions
  with assms(4) action_acts [OF assms(1) ToActions assms(2)] show ?thesis
    by (auto simp: newServeMuxWithHealth_def dest!: map_prod_idD)
qed (use assms(4) acts_within_refl [OF assms(2)] in \<open>auto simp: newServeMuxWithHealth_def\<close>)

subsection \<open>Every run of the server\<close>

text \<open>What holds at every moment: some base host, the authority of startup, scoped clients, and a gate that only looks.\<close>

definition serving_ok where
  "serving_ok newD newA authority = (\<lambda>(w, h).
     (\<exists>baseHost. factory_of newD newA baseHost authority (imwFactory w)) \<and> gate_keeps h)"

lemma install_config_keeps:
  assumes "factory_of newD newA baseHost authority (imwFactory w)"
  shows "\<exists>baseHost'. factory_of newD newA baseHost' authority (imwFactory (snd (on_tenant (install_config parse config) w)))"
proof -
  from assms obtain f where f: "imwFactory w = Some f" "factory_ok newD newA f" "cfAuthority f = authority"
    by (auto simp: factory_of_def)
  obtain r fo where s: "SetBaseConfig parse (Some config) (Some f) = (r, fo)" by fastforce
  from SetBaseConfig_ok [OF f(2) s] obtain g where g: "fo = Some g" "factory_ok newD newA g" by blast
  have "cfAuthority g = authority"
    using s g(1) f(3) by (auto simp: SetBaseConfig_def Let_def split: option.split_asm sum.split_asm if_split_asm)
  with s f(1) g show ?thesis
    by (auto simp: on_tenant_def install_config_def factory_of_def split: prod.split sum.split)
qed

lemma gate_keeps_setState [simp]: "gate_keeps (setState state err h) \<longleftrightarrow> gate_keeps h"
  by (cases h) (simp_all add: gate_keeps_def setState_def health_ready_def)

lemma serving_step_ok:
  assumes "serving_step st parse newD newA s s'" "serving_ok newD newA authority s"
  shows "serving_ok newD newA authority s'"
  using assms
proof (cases rule: serving_step.cases)
  case (recovered config w h)
  then show ?thesis using assms(2) install_config_keeps by (fastforce simp: serving_ok_def)
next
  case (request lib w h r)
  with assms(2) obtain baseHost where "factory_of newD newA baseHost authority (imwFactory w)" "gate_keeps h"
    by (auto simp: serving_ok_def)
  then show ?thesis
    using request_acts [OF request(3), of baseHost authority w h st r] request(1,2)
    by (auto simp: serving_ok_def acts_within_def) (metis prod.collapse)
qed (auto simp: serving_ok_def)

lemma serving_run_ok:
  assumes "(serving_step st parse newD newA)\<^sup>*\<^sup>* s s'" "serving_ok newD newA authority s"
  shows "serving_ok newD newA authority s'"
  using assms by (induction rule: rtranclp_induct) (auto intro: serving_step_ok)

lemma startup_factory_ok:
  fixes env :: "'k startup_env"
  shows "\<exists>f. twFactory (startup_factory env kcp :: ('d, 'a, 'k) serving_world) = Some f \<and> factory_ok newD newA f"
proof -
  let ?new = "NewClientFactory (suParse env) kcp ::
    ('d, 'a, 'k kube_client, 'k kube_client SliceAuthority option) ClientFactory option"
  have "\<exists>f. (if ?new = None then NewDeferredClientFactory else ?new) = Some f \<and> factory_ok newD newA f"
  proof (cases ?new)
    case None
    then show ?thesis by (simp add: NewDeferredClientFactory_def newClientFactory_ok)
  next
    case (Some f)
    then obtain b r where "SetBaseConfig (suParse env) (Some b) (Some newClientFactory) = (r, Some f)"
      by (auto simp: NewClientFactory_def split: option.split_asm prod.split_asm sum.split_asm)
    from SetBaseConfig_ok [OF newClientFactory_ok this] Some show ?thesis by simp
  qed
  then obtain f where f: "(if ?new = None then NewDeferredClientFactory else ?new) = Some f" "factory_ok newD newA f" by blast
  moreover have "factory_ok newD newA (f\<lparr>cfAuthority := a\<rparr>)" for a
    using f(2) by (simp add: factory_ok_def scoped_client_def tenant_config_def)
  ultimately show ?thesis
    unfolding startup_factory_def Let_def f(1) by (auto simp: SetAuthority_def split: sum.split)
qed

lemma startup_serving_ok:
  fixes env :: "'k startup_env"
  defines "sv \<equiv> runServe env :: ('d, 'a, 'k) served"
  shows "\<exists>authority. serving_ok newD newA authority (served_world sv u, svHealth sv)"
proof -
  obtain f where "imwFactory (served_world sv u) = Some f" "factory_ok newD newA f"
    using startup_factory_ok [of env "kcp_config env" newD newA] by (auto simp: sv_def runServe_def Let_def served_world_def)
  moreover have "gate_keeps (svHealth sv)"
    by (auto simp: sv_def runServe_def Let_def install_gate_def newControllerHealth_def setDependencyReady_def
        gate_keeps_def health_ready_def)
  ultimately show ?thesis by (auto simp: serving_ok_def factory_of_def)
qed

text \<open>
  C1. At any moment of any run of the server since its start - requests of any kind, recovered configurations, reported
  controller states and changes of the tenant's resources in any order - a request that makes the server
  consult the provider authority or send something to Databricks carries a bearer token for which reviews in the cluster of the
  request were granted: get on a table and create on its query action, or get on a connection. A request
  that changes the tenant's resources carries one that was granted get on the connection and create on the
  kind. Every other request, whatever its path, leaves all three alone.
\<close>

theorem server_acts_only_when_granted:
  fixes env :: "'k startup_env"
  defines "sv \<equiv> runServe env :: ('d, 'a, 'k) served"
  assumes "(serving_step (settings_of sv) parse newD newA)\<^sup>*\<^sup>* (served_world sv u, svHealth sv) (w, h)"
    and "lib_of newD newA lib" "newServeMuxWithHealth (settings_of sv) lib h r w = (reply, w')"
  shows "\<exists>f. imwFactory w = Some f \<and>
    (imwLog w' \<noteq> imwLog w \<or> imwAuthority w' \<noteq> imwAuthority w \<longrightarrow>
       provider_granted (settings_of sv) lib (cfBaseHost f) r) \<and>
    (imwTenant w' \<noteq> imwTenant w \<longrightarrow> write_granted (settings_of sv) lib (cfBaseHost f) r)"
proof -
  obtain authority where "serving_ok newD newA authority (served_world sv u, svHealth sv)"
    using startup_serving_ok [of newD newA env u] by (auto simp: sv_def)
  from serving_run_ok [OF assms(2) this] obtain baseHost where
    f: "factory_of newD newA baseHost authority (imwFactory w)" and g: "gate_keeps h" by (auto simp: serving_ok_def)
  from f obtain fa where "imwFactory w = Some fa" "cfBaseHost fa = baseHost" by (auto simp: factory_of_def)
  with request_acts [OF assms(3) f g assms(4)] show ?thesis by (auto simp: acts_within_def)
qed

subsection \<open>A server that is asked for warehouses\<close>

definition working_startup :: "unit startup_env" where
  "working_startup = demo_startup
     \<lparr>suInCluster := Inr (demo_base ''https://a''),
      suSlice := (suSlice demo_startup)\<lparr>seGetSlice := Inr [JObj [(''url'', JStr ''https://s'')]]\<rparr>\<rparr>"

abbreviation working_served :: "(unit, rest_config, unit) served" where
  "working_served \<equiv> runServe working_startup"

definition working_lib :: "(unit, rest_config, unit, store_contents) serve_lib" where
  "working_lib =
     \<lparr>vlDecoders = example_decoders, vlRandom = None, vlStatements = (\<lambda>_. example_env), vlToolStatements = example_env,
      vlDeps = sample_deps, vlImports = example_import_env, vlParsers = sample_parsers, vlTenantApi = sample_api,
      vlTableApi = \<lparr>tpNewForConfig = (\<lambda>_. Inr ()), tpNow = 5, tpList = (\<lambda>_ _ _. Inr ([], [])),
        tpGet = (\<lambda>_ _ _. Inl (StatusError ReasonNotFound ''not found'')), tpName = (\<lambda>_. []),
        tpNestedString = (\<lambda>_ _. []), tpNestedSlice = (\<lambda>_ _. [])\<rparr>,
      vlCalls = (\<lambda>_. []), vlDist = (\<lambda>_. Inl (ErrorString ''no file'')), vlMime = (\<lambda>_. []), vlNow = 5\<rparr>"

definition working_request :: serve_http where
  "working_request =
     \<lparr>shMethod = ''GET'', shPath = ''/api/v1/discovery/tables'',
      shHeader = (\<lambda>h. if h = ''X-Faros-Cluster'' then ''c1'' else if h = ''X-Faros-Tenant'' then ''t1''
        else if h = ''Authorization'' then ''Bearer tok'' else if h = ''Content-Type'' then ''application/json'' else []),
      shQuery = [(''connectionRef'', [''demo'']), (''catalog'', [''sales'']), (''schema'', [''gold''])],
      shBody = ''{}'', shReadError = None, shContentLength = 2\<rparr>"

lemma working_view: "import_view working_request = sample_discovery"
  by (simp add: import_view_def working_request_def sample_http_def)

lemma working_target: "mux_target_of mcp ''/api/v1/discovery/tables'' = ToImport"
proof -
  have "mux_target_of True ''/api/v1/discovery/tables'' = ToImport" "mux_target_of False ''/api/v1/discovery/tables'' = ToImport"
    by code_simp+
  then show ?thesis by (cases mcp) simp_all
qed

lemma working_config: "kcp_config working_startup = Some (demo_base ''https://a'')"
  by (simp add: kcp_config_def loadControllerConfig_def working_startup_def demo_startup_def)

definition working_factory :: "(unit, rest_config, unit kube_client, unit kube_client SliceAuthority option) ClientFactory" where
  "working_factory = newClientFactory\<lparr>cfBaseHost := ''https://a'', cfConfigured := True,
     cfAuthority := Some (ClusterClient_slice (suSlice working_startup))\<rparr>"

lemma working_world:
  "imwFactory (served_world working_served u) = Some working_factory"
  "\<exists>a. imwAuthority (served_world working_served u) = Some a \<and> saShardURLs a = [] \<and> saClusterShard a = [] \<and> saClients a = []"
  by (simp_all add: served_world_def runServe_def Let_def working_config startup_factory_def NewSliceAuthority_def
      NewClientFactory_def)
    (simp_all add: working_startup_def demo_startup_def demo_SetBaseConfig SetAuthority_def working_factory_def
      newClientFactory_def)

lemma working_authorized:
  "\<exists>cl g. AuthorizationFor (\<lambda>cfg. Inr cfg) 5 ''c1'' ''tok'' (Some working_factory) = (Inr cl, Some g) \<and>
     cfAuthority g = Some (ClusterClient_slice (suSlice working_startup))"
  by (simp add: AuthorizationFor_def Let_def configFor_def working_factory_def newClientFactory_def
      authFromCache_def fromCache_def storeAuth_def storeClient_def empty_cache_def touch_client_def
      evictLocked.simps cacheCapacityValue_def defaultClientCacheCapacity_def cacheTTLValue_def
      defaultClientCacheTTL_def meta_record_def created_by_def)

lemma working_shard:
  assumes "saShardURLs a = []" "saClusterShard a = []" "saClients a = []"
  shows "\<exists>r a'. ClusterClient_slice (suSlice working_startup) ''c1'' (Some a) = (r, Some a') \<and> saShardURLs a' \<noteq> []"
proof -
  have u: "SliceEndpointURLs [JObj [(''url'', JStr ''https://s'')]] = [''https://s'']" by code_simp
  show ?thesis
    using assms u
    by (simp add: ClusterClient_slice_def shardFor_def refreshShards_def working_startup_def demo_startup_def Let_def)
qed

lemma working_resolve:
  assumes "saShardURLs a = []" "saClusterShard a = []" "saClients a = []" "cfAuthority g = Some (ClusterClient_slice (suSlice working_startup))"
  shows "\<exists>r a'. FactoryResolveConnection sample_deps ''c1'' name (Some g) (Some a) = (r, Some a') \<and> saShardURLs a' \<noteq> []"
proof -
  obtain r a' where s: "ClusterClient_slice (suSlice working_startup) ''c1'' (Some a) = (r, Some a')" "saShardURLs a' \<noteq> []"
    using working_shard [OF assms(1-3)] by blast
  then have "\<exists>r. AuthorityClient (Some g) ''c1'' (Some a) = (r, Some a')"
    using assms(4) by (simp add: AuthorityClient_def Let_def split: sum.split option.split)
  then show ?thesis using s(2)
    by (auto simp: FactoryResolveConnection_def split: sum.split)
qed

lemma working_run:
  "\<exists>reply w' a. newServeMuxWithHealth (settings_of working_served) working_lib (svHealth working_served) working_request
       (served_world working_served u) = (reply, w') \<and> imwAuthority w' = Some a \<and> saShardURLs a \<noteq> []"
proof -
  let ?w = "served_world working_served u"
  obtain a where a: "imwAuthority ?w = Some a" "saShardURLs a = []" "saClusterShard a = []" "saClients a = []" using working_world(2) [of u] by (elim exE conjE) (rule that)
  obtain cl g where g: "AuthorizationFor (\<lambda>cfg. Inr cfg) 5 ''c1'' ''tok'' (Some working_factory) = (Inr cl, Some g)"
    "cfAuthority g = Some (ClusterClient_slice (suSlice working_startup))"
    using working_authorized by (elim exE conjE) (rule that)
  have auth: "AuthorizeResource sample_deps ''c1'' ''tok'' ''connections'' ''demo'' ''get'' (Some working_factory) = (Inr (), Some g)"
    using g(1) by (simp add: AuthorizeResource_def sample_deps_def sample_reviews_def)
  obtain r a' where r: "FactoryResolveConnection sample_deps ''c1'' ''demo'' (Some g) (Some a) = (r, Some a')" "saShardURLs a' \<noteq> []"
    using working_resolve [OF a(2-4) g(2)] by blast
  have keep: "imwAuthority (snd (list_resource (import_remote env) res query conn v)) = imwAuthority v" for env res query conn v
    by (simp add: list_resource_discover split: option.split prod.split sum.split)
  have t: "TrimPrefix ''/api/v1/discovery/tables'' ''/api/v1/discovery/'' = ''tables''"
    "HasPrefix ''/api/v1/discovery/tables'' ''/api/v1/discovery/''"
    by (simp_all add: TrimPrefix_def HasPrefix_def)
  have p: "hrPath sample_discovery = ''/api/v1/discovery/tables''" "hrMethod sample_discovery = ''GET''"
    "hrQuery sample_discovery = [(''connectionRef'', [''demo'']), (''catalog'', [''sales'']), (''schema'', [''gold''])]"
    by (simp_all add: sample_http_def)
  obtain reply w' where s: "ServeHTTP sample_parsers (tenant_api sample_api) (Some sample_handler) sample_discovery ?w = (reply, w')"
    by fastforce
  let ?v = "?w\<lparr>imwFactory := Some g, imwAuthority := Some a'\<rparr>"
  let ?q = "\<lparr>dqConnectionRef = ''demo'', dqCatalog = ''sales'', dqSchema = ''gold'', dqPageToken = []\<rparr>"
  have "ServeHTTP sample_parsers (tenant_api sample_api) (Some sample_handler) sample_discovery ?w =
      (case r of Inl e \<Rightarrow> (writeImportOperationError e ''Databricks connection is unavailable'', ?v)
       | Inr conn \<Rightarrow> list_resource (import_remote example_import_env) ''tables'' ?q conn ?v)"
    by (simp add: ServeHTTP_def p t serveDiscovery_def sample_identity sample_discovery_query NewImportHandler_def)
      (simp add: factory_import_def working_world(1) a(1) auth r(1) split: sum.split)
  with s keep [of example_import_env "''tables''" ?q _ ?v] have "imwAuthority w' = Some a'"
    by (cases r) (auto, metis snd_conv)
  moreover have "shPath working_request = ''/api/v1/discovery/tables''" by (simp add: working_request_def)
  ultimately show ?thesis using s r(2)
    by (auto simp: newServeMuxWithHealth_def working_target working_view working_lib_def)
qed

definition no_objects :: store_contents where
  "no_objects = (\<lambda>_ _. None)"

theorem server_acts_only_when_granted_witness:
  "\<exists>reply w'. newServeMuxWithHealth (settings_of working_served) working_lib (svHealth working_served) working_request
       (served_world working_served no_objects) = (reply, w') \<and>
     imwAuthority w' \<noteq> imwAuthority (served_world working_served no_objects) \<and>
     provider_granted (settings_of working_served) working_lib ''https://a'' working_request"
proof -
  let ?w = "served_world working_served no_objects"
  obtain reply w' a where run: "newServeMuxWithHealth (settings_of working_served) working_lib (svHealth working_served)
      working_request ?w = (reply, w')" "imwAuthority w' = Some a" "saShardURLs a \<noteq> []"
    using working_run by blast
  have l: "lib_of (\<lambda>_. Inr ()) (\<lambda>cfg. Inr cfg) working_lib"
    by (simp add: lib_of_def working_lib_def sample_deps_def sample_reviews_def)
  have e: "imwAuthority w' \<noteq> imwAuthority ?w" using run(2,3) working_world(2) [of no_objects] by (metis option.inject)
  from server_acts_only_when_granted [OF rtranclp.rtrancl_refl l run(1)] obtain f where "imwFactory ?w = Some f"
    "imwAuthority w' \<noteq> imwAuthority ?w \<Longrightarrow> provider_granted (settings_of working_served) working_lib (cfBaseHost f) working_request"
    by blast
  with e working_world(1) [of no_objects]
  have "provider_granted (settings_of working_served) working_lib (cfBaseHost working_factory) working_request"
    by (metis option.inject)
  with run(1) e show ?thesis by (auto simp: working_factory_def)
qed

end
