(* ===== verification/Deep_Copy.thy ===== *)
theory Deep_Copy
  imports Api_Types
begin

text \<open>
  \<^verbatim>\<open>apis/databricks/v1alpha1/zz_generated.deepcopy.go\<close>: copying the resources in memory. Everywhere else the
  resources are values; here they are Go structs that hold slices and pointers, and an explicit
  store says what is shared. A cell of the store is a backing array or the target of a pointer (an
  array of length one). The structs \<^verbatim>\<open>metav1.ObjectMeta\<close> and \<^verbatim>\<open>metav1.ListMeta\<close> have types of their own, \<open>'m\<close> and
  \<open>'n\<close>; \<open>'x\<close> are the cells of the library. The library's own copy functions are an argument, \<open>lib_copies\<close>.
\<close>

subsection \<open>The store\<close>

type_synonym addr = nat

record 'c store =
  stCells :: "addr \<rightharpoonup> 'c"
  stNext :: addr

definition heap_ok :: "'c store \<Rightarrow> bool" where
  "heap_ok h \<longleftrightarrow> (\<forall>a \<in> dom (stCells h). a < stNext h)"

definition new_cell :: "'c \<Rightarrow> 'c store \<Rightarrow> addr \<times> 'c store" where
  "new_cell c h = (stNext h, h\<lparr>stCells := (stCells h)(stNext h \<mapsto> c), stNext := Suc (stNext h)\<rparr>)"

definition put_cell :: "addr \<Rightarrow> 'c \<Rightarrow> 'c store \<Rightarrow> 'c store" where
  "put_cell a c h = h\<lparr>stCells := (stCells h)(a \<mapsto> c)\<rparr>"

text \<open>
  A slice is a window of a backing array; a pointer is a window of length one; nil is \<open>None\<close>.
\<close>

record slice =
  slArray :: addr
  slOffset :: nat
  slLen :: nat

subsection \<open>The structs\<close>

record ConnectionStatus_h =
  hcObservedGeneration :: int
  hcWorkspaceID :: string
  hcConditions :: "slice option"

record TypeMeta =
  tmKind :: string
  tmAPIVersion :: string

record 'm Connection_h =
  hcType :: TypeMeta
  hcMeta :: 'm
  hcSpec :: ConnectionSpec
  hcStatus :: ConnectionStatus_h

record 'n ConnectionList_h =
  hclType :: TypeMeta
  hclMeta :: 'n
  hclItems :: "slice option"

record WarehouseStatus_h =
  hwObservedGeneration :: int
  hwState :: string
  hwConditions :: "slice option"

record 'm Warehouse_h =
  hwType :: TypeMeta
  hwMeta :: 'm
  hwSpec :: WarehouseSpec
  hwStatus :: WarehouseStatus_h

record 'n WarehouseList_h =
  hwlType :: TypeMeta
  hwlMeta :: 'n
  hwlItems :: "slice option"

record TableStatus_h =
  htObservedGeneration :: int
  htRefreshedAt :: "slice option"
  htColumns :: "slice option"
  htConditions :: "slice option"

record 'm Table_h =
  htType :: TypeMeta
  htMeta :: 'm
  htSpec :: TableSpec
  htStatus :: TableStatus_h

record 'n TableList_h =
  htlType :: TypeMeta
  htlMeta :: 'n
  htlItems :: "slice option"

datatype ('m, 'n, 'x) cell =
    Conditions "Condition list"
  | Columns "Column list"
  | Times "int list"
  | SecretRefs "LocalSecretReference list"
  | ConnectionSpecs "ConnectionSpec list"
  | ConnectionStatuses "ConnectionStatus_h list"
  | Connections "'m Connection_h list"
  | ConnectionLists "'n ConnectionList_h list"
  | WarehouseSpecs "WarehouseSpec list"
  | WarehouseStatuses "WarehouseStatus_h list"
  | Warehouses "'m Warehouse_h list"
  | WarehouseLists "'n WarehouseList_h list"
  | TableSpecs "TableSpec list"
  | TableStatuses "TableStatus_h list"
  | Tables "'m Table_h list"
  | TableLists "'n TableList_h list"
  | LibraryCell 'x

type_synonym ('m, 'n, 'x) gostore = "('m, 'n, 'x) cell store"

text \<open>How the arrays of an element type stand in the store.\<close>

record ('e, 'c) array_type =
  atWrap :: "'e list \<Rightarrow> 'c"
  atOpen :: "'c \<Rightarrow> 'e list option"

definition array_at :: "('e, 'c) array_type \<Rightarrow> addr \<Rightarrow> 'c store \<Rightarrow> 'e list" where
  "array_at t a h = (case Option.bind (stCells h a) (atOpen t) of None \<Rightarrow> [] | Some xs \<Rightarrow> xs)"

definition elems :: "('e, 'c) array_type \<Rightarrow> slice option \<Rightarrow> 'c store \<Rightarrow> 'e list" where
  "elems t s h =
     (case s of None \<Rightarrow> [] | Some sl \<Rightarrow> take (slLen sl) (drop (slOffset sl) (array_at t (slArray sl) h)))"

subsection \<open>Copying\<close>

text \<open>
  \<^verbatim>\<open>copy_window\<close> is the code shared by all copies: \<^verbatim>\<open>make\<close> and a loop over the elements, \<^verbatim>\<open>make\<close> and \<^verbatim>\<open>copy\<close>, \<^verbatim>\<open>new\<close> and
  \<^verbatim>\<open>DeepCopyInto\<close>. The new array is written when its elements are there; nothing reads it before.
\<close>

fun copy_each :: "('e \<Rightarrow> 'c store \<Rightarrow> 'e \<times> 'c store) \<Rightarrow> 'e list \<Rightarrow> 'c store \<Rightarrow> 'e list \<times> 'c store" where
  "copy_each f [] h = ([], h)"
| "copy_each f (x # xs) h =
     (case f x h of (y, h) \<Rightarrow> (case copy_each f xs h of (ys, h) \<Rightarrow> (y # ys, h)))"

definition copy_window ::
  "('e, 'c) array_type \<Rightarrow> ('e \<Rightarrow> 'c store \<Rightarrow> 'e \<times> 'c store) \<Rightarrow> slice option \<Rightarrow> 'c store \<Rightarrow>
   slice option \<times> 'c store" where
  "copy_window t f s h =
     (case s of
        None \<Rightarrow> (None, h)
      | Some _ \<Rightarrow>
          (case new_cell (atWrap t []) h of (a, h) \<Rightarrow>
          (case copy_each f (elems t s h) h of (ys, h) \<Rightarrow>
             (Some \<lparr>slArray = a, slOffset = 0, slLen = length ys\<rparr>, put_cell a (atWrap t ys) h))))"

definition copy_plain :: "'e \<Rightarrow> 'c store \<Rightarrow> 'e \<times> 'c store" where
  "copy_plain x h = (x, h)"

subsection \<open>The contract of a deep copy\<close>

text \<open>
  \<open>foot\<close> are the cells a value reaches and \<open>val\<close> what it stands for. Both depend on those cells only; a
  copy stands for the same, changes no cell that was there, and reaches only cells that were not.
\<close>

definition agree :: "addr set \<Rightarrow> 'c store \<Rightarrow> 'c store \<Rightarrow> bool" where
  "agree A h h' \<longleftrightarrow> (\<forall>a \<in> A. stCells h' a = stCells h a)"

abbreviation cells_of :: "'c store \<Rightarrow> addr set" where
  "cells_of h \<equiv> dom (stCells h)"

locale deep_copier =
  fixes copy :: "'v \<Rightarrow> 'c store \<Rightarrow> 'v \<times> 'c store"
    and foot :: "'v \<Rightarrow> 'c store \<Rightarrow> addr set"
    and val :: "'v \<Rightarrow> 'c store \<Rightarrow> 'a"
  assumes foot_local: "agree (foot v h) h h' \<Longrightarrow> foot v h' = foot v h"
    and val_local: "agree (foot v h) h h' \<Longrightarrow> val v h' = val v h"
    and copies: "heap_ok h \<Longrightarrow> foot v h \<subseteq> cells_of h \<Longrightarrow> copy v h = (v', h') \<Longrightarrow>
      heap_ok h' \<and> agree (cells_of h) h h' \<and> foot v' h' \<subseteq> cells_of h' - cells_of h \<and> val v' h' = val v h"
begin

lemma original_kept:
  assumes "agree (cells_of h) h h'" "foot v h \<subseteq> cells_of h"
  shows "foot v h' = foot v h" "val v h' = val v h"
proof -
  have a: "agree (foot v h) h h'" using assms by (auto simp: agree_def)
  show "foot v h' = foot v h" by (rule foot_local [OF a])
  show "val v h' = val v h" by (rule val_local [OF a])
qed

text \<open>Whatever is written later to cells of the one, the other still stands for the same.\<close>

lemma copy_independent:
  assumes "heap_ok h" "foot v h \<subseteq> cells_of h" "copy v h = (v', h')"
  shows "foot v h' \<inter> foot v' h' = {}"
    and "agree (- foot v' h') h' h'' \<Longrightarrow> val v h'' = val v h"
    and "agree (- foot v h') h' h'' \<Longrightarrow> val v' h'' = val v h"
proof -
  note c = copies [OF assms]
  note o = original_kept [of h h' v, OF _ assms(2)]
  show d: "foot v h' \<inter> foot v' h' = {}" using c o assms(2) by auto
  show "val v h'' = val v h" if "agree (- foot v' h') h' h''"
  proof -
    have "agree (foot v h') h' h''" using that d by (auto simp: agree_def)
    then show ?thesis using val_local c o by metis
  qed
  show "val v' h'' = val v h" if "agree (- foot v h') h' h''"
  proof -
    have "agree (foot v' h') h' h''" using that d by (auto simp: agree_def)
    then show ?thesis using val_local c by metis
  qed
qed

end

subsection \<open>Deep copies compose\<close>

lemma deep_copier_plain: "deep_copier copy_plain (\<lambda>_ _. {}) (\<lambda>x _. x)"
  by unfold_locales (auto simp: copy_plain_def agree_def)

lemma agree_trans: "agree A h h1 \<Longrightarrow> agree A h1 h2 \<Longrightarrow> agree A h h2"
  by (simp add: agree_def)

lemma agree_subset: "agree A h h' \<Longrightarrow> B \<subseteq> A \<Longrightarrow> agree B h h'"
  by (auto simp: agree_def)

lemma agree_cells: "agree (cells_of h) h h' \<Longrightarrow> cells_of h \<subseteq> cells_of h'"
  by (auto simp: agree_def dom_def)

lemma agree_step:
  assumes "agree (cells_of h) h h1" "agree (cells_of h1) h1 h2"
  shows "agree (cells_of h) h h2"
  using assms(1) agree_subset [OF assms(2) agree_cells [OF assms(1)]] by (rule agree_trans)

lemma fresh_union: "A \<subseteq> C1 - C0 \<Longrightarrow> B \<subseteq> C2 - C1 \<Longrightarrow> C0 \<subseteq> C1 \<Longrightarrow> C1 \<subseteq> C2 \<Longrightarrow> A \<union> B \<subseteq> C2 - C0"
  by blast

lemma fresh_insert:
  "a \<in> C \<Longrightarrow> a \<notin> D \<Longrightarrow> (\<And>y. y \<in> Y \<Longrightarrow> F y \<subseteq> C - insert a D) \<Longrightarrow> insert a (\<Union>y\<in>Y. F y) \<subseteq> C - D"
  by blast

definition copy_pair ::
  "('a \<Rightarrow> 'c store \<Rightarrow> 'a \<times> 'c store) \<Rightarrow> ('b \<Rightarrow> 'c store \<Rightarrow> 'b \<times> 'c store) \<Rightarrow>
   'a \<times> 'b \<Rightarrow> 'c store \<Rightarrow> ('a \<times> 'b) \<times> 'c store" where
  "copy_pair f g = (\<lambda>(x, y) h. case f x h of (x, h) \<Rightarrow> (case g y h of (y, h) \<Rightarrow> ((x, y), h)))"

lemma deep_copier_pair:
  assumes "deep_copier f fx vx" "deep_copier g fy vy"
  shows "deep_copier (copy_pair f g) (\<lambda>(x, y) h. fx x h \<union> fy y h) (\<lambda>(x, y) h. (vx x h, vy y h))"
proof (unfold_locales, goal_cases)
  case (1 v h h')
  then show ?case
    using deep_copier.foot_local [OF assms(1), of "fst v" h h'] deep_copier.foot_local [OF assms(2), of "snd v" h h']
    by (auto simp: agree_def split: prod.split)
next
  case (2 v h h')
  then show ?case
    using deep_copier.val_local [OF assms(1), of "fst v" h h'] deep_copier.val_local [OF assms(2), of "snd v" h h']
    by (auto simp: agree_def split: prod.split)
next
  case (3 h v v' h')
  obtain x y where v: "v = (x, y)" by fastforce
  obtain x' h1 where f: "f x h = (x', h1)" by fastforce
  obtain y' h2 where g: "g y h1 = (y', h2)" by fastforce
  have v': "v' = (x', y')" "h' = h2" using 3(3) v f g by (auto simp: copy_pair_def)
  have F: "fx x h \<subseteq> cells_of h" "fy y h \<subseteq> cells_of h" using 3(2) v by auto
  note c1 = deep_copier.copies [OF assms(1) 3(1) F(1) f]
  have y: "fy y h1 = fy y h" "vy y h1 = vy y h"
    using deep_copier.original_kept [OF assms(2) _ F(2)] c1 by auto
  have "fy y h1 \<subseteq> cells_of h1" using y(1) F(2) agree_cells [of h h1] c1 by blast
  note c2 = deep_copier.copies [OF assms(2) conjunct1 [OF c1] this g]
  have "fx x' h1 \<subseteq> cells_of h1" using c1 by blast
  then have x: "fx x' h2 = fx x' h1" "vx x' h2 = vx x' h1"
    using deep_copier.original_kept [OF assms(1)] c2 by auto
  have a: "agree (cells_of h) h h1" "agree (cells_of h1) h1 h2" using c1 c2 by simp_all
  have "agree (cells_of h) h h2" by (rule agree_step [OF a])
  moreover have "fx x' h1 \<subseteq> cells_of h1 - cells_of h" "fy y' h2 \<subseteq> cells_of h2 - cells_of h1"
    using c1 c2 by simp_all
  from fresh_union [OF this agree_cells [OF a(1)] agree_cells [OF a(2)]]
  have "fx x' h1 \<union> fy y' h2 \<subseteq> cells_of h2 - cells_of h" .
  ultimately show ?case using c1 c2 x y unfolding v v' by simp
qed


text \<open>A struct is copied through the tuple of its parts; what it stands for may be presented differently.\<close>

lemma deep_copier_struct:
  assumes "deep_copier f fx vx" "\<And>r x. parts (build r x) = x" "\<And>r h. g r h = (case f (parts r) h of (x, h) \<Rightarrow> (build r x, h))"
  shows "deep_copier g (\<lambda>r. fx (parts r)) (\<lambda>r h. present (vx (parts r) h))"
proof (unfold_locales, goal_cases)
  case (3 h r r' h')
  obtain x h1 where f: "f (parts r) h = (x, h1)" by fastforce
  with 3(3) assms(3) have "r' = build r x" "h' = h1" by auto
  with deep_copier.copies [OF assms(1) 3(1,2) f] assms(2) show ?case by simp
qed (use assms(1) in \<open>auto dest: deep_copier.foot_local deep_copier.val_local\<close>)

lemma copy_each_copies:
  assumes "deep_copier f fe ve"
  shows "heap_ok h \<Longrightarrow> (\<Union>x\<in>set xs. fe x h) \<subseteq> cells_of h \<Longrightarrow> copy_each f xs h = (ys, h') \<Longrightarrow>
    heap_ok h' \<and> agree (cells_of h) h h' \<and> (\<Union>y\<in>set ys. fe y h') \<subseteq> cells_of h' - cells_of h \<and>
    map (\<lambda>y. ve y h') ys = map (\<lambda>x. ve x h) xs"
proof (induction xs arbitrary: h ys h')
  case Nil
  then show ?case by (simp add: agree_def)
next
  case (Cons x xs)
  obtain y h1 where f: "f x h = (y, h1)" by fastforce
  obtain zs h2 where g: "copy_each f xs h1 = (zs, h2)" by fastforce
  have r: "ys = y # zs" "h' = h2" using Cons.prems(3) f g by auto
  have F: "fe x h \<subseteq> cells_of h" "\<And>z. z \<in> set xs \<Longrightarrow> fe z h \<subseteq> cells_of h" using Cons.prems(2) by auto
  note c1 = deep_copier.copies [OF assms Cons.prems(1) F(1) f]
  have k: "fe z h1 = fe z h" "ve z h1 = ve z h" if "z \<in> set xs" for z
    using deep_copier.original_kept [OF assms _ F(2) [OF that]] c1 by auto
  have "fe z h1 \<subseteq> cells_of h1" if "z \<in> set xs" for z
    using k(1) [OF that] F(2) [OF that] agree_cells [of h h1] c1 by simp
  then have "(\<Union>z\<in>set xs. fe z h1) \<subseteq> cells_of h1" by blast
  note c2 = Cons.IH [OF conjunct1 [OF c1] this g]
  have "fe y h1 \<subseteq> cells_of h1" using c1 by blast
  then have y: "fe y h2 = fe y h1" "ve y h2 = ve y h1"
    using deep_copier.original_kept [OF assms] c2 by auto
  have a: "agree (cells_of h) h h1" "agree (cells_of h1) h1 h2" using c1 c2 by simp_all
  have "agree (cells_of h) h h2" by (rule agree_step [OF a])
  moreover have "fe y h1 \<subseteq> cells_of h1 - cells_of h" "(\<Union>z\<in>set zs. fe z h2) \<subseteq> cells_of h2 - cells_of h1"
    using c1 c2 by simp_all
  from fresh_union [OF this agree_cells [OF a(1)] agree_cells [OF a(2)]]
  have "fe y h1 \<union> (\<Union>z\<in>set zs. fe z h2) \<subseteq> cells_of h2 - cells_of h" .
  moreover have "map (\<lambda>x. ve x h1) xs = map (\<lambda>x. ve x h) xs" using k by simp
  then have "map (\<lambda>z. ve z h2) zs = map (\<lambda>x. ve x h) xs" using c2 by simp
  moreover have "heap_ok h2" using c2 by simp
  moreover have "ve y h2 = ve x h" using y(2) c1 by simp
  ultimately show ?case unfolding r using y(1) by simp
qed

definition window_foot :: "('e, 'c) array_type \<Rightarrow> ('e \<Rightarrow> 'c store \<Rightarrow> addr set) \<Rightarrow> slice option \<Rightarrow> 'c store \<Rightarrow> addr set" where
  "window_foot t fe s h = slArray ` set_option s \<union> (\<Union>x\<in>set (elems t s h). fe x h)"

definition window_val :: "('e, 'c) array_type \<Rightarrow> ('e \<Rightarrow> 'c store \<Rightarrow> 'a) \<Rightarrow> slice option \<Rightarrow> 'c store \<Rightarrow> 'a list option" where
  "window_val t ve s h = map_option (\<lambda>_. map (\<lambda>x. ve x h) (elems t s h)) s"

lemma new_cell_facts:
  assumes "heap_ok h" "new_cell c h = (a, h1)"
  shows "a \<notin> cells_of h" "heap_ok h1" "agree (cells_of h) h h1" "cells_of h1 = insert a (cells_of h)"
  using assms by (auto simp: new_cell_def heap_ok_def agree_def less_Suc_eq)

lemma elems_local: "agree (slArray ` set_option s) h h' \<Longrightarrow> elems t s h' = elems t s h"
  by (auto simp: elems_def array_at_def agree_def split: option.split)

lemma window_local:
  assumes "deep_copier f fe ve" "agree (window_foot t fe s h) h h'"
  shows "elems t s h' = elems t s h" "\<And>x. x \<in> set (elems t s h) \<Longrightarrow> fe x h' = fe x h \<and> ve x h' = ve x h"
proof -
  show "elems t s h' = elems t s h"
    using assms(2) by (intro elems_local) (auto simp: window_foot_def agree_def)
  fix x assume "x \<in> set (elems t s h)"
  then have a: "agree (fe x h) h h'" using assms(2) by (auto simp: window_foot_def agree_def)
  show "fe x h' = fe x h \<and> ve x h' = ve x h"
    using deep_copier.foot_local [OF assms(1) a] deep_copier.val_local [OF assms(1) a] by simp
qed

lemma deep_copier_window:
  assumes "deep_copier f fe ve" "\<And>xs. atOpen t (atWrap t xs) = Some xs"
  shows "deep_copier (copy_window t f) (window_foot t fe) (window_val t ve)"
proof (unfold_locales, goal_cases)
  case (1 s h h')
  then show ?case using window_local [OF assms(1) 1] by (simp add: window_foot_def)
next
  case (2 s h h')
  have m: "map (\<lambda>x. ve x h') (elems t s h) = map (\<lambda>x. ve x h) (elems t s h)"
    using window_local(2) [OF assms(1) 2] by simp
  show ?case unfolding window_val_def window_local(1) [OF assms(1) 2] m ..
next
  case (3 h s s' h')
  show ?case
  proof (cases s)
    case None
    then show ?thesis using 3 by (auto simp: copy_window_def window_foot_def window_val_def agree_def elems_def)
  next
    case (Some sl)
    obtain a h1 where n: "new_cell (atWrap t []) h = (a, h1)" by fastforce
    note nf = new_cell_facts [OF 3(1) n]
    have F: "slArray ` set_option s \<subseteq> cells_of h" "\<And>x. x \<in> set (elems t s h) \<Longrightarrow> fe x h \<subseteq> cells_of h"
      using 3(2) by (auto simp: window_foot_def)
    have "agree (window_foot t fe s h) h h1" using nf(3) 3(2) by (rule agree_subset)
    note wl = window_local [OF assms(1) this]
    obtain ys h2 where e: "copy_each f (elems t s h1) h1 = (ys, h2)" by fastforce
    have "fe x h1 \<subseteq> cells_of h1" if "x \<in> set (elems t s h1)" for x
      using wl(2) [of x] F(2) [of x] that nf(4) wl(1) by auto
    then have "(\<Union>x\<in>set (elems t s h1). fe x h1) \<subseteq> cells_of h1" by blast
    note c = copy_each_copies [OF assms(1) nf(2) this e]
    have r: "s' = Some \<lparr>slArray = a, slOffset = 0, slLen = length ys\<rparr>" "h' = put_cell a (atWrap t ys) h2"
      using 3(3) Some n e by (auto simp: copy_window_def)
    have el: "elems t s' h' = ys" using assms(2) by (simp add: r elems_def array_at_def put_cell_def)
    have fresh: "fe y h2 \<subseteq> cells_of h2 - insert a (cells_of h)" if "y \<in> set ys" for y
      using c nf(4) that by blast
    have keep: "fe y h' = fe y h2 \<and> ve y h' = ve y h2" if "y \<in> set ys" for y
    proof -
      have ag: "agree (fe y h2) h2 h'" using fresh [OF that] by (auto simp: r agree_def put_cell_def)
      show ?thesis using deep_copier.foot_local [OF assms(1) ag] deep_copier.val_local [OF assms(1) ag] by simp
    qed
    have a2: "a \<in> cells_of h2" using c nf(4) agree_cells [of h1 h2] by blast
    then have cells: "cells_of h' = cells_of h2" by (auto simp: r put_cell_def)
    have "heap_ok h'" using c a2 by (auto simp: r heap_ok_def put_cell_def)
    moreover have "agree (cells_of h) h h'"
      using c nf(1,3,4) by (auto simp: r agree_def put_cell_def)
    moreover have "window_foot t fe s' h' \<subseteq> cells_of h' - cells_of h"
    proof -
      have "window_foot t fe s' h' = insert a (\<Union>y\<in>set ys. fe y h')"
        by (simp add: window_foot_def el) (simp add: r(1))
      also have "\<dots> = insert a (\<Union>y\<in>set ys. fe y h2)" using keep by simp
      finally show ?thesis using fresh_insert [OF a2 nf(1) fresh] cells by simp
    qed
    moreover have "map (\<lambda>y. ve y h') ys = map (\<lambda>x. ve x h) (elems t s h)"
    proof -
      have "map (\<lambda>y. ve y h') ys = map (\<lambda>y. ve y h2) ys" using keep by simp
      also have "\<dots> = map (\<lambda>x. ve x h1) (elems t s h1)" using c by simp
      also have "\<dots> = map (\<lambda>x. ve x h) (elems t s h)" using wl by simp
      finally show ?thesis .
    qed
    ultimately show ?thesis by (simp add: window_val_def el) (simp add: r(1) Some)
  qed
qed

subsection \<open>The arrays of the store\<close>

definition condition_array :: "(Condition, ('m, 'n, 'x) cell) array_type" where
  "condition_array = \<lparr>atWrap = Conditions, atOpen = (\<lambda>c. case c of Conditions xs \<Rightarrow> Some xs | _ \<Rightarrow> None)\<rparr>"

definition column_array :: "(Column, ('m, 'n, 'x) cell) array_type" where
  "column_array = \<lparr>atWrap = Columns, atOpen = (\<lambda>c. case c of Columns xs \<Rightarrow> Some xs | _ \<Rightarrow> None)\<rparr>"

definition time_array :: "(int, ('m, 'n, 'x) cell) array_type" where
  "time_array = \<lparr>atWrap = Times, atOpen = (\<lambda>c. case c of Times xs \<Rightarrow> Some xs | _ \<Rightarrow> None)\<rparr>"

definition secret_ref_array :: "(LocalSecretReference, ('m, 'n, 'x) cell) array_type" where
  "secret_ref_array = \<lparr>atWrap = SecretRefs, atOpen = (\<lambda>c. case c of SecretRefs xs \<Rightarrow> Some xs | _ \<Rightarrow> None)\<rparr>"

definition connection_spec_array :: "(ConnectionSpec, ('m, 'n, 'x) cell) array_type" where
  "connection_spec_array = \<lparr>atWrap = ConnectionSpecs, atOpen = (\<lambda>c. case c of ConnectionSpecs xs \<Rightarrow> Some xs | _ \<Rightarrow> None)\<rparr>"

definition connection_status_array :: "(ConnectionStatus_h, ('m, 'n, 'x) cell) array_type" where
  "connection_status_array = \<lparr>atWrap = ConnectionStatuses, atOpen = (\<lambda>c. case c of ConnectionStatuses xs \<Rightarrow> Some xs | _ \<Rightarrow> None)\<rparr>"

definition connection_array :: "('m Connection_h, ('m, 'n, 'x) cell) array_type" where
  "connection_array = \<lparr>atWrap = Connections, atOpen = (\<lambda>c. case c of Connections xs \<Rightarrow> Some xs | _ \<Rightarrow> None)\<rparr>"

definition connection_list_array :: "('n ConnectionList_h, ('m, 'n, 'x) cell) array_type" where
  "connection_list_array = \<lparr>atWrap = ConnectionLists, atOpen = (\<lambda>c. case c of ConnectionLists xs \<Rightarrow> Some xs | _ \<Rightarrow> None)\<rparr>"

definition warehouse_spec_array :: "(WarehouseSpec, ('m, 'n, 'x) cell) array_type" where
  "warehouse_spec_array = \<lparr>atWrap = WarehouseSpecs, atOpen = (\<lambda>c. case c of WarehouseSpecs xs \<Rightarrow> Some xs | _ \<Rightarrow> None)\<rparr>"

definition warehouse_status_array :: "(WarehouseStatus_h, ('m, 'n, 'x) cell) array_type" where
  "warehouse_status_array = \<lparr>atWrap = WarehouseStatuses, atOpen = (\<lambda>c. case c of WarehouseStatuses xs \<Rightarrow> Some xs | _ \<Rightarrow> None)\<rparr>"

definition warehouse_array :: "('m Warehouse_h, ('m, 'n, 'x) cell) array_type" where
  "warehouse_array = \<lparr>atWrap = Warehouses, atOpen = (\<lambda>c. case c of Warehouses xs \<Rightarrow> Some xs | _ \<Rightarrow> None)\<rparr>"

definition warehouse_list_array :: "('n WarehouseList_h, ('m, 'n, 'x) cell) array_type" where
  "warehouse_list_array = \<lparr>atWrap = WarehouseLists, atOpen = (\<lambda>c. case c of WarehouseLists xs \<Rightarrow> Some xs | _ \<Rightarrow> None)\<rparr>"

definition table_spec_array :: "(TableSpec, ('m, 'n, 'x) cell) array_type" where
  "table_spec_array = \<lparr>atWrap = TableSpecs, atOpen = (\<lambda>c. case c of TableSpecs xs \<Rightarrow> Some xs | _ \<Rightarrow> None)\<rparr>"

definition table_status_array :: "(TableStatus_h, ('m, 'n, 'x) cell) array_type" where
  "table_status_array = \<lparr>atWrap = TableStatuses, atOpen = (\<lambda>c. case c of TableStatuses xs \<Rightarrow> Some xs | _ \<Rightarrow> None)\<rparr>"

definition table_array :: "('m Table_h, ('m, 'n, 'x) cell) array_type" where
  "table_array = \<lparr>atWrap = Tables, atOpen = (\<lambda>c. case c of Tables xs \<Rightarrow> Some xs | _ \<Rightarrow> None)\<rparr>"

definition table_list_array :: "('n TableList_h, ('m, 'n, 'x) cell) array_type" where
  "table_list_array = \<lparr>atWrap = TableLists, atOpen = (\<lambda>c. case c of TableLists xs \<Rightarrow> Some xs | _ \<Rightarrow> None)\<rparr>"

lemmas array_defs = condition_array_def column_array_def time_array_def secret_ref_array_def
  connection_spec_array_def connection_status_array_def connection_array_def connection_list_array_def
  warehouse_spec_array_def warehouse_status_array_def warehouse_array_def warehouse_list_array_def
  table_spec_array_def table_status_array_def table_array_def table_list_array_def

subsection \<open>The copy functions\<close>

text \<open>
  \<^verbatim>\<open>DeepCopyInto\<close> maps the struct that is read to the struct that is written. The copies of \<^verbatim>\<open>metav1.ObjectMeta\<close>,
  \<^verbatim>\<open>metav1.ListMeta\<close>, \<^verbatim>\<open>metav1.Condition\<close> and \<^verbatim>\<open>*metav1.Time\<close> are library code.
\<close>

type_synonym ('v, 'm, 'n, 'x) copier = "'v \<Rightarrow> ('m, 'n, 'x) gostore \<Rightarrow> 'v \<times> ('m, 'n, 'x) gostore"

record ('m, 'n, 'x) lib_copies =
  lcObjectMeta :: "('m, 'm, 'n, 'x) copier"
  lcListMeta :: "('n, 'm, 'n, 'x) copier"
  lcCondition :: "(Condition, 'm, 'n, 'x) copier"
  lcTime :: "(slice option, 'm, 'n, 'x) copier"

definition Column_DeepCopyInto :: "(Column, 'm, 'n, 'x) copier" where
  "Column_DeepCopyInto = copy_plain"

definition Column_DeepCopy :: "(slice option, 'm, 'n, 'x) copier" where
  "Column_DeepCopy = copy_window column_array Column_DeepCopyInto"

definition LocalSecretReference_DeepCopyInto :: "(LocalSecretReference, 'm, 'n, 'x) copier" where
  "LocalSecretReference_DeepCopyInto = copy_plain"

definition LocalSecretReference_DeepCopy :: "(slice option, 'm, 'n, 'x) copier" where
  "LocalSecretReference_DeepCopy = copy_window secret_ref_array LocalSecretReference_DeepCopyInto"

definition ConnectionSpec_DeepCopyInto :: "(ConnectionSpec, 'm, 'n, 'x) copier" where
  "ConnectionSpec_DeepCopyInto sp h = (let out = sp in (out\<lparr>csSecretRef := csSecretRef sp\<rparr>, h))"

definition ConnectionSpec_DeepCopy :: "(slice option, 'm, 'n, 'x) copier" where
  "ConnectionSpec_DeepCopy = copy_window connection_spec_array ConnectionSpec_DeepCopyInto"

definition ConnectionStatus_DeepCopyInto :: "('m, 'n, 'x) lib_copies \<Rightarrow> (ConnectionStatus_h, 'm, 'n, 'x) copier" where
  "ConnectionStatus_DeepCopyInto lib st h =
     (case copy_window condition_array (lcCondition lib) (hcConditions st) h of (conditions, h) \<Rightarrow>
        (st\<lparr>hcConditions := conditions\<rparr>, h))"

definition ConnectionStatus_DeepCopy :: "('m, 'n, 'x) lib_copies \<Rightarrow> (slice option, 'm, 'n, 'x) copier" where
  "ConnectionStatus_DeepCopy lib = copy_window connection_status_array (ConnectionStatus_DeepCopyInto lib)"

definition Connection_DeepCopyInto :: "('m, 'n, 'x) lib_copies \<Rightarrow> ('m Connection_h, 'm, 'n, 'x) copier" where
  "Connection_DeepCopyInto lib obj h =
     (case lcObjectMeta lib (hcMeta obj) h of (meta, h) \<Rightarrow>
     (case ConnectionStatus_DeepCopyInto lib (hcStatus obj) h of (st, h) \<Rightarrow>
        (obj\<lparr>hcType := hcType obj, hcMeta := meta, hcSpec := hcSpec obj, hcStatus := st\<rparr>, h)))"

definition Connection_DeepCopy :: "('m, 'n, 'x) lib_copies \<Rightarrow> (slice option, 'm, 'n, 'x) copier" where
  "Connection_DeepCopy lib = copy_window connection_array (Connection_DeepCopyInto lib)"

definition Connection_DeepCopyObject :: "('m, 'n, 'x) lib_copies \<Rightarrow> (slice option, 'm, 'n, 'x) copier" where
  "Connection_DeepCopyObject lib p h =
     (case Connection_DeepCopy lib p h of (Some c, h) \<Rightarrow> (Some c, h) | (None, h) \<Rightarrow> (None, h))"

definition ConnectionList_DeepCopyInto ::
  "('m, 'n, 'x) lib_copies \<Rightarrow> ('n ConnectionList_h, 'm, 'n, 'x) copier" where
  "ConnectionList_DeepCopyInto lib l h =
     (case lcListMeta lib (hclMeta l) h of (meta, h) \<Rightarrow>
     (case copy_window connection_array (Connection_DeepCopyInto lib) (hclItems l) h of (items, h) \<Rightarrow>
        (l\<lparr>hclType := hclType l, hclMeta := meta, hclItems := items\<rparr>, h)))"

definition ConnectionList_DeepCopy ::
  "('m, 'n, 'x) lib_copies \<Rightarrow> (slice option, 'm, 'n, 'x) copier" where
  "ConnectionList_DeepCopy lib = copy_window connection_list_array (ConnectionList_DeepCopyInto lib)"

definition ConnectionList_DeepCopyObject ::
  "('m, 'n, 'x) lib_copies \<Rightarrow> (slice option, 'm, 'n, 'x) copier" where
  "ConnectionList_DeepCopyObject lib p h =
     (case ConnectionList_DeepCopy lib p h of (Some c, h) \<Rightarrow> (Some c, h) | (None, h) \<Rightarrow> (None, h))"

definition WarehouseSpec_DeepCopyInto :: "(WarehouseSpec, 'm, 'n, 'x) copier" where
  "WarehouseSpec_DeepCopyInto = copy_plain"

definition WarehouseSpec_DeepCopy :: "(slice option, 'm, 'n, 'x) copier" where
  "WarehouseSpec_DeepCopy = copy_window warehouse_spec_array WarehouseSpec_DeepCopyInto"

definition WarehouseStatus_DeepCopyInto :: "('m, 'n, 'x) lib_copies \<Rightarrow> (WarehouseStatus_h, 'm, 'n, 'x) copier" where
  "WarehouseStatus_DeepCopyInto lib st h =
     (case copy_window condition_array (lcCondition lib) (hwConditions st) h of (conditions, h) \<Rightarrow>
        (st\<lparr>hwConditions := conditions\<rparr>, h))"

definition WarehouseStatus_DeepCopy :: "('m, 'n, 'x) lib_copies \<Rightarrow> (slice option, 'm, 'n, 'x) copier" where
  "WarehouseStatus_DeepCopy lib = copy_window warehouse_status_array (WarehouseStatus_DeepCopyInto lib)"

definition Warehouse_DeepCopyInto :: "('m, 'n, 'x) lib_copies \<Rightarrow> ('m Warehouse_h, 'm, 'n, 'x) copier" where
  "Warehouse_DeepCopyInto lib obj h =
     (case lcObjectMeta lib (hwMeta obj) h of (meta, h) \<Rightarrow>
     (case WarehouseStatus_DeepCopyInto lib (hwStatus obj) h of (st, h) \<Rightarrow>
        (obj\<lparr>hwType := hwType obj, hwMeta := meta, hwSpec := hwSpec obj, hwStatus := st\<rparr>, h)))"

definition Warehouse_DeepCopy :: "('m, 'n, 'x) lib_copies \<Rightarrow> (slice option, 'm, 'n, 'x) copier" where
  "Warehouse_DeepCopy lib = copy_window warehouse_array (Warehouse_DeepCopyInto lib)"

definition Warehouse_DeepCopyObject :: "('m, 'n, 'x) lib_copies \<Rightarrow> (slice option, 'm, 'n, 'x) copier" where
  "Warehouse_DeepCopyObject lib p h =
     (case Warehouse_DeepCopy lib p h of (Some c, h) \<Rightarrow> (Some c, h) | (None, h) \<Rightarrow> (None, h))"

definition WarehouseList_DeepCopyInto ::
  "('m, 'n, 'x) lib_copies \<Rightarrow> ('n WarehouseList_h, 'm, 'n, 'x) copier" where
  "WarehouseList_DeepCopyInto lib l h =
     (case lcListMeta lib (hwlMeta l) h of (meta, h) \<Rightarrow>
     (case copy_window warehouse_array (Warehouse_DeepCopyInto lib) (hwlItems l) h of (items, h) \<Rightarrow>
        (l\<lparr>hwlType := hwlType l, hwlMeta := meta, hwlItems := items\<rparr>, h)))"

definition WarehouseList_DeepCopy ::
  "('m, 'n, 'x) lib_copies \<Rightarrow> (slice option, 'm, 'n, 'x) copier" where
  "WarehouseList_DeepCopy lib = copy_window warehouse_list_array (WarehouseList_DeepCopyInto lib)"

definition WarehouseList_DeepCopyObject ::
  "('m, 'n, 'x) lib_copies \<Rightarrow> (slice option, 'm, 'n, 'x) copier" where
  "WarehouseList_DeepCopyObject lib p h =
     (case WarehouseList_DeepCopy lib p h of (Some c, h) \<Rightarrow> (Some c, h) | (None, h) \<Rightarrow> (None, h))"

definition TableSpec_DeepCopyInto :: "(TableSpec, 'm, 'n, 'x) copier" where
  "TableSpec_DeepCopyInto = copy_plain"

definition TableSpec_DeepCopy :: "(slice option, 'm, 'n, 'x) copier" where
  "TableSpec_DeepCopy = copy_window table_spec_array TableSpec_DeepCopyInto"

definition unless_nil :: "(slice option, 'm, 'n, 'x) copier \<Rightarrow> (slice option, 'm, 'n, 'x) copier" where
  "unless_nil f p h = (case p of None \<Rightarrow> (None, h) | Some q \<Rightarrow> f (Some q) h)"

definition TableStatus_DeepCopyInto :: "('m, 'n, 'x) lib_copies \<Rightarrow> (TableStatus_h, 'm, 'n, 'x) copier" where
  "TableStatus_DeepCopyInto lib st h =
     (case unless_nil (lcTime lib) (htRefreshedAt st) h of (refreshed, h) \<Rightarrow>
     (case copy_window column_array copy_plain (htColumns st) h of (columns, h) \<Rightarrow>
     (case copy_window condition_array (lcCondition lib) (htConditions st) h of (conditions, h) \<Rightarrow>
        (st\<lparr>htRefreshedAt := refreshed, htColumns := columns, htConditions := conditions\<rparr>, h))))"

definition TableStatus_DeepCopy :: "('m, 'n, 'x) lib_copies \<Rightarrow> (slice option, 'm, 'n, 'x) copier" where
  "TableStatus_DeepCopy lib = copy_window table_status_array (TableStatus_DeepCopyInto lib)"

definition Table_DeepCopyInto :: "('m, 'n, 'x) lib_copies \<Rightarrow> ('m Table_h, 'm, 'n, 'x) copier" where
  "Table_DeepCopyInto lib obj h =
     (case lcObjectMeta lib (htMeta obj) h of (meta, h) \<Rightarrow>
     (case TableStatus_DeepCopyInto lib (htStatus obj) h of (st, h) \<Rightarrow>
        (obj\<lparr>htType := htType obj, htMeta := meta, htSpec := htSpec obj, htStatus := st\<rparr>, h)))"

definition Table_DeepCopy :: "('m, 'n, 'x) lib_copies \<Rightarrow> (slice option, 'm, 'n, 'x) copier" where
  "Table_DeepCopy lib = copy_window table_array (Table_DeepCopyInto lib)"

definition Table_DeepCopyObject :: "('m, 'n, 'x) lib_copies \<Rightarrow> (slice option, 'm, 'n, 'x) copier" where
  "Table_DeepCopyObject lib p h =
     (case Table_DeepCopy lib p h of (Some c, h) \<Rightarrow> (Some c, h) | (None, h) \<Rightarrow> (None, h))"

definition TableList_DeepCopyInto ::
  "('m, 'n, 'x) lib_copies \<Rightarrow> ('n TableList_h, 'm, 'n, 'x) copier" where
  "TableList_DeepCopyInto lib l h =
     (case lcListMeta lib (htlMeta l) h of (meta, h) \<Rightarrow>
     (case copy_window table_array (Table_DeepCopyInto lib) (htlItems l) h of (items, h) \<Rightarrow>
        (l\<lparr>htlType := htlType l, htlMeta := meta, htlItems := items\<rparr>, h)))"

definition TableList_DeepCopy ::
  "('m, 'n, 'x) lib_copies \<Rightarrow> (slice option, 'm, 'n, 'x) copier" where
  "TableList_DeepCopy lib = copy_window table_list_array (TableList_DeepCopyInto lib)"

definition TableList_DeepCopyObject ::
  "('m, 'n, 'x) lib_copies \<Rightarrow> (slice option, 'm, 'n, 'x) copier" where
  "TableList_DeepCopyObject lib p h =
     (case TableList_DeepCopy lib p h of (Some c, h) \<Rightarrow> (Some c, h) | (None, h) \<Rightarrow> (None, h))"

subsection \<open>What the structs reach and stand for\<close>

text \<open>A slice stands for its elements and whether it is nil, a pointer for its target.\<close>

definition ConnectionStatus_foot :: "ConnectionStatus_h \<Rightarrow> ('m, 'n, 'x) gostore \<Rightarrow> addr set" where
  "ConnectionStatus_foot st = window_foot condition_array (\<lambda>_ _. {}) (hcConditions st)"

definition ConnectionStatus_value :: "ConnectionStatus_h \<Rightarrow> ('m, 'n, 'x) gostore \<Rightarrow> ConnectionStatus \<times> bool" where
  "ConnectionStatus_value st h =
     (\<lparr>cstObservedGeneration = hcObservedGeneration st, cstWorkspaceID = hcWorkspaceID st,
       cstConditions = elems condition_array (hcConditions st) h\<rparr>, hcConditions st = None)"

definition WarehouseStatus_foot :: "WarehouseStatus_h \<Rightarrow> ('m, 'n, 'x) gostore \<Rightarrow> addr set" where
  "WarehouseStatus_foot st = window_foot condition_array (\<lambda>_ _. {}) (hwConditions st)"

definition WarehouseStatus_value :: "WarehouseStatus_h \<Rightarrow> ('m, 'n, 'x) gostore \<Rightarrow> WarehouseStatus \<times> bool" where
  "WarehouseStatus_value st h =
     (\<lparr>wstObservedGeneration = hwObservedGeneration st, wstState = hwState st,
       wstConditions = elems condition_array (hwConditions st) h\<rparr>, hwConditions st = None)"

definition TableStatus_foot :: "TableStatus_h \<Rightarrow> ('m, 'n, 'x) gostore \<Rightarrow> addr set" where
  "TableStatus_foot st h =
     window_foot time_array (\<lambda>_ _. {}) (htRefreshedAt st) h \<union>
     (window_foot column_array (\<lambda>_ _. {}) (htColumns st) h \<union>
      window_foot condition_array (\<lambda>_ _. {}) (htConditions st) h)"

definition pointer_target :: "'a list option \<Rightarrow> 'a option" where
  "pointer_target p = (case p of Some (x # _) \<Rightarrow> Some x | _ \<Rightarrow> None)"

definition TableStatus_value :: "TableStatus_h \<Rightarrow> ('m, 'n, 'x) gostore \<Rightarrow> TableStatus \<times> bool \<times> bool" where
  "TableStatus_value st h =
     (\<lparr>tstObservedGeneration = htObservedGeneration st,
       tstRefreshedAt = pointer_target (window_val time_array (\<lambda>x _. x) (htRefreshedAt st) h),
       tstColumns = elems column_array (htColumns st) h,
       tstConditions = elems condition_array (htConditions st) h\<rparr>,
      htColumns st = None, htConditions st = None)"

definition Connection_foot ::
  "('m \<Rightarrow> ('m, 'n, 'x) gostore \<Rightarrow> addr set) \<Rightarrow> 'm Connection_h \<Rightarrow> ('m, 'n, 'x) gostore \<Rightarrow> addr set" where
  "Connection_foot metaFoot obj h = metaFoot (hcMeta obj) h \<union> ConnectionStatus_foot (hcStatus obj) h"

definition Connection_value ::
  "('m \<Rightarrow> ('m, 'n, 'x) gostore \<Rightarrow> 'a) \<Rightarrow> 'm Connection_h \<Rightarrow> ('m, 'n, 'x) gostore \<Rightarrow>
   TypeMeta \<times> 'a \<times> ConnectionSpec \<times> ConnectionStatus \<times> bool" where
  "Connection_value metaVal obj h = (hcType obj, metaVal (hcMeta obj) h, hcSpec obj, ConnectionStatus_value (hcStatus obj) h)"

definition Warehouse_foot ::
  "('m \<Rightarrow> ('m, 'n, 'x) gostore \<Rightarrow> addr set) \<Rightarrow> 'm Warehouse_h \<Rightarrow> ('m, 'n, 'x) gostore \<Rightarrow> addr set" where
  "Warehouse_foot metaFoot obj h = metaFoot (hwMeta obj) h \<union> WarehouseStatus_foot (hwStatus obj) h"

definition Warehouse_value ::
  "('m \<Rightarrow> ('m, 'n, 'x) gostore \<Rightarrow> 'a) \<Rightarrow> 'm Warehouse_h \<Rightarrow> ('m, 'n, 'x) gostore \<Rightarrow>
   TypeMeta \<times> 'a \<times> WarehouseSpec \<times> WarehouseStatus \<times> bool" where
  "Warehouse_value metaVal obj h = (hwType obj, metaVal (hwMeta obj) h, hwSpec obj, WarehouseStatus_value (hwStatus obj) h)"

definition Table_foot ::
  "('m \<Rightarrow> ('m, 'n, 'x) gostore \<Rightarrow> addr set) \<Rightarrow> 'm Table_h \<Rightarrow> ('m, 'n, 'x) gostore \<Rightarrow> addr set" where
  "Table_foot metaFoot obj h = metaFoot (htMeta obj) h \<union> TableStatus_foot (htStatus obj) h"

definition Table_value ::
  "('m \<Rightarrow> ('m, 'n, 'x) gostore \<Rightarrow> 'a) \<Rightarrow> 'm Table_h \<Rightarrow> ('m, 'n, 'x) gostore \<Rightarrow>
   TypeMeta \<times> 'a \<times> TableSpec \<times> TableStatus \<times> bool \<times> bool" where
  "Table_value metaVal obj h = (htType obj, metaVal (htMeta obj) h, htSpec obj, TableStatus_value (htStatus obj) h)"

definition list_foot ::
  "('e, 'c) array_type \<Rightarrow> ('e \<Rightarrow> 'c store \<Rightarrow> addr set) \<Rightarrow> ('n \<Rightarrow> 'c store \<Rightarrow> addr set) \<Rightarrow>
   'n \<times> slice option \<Rightarrow> 'c store \<Rightarrow> addr set" where
  "list_foot t fe fl = (\<lambda>(meta, items) h. fl meta h \<union> window_foot t fe items h)"

definition list_value ::
  "('e, 'c) array_type \<Rightarrow> ('e \<Rightarrow> 'c store \<Rightarrow> 'a) \<Rightarrow> ('n \<Rightarrow> 'c store \<Rightarrow> 'b) \<Rightarrow>
   'n \<times> slice option \<Rightarrow> 'c store \<Rightarrow> 'b \<times> 'a list option" where
  "list_value t ve vl = (\<lambda>(meta, items) h. (vl meta h, window_val t ve items h))"

definition ConnectionList_foot ::
  "('m \<Rightarrow> ('m, 'n, 'x) gostore \<Rightarrow> addr set) \<Rightarrow> ('n \<Rightarrow> ('m, 'n, 'x) gostore \<Rightarrow> addr set) \<Rightarrow>
   'n ConnectionList_h \<Rightarrow> ('m, 'n, 'x) gostore \<Rightarrow> addr set" where
  "ConnectionList_foot metaFoot listFoot l =
     list_foot connection_array (Connection_foot metaFoot) listFoot (hclMeta l, hclItems l)"

definition ConnectionList_value where
  "ConnectionList_value metaVal listVal l h =
     (hclType l, list_value connection_array (Connection_value metaVal) listVal (hclMeta l, hclItems l) h)"

definition WarehouseList_foot ::
  "('m \<Rightarrow> ('m, 'n, 'x) gostore \<Rightarrow> addr set) \<Rightarrow> ('n \<Rightarrow> ('m, 'n, 'x) gostore \<Rightarrow> addr set) \<Rightarrow>
   'n WarehouseList_h \<Rightarrow> ('m, 'n, 'x) gostore \<Rightarrow> addr set" where
  "WarehouseList_foot metaFoot listFoot l =
     list_foot warehouse_array (Warehouse_foot metaFoot) listFoot (hwlMeta l, hwlItems l)"

definition WarehouseList_value where
  "WarehouseList_value metaVal listVal l h =
     (hwlType l, list_value warehouse_array (Warehouse_value metaVal) listVal (hwlMeta l, hwlItems l) h)"

definition TableList_foot ::
  "('m \<Rightarrow> ('m, 'n, 'x) gostore \<Rightarrow> addr set) \<Rightarrow> ('n \<Rightarrow> ('m, 'n, 'x) gostore \<Rightarrow> addr set) \<Rightarrow>
   'n TableList_h \<Rightarrow> ('m, 'n, 'x) gostore \<Rightarrow> addr set" where
  "TableList_foot metaFoot listFoot l =
     list_foot table_array (Table_foot metaFoot) listFoot (htlMeta l, htlItems l)"

definition TableList_value where
  "TableList_value metaVal listVal l h =
     (htlType l, list_value table_array (Table_value metaVal) listVal (htlMeta l, htlItems l) h)"

subsection \<open>The generated copies satisfy the contract\<close>

lemma deep_copier_as:
  assumes "deep_copier f fx vx" "\<And>r x. parts (build r x) = x"
    and "\<And>r h. g r h = (case f (parts r) h of (x, h) \<Rightarrow> (build r x, h))"
    and "\<And>r h. F r h = fx (parts r) h" "\<And>r h. V r h = present (vx (parts r) h)"
  shows "deep_copier g F V"
proof -
  have "F = (\<lambda>r. fx (parts r))" "V = (\<lambda>r h. present (vx (parts r) h))" using assms(4,5) by (auto intro!: ext)
  then show ?thesis using deep_copier_struct [OF assms(1-3)] by simp
qed

text \<open>What the library promises of its copies: conditions and times reach no shared cells of their own.\<close>

definition library_copies ::
  "('m, 'n, 'x) lib_copies \<Rightarrow> ('m \<Rightarrow> ('m, 'n, 'x) gostore \<Rightarrow> addr set) \<Rightarrow> ('m \<Rightarrow> ('m, 'n, 'x) gostore \<Rightarrow> 'a) \<Rightarrow>
   ('n \<Rightarrow> ('m, 'n, 'x) gostore \<Rightarrow> addr set) \<Rightarrow> ('n \<Rightarrow> ('m, 'n, 'x) gostore \<Rightarrow> 'b) \<Rightarrow> bool" where
  "library_copies lib metaFoot metaVal listFoot listVal \<longleftrightarrow>
     deep_copier (lcObjectMeta lib) metaFoot metaVal \<and>
     deep_copier (lcListMeta lib) listFoot listVal \<and>
     deep_copier (lcCondition lib) (\<lambda>_ _. {}) (\<lambda>x _. x) \<and>
     deep_copier (lcTime lib) (window_foot time_array (\<lambda>_ _. {})) (window_val time_array (\<lambda>x _. x))"

lemma array_open [simp]:
  "atOpen condition_array (atWrap condition_array xs1) = Some xs1"
  "atOpen column_array (atWrap column_array xs2) = Some xs2"
  "atOpen time_array (atWrap time_array xs3) = Some xs3"
  "atOpen connection_array (atWrap connection_array xs4) = Some xs4"
  "atOpen warehouse_array (atWrap warehouse_array xs5) = Some xs5"
  "atOpen table_array (atWrap table_array xs6) = Some xs6"
  "atOpen connection_list_array (atWrap connection_list_array xs7) = Some xs7"
  "atOpen warehouse_list_array (atWrap warehouse_list_array xs8) = Some xs8"
  "atOpen table_list_array (atWrap table_list_array xs9) = Some xs9"
  "atOpen connection_status_array (atWrap connection_status_array xs10) = Some xs10"
  "atOpen warehouse_status_array (atWrap warehouse_status_array xs11) = Some xs11"
  "atOpen table_status_array (atWrap table_status_array xs12) = Some xs12"
  "atOpen secret_ref_array (atWrap secret_ref_array xs13) = Some xs13"
  "atOpen connection_spec_array (atWrap connection_spec_array xs14) = Some xs14"
  "atOpen warehouse_spec_array (atWrap warehouse_spec_array xs15) = Some xs15"
  "atOpen table_spec_array (atWrap table_spec_array xs16) = Some xs16"
  by (simp_all add: array_defs)

lemmas plain_window = deep_copier_window [OF deep_copier_plain]

lemma window_val_plain [simp]:
  "window_val t (\<lambda>x _. x) s h = map_option (\<lambda>_. elems t s h) s"
  by (simp add: window_val_def)

lemma elems_nil [simp]: "elems t None h = []"
  by (simp add: elems_def)

lemma deep_copier_ConnectionStatus:
  assumes "deep_copier (lcCondition lib) (\<lambda>_ _. {}) (\<lambda>x _. x)"
  shows "deep_copier (ConnectionStatus_DeepCopyInto lib) ConnectionStatus_foot ConnectionStatus_value"
proof (rule deep_copier_as [where parts = "\<lambda>st. ((hcObservedGeneration st, hcWorkspaceID st), hcConditions st)"
      and build = "\<lambda>st x. st\<lparr>hcObservedGeneration := fst (fst x), hcWorkspaceID := snd (fst x), hcConditions := snd x\<rparr>"
      and present = "\<lambda>((g, i), c). (\<lparr>cstObservedGeneration = g, cstWorkspaceID = i,
        cstConditions = (case c of None \<Rightarrow> [] | Some xs \<Rightarrow> xs)\<rparr>, c = None)"])
  show "deep_copier (copy_pair copy_plain (copy_window condition_array (lcCondition lib)))
    (\<lambda>(x, y) h. {} \<union> window_foot condition_array (\<lambda>_ _. {}) y h)
    (\<lambda>(x, y) h. (x, window_val condition_array (\<lambda>x _. x) y h))"
    by (rule deep_copier_pair [OF deep_copier_plain deep_copier_window [OF assms]]) simp
qed (auto simp: ConnectionStatus_DeepCopyInto_def copy_pair_def copy_plain_def ConnectionStatus_foot_def
       ConnectionStatus_value_def split: prod.split option.split)

lemma deep_copier_WarehouseStatus:
  assumes "deep_copier (lcCondition lib) (\<lambda>_ _. {}) (\<lambda>x _. x)"
  shows "deep_copier (WarehouseStatus_DeepCopyInto lib) WarehouseStatus_foot WarehouseStatus_value"
proof (rule deep_copier_as [where parts = "\<lambda>st. ((hwObservedGeneration st, hwState st), hwConditions st)"
      and build = "\<lambda>st x. st\<lparr>hwObservedGeneration := fst (fst x), hwState := snd (fst x), hwConditions := snd x\<rparr>"
      and present = "\<lambda>((g, i), c). (\<lparr>wstObservedGeneration = g, wstState = i,
        wstConditions = (case c of None \<Rightarrow> [] | Some xs \<Rightarrow> xs)\<rparr>, c = None)"])
  show "deep_copier (copy_pair copy_plain (copy_window condition_array (lcCondition lib)))
    (\<lambda>(x, y) h. {} \<union> window_foot condition_array (\<lambda>_ _. {}) y h)
    (\<lambda>(x, y) h. (x, window_val condition_array (\<lambda>x _. x) y h))"
    by (rule deep_copier_pair [OF deep_copier_plain deep_copier_window [OF assms]]) simp
qed (auto simp: WarehouseStatus_DeepCopyInto_def copy_pair_def copy_plain_def WarehouseStatus_foot_def
       WarehouseStatus_value_def split: prod.split option.split)

lemma deep_copier_unless_nil:
  assumes "deep_copier f (window_foot t fe) (window_val t ve)"
  shows "deep_copier (unless_nil f) (window_foot t fe) (window_val t ve)"
proof (unfold_locales, goal_cases)
  case (3 h p q h')
  show ?case
  proof (cases p)
    case None
    then show ?thesis using 3 by (simp add: unless_nil_def window_foot_def agree_def)
  next
    case (Some sl)
    then have "f p h = (q, h')" using 3(3) by (simp add: unless_nil_def)
    from deep_copier.copies [OF assms 3(1,2) this] show ?thesis .
  qed
qed (use assms in \<open>auto dest: deep_copier.foot_local deep_copier.val_local\<close>)

lemma deep_copier_TableStatus:
  assumes "deep_copier (lcCondition lib) (\<lambda>_ _. {}) (\<lambda>x _. x)" "deep_copier (lcTime lib) (window_foot time_array (\<lambda>_ _. {})) (window_val time_array (\<lambda>x _. x))"
  shows "deep_copier (TableStatus_DeepCopyInto lib) TableStatus_foot TableStatus_value"
proof (rule deep_copier_as [where parts = "\<lambda>st. (htObservedGeneration st, htRefreshedAt st, htColumns st, htConditions st)"
      and build = "\<lambda>st x. st\<lparr>htObservedGeneration := fst x, htRefreshedAt := fst (snd x), htColumns := fst (snd (snd x)),
        htConditions := snd (snd (snd x))\<rparr>"
      and present = "\<lambda>(g, r, k, c). (\<lparr>tstObservedGeneration = g, tstRefreshedAt = pointer_target r,
        tstColumns = (case k of None \<Rightarrow> [] | Some xs \<Rightarrow> xs), tstConditions = (case c of None \<Rightarrow> [] | Some xs \<Rightarrow> xs)\<rparr>,
        k = None, c = None)"])
  show "deep_copier (copy_pair copy_plain (copy_pair (unless_nil (lcTime lib))
      (copy_pair (copy_window column_array copy_plain) (copy_window condition_array (lcCondition lib)))))
    (\<lambda>(x, y) h. {} \<union> (case y of (r, y) \<Rightarrow> \<lambda>h. window_foot time_array (\<lambda>_ _. {}) r h \<union>
      (case y of (k, c) \<Rightarrow> \<lambda>h. window_foot column_array (\<lambda>_ _. {}) k h \<union> window_foot condition_array (\<lambda>_ _. {}) c h) h) h)
    (\<lambda>(x, y) h. (x, (case y of (r, y) \<Rightarrow> \<lambda>h. (window_val time_array (\<lambda>x _. x) r h,
      (case y of (k, c) \<Rightarrow> \<lambda>h. (window_val column_array (\<lambda>x _. x) k h, window_val condition_array (\<lambda>x _. x) c h)) h)) h))"
    by (intro deep_copier_pair deep_copier_plain plain_window deep_copier_window deep_copier_unless_nil assms) simp_all
qed (auto simp: TableStatus_DeepCopyInto_def copy_pair_def copy_plain_def TableStatus_foot_def
       TableStatus_value_def split: prod.split option.split)

lemma deep_copier_Connection:
  assumes "deep_copier (lcObjectMeta lib) metaFoot metaVal" "deep_copier (lcCondition lib) (\<lambda>_ _. {}) (\<lambda>x _. x)"
  shows "deep_copier (Connection_DeepCopyInto lib) (Connection_foot metaFoot) (Connection_value metaVal)"
proof (rule deep_copier_as [where parts = "\<lambda>obj. ((hcType obj, hcSpec obj), hcMeta obj, hcStatus obj)"
      and build = "\<lambda>obj x. obj\<lparr>hcType := fst (fst x), hcSpec := snd (fst x), hcMeta := fst (snd x), hcStatus := snd (snd x)\<rparr>"
      and present = "\<lambda>((t, s), m, st). (t, m, s, st)"])
  show "deep_copier (copy_pair copy_plain (copy_pair (lcObjectMeta lib) (ConnectionStatus_DeepCopyInto lib)))
    (\<lambda>(x, y) h. {} \<union> (case y of (m, st) \<Rightarrow> \<lambda>h. metaFoot m h \<union> ConnectionStatus_foot st h) h)
    (\<lambda>(x, y) h. (x, (case y of (m, st) \<Rightarrow> \<lambda>h. (metaVal m h, ConnectionStatus_value st h)) h))"
    by (intro deep_copier_pair deep_copier_plain assms deep_copier_ConnectionStatus [OF assms(2)])
qed (auto simp: Connection_DeepCopyInto_def copy_pair_def copy_plain_def Connection_foot_def Connection_value_def split: prod.split)

lemma deep_copier_Warehouse:
  assumes "deep_copier (lcObjectMeta lib) metaFoot metaVal" "deep_copier (lcCondition lib) (\<lambda>_ _. {}) (\<lambda>x _. x)"
  shows "deep_copier (Warehouse_DeepCopyInto lib) (Warehouse_foot metaFoot) (Warehouse_value metaVal)"
proof (rule deep_copier_as [where parts = "\<lambda>obj. ((hwType obj, hwSpec obj), hwMeta obj, hwStatus obj)"
      and build = "\<lambda>obj x. obj\<lparr>hwType := fst (fst x), hwSpec := snd (fst x), hwMeta := fst (snd x), hwStatus := snd (snd x)\<rparr>"
      and present = "\<lambda>((t, s), m, st). (t, m, s, st)"])
  show "deep_copier (copy_pair copy_plain (copy_pair (lcObjectMeta lib) (WarehouseStatus_DeepCopyInto lib)))
    (\<lambda>(x, y) h. {} \<union> (case y of (m, st) \<Rightarrow> \<lambda>h. metaFoot m h \<union> WarehouseStatus_foot st h) h)
    (\<lambda>(x, y) h. (x, (case y of (m, st) \<Rightarrow> \<lambda>h. (metaVal m h, WarehouseStatus_value st h)) h))"
    by (intro deep_copier_pair deep_copier_plain assms deep_copier_WarehouseStatus [OF assms(2)])
qed (auto simp: Warehouse_DeepCopyInto_def copy_pair_def copy_plain_def Warehouse_foot_def Warehouse_value_def split: prod.split)

lemma deep_copier_Table:
  assumes "deep_copier (lcObjectMeta lib) metaFoot metaVal" "deep_copier (lcCondition lib) (\<lambda>_ _. {}) (\<lambda>x _. x)" "deep_copier (lcTime lib) (window_foot time_array (\<lambda>_ _. {})) (window_val time_array (\<lambda>x _. x))"
  shows "deep_copier (Table_DeepCopyInto lib) (Table_foot metaFoot) (Table_value metaVal)"
proof (rule deep_copier_as [where parts = "\<lambda>obj. ((htType obj, htSpec obj), htMeta obj, htStatus obj)"
      and build = "\<lambda>obj x. obj\<lparr>htType := fst (fst x), htSpec := snd (fst x), htMeta := fst (snd x), htStatus := snd (snd x)\<rparr>"
      and present = "\<lambda>((t, s), m, st). (t, m, s, st)"])
  show "deep_copier (copy_pair copy_plain (copy_pair (lcObjectMeta lib) (TableStatus_DeepCopyInto lib)))
    (\<lambda>(x, y) h. {} \<union> (case y of (m, st) \<Rightarrow> \<lambda>h. metaFoot m h \<union> TableStatus_foot st h) h)
    (\<lambda>(x, y) h. (x, (case y of (m, st) \<Rightarrow> \<lambda>h. (metaVal m h, TableStatus_value st h)) h))"
    by (intro deep_copier_pair deep_copier_plain assms deep_copier_TableStatus [OF assms(2,3)])
qed (auto simp: Table_DeepCopyInto_def copy_pair_def copy_plain_def Table_foot_def Table_value_def split: prod.split)

lemma deep_copier_list:
  assumes "deep_copier f fe ve" "deep_copier g fl vl" "\<And>xs. atOpen t (atWrap t xs) = Some xs"
  shows "deep_copier (copy_pair g (copy_window t f)) (list_foot t fe fl) (list_value t ve vl)"
  unfolding list_foot_def list_value_def
  by (rule deep_copier_pair [OF assms(2) deep_copier_window [OF assms(1,3)]])

lemma deep_copier_ConnectionList:
  assumes "deep_copier (lcListMeta lib) listFoot listVal"
    "deep_copier (Connection_DeepCopyInto lib) (Connection_foot metaFoot) (Connection_value metaVal)"
  shows "deep_copier (ConnectionList_DeepCopyInto lib) (ConnectionList_foot metaFoot listFoot) (ConnectionList_value metaVal listVal)"
proof (rule deep_copier_as [where parts = "\<lambda>l. (hclType l, hclMeta l, hclItems l)"
      and build = "\<lambda>l x. l\<lparr>hclType := fst x, hclMeta := fst (snd x), hclItems := snd (snd x)\<rparr>"
      and present = "\<lambda>x. x"])
  show "deep_copier (copy_pair copy_plain (copy_pair (lcListMeta lib) (copy_window connection_array (Connection_DeepCopyInto lib))))
    (\<lambda>(x, y) h. {} \<union> list_foot connection_array (Connection_foot metaFoot) listFoot y h)
    (\<lambda>(x, y) h. (x, list_value connection_array (Connection_value metaVal) listVal y h))"
    by (intro deep_copier_pair deep_copier_plain deep_copier_list assms) simp
qed (auto simp: ConnectionList_DeepCopyInto_def copy_pair_def copy_plain_def ConnectionList_foot_def ConnectionList_value_def split: prod.split)

lemma deep_copier_WarehouseList:
  assumes "deep_copier (lcListMeta lib) listFoot listVal"
    "deep_copier (Warehouse_DeepCopyInto lib) (Warehouse_foot metaFoot) (Warehouse_value metaVal)"
  shows "deep_copier (WarehouseList_DeepCopyInto lib) (WarehouseList_foot metaFoot listFoot) (WarehouseList_value metaVal listVal)"
proof (rule deep_copier_as [where parts = "\<lambda>l. (hwlType l, hwlMeta l, hwlItems l)"
      and build = "\<lambda>l x. l\<lparr>hwlType := fst x, hwlMeta := fst (snd x), hwlItems := snd (snd x)\<rparr>"
      and present = "\<lambda>x. x"])
  show "deep_copier (copy_pair copy_plain (copy_pair (lcListMeta lib) (copy_window warehouse_array (Warehouse_DeepCopyInto lib))))
    (\<lambda>(x, y) h. {} \<union> list_foot warehouse_array (Warehouse_foot metaFoot) listFoot y h)
    (\<lambda>(x, y) h. (x, list_value warehouse_array (Warehouse_value metaVal) listVal y h))"
    by (intro deep_copier_pair deep_copier_plain deep_copier_list assms) simp
qed (auto simp: WarehouseList_DeepCopyInto_def copy_pair_def copy_plain_def WarehouseList_foot_def WarehouseList_value_def split: prod.split)

lemma deep_copier_TableList:
  assumes "deep_copier (lcListMeta lib) listFoot listVal"
    "deep_copier (Table_DeepCopyInto lib) (Table_foot metaFoot) (Table_value metaVal)"
  shows "deep_copier (TableList_DeepCopyInto lib) (TableList_foot metaFoot listFoot) (TableList_value metaVal listVal)"
proof (rule deep_copier_as [where parts = "\<lambda>l. (htlType l, htlMeta l, htlItems l)"
      and build = "\<lambda>l x. l\<lparr>htlType := fst x, htlMeta := fst (snd x), htlItems := snd (snd x)\<rparr>"
      and present = "\<lambda>x. x"])
  show "deep_copier (copy_pair copy_plain (copy_pair (lcListMeta lib) (copy_window table_array (Table_DeepCopyInto lib))))
    (\<lambda>(x, y) h. {} \<union> list_foot table_array (Table_foot metaFoot) listFoot y h)
    (\<lambda>(x, y) h. (x, list_value table_array (Table_value metaVal) listVal y h))"
    by (intro deep_copier_pair deep_copier_plain deep_copier_list assms) simp
qed (auto simp: TableList_DeepCopyInto_def copy_pair_def copy_plain_def TableList_foot_def TableList_value_def split: prod.split)

text \<open>The copies of the structs that hold no slices need nothing of the library.\<close>

interpretation column_copy: deep_copier Column_DeepCopy
  "window_foot column_array (\<lambda>_ _. {})" "window_val column_array (\<lambda>x _. x)"
  unfolding Column_DeepCopy_def Column_DeepCopyInto_def by (rule plain_window) simp

interpretation secret_ref_copy: deep_copier LocalSecretReference_DeepCopy
  "window_foot secret_ref_array (\<lambda>_ _. {})" "window_val secret_ref_array (\<lambda>x _. x)"
  unfolding LocalSecretReference_DeepCopy_def LocalSecretReference_DeepCopyInto_def by (rule plain_window) simp

lemma ConnectionSpec_DeepCopyInto_plain: "ConnectionSpec_DeepCopyInto = copy_plain"
  by (intro ext) (simp add: ConnectionSpec_DeepCopyInto_def copy_plain_def)

interpretation connection_spec_copy: deep_copier ConnectionSpec_DeepCopy
  "window_foot connection_spec_array (\<lambda>_ _. {})" "window_val connection_spec_array (\<lambda>x _. x)"
  unfolding ConnectionSpec_DeepCopy_def ConnectionSpec_DeepCopyInto_plain by (rule plain_window) simp

interpretation warehouse_spec_copy: deep_copier WarehouseSpec_DeepCopy
  "window_foot warehouse_spec_array (\<lambda>_ _. {})" "window_val warehouse_spec_array (\<lambda>x _. x)"
  unfolding WarehouseSpec_DeepCopy_def WarehouseSpec_DeepCopyInto_def by (rule plain_window) simp

interpretation table_spec_copy: deep_copier TableSpec_DeepCopy
  "window_foot table_spec_array (\<lambda>_ _. {})" "window_val table_spec_array (\<lambda>x _. x)"
  unfolding TableSpec_DeepCopy_def TableSpec_DeepCopyInto_def by (rule plain_window) simp

subsection \<open>The copies of the resources\<close>

lemma DeepCopyObject_is_DeepCopy:
  "Connection_DeepCopyObject = Connection_DeepCopy" "ConnectionList_DeepCopyObject = ConnectionList_DeepCopy"
  "Warehouse_DeepCopyObject = Warehouse_DeepCopy" "WarehouseList_DeepCopyObject = WarehouseList_DeepCopy"
  "Table_DeepCopyObject = Table_DeepCopy" "TableList_DeepCopyObject = TableList_DeepCopy"
  by (intro ext; simp add: Connection_DeepCopyObject_def ConnectionList_DeepCopyObject_def
      Warehouse_DeepCopyObject_def WarehouseList_DeepCopyObject_def Table_DeepCopyObject_def
      TableList_DeepCopyObject_def split: prod.split option.split)+

lemmas DeepCopyObject_window = DeepCopyObject_is_DeepCopy Connection_DeepCopy_def ConnectionList_DeepCopy_def
  Warehouse_DeepCopy_def WarehouseList_DeepCopy_def Table_DeepCopy_def TableList_DeepCopy_def

lemma deep_copier_objects:
  assumes "library_copies lib metaFoot metaVal listFoot listVal"
  shows "deep_copier (Connection_DeepCopyInto lib) (Connection_foot metaFoot) (Connection_value metaVal)"
    and "deep_copier (Warehouse_DeepCopyInto lib) (Warehouse_foot metaFoot) (Warehouse_value metaVal)"
    and "deep_copier (Table_DeepCopyInto lib) (Table_foot metaFoot) (Table_value metaVal)"
    and "deep_copier (lcListMeta lib) listFoot listVal"
  using assms deep_copier_Connection deep_copier_Warehouse deep_copier_Table unfolding library_copies_def by blast+

lemmas deep_copier_lists = deep_copier_ConnectionList deep_copier_WarehouseList deep_copier_TableList

text \<open>
  C38. \<^verbatim>\<open>DeepCopyObject\<close> of every registered type is a deep copy: for a pointer whose object lies in the store, the
  pointer returned stands for the same object (nil slices included), the store is only extended, and the copy reaches
  new cells only, at every level of the lists.
\<close>

theorem DeepCopyObject_deep:
  assumes "library_copies lib metaFoot metaVal listFoot listVal"
  shows "deep_copier (Connection_DeepCopyObject lib)
      (window_foot connection_array (Connection_foot metaFoot)) (window_val connection_array (Connection_value metaVal)) \<and>
    deep_copier (ConnectionList_DeepCopyObject lib)
      (window_foot connection_list_array (ConnectionList_foot metaFoot listFoot))
      (window_val connection_list_array (ConnectionList_value metaVal listVal)) \<and>
    deep_copier (Warehouse_DeepCopyObject lib)
      (window_foot warehouse_array (Warehouse_foot metaFoot)) (window_val warehouse_array (Warehouse_value metaVal)) \<and>
    deep_copier (WarehouseList_DeepCopyObject lib)
      (window_foot warehouse_list_array (WarehouseList_foot metaFoot listFoot))
      (window_val warehouse_list_array (WarehouseList_value metaVal listVal)) \<and>
    deep_copier (Table_DeepCopyObject lib)
      (window_foot table_array (Table_foot metaFoot)) (window_val table_array (Table_value metaVal)) \<and>
    deep_copier (TableList_DeepCopyObject lib)
      (window_foot table_list_array (TableList_foot metaFoot listFoot))
      (window_val table_list_array (TableList_value metaVal listVal))"
  unfolding DeepCopyObject_window
  by (intro conjI deep_copier_window deep_copier_objects [OF assms] deep_copier_lists; simp)

text \<open>
  C21. The copy of a table list and the original do not share: they stand for the same list, reach disjoint cells, and
  whatever is written later to cells of the one leaves the other as it was when the copy was taken.
\<close>

theorem TableList_DeepCopy_isolated:
  assumes "library_copies lib metaFoot metaVal listFoot listVal" "heap_ok h"
    and "window_foot table_list_array (TableList_foot metaFoot listFoot) p h \<subseteq> cells_of h"
    and "TableList_DeepCopy lib p h = (q, h')"
  shows "window_val table_list_array (TableList_value metaVal listVal) q h' =
      window_val table_list_array (TableList_value metaVal listVal) p h \<and>
    window_foot table_list_array (TableList_foot metaFoot listFoot) p h' \<inter>
      window_foot table_list_array (TableList_foot metaFoot listFoot) q h' = {} \<and>
    (\<forall>h''. agree (- window_foot table_list_array (TableList_foot metaFoot listFoot) q h') h' h'' \<longrightarrow>
      window_val table_list_array (TableList_value metaVal listVal) p h'' =
      window_val table_list_array (TableList_value metaVal listVal) p h) \<and>
    (\<forall>h''. agree (- window_foot table_list_array (TableList_foot metaFoot listFoot) p h') h' h'' \<longrightarrow>
      window_val table_list_array (TableList_value metaVal listVal) q h'' =
      window_val table_list_array (TableList_value metaVal listVal) p h)"
proof -
  have d: "deep_copier (TableList_DeepCopy lib) (window_foot table_list_array (TableList_foot metaFoot listFoot)) (window_val table_list_array (TableList_value metaVal listVal))"
    unfolding TableList_DeepCopy_def
    by (intro deep_copier_window deep_copier_TableList deep_copier_objects [OF assms(1)]) simp
  show ?thesis
    using deep_copier.copies [OF d assms(2-4)] deep_copier.copy_independent [OF d assms(2-4)] by simp
qed

definition plain_lib :: "(ObjectMeta, string, unit) lib_copies" where
  "plain_lib = \<lparr>lcObjectMeta = copy_plain, lcListMeta = copy_plain, lcCondition = copy_plain,
     lcTime = copy_window time_array copy_plain\<rparr>"

lemma plain_library: "library_copies plain_lib (\<lambda>_ _. {}) (\<lambda>x _. x) (\<lambda>_ _. {}) (\<lambda>x _. x)"
  by (simp add: library_copies_def plain_lib_def deep_copier_plain plain_window)

definition sample_table_h :: "ObjectMeta Table_h" where
  "sample_table_h = \<lparr>htType = \<lparr>tmKind = ''Table'', tmAPIVersion = ''v1''\<rparr>,
     htMeta = \<lparr>omName = ''t'', omGeneration = 1, omResourceVersion = 1, omDeleting = False\<rparr>,
     htSpec = \<lparr>tsConnectionRef = ''c'', tsWarehouseRef = ''w'', tsCatalog = ''m'', tsSchema = ''s'', tsTable = ''t''\<rparr>,
     htStatus = \<lparr>htObservedGeneration = 1, htRefreshedAt = Some \<lparr>slArray = 0, slOffset = 0, slLen = 1\<rparr>,
       htColumns = Some \<lparr>slArray = 1, slOffset = 0, slLen = 1\<rparr>, htConditions = None\<rparr>\<rparr>"

definition sample_store :: "(ObjectMeta, string, unit) gostore" where
  "sample_store = \<lparr>stCells = [0 \<mapsto> Times [7], 1 \<mapsto> Columns [\<lparr>colName = ''a'', colType = ''INT'', colNullable = True, colComment = []\<rparr>],
     2 \<mapsto> Tables [sample_table_h],
     3 \<mapsto> TableLists [\<lparr>htlType = \<lparr>tmKind = ''TableList'', tmAPIVersion = ''v1''\<rparr>, htlMeta = ''5'',
       htlItems = Some \<lparr>slArray = 2, slOffset = 0, slLen = 1\<rparr>\<rparr>]], stNext = 4\<rparr>"

abbreviation sample_list :: "slice option" where
  "sample_list \<equiv> Some \<lparr>slArray = 3, slOffset = 0, slLen = 1\<rparr>"

lemmas sample_defs = sample_store_def sample_table_h_def window_foot_def window_val_def elems_def array_at_def array_defs
  TableList_foot_def list_foot_def Table_foot_def TableStatus_foot_def TableList_value_def list_value_def Table_value_def
  TableStatus_value_def pointer_target_def

lemma sample_in_store:
  "heap_ok sample_store"
  "window_foot table_list_array (TableList_foot (\<lambda>_ _. {}) (\<lambda>_ _. {})) sample_list sample_store \<subseteq> cells_of sample_store"
  by (auto simp: heap_ok_def sample_defs)

theorem DeepCopyObject_deep_witness:
  "\<exists>q h'. TableList_DeepCopyObject plain_lib sample_list sample_store = (q, h') \<and> heap_ok h' \<and>
     agree (cells_of sample_store) sample_store h'"
proof -
  obtain q h' where c: "TableList_DeepCopyObject plain_lib sample_list sample_store = (q, h')" by fastforce
  from deep_copier.copies [OF DeepCopyObject_deep [OF plain_library, THEN conjunct2, THEN conjunct2, THEN conjunct2, THEN conjunct2, THEN conjunct2] sample_in_store c] c show ?thesis by blast
qed

lemmas copy_defs = TableList_DeepCopy_def TableList_DeepCopyInto_def Table_DeepCopyInto_def TableStatus_DeepCopyInto_def
  unless_nil_def copy_window_def new_cell_def put_cell_def copy_plain_def plain_lib_def

text \<open>Clearing the columns of the original after the copy: the copy still has them.\<close>

theorem TableList_DeepCopy_isolated_witness:
  "\<exists>q h'. TableList_DeepCopy plain_lib sample_list sample_store = (q, h') \<and>
     window_val table_list_array (TableList_value (\<lambda>x _. x) (\<lambda>x _. x)) q (put_cell 1 (Columns []) h') =
     window_val table_list_array (TableList_value (\<lambda>x _. x) (\<lambda>x _. x)) sample_list sample_store"
proof -
  obtain q h' where c: "TableList_DeepCopy plain_lib sample_list sample_store = (q, h')" by fastforce
  have "1 \<in> window_foot table_list_array (TableList_foot (\<lambda>_ _. {}) (\<lambda>_ _. {})) sample_list h'"
    using c by (auto simp: copy_defs sample_defs)
  then have "agree (- window_foot table_list_array (TableList_foot (\<lambda>_ _. {}) (\<lambda>_ _. {})) sample_list h')
      h' (put_cell 1 (Columns []) h')" by (auto simp: agree_def put_cell_def)
  from TableList_DeepCopy_isolated [OF plain_library sample_in_store c] this c show ?thesis by blast
qed

end
