(* ===== verification/Watches.thy ===== *)
theory Watches
  imports Lifecycle Tenant_Action
begin

text \<open>
  How the controllers are wired to the API: the scheme that knows the resource kinds
  (\<^verbatim>\<open>apis/databricks/v1alpha1/groupversion_info.go\<close>, \<^verbatim>\<open>scheme/scheme.go\<close>) and the watches that bring a changed
  object, or the dependents of a changed object, back into a controller's queue (\<^verbatim>\<open>SetupWithManager\<close> of the
  three controllers). The schemes and the controller builder are library code and arguments.
\<close>

subsection \<open>The scheme\<close>

record GroupVersion =
  gvGroup :: string
  gvVersion :: string

record GroupResource =
  grGroup :: string
  grResource :: string

definition SchemeGroupVersion :: GroupVersion where
  "SchemeGroupVersion = \<lparr>gvGroup = GroupName, gvVersion = Version\<rparr>"

definition Resource :: "string \<Rightarrow> GroupResource" where
  "Resource resource = \<lparr>grGroup = gvGroup SchemeGroupVersion, grResource = resource\<rparr>"

text \<open>
  \<open>'sc\<close> is \<^verbatim>\<open>runtime.Scheme\<close>; the \<^verbatim>\<open>AddToScheme\<close> functions of client-go and of the kcp API packages are in the order of
  the calls.
\<close>

record 'sc scheme_lib =
  slNew :: 'sc
  slAddKnownTypes :: "GroupVersion \<Rightarrow> string list \<Rightarrow> 'sc \<Rightarrow> 'sc"
  slAddToGroupVersion :: "GroupVersion \<Rightarrow> 'sc \<Rightarrow> 'sc"
  slClientGo :: "'sc \<Rightarrow> unit go_result \<times> 'sc"
  slCore :: "'sc \<Rightarrow> unit go_result \<times> 'sc"
  slApisV1alpha1 :: "'sc \<Rightarrow> unit go_result \<times> 'sc"
  slApisV1alpha2 :: "'sc \<Rightarrow> unit go_result \<times> 'sc"
  slRecognizes :: "'sc \<Rightarrow> GroupVersion \<Rightarrow> string \<Rightarrow> bool"

definition addKnownTypes :: "'sc scheme_lib \<Rightarrow> 'sc \<Rightarrow> unit go_result \<times> 'sc" where
  "addKnownTypes lib s =
     (let s = slAddKnownTypes lib SchemeGroupVersion
                [''Connection'', ''ConnectionList'', ''Warehouse'', ''WarehouseList'', ''Table'', ''TableList''] s;
          s = slAddToGroupVersion lib SchemeGroupVersion s
      in (Inr (), s))"

text \<open>\<^verbatim>\<open>utilruntime.Must\<close> panics on an error; a panic is \<open>None\<close>.\<close>

fun must_all :: "('sc \<Rightarrow> unit go_result \<times> 'sc) list \<Rightarrow> 'sc \<Rightarrow> 'sc option" where
  "must_all [] s = Some s"
| "must_all (f # fs) s = (case f s of (Inr _, s) \<Rightarrow> must_all fs s | (Inl _, _) \<Rightarrow> None)"

definition NewScheme :: "'sc scheme_lib \<Rightarrow> 'sc option" where
  "NewScheme lib =
     must_all [slClientGo lib, slCore lib, slApisV1alpha1 lib, slApisV1alpha2 lib, addKnownTypes lib] (slNew lib)"

subsection \<open>Watches\<close>

datatype kube_kind = ConnectionKind | WarehouseKind | TableKind

datatype kube_object =
    ConnectionObject Connection
  | WarehouseObject Warehouse
  | TableObject Table

fun kind_of :: "kube_object \<Rightarrow> kube_kind" where
  "kind_of (ConnectionObject _) = ConnectionKind"
| "kind_of (WarehouseObject _) = WarehouseKind"
| "kind_of (TableObject _) = TableKind"

fun meta_of :: "kube_object \<Rightarrow> ObjectMeta" where
  "meta_of (ConnectionObject c) = cnMeta c"
| "meta_of (WarehouseObject w) = whMeta w"
| "meta_of (TableObject t) = tbMeta t"

definition GetName :: "kube_object \<Rightarrow> string" where
  "GetName obj = omName (meta_of obj)"

datatype watch_event =
    Created kube_object
  | Updated kube_object kube_object
  | Deleted kube_object

fun event_objects :: "watch_event \<Rightarrow> kube_object list" where
  "event_objects (Created obj) = [obj]"
| "event_objects (Updated old new) = [new, old]"
| "event_objects (Deleted obj) = [obj]"

definition event_object :: "watch_event \<Rightarrow> kube_object" where
  "event_object ev = hd (event_objects ev)"

text \<open>
  A mapping sees the cluster of the context, if it has one, and the \<^verbatim>\<open>kcp.io/cluster\<close> annotation of the object.
\<close>

record map_env =
  meCluster :: "string option"
  meAnnotation :: "kube_object \<Rightarrow> string"

type_synonym 'k mapper = "map_env \<Rightarrow> kube_object \<Rightarrow> 'k \<Rightarrow> string list"

record 'k controller_setup =
  suName :: string
  suFor :: kube_kind
  suPredicate :: "watch_event \<Rightarrow> bool"
  suWatches :: "(kube_kind \<times> 'k mapper) list"

text \<open>
  controller-runtime: \<open>rtGenerationChanged\<close> is its predicate, \<open>rtComplete\<close> builds and registers a controller, \<open>rtRequests\<close>
  are the names it then queues for an event.
\<close>

record 'k watch_runtime =
  rtGenerationChanged :: "watch_event \<Rightarrow> bool"
  rtComplete :: "'k controller_setup \<Rightarrow> unit go_result"
  rtRequests :: "'k controller_setup \<Rightarrow> map_env \<Rightarrow> watch_event \<Rightarrow> 'k \<Rightarrow> string list"

type_synonym 'k cluster_manager = "string \<Rightarrow> 'k kube_client go_result"

definition connection_setup :: "'k watch_runtime \<Rightarrow> 'k controller_setup" where
  "connection_setup rt =
     \<lparr>suName = ''databricks-connection'', suFor = ConnectionKind, suPredicate = rtGenerationChanged rt, suWatches = []\<rparr>"

definition warehouse_setup :: "'k watch_runtime \<Rightarrow> 'k cluster_manager option \<Rightarrow> 'k controller_setup" where
  "warehouse_setup rt manager =
     \<lparr>suName = ''databricks-warehouse'', suFor = WarehouseKind, suPredicate = rtGenerationChanged rt,
      suWatches = [(ConnectionKind, \<lambda>me obj. mapConnectionToWarehouses manager (meCluster me) (meAnnotation me obj) (GetName obj))]\<rparr>"

definition table_setup :: "'k watch_runtime \<Rightarrow> 'k cluster_manager option \<Rightarrow> 'k controller_setup" where
  "table_setup rt manager =
     \<lparr>suName = ''databricks-table'', suFor = TableKind, suPredicate = rtGenerationChanged rt,
      suWatches =
        [(ConnectionKind, \<lambda>me obj. mapConnectionToTables manager (meCluster me) (meAnnotation me obj) (GetName obj)),
         (WarehouseKind, \<lambda>me obj. mapWarehouseToTables manager (meCluster me) (meAnnotation me obj) (GetName obj))]\<rparr>"

text \<open>\<^verbatim>\<open>SetupWithManager\<close> stores the manager in the reconciler and registers the controller.\<close>

definition SetupWithManager_connection ::
  "'k watch_runtime \<Rightarrow> 'k cluster_manager \<Rightarrow> 'k cluster_manager option \<times> unit go_result" where
  "SetupWithManager_connection rt mgr = (Some mgr, rtComplete rt (connection_setup rt))"

definition SetupWithManager_warehouse ::
  "'k watch_runtime \<Rightarrow> 'k cluster_manager \<Rightarrow> 'k cluster_manager option \<times> unit go_result" where
  "SetupWithManager_warehouse rt mgr = (let manager = Some mgr in (manager, rtComplete rt (warehouse_setup rt manager)))"

definition SetupWithManager_table ::
  "'k watch_runtime \<Rightarrow> 'k cluster_manager \<Rightarrow> 'k cluster_manager option \<times> unit go_result" where
  "SetupWithManager_table rt mgr = (let manager = Some mgr in (manager, rtComplete rt (table_setup rt manager)))"

subsection \<open>What is relied on\<close>

text \<open>
  Registering kinds makes them known and forgets none; the library's own registrations succeed.
\<close>

definition scheme_ok :: "'sc scheme_lib \<Rightarrow> bool" where
  "scheme_ok lib \<longleftrightarrow>
     (\<forall>gv kinds s k. slRecognizes lib (slAddKnownTypes lib gv kinds s) gv k \<longleftrightarrow> k \<in> set kinds \<or> slRecognizes lib s gv k) \<and>
     (\<forall>gv gv' s k. slRecognizes lib s gv' k \<longrightarrow> slRecognizes lib (slAddToGroupVersion lib gv s) gv' k) \<and>
     (\<forall>f \<in> {slClientGo lib, slCore lib, slApisV1alpha1 lib, slApisV1alpha2 lib}. \<forall>s. fst (f s) = Inr ())"

text \<open>
  The documented behaviour of controller-runtime: the generation predicate drops updates that keep the
  generation; an event of the kind of \<^verbatim>\<open>For\<close> that passes the predicate queues the object; an event of a watched
  kind queues what the mapping returns for the objects of the event; nothing else is queued.
\<close>

fun generation_changed :: "watch_event \<Rightarrow> bool" where
  "generation_changed (Updated old new) = (omGeneration (meta_of old) \<noteq> omGeneration (meta_of new))"
| "generation_changed _ = True"

definition for_names :: "'k controller_setup \<Rightarrow> watch_event \<Rightarrow> string set" where
  "for_names su ev = {n. kind_of (event_object ev) = suFor su \<and> suPredicate su ev \<and> n = GetName (event_object ev)}"

definition watched_names :: "'k controller_setup \<Rightarrow> map_env \<Rightarrow> watch_event \<Rightarrow> 'k \<Rightarrow> string set" where
  "watched_names su me ev k =
     {n. \<exists>(kd, f) \<in> set (suWatches su). \<exists>obj \<in> set (event_objects ev). kind_of obj = kd \<and> n \<in> set (f me obj k)}"

definition runtime_ok :: "'k watch_runtime \<Rightarrow> bool" where
  "runtime_ok rt \<longleftrightarrow>
     rtGenerationChanged rt = generation_changed \<and>
     (\<forall>su me ev k. set (rtRequests rt su me ev k) = for_names su ev \<union> watched_names su me ev k)"

subsection \<open>Properties\<close>

lemma must_all_total:
  "\<forall>f \<in> set fs. \<forall>s. fst (f s) = Inr () \<Longrightarrow> must_all fs s = Some (fold (\<lambda>f s. snd (f s)) fs s)"
proof (induction fs arbitrary: s)
  case (Cons f fs)
  then obtain s' where "f s = (Inr (), s')" by (metis list.set_intros(1) prod.collapse)
  with Cons show ?case by simp
qed simp

text \<open>C911. The scheme of the controllers can always be built and knows all six kinds of the group.\<close>

theorem NewScheme_recognizes:
  assumes "scheme_ok lib"
  shows "\<exists>s. NewScheme lib = Some s \<and>
    list_all (slRecognizes lib s SchemeGroupVersion)
      [''Connection'', ''ConnectionList'', ''Warehouse'', ''WarehouseList'', ''Table'', ''TableList'']"
proof -
  have known: "fst (addKnownTypes lib s) = Inr ()" for s by (simp add: addKnownTypes_def Let_def)
  have "NewScheme lib = Some (snd (addKnownTypes lib (fold (\<lambda>f s. snd (f s))
      [slClientGo lib, slCore lib, slApisV1alpha1 lib, slApisV1alpha2 lib] (slNew lib))))"
    unfolding NewScheme_def using assms known by (subst must_all_total) (simp_all add: scheme_ok_def)
  moreover have "list_all (slRecognizes lib (snd (addKnownTypes lib s)) SchemeGroupVersion)
      [''Connection'', ''ConnectionList'', ''Warehouse'', ''WarehouseList'', ''Table'', ''TableList'']" for s
    using assms by (simp add: scheme_ok_def addKnownTypes_def Let_def)
  ultimately show ?thesis by blast
qed

lemma map_listed:
  assumes "mgr (case ctx of Some n \<Rightarrow> n | None \<Rightarrow> a) = Inr c"
  shows "kListWarehouses c k = Inr whs \<Longrightarrow>
      mapConnectionToWarehouses (Some mgr) ctx a name k = warehouseRequestsForConnection whs name"
    and "kListTables c k = Inr tbls \<Longrightarrow>
      mapConnectionToTables (Some mgr) ctx a name k = tableRequestsForConnection tbls name"
    and "kListTables c k = Inr tbls \<Longrightarrow>
      mapWarehouseToTables (Some mgr) ctx a name k = tableRequestsForWarehouse tbls name"
  using assms by (simp_all add: mapped_requests_def mapConnectionToWarehouses_def mapConnectionToTables_def
      mapWarehouseToTables_def)

abbreviation cluster_of :: "map_env \<Rightarrow> kube_object \<Rightarrow> string" where
  "cluster_of me obj \<equiv> (case meCluster me of Some n \<Rightarrow> n | None \<Rightarrow> meAnnotation me obj)"

lemma event_object_in [simp]: "event_object ev \<in> set (event_objects ev)"
  by (cases ev) (simp_all add: event_object_def)

lemma requests_watch:
  assumes "runtime_ok rt" "(kind_of (event_object ev), f) \<in> set (suWatches su)" "n \<in> set (f me (event_object ev) k)"
  shows "n \<in> set (rtRequests rt su me ev k)"
  using assms event_object_in [of ev] unfolding runtime_ok_def watched_names_def by blast

lemma dependent_queued:
  assumes "runtime_ok rt" "event_object ev = obj" "mgr (cluster_of me obj) = Inr c"
  shows "obj = ConnectionObject conn \<Longrightarrow> kListWarehouses c k = Inr whs \<Longrightarrow> wh \<in> set whs \<Longrightarrow>
      wsConnectionRef (whSpec wh) = omName (cnMeta conn) \<Longrightarrow>
      omName (whMeta wh) \<in> set (rtRequests rt (warehouse_setup rt (Some mgr)) me ev k)"
    and "obj = ConnectionObject conn \<Longrightarrow> kListTables c k = Inr tbls \<Longrightarrow> t \<in> set tbls \<Longrightarrow>
      tsConnectionRef (tbSpec t) = omName (cnMeta conn) \<Longrightarrow>
      omName (tbMeta t) \<in> set (rtRequests rt (table_setup rt (Some mgr)) me ev k)"
    and "obj = WarehouseObject w \<Longrightarrow> kListTables c k = Inr tbls \<Longrightarrow> t \<in> set tbls \<Longrightarrow>
      tsWarehouseRef (tbSpec t) = omName (whMeta w) \<Longrightarrow>
      omName (tbMeta t) \<in> set (rtRequests rt (table_setup rt (Some mgr)) me ev k)"
proof -
  note m = map_listed [where mgr = mgr and ctx = "meCluster me" and a = "meAnnotation me obj", OF assms(3)]
  show "omName (whMeta wh) \<in> set (rtRequests rt (warehouse_setup rt (Some mgr)) me ev k)"
    if "obj = ConnectionObject conn" "kListWarehouses c k = Inr whs" "wh \<in> set whs"
      "wsConnectionRef (whSpec wh) = omName (cnMeta conn)"
    by (rule requests_watch [OF assms(1), where f = "\<lambda>me obj. mapConnectionToWarehouses (Some mgr) (meCluster me) (meAnnotation me obj) (GetName obj)"])
      (use that assms(2) m [of k] in \<open>auto simp: warehouse_setup_def warehouseRequestsForConnection_def GetName_def\<close>)
  show "omName (tbMeta t) \<in> set (rtRequests rt (table_setup rt (Some mgr)) me ev k)"
    if "obj = ConnectionObject conn" "kListTables c k = Inr tbls" "t \<in> set tbls"
      "tsConnectionRef (tbSpec t) = omName (cnMeta conn)"
    by (rule requests_watch [OF assms(1), where f = "\<lambda>me obj. mapConnectionToTables (Some mgr) (meCluster me) (meAnnotation me obj) (GetName obj)"])
      (use that assms(2) m [of k] in \<open>auto simp: table_setup_def tableRequestsForConnection_def GetName_def\<close>)
  show "omName (tbMeta t) \<in> set (rtRequests rt (table_setup rt (Some mgr)) me ev k)"
    if "obj = WarehouseObject w" "kListTables c k = Inr tbls" "t \<in> set tbls"
      "tsWarehouseRef (tbSpec t) = omName (whMeta w)"
    by (rule requests_watch [OF assms(1), where f = "\<lambda>me obj. mapWarehouseToTables (Some mgr) (meCluster me) (meAnnotation me obj) (GetName obj)"])
      (use that assms(2) m [of k] in \<open>auto simp: table_setup_def tableRequestsForWarehouse_def GetName_def\<close>)
qed

text \<open>
  C20. Every change of a connection, a status write included, queues every listed warehouse and table that names it,
  and every change of a warehouse every listed table that names it, in the controller of that kind.
\<close>

theorem dependents_enqueued:
  assumes "runtime_ok rt" "event_object ev = obj" "mgr (cluster_of me obj) = Inr c"
  shows "(\<forall>conn whs wh. obj = ConnectionObject conn \<and> kListWarehouses c k = Inr whs \<and> wh \<in> set whs \<and>
        wsConnectionRef (whSpec wh) = omName (cnMeta conn) \<longrightarrow>
        omName (whMeta wh) \<in> set (rtRequests rt (warehouse_setup rt (Some mgr)) me ev k)) \<and>
    (\<forall>conn tbls t. obj = ConnectionObject conn \<and> kListTables c k = Inr tbls \<and> t \<in> set tbls \<and>
        tsConnectionRef (tbSpec t) = omName (cnMeta conn) \<longrightarrow>
        omName (tbMeta t) \<in> set (rtRequests rt (table_setup rt (Some mgr)) me ev k)) \<and>
    (\<forall>w tbls t. obj = WarehouseObject w \<and> kListTables c k = Inr tbls \<and> t \<in> set tbls \<and>
        tsWarehouseRef (tbSpec t) = omName (whMeta w) \<longrightarrow>
        omName (tbMeta t) \<in> set (rtRequests rt (table_setup rt (Some mgr)) me ev k))"
  using dependent_queued [where mgr = mgr and me = me, OF assms] by blast

lemma requests_exact:
  assumes "runtime_ok rt"
  shows "set (rtRequests rt su me ev k) = for_names su ev \<union> watched_names su me ev k"
  using assms by (simp add: runtime_ok_def)

lemma same_generation_for:
  assumes "runtime_ok rt" "suPredicate su = rtGenerationChanged rt"
    and "omGeneration (meta_of old) = omGeneration (meta_of new)"
  shows "for_names su (Updated old new) = {}"
  using assms by (simp add: for_names_def runtime_ok_def)

lemma unwatched_kind:
  assumes "kind_of old \<notin> fst ` set (suWatches su)" "kind_of new \<notin> fst ` set (suWatches su)"
  shows "watched_names su me (Updated old new) k = {}"
  using assms by (force simp: watched_names_def)

lemma own_update_dropped:
  assumes "runtime_ok rt" "suPredicate su = rtGenerationChanged rt"
    and "omGeneration (meta_of old) = omGeneration (meta_of new)"
    and "kind_of old \<notin> fst ` set (suWatches su)" "kind_of new \<notin> fst ` set (suWatches su)"
  shows "rtRequests rt su me (Updated old new) k = []"
  using requests_exact [OF assms(1), of su me "Updated old new" k] same_generation_for [OF assms(1-3)]
    unwatched_kind [OF assms(4,5)] by simp

lemmas setup_defs = connection_setup_def warehouse_setup_def table_setup_def

text \<open>
  C39. No controller wakes itself: the event of the status a reconcile writes, a success or a failure, queues nothing in
  the controller that wrote it. The next reconcile comes from an edit, a dependency or the requeue interval.
\<close>

theorem status_write_not_requeued:
  assumes "runtime_ok rt"
  shows "rtRequests rt (connection_setup rt) me
      (Updated (ConnectionObject conn) (ConnectionObject (connection_validated c conn cres))) k = [] \<and>
    rtRequests rt (connection_setup rt) me
      (Updated (ConnectionObject conn) (ConnectionObject (connection_failed c conn reason msg))) k = [] \<and>
    rtRequests rt (warehouse_setup rt manager) me
      (Updated (WarehouseObject wh) (WarehouseObject (warehouse_validated c wh wres))) k = [] \<and>
    rtRequests rt (warehouse_setup rt manager) me
      (Updated (WarehouseObject wh) (WarehouseObject (warehouse_failed c wh reason msg))) k = [] \<and>
    rtRequests rt (table_setup rt manager) me
      (Updated (TableObject t) (TableObject (table_validated c now t columns))) k = [] \<and>
    rtRequests rt (table_setup rt manager) me
      (Updated (TableObject t) (TableObject (table_failed c t reason msg))) k = []"
  by (intro conjI; rule own_update_dropped [OF assms]; simp add: setup_defs connection_validated_def connection_failed_def
      warehouse_validated_def warehouse_failed_def table_validated_def table_failed_def Let_def split: prod.split)

text \<open>
  C40. A table whose connection reference has surrounding space is resolved like the trimmed reference, and so may become
  ready, but no event of that connection ever queues it: the reconcilers trim the reference and the watches do not.
\<close>

theorem padded_reference_unwatched:
  assumes "runtime_ok rt" "TrimSpace (tsConnectionRef (tbSpec t)) \<noteq> tsConnectionRef (tbSpec t)"
    and "\<And>obj. mgr (cluster_of me obj) = Inr c" "kListTables c k = Inr tbls"
    and "\<And>u. u \<in> set tbls \<Longrightarrow> omName (tbMeta u) = omName (tbMeta t) \<Longrightarrow> u = t"
    and "\<And>obj. obj \<in> set (event_objects ev) \<Longrightarrow>
      kind_of obj = ConnectionKind \<and> GetName obj = TrimSpace (tsConnectionRef (tbSpec t))"
  shows "ResolveConnection c k (tsConnectionRef (tbSpec t)) = ResolveConnection c k (TrimSpace (tsConnectionRef (tbSpec t))) \<and>
    omName (tbMeta t) \<notin> set (rtRequests rt (table_setup rt (Some mgr)) me ev k)"
proof
  show "ResolveConnection c k (tsConnectionRef (tbSpec t)) = ResolveConnection c k (TrimSpace (tsConnectionRef (tbSpec t)))"
    by (simp add: ResolveConnection_def resolve_named_def)
  have "for_names (table_setup rt (Some mgr)) ev = {}"
    using assms(6) [OF event_object_in] by (simp add: for_names_def table_setup_def)
  moreover have "omName (tbMeta t) \<notin> watched_names (table_setup rt (Some mgr)) me ev k"
  proof
    assume "omName (tbMeta t) \<in> watched_names (table_setup rt (Some mgr)) me ev k"
    then obtain obj where o: "obj \<in> set (event_objects ev)"
      "omName (tbMeta t) \<in> set (mapConnectionToTables (Some mgr) (meCluster me) (meAnnotation me obj) (GetName obj) k)"
      using assms(6) by (fastforce simp: watched_names_def table_setup_def)
    then have "omName (tbMeta t) \<in> set (tableRequestsForConnection tbls (TrimSpace (tsConnectionRef (tbSpec t))))"
      using map_listed(2) [where mgr = mgr, OF assms(3,4)] assms(6) by simp
    then show False using assms(2,5) by (auto simp: tableRequestsForConnection_def)
  qed
  ultimately show "omName (tbMeta t) \<notin> set (rtRequests rt (table_setup rt (Some mgr)) me ev k)"
    by (simp add: requests_exact [OF assms(1)])
qed

subsection \<open>Concrete runtimes\<close>

definition demo_watch_runtime :: "unit watch_runtime" where
  "demo_watch_runtime =
     \<lparr>rtGenerationChanged = generation_changed, rtComplete = (\<lambda>_. Inr ()),
      rtRequests = (\<lambda>su me ev k.
        (if kind_of (event_object ev) = suFor su \<and> suPredicate su ev then [GetName (event_object ev)] else []) @
        concat (map (\<lambda>(kd, f). concat (map (\<lambda>obj. if kind_of obj = kd then f me obj k else []) (event_objects ev)))
          (suWatches su)))\<rparr>"

lemma demo_watch_runtime_ok: "runtime_ok demo_watch_runtime"
  by (fastforce simp: runtime_ok_def demo_watch_runtime_def for_names_def watched_names_def split: if_splits)

definition demo_map_env :: map_env where
  "demo_map_env = \<lparr>meCluster = Some ''ws'', meAnnotation = (\<lambda>_. [])\<rparr>"

definition padded_table :: Table where
  "padded_table = demo_table\<lparr>tbSpec := (tbSpec demo_table)\<lparr>tsConnectionRef := '' main''\<rparr>\<rparr>"

definition demo_scheme_lib :: "(string \<times> string) list scheme_lib" where
  "demo_scheme_lib =
     \<lparr>slNew = [], slAddKnownTypes = (\<lambda>gv kinds s. map (Pair (gvGroup gv @ ''/'' @ gvVersion gv)) kinds @ s),
      slAddToGroupVersion = (\<lambda>gv s. s), slClientGo = (\<lambda>s. (Inr (), s)), slCore = (\<lambda>s. (Inr (), s)),
      slApisV1alpha1 = (\<lambda>s. (Inr (), s)), slApisV1alpha2 = (\<lambda>s. (Inr (), s)),
      slRecognizes = (\<lambda>s gv k. (gvGroup gv @ ''/'' @ gvVersion gv, k) \<in> set s)\<rparr>"

theorem NewScheme_recognizes_witness:
  "\<exists>s. NewScheme demo_scheme_lib = Some s \<and> slRecognizes demo_scheme_lib s SchemeGroupVersion ''Table''"
proof -
  have "scheme_ok demo_scheme_lib" by (auto simp: scheme_ok_def demo_scheme_lib_def)
  from NewScheme_recognizes [OF this] show ?thesis by auto
qed

theorem dependents_enqueued_witness:
  "''orders'' \<in> set (rtRequests demo_watch_runtime
     (table_setup demo_watch_runtime (Some (\<lambda>_. Inr (demo_client demo_connection demo_warehouse)))) demo_map_env
     (Updated (ConnectionObject demo_connection) (ConnectionObject demo_ready_connection)) ())"
  using dependents_enqueued [OF demo_watch_runtime_ok, where ev = "Updated (ConnectionObject demo_connection) (ConnectionObject demo_ready_connection)"
      and obj = "ConnectionObject demo_ready_connection" and c = "demo_client demo_connection demo_warehouse"
      and mgr = "\<lambda>_. Inr (demo_client demo_connection demo_warehouse)" and k = "()" and me = demo_map_env]
  by (simp add: event_object_def demo_client_def demo_table_def demo_meta_def demo_ready_connection_def demo_connection_def
      connection_validated_def Let_def)

theorem status_write_not_requeued_witness:
  "rtRequests demo_watch_runtime (table_setup demo_watch_runtime None) demo_map_env
     (Updated (TableObject demo_table) (TableObject demo_ready_table)) () = []"
  unfolding demo_ready_table_def using status_write_not_requeued [OF demo_watch_runtime_ok] by blast

theorem padded_reference_unwatched_witness:
  "TrimSpace '' main'' = ''main'' \<and>
   ''orders'' \<notin> set (rtRequests demo_watch_runtime
     (table_setup demo_watch_runtime
       (Some (\<lambda>_. Inr ((demo_client demo_connection demo_warehouse)\<lparr>kListTables := \<lambda>_. Inr [padded_table]\<rparr>)))) demo_map_env
     (Created (ConnectionObject demo_connection)) ())"
proof -
  have t: "TrimSpace '' main'' = ''main''" by code_simp
  have "omName (tbMeta padded_table) \<notin> set (rtRequests demo_watch_runtime
     (table_setup demo_watch_runtime
       (Some (\<lambda>_. Inr ((demo_client demo_connection demo_warehouse)\<lparr>kListTables := \<lambda>_. Inr [padded_table]\<rparr>)))) demo_map_env
     (Created (ConnectionObject demo_connection)) ())"
    by (rule padded_reference_unwatched [OF demo_watch_runtime_ok, THEN conjunct2])
      (auto simp: padded_table_def GetName_def demo_connection_def demo_meta_def t)
  with t show ?thesis by (simp add: padded_table_def demo_table_def demo_meta_def)
qed

end
