(* ===== verification/Spec2Isabelle.thy ===== *)
theory Spec2Isabelle
  imports Serving Deep_Copy Watches
begin

text \<open>
  Verification of the Databricks provider of faros (\<^verbatim>\<open>github.com/faroshq/provider-databricks\<close>), a Go
  service that lets tenants of a kcp platform register Databricks workspaces and query single
  tables through a bounded, versioned action.

  \<^bold>\<open>The program.\<close> A tenant writes three kinds of resources: a Connection (workspace host and credential
  Secret), a Warehouse and a Table. Leader-elected controllers validate them against Databricks and
  record the outcome, with the columns of a table, in their status. Every replica serves HTTP: an
  action endpoint for table queries, MCP tools over the same executor, discovery and registration of
  warehouses and tables, probes and a portal. A request acts with two identities: with the caller's
  token for reviews and for reading and writing tenant resources, and, once the reviews are granted,
  with the provider's own authority for the dependency chain and the credential.

  \<^bold>\<open>Conventions.\<close> A Go string is its list of bytes; \<^verbatim>\<open>(T, error)\<close> is the sum \<open>go_result\<close>; a struct is a
  record; a nil pointer is \<open>None\<close>; an effect is a state that is passed on, requests sent are a log
  in it. Durations and times are nanoseconds; the 64-bit counters that may wrap are words. Code that
  is not part of the repository - client-go, apimachinery, controller-runtime, the provider SDK, the
  MCP library, the HTTP transport, \<^verbatim>\<open>url.Parse\<close>, JSON decoding, \<^verbatim>\<open>os.Getenv\<close> and the clock - is an argument of
  the definitions that use it; what is assumed of it stands in the hypotheses of the theorems. Log
  output is left out.

  \<^bold>\<open>The theories and the code they model.\<close>
  \<^item> \<^verbatim>\<open>Unicode_Tables\<close>, \<^verbatim>\<open>Go_Prelude\<close>, \<^verbatim>\<open>Go_Strings\<close>, \<^verbatim>\<open>Go_Json\<close>, \<^verbatim>\<open>Go_Net\<close>, \<^verbatim>\<open>Go_Sha256\<close>, \<^verbatim>\<open>Go_Time\<close>: the parts of the Go library
    that the code uses - UTF-8, trimming, case mapping, quoting, JSON encoding, URL escaping and
    printing, IP addresses, SHA-256, durations - with the lemmas that the components share.
  \<^item> \<^verbatim>\<open>Errors\<close>: the error values of all packages, their texts and the walk along the wrapped chain.
  \<^item> \<^verbatim>\<open>Queryapi\<close>: \<^verbatim>\<open>queryapi/query.go\<close>, the request and result contract and the SQL builder. A bounded result
    obeys every limit, keeps a prefix of the data and flags what is missing; a built statement reads
    back as the one SELECT that was asked for.
  \<^item> \<^verbatim>\<open>Hostpolicy\<close>, \<^verbatim>\<open>Workspace_URL\<close>, \<^verbatim>\<open>Statements\<close>, \<^verbatim>\<open>Validation\<close>: \<^verbatim>\<open>hostpolicy\<close> and \<^verbatim>\<open>backend\<close>. Credentials go only to
    permitted workspaces, over any sequence of calls; a table is accepted only on the strength of the
    two answers it needs, and what a validation publishes does not depend on the wording of a refusal.
  \<^item> \<^verbatim>\<open>Actions\<close>: \<^verbatim>\<open>actions/actions.go\<close>, path grammar, request checks, sanitised errors and the bounded reply.
  \<^item> \<^verbatim>\<open>Api_Types\<close>, \<^verbatim>\<open>Shared\<close>, \<^verbatim>\<open>Controllers\<close>, \<^verbatim>\<open>Lifecycle\<close>: \<^verbatim>\<open>apis/databricks/v1alpha1\<close> and \<^verbatim>\<open>controller\<close>. Over every history of
    edits and reconciles, as a step relation, a Ready resource was validated as it is now, over the
    dependencies and with the token its references led to at one state of the API.
  \<^item> \<^verbatim>\<open>Watches\<close>: \<^verbatim>\<open>SetupWithManager\<close> of the three controllers, \<^verbatim>\<open>scheme/scheme.go\<close> and \<^verbatim>\<open>groupversion_info.go\<close>. Every change of
    a dependency queues the objects that name it, no controller wakes itself by its status write,
    and the scheme knows every kind.
  \<^item> \<^verbatim>\<open>Deep_Copy\<close>: \<^verbatim>\<open>zz_generated.deepcopy.go\<close> over an explicit store of arrays and pointer targets. A copy stands
    for the same resource and shares no cell with the original, down to the items of a list.
  \<^item> \<^verbatim>\<open>Tenant_Client\<close>, \<^verbatim>\<open>Tenant_Action\<close>, \<^verbatim>\<open>Tenant_Authority\<close>, \<^verbatim>\<open>Tenant_Import\<close>, \<^verbatim>\<open>Importapi\<close>, \<^verbatim>\<open>Registration\<close>, \<^verbatim>\<open>Table_Resolver\<close>: \<^verbatim>\<open>tenant\<close>,
    \<^verbatim>\<open>importapi\<close> and \<^verbatim>\<open>queryapi/resolver.go\<close>. Clients are scoped to cluster, host and token and their caches bounded;
    reviews come before every use of the provider; a query is sent on what the authority's own client
    read; that client is built under a URL the endpoint slice listed; registration refines an abstract store.
  \<^item> \<^verbatim>\<open>Mcpserver\<close>: \<^verbatim>\<open>mcpserver\<close>. The tools return, within 64 KiB, and say when they leave something out.
  \<^item> \<^verbatim>\<open>Controller_Manager\<close>: \<^verbatim>\<open>controller_manager.go\<close>. The wait for endpoints, the watchdog, a term of leadership
    and the loop around it.
  \<^item> \<^verbatim>\<open>Main_Server\<close>: \<^verbatim>\<open>main.go\<close>, \<^verbatim>\<open>init_cmd.go\<close>, \<^verbatim>\<open>assets.go\<close>. Startup, readiness, routes and the wiring of a request.
    Readiness is that of the serving path alone; the README describes it otherwise.
  \<^item> \<^verbatim>\<open>Serving\<close>: \<^verbatim>\<open>newServeMuxWithHealth\<close> of \<^verbatim>\<open>main.go\<close>, all handlers behind one route table over one state, and
    runs of the server. At any moment of any run only a request whose token was granted the reviews makes the
    server use the provider or change the tenant's resources.
  \<^item> This theory: the end-to-end guards of the action endpoint and of the query tool as the server
    wires them, for the named table.

  \<^bold>\<open>Interfaces.\<close> Where a component relies on another it does so through a locale whose laws are
  discharged for the model: among them the bounding loops of results, the reviews of a caller
  (\<open>table_authorizer\<close>), the provider authority, the import factory and the table resolvers
  (\<open>table_resolver\<close>, interpreted for the tenant resolver and the seeded development tables, and as a
  sublocale a source of pages, which is all the list tool relies on). \<open>deep_copier\<close> is the contract of
  a copy; it is closed under pairs, structs and slices, which gives it for every generated function.

  \<^bold>\<open>Loops, bounds and fuel.\<close> Loops over data are recursive functions with termination proofs. The
  shrinking loop of the query tool and the waits of the controllers have no bound in the code and
  are partial functions whose return is proved: the first ends because every round removes a row or
  a column, the wait after at most 61 reads because a timeout is at most five minutes and polls are
  five seconds apart. The shrinking loop of the list tool gets one unit of fuel per table and one
  more, which is proved enough. The wait of the leader loop for a kubeconfig may never end; its
  theorem says what happens once one can be loaded.

  \<^bold>\<open>Concurrency.\<close> A call of the client caches or of the authority runs as one step, as its lock makes
  it; where the code releases a lock in between (building a client while the base configuration
  changes, registering objects beside other writers, the reads of a query) the interleavings are explicit.
  One reconcile reads from one state of the API, and another one from any other. The runs of the whole
  server take one request after the other. The time of a tie between two timers is left open.

  \<^bold>\<open>Not modelled.\<close> The queues and workers of controller-runtime (only what an event queues), the HTTP
  server, signal handling and the heartbeat loop, the MCP protocol, CONNECT requests and escaped
  paths in the route table, the portal front end, manifests and charts.
\<close>

subsection \<open>Queries reach the provider only for callers who were granted them\<close>

text \<open>
  C2. The action endpoint as the server wires it: a success, a use of the provider authority or a
  request to Databricks implies that the request was an admissible query of a table and that the
  two reviews - get on that table, create on its query action - were granted by clients of the
  cluster in the path that carry the caller's token.
\<close>

theorem action_endpoint_guarded:
  assumes "factory_reachable parse newD (reNewForConfig env) f" "twFactory w = Some f"
    and "handleAction rd rnd (Some (actionExecutorForRoute devStaticTables env backend api (twFactory w))) r w = (resp, w')"
    and "arStatus resp = 200 \<or> twAuthority w' \<noteq> twAuthority w \<or> twLog w' \<noteq> twLog w"
  shows "\<exists>route input deadline. admissible rd r route input deadline \<and> \<not> devStaticTables \<and>
    granted_review env f (rtClusterID route) (bearerToken (aqAuthorization r)) (get_attributes (Route.rtName route)) \<and>
    granted_review env f (rtClusterID route) (bearerToken (aqAuthorization r))
      (action_attributes ''query_table'' (Route.rtName route))"
  using action_request_granted [OF factory_reachable_ok [OF assms(1)] assms(2-4)] .

text \<open>
  C8. The same holds for the query tool: what it returns or sends on behalf of a caller was granted
  by both reviews in the cluster of the request's header with the caller's token, for the table of
  the normalised request.
\<close>

theorem mcp_query_guarded:
  assumes "factory_reachable parse newD (reNewForConfig env) f" "twFactory w = Some f"
    and "tlQueryTable (newPerRequestServer (mcp_query_deps devStaticTables env backend api (twFactory w) tables) r) input w =
      (answer, w')"
    and "answer = Inr out \<or> twAuthority w' \<noteq> twAuthority w \<or> twLog w' \<noteq> twLog w"
  shows "\<not> devStaticTables \<and>
    granted_review env f (sqCluster r) (bearerToken (sqAuthorization r)) (get_attributes (TrimSpace (qnTableRef input))) \<and>
    granted_review env f (sqCluster r) (bearerToken (sqAuthorization r))
      (action_attributes ''query_table'' (TrimSpace (qnTableRef input)))"
  using tool_query_granted [OF factory_reachable_ok [OF assms(1)] assms(2-4)] .

subsection \<open>Examples\<close>

definition sample_decoders :: request_decoders where
  "sample_decoders = example_decoders\<lparr>rdInput := (\<lambda>_. Inr sample_input)\<rparr>"

definition sample_action_request :: action_request where
  "sample_action_request =
     example_action_request\<lparr>aqPath := route_path sample_route, aqAuthorization := ''Bearer tok''\<rparr>"

lemma sample_admissible: "admissible sample_decoders sample_action_request sample_route sample_input 45000"
proof -
  have "hasBearer ''Bearer tok''"
    by (simp add: hasBearer_def TrimSpace_graphic graphic_def ToLower_def ascii_lower_def char_of_eval)
  moreover have "NormalizeQueryControls [''order_id''] 5 = Inr ([''order_id''], 5)"
    using example_normalized by (auto simp: NormalizeQueryRequest_iff)
  then have "decodeRequest sample_decoders [] None = Inr sample_input"
    by (simp add: decodeRequest_def sample_decoders_def example_decoders_def action_consts sample_input_def)
  ultimately show ?thesis
    using sample_parsed by (simp add: admissible_def sample_action_request_def example_action_request_def actionDeadline_def action_consts)
      (simp add: sample_route_def example_route_def tableRefRE_def lower_alnum_def digit_def)
qed

abbreviation sample_backend :: query_backend where
  "sample_backend \<equiv> ExecuteTableQuery example_env NewStatementClient"

theorem action_endpoint_guarded_witness:
  "twLog (snd (handleAction sample_decoders None (Some (actionExecutorForRoute False (sample_reviews True)
       (\<lambda>_. Some sample_backend) (\<lambda>_. ()) (twFactory sample_world))) sample_action_request sample_world)) \<noteq> [] \<and>
   granted_review (sample_reviews True) sample_factory ''c1'' ''tok'' (get_attributes ''table'') \<and>
   granted_review (sample_reviews True) sample_factory ''c1'' ''tok'' (action_attributes ''query_table'' ''table'')"
proof -
  let ?h = "handleAction sample_decoders None (Some (actionExecutorForRoute False (sample_reviews True)
       (\<lambda>_. Some sample_backend) (\<lambda>_. ()) (twFactory sample_world))) sample_action_request sample_world"
  obtain result w' rq where q: "sample_query True = (Inr result, w')" "twLog w' = [rq]" using sample_run by blast
  have f: "twFactory sample_world = Some sample_factory" "twLog sample_world = []" by (simp_all add: sample_world_def)
  have n: "Route.rtName sample_route = ''table''" "rtClusterID sample_route = ''c1''"
    "aqAuthorization sample_action_request = ''Bearer tok''"
    by (simp_all add: sample_route_def sample_action_request_def)
  obtain resp where h: "?h = (resp, w')"
    using q(1) f n by (simp add: handleAction_admitted [OF sample_admissible] actionExecutorForRoute_def)
  obtain route input deadline where a: "admissible sample_decoders sample_action_request route input deadline"
    and g: "granted_review (sample_reviews True) sample_factory (rtClusterID route) ''tok'' (get_attributes (Route.rtName route))"
      "granted_review (sample_reviews True) sample_factory (rtClusterID route) ''tok''
        (action_attributes ''query_table'' (Route.rtName route))"
    using action_endpoint_guarded [OF sample_factory_reachable f(1) h] q(2) f(2) n by auto
  have "route = sample_route" using a sample_admissible by (simp add: admissible_def)
  then show ?thesis using g h q(2) n by simp
qed

theorem mcp_query_guarded_witness:
  "twLog (snd (tlQueryTable (newPerRequestServer (mcp_query_deps False (sample_reviews True) (Some sample_backend) (\<lambda>_. ())
       (twFactory sample_world) []) \<lparr>sqTenant = ''acme'', sqCluster = ''c1'', sqAuthorization = ''Bearer tok''\<rparr>)
       \<lparr>qnActionVersion = ''v1'', qnTableRef = ''table'', qnColumns = [''order_id''], qnLimit = 5\<rparr> sample_world)) \<noteq> [] \<and>
   granted_review (sample_reviews True) sample_factory ''c1'' ''tok'' (action_attributes ''query_table'' ''table'')"
proof -
  let ?r = "\<lparr>sqTenant = ''acme'', sqCluster = ''c1'', sqAuthorization = ''Bearer tok''\<rparr>"
  let ?in = "\<lparr>qnActionVersion = ''v1'', qnTableRef = ''table'', qnColumns = [''order_id''], qnLimit = 5\<rparr>"
  let ?x = "newPerRequestServer (mcp_query_deps False (sample_reviews True) (Some sample_backend) (\<lambda>_. ())
       (twFactory sample_world) []) ?r"
  obtain result w' rq where q: "sample_query True = (Inr result, w')" "twLog w' = [rq]" using sample_run by blast
  have f: "twFactory sample_world = Some sample_factory" "twLog sample_world = []" by (simp_all add: sample_world_def)
  obtain answer where h: "tlQueryTable ?x ?in sample_world = (answer, w')"
    using q(1) f example_normalized
    by (simp add: newPerRequestServer_def registerTools_def query_table_def actionExecutorForRequest_def mcp_query_deps_def actionExecutorFromRequest_def query_consts
        table_ref_def action_consts sample_input_def)
  have "TrimSpace ''table'' = ''table''" by (simp add: TrimSpace_graphic graphic_def)
  with mcp_query_guarded [OF sample_factory_reachable f(1) h] q(2) f(2) h show ?thesis by simp
qed

end
